(* ===== verification/Prelude.thy ===== *)
theory Prelude
  imports Main "HOL-Library.Word"
begin

text \<open>
  Shared material of the development: the machine integer types of the Rust
  sources, checked arithmetic, the result type of fallible code with its
  sequencing combinators, and the little-endian byte strings that the program
  uses as address seeds. The collection \<open>success_iff\<close> holds the rules that say
  when a guarded computation returns a value; the component proofs are driven by it.
\<close>

named_theorems success_iff

section \<open>Machine integers\<close>

type_synonym u8 = "8 word"
type_synonym u16 = "16 word"
type_synonym u32 = "32 word"
type_synonym u64 = "64 word"
type_synonym i64 = "64 word"
type_synonym pubkey = "256 word"

text \<open>
  \<open>u64::MAX\<close>, \<open>u64::checked_add\<close>, \<open>u64::checked_sub\<close> and \<open>i64::checked_add\<close>.
  A signed 64-bit value is a word read through \<^const>\<open>sint\<close>.
\<close>

definition u64_MAX :: u64 where
  "u64_MAX = - 1"

definition checked_add_u64 :: "u64 \<Rightarrow> u64 \<Rightarrow> u64 option" where
  "checked_add_u64 a b = (if unat a + unat b < 2 ^ 64 then Some (a + b) else None)"

definition checked_sub_u64 :: "u64 \<Rightarrow> u64 \<Rightarrow> u64 option" where
  "checked_sub_u64 a b = (if b \<le> a then Some (a - b) else None)"

definition checked_add_i64 :: "i64 \<Rightarrow> i64 \<Rightarrow> i64 option" where
  "checked_add_i64 a b =
     (if - (2 ^ 63) \<le> sint a + sint b \<and> sint a + sint b < 2 ^ 63
      then Some (a + b) else None)"

lemma unat_u64_bound: "unat (a :: u64) < 2 ^ 64"
  using unsigned_less [of a] by simp

lemma u64_MAX_top [simp]: "(a :: u64) \<le> u64_MAX"
  by (simp add: u64_MAX_def)

lemma checked_add_u64_Some_iff [success_iff]:
  "checked_add_u64 a b = Some c \<longleftrightarrow> unat c = unat a + unat b"
proof
  assume "checked_add_u64 a b = Some c"
  then show "unat c = unat a + unat b"
    by (auto simp: checked_add_u64_def unat_word_ariths split: if_splits)
next
  assume c: "unat c = unat a + unat b"
  then have lt: "unat a + unat b < 2 ^ 64"
    using unat_u64_bound [of c] by simp
  then have "unat (a + b) = unat c"
    using c by (simp add: unat_word_ariths)
  then show "checked_add_u64 a b = Some c"
    using lt by (simp add: checked_add_u64_def word_unat_eq_iff)
qed

lemma checked_add_u64_None_iff:
  "checked_add_u64 a b = None \<longleftrightarrow> 2 ^ 64 \<le> unat a + unat b"
  by (auto simp: checked_add_u64_def)

lemma checked_sub_u64_Some_iff [success_iff]:
  "checked_sub_u64 a b = Some c \<longleftrightarrow> b \<le> a \<and> c = a - b"
  by (auto simp: checked_sub_u64_def)

lemma unat_sub_le: "(b :: u64) \<le> a \<Longrightarrow> unat (a - b) = unat a - unat b"
  by (simp add: unat_sub)

lemma sint_i64_bounds: "- (2 ^ 63) \<le> sint (a :: i64)" "sint (a :: i64) < 2 ^ 63"
  using sint_greater_eq [of a] sint_less [of a] by simp_all

lemma sint_i64_eqI: "- (2 ^ 63) \<le> x \<Longrightarrow> x < 2 ^ 63 \<Longrightarrow> sint (word_of_int x :: i64) = x"
  by (simp add: signed_take_bit_int_eq_self sint_sbintrunc')

lemma checked_add_i64_Some_iff [success_iff]:
  "checked_add_i64 a b = Some c \<longleftrightarrow> sint c = sint a + sint b"
proof
  assume *: "checked_add_i64 a b = Some c"
  then have b: "- (2 ^ 63) \<le> sint a + sint b" "sint a + sint b < 2 ^ 63" and c: "c = a + b"
    by (auto simp: checked_add_i64_def split: if_splits)
  have "c = word_of_int (sint a + sint b)"
    by (simp add: c)
  then show "sint c = sint a + sint b"
    using sint_i64_eqI [OF b] by simp
next
  assume c: "sint c = sint a + sint b"
  then have b: "- (2 ^ 63) \<le> sint a + sint b" "sint a + sint b < 2 ^ 63"
    using sint_i64_bounds [of c] by simp_all
  have "a + b = word_of_int (sint a + sint b)"
    by simp
  then have "sint (a + b) = sint c"
    using sint_i64_eqI [OF b] c by simp
  then show "checked_add_i64 a b = Some c"
    using b by (auto simp: checked_add_i64_def intro: signed_word_eqI)
qed

section \<open>Results of fallible code\<close>

text \<open>
  A Rust \<open>Result<T, E>\<close> is \<open>'e + 'a\<close>. The macro \<open>require!(c, e)\<close> followed by the
  rest of a function is \<open>ensure c e rest\<close>, the \<open>?\<close> operator is \<open>and_then\<close>, and
  \<open>Option::ok_or\<close> keeps its name.
\<close>

definition ensure :: "bool \<Rightarrow> 'e \<Rightarrow> 'e + 'a \<Rightarrow> 'e + 'a" where
  "ensure c e k = (if c then k else Inl e)"

definition and_then :: "'e + 'a \<Rightarrow> ('a \<Rightarrow> 'e + 'b) \<Rightarrow> 'e + 'b" where
  "and_then m f = (case m of Inl e \<Rightarrow> Inl e | Inr x \<Rightarrow> f x)"

definition ok_or :: "'a option \<Rightarrow> 'e \<Rightarrow> 'e + 'a" where
  "ok_or x e = (case x of None \<Rightarrow> Inl e | Some y \<Rightarrow> Inr y)"

definition map_err :: "('e \<Rightarrow> 'f) \<Rightarrow> 'e + 'a \<Rightarrow> 'f + 'a" where
  "map_err f m = (case m of Inl e \<Rightarrow> Inl (f e) | Inr x \<Rightarrow> Inr x)"

lemma ensure_cong [cong]: "c = c' \<Longrightarrow> ensure c e k = ensure c' e k"
  by simp

lemma ensure_True [simp]: "ensure True e k = k"
  and ensure_False [simp]: "ensure False e k = Inl e"
  by (simp_all add: ensure_def)

lemma and_then_cong [cong]: "m = m' \<Longrightarrow> and_then m f = and_then m' f"
  by simp

lemma and_then_Inl [simp]: "and_then (Inl e) f = Inl e"
  and and_then_Inr [simp]: "and_then (Inr x) f = f x"
  by (simp_all add: and_then_def)

lemma ok_or_simps [simp]: "ok_or None e = Inl e" "ok_or (Some x) e = Inr x"
  by (simp_all add: ok_or_def)

lemma map_err_simps [simp]: "map_err f (Inl e) = Inl (f e)" "map_err f (Inr x) = Inr x"
  by (simp_all add: map_err_def)

lemma ensure_Inr_iff [success_iff]: "ensure c e k = Inr r \<longleftrightarrow> c \<and> k = Inr r"
  by (simp add: ensure_def)

lemma and_then_Inr_iff [success_iff]:
  "and_then m f = Inr r \<longleftrightarrow> (\<exists>x. m = Inr x \<and> f x = Inr r)"
  by (cases m) simp_all

lemma ok_or_Inr_iff [success_iff]: "ok_or x e = Inr r \<longleftrightarrow> x = Some r"
  by (cases x) simp_all

lemma map_err_Inr_iff [success_iff]: "map_err f m = Inr r \<longleftrightarrow> m = Inr r"
  by (cases m) simp_all

lemma ensure_Inl_iff: "ensure c e k = Inl d \<longleftrightarrow> (\<not> c \<and> d = e) \<or> (c \<and> k = Inl d)"
  by (auto simp: ensure_def)

lemma and_then_Inl_iff:
  "and_then m f = Inl d \<longleftrightarrow> m = Inl d \<or> (\<exists>x. m = Inr x \<and> f x = Inl d)"
  by (cases m) simp_all

lemma ok_or_Inl_iff: "ok_or x e = Inl d \<longleftrightarrow> x = None \<and> d = e"
  by (cases x) auto

lemma map_err_Inl_iff: "map_err f m = Inl d \<longleftrightarrow> (\<exists>e. m = Inl e \<and> d = f e)"
  by (cases m) auto

lemmas failure_iff = ensure_Inl_iff and_then_Inl_iff ok_or_Inl_iff map_err_Inl_iff

section \<open>Little-endian byte strings\<close>

text \<open>
  \<open>to_le_bytes\<close> of an unsigned integer, \<open>as_ref\<close> of a public key (a \<open>[u8; 32]\<close>
  array is the 256-bit word whose i-th byte is element i), and ASCII literals.
\<close>

fun le_bytes :: "nat \<Rightarrow> nat \<Rightarrow> u8 list" where
  "le_bytes 0 x = []"
| "le_bytes (Suc n) x = of_nat x # le_bytes n (x div 256)"

fun le_nat :: "u8 list \<Rightarrow> nat" where
  "le_nat [] = 0"
| "le_nat (b # bs) = unat b + 256 * le_nat bs"

definition u64_le_bytes :: "u64 \<Rightarrow> u8 list" where
  "u64_le_bytes x = le_bytes 8 (unat x)"

definition pubkey_bytes :: "pubkey \<Rightarrow> u8 list" where
  "pubkey_bytes k = le_bytes 32 (unat k)"

definition ascii :: "string \<Rightarrow> u8 list" where
  "ascii s = map of_char s"

lemma length_le_bytes [simp]: "length (le_bytes n x) = n"
  by (induction n arbitrary: x) simp_all

lemma le_nat_le_bytes: "le_nat (le_bytes n x) = x mod 256 ^ n"
proof (induction n arbitrary: x)
  case (Suc n)
  have "x mod 256 + 256 * (x div 256 mod 256 ^ n) = x mod (256 * 256 ^ n)"
    by (simp add: mod_mult2_eq)
  with Suc show ?case
    by (simp add: unat_of_nat)
qed simp

lemma le_nat_less: "le_nat bs < 256 ^ length bs"
proof (induction bs)
  case (Cons b bs)
  have "unat b < 256"
    using unsigned_less [of b] by simp
  with Cons show ?case by simp
qed simp

lemma of_nat_256_u8: "(of_nat 256 :: u8) = 0"
  by (simp only: of_nat_numeral) simp

lemma le_bytes_le_nat: "le_bytes (length bs) (le_nat bs) = bs"
proof (induction bs)
  case (Cons b bs)
  have b: "unat b < 256"
    using unsigned_less [of b] by simp
  have "(of_nat (unat b + 256 * le_nat bs) :: u8) = of_nat (unat b) + of_nat 256 * of_nat (le_nat bs)"
    by (simp only: of_nat_add of_nat_mult)
  also have "\<dots> = b"
    by (simp only: of_nat_256_u8 mult_zero_left add_0_right) simp
  finally have "(of_nat (unat b + 256 * le_nat bs) :: u8) = b" .
  with b Cons show ?case by simp
qed simp

lemma length_u64_le_bytes [simp]: "length (u64_le_bytes x) = 8"
  by (simp add: u64_le_bytes_def)

lemma length_pubkey_bytes [simp]: "length (pubkey_bytes k) = 32"
  by (simp add: pubkey_bytes_def)

lemma length_ascii [simp]: "length (ascii s) = length s"
  by (simp add: ascii_def)

lemma u64_le_bytes_inject [simp]: "u64_le_bytes x = u64_le_bytes y \<longleftrightarrow> x = y"
proof
  assume "u64_le_bytes x = u64_le_bytes y"
  then have "unat x mod 256 ^ 8 = unat y mod 256 ^ 8"
    by (metis u64_le_bytes_def le_nat_le_bytes)
  then show "x = y"
    using unat_u64_bound [of x] unat_u64_bound [of y] by (simp add: word_unat_eq_iff)
qed simp

lemma pubkey_bytes_inject [simp]: "pubkey_bytes x = pubkey_bytes y \<longleftrightarrow> x = y"
proof
  assume "pubkey_bytes x = pubkey_bytes y"
  then have "unat x mod 256 ^ 32 = unat y mod 256 ^ 32"
    by (metis pubkey_bytes_def le_nat_le_bytes)
  moreover have "unat x < 256 ^ 32" "unat y < 256 ^ 32"
    using unsigned_less [of x] unsigned_less [of y] by simp_all
  ultimately show "x = y"
    by (simp add: word_unat_eq_iff)
qed simp

section \<open>Bit masks\<close>

unbundle bit_operations_syntax

lemma mask_zero_iff_bits:
  fixes x m :: "'a :: len word"
  shows "x AND NOT m = 0 \<longleftrightarrow> (\<forall>n. bit x n \<longrightarrow> bit m n)"
  using bit_imp_le_length [of x] by (auto simp: bit_eq_iff bit_and_iff bit_not_iff)

lemma mask_nonzero_iff_bits:
  fixes x m :: "'a :: len word"
  shows "x AND m \<noteq> 0 \<longleftrightarrow> (\<exists>n. bit x n \<and> bit m n)"
  using bit_imp_le_length [of x] by (auto simp: bit_eq_iff bit_and_iff)

lemma mask_covers_iff_bits:
  fixes x m :: "'a :: len word"
  shows "x AND m = m \<longleftrightarrow> (\<forall>n. bit m n \<longrightarrow> bit x n)"
  using bit_imp_le_length [of m] by (auto simp: bit_eq_iff bit_and_iff)

end
