(* ===== verification/State.thy ===== *)
theory State
  imports Prelude
begin

text \<open>
  The data of the on-chain program: the error codes of \<open>error.rs\<close>, the events of
  \<open>events.rs\<close>, the account layouts of \<open>state/mod.rs\<close> with their sizes, and the
  constants of \<open>constants.rs\<close>. One HOL type per Rust type; a record field carries
  the Rust field name behind a two-letter prefix of its struct.
\<close>

unbundle bit_operations_syntax

section \<open>Errors\<close>

datatype (plugins only:) iron_vault_error =
    UnsupportedVersion
  | InvalidProtocolAuthority
  | UnauthorizedProtocolPause
  | GuardianCannotUnpause
  | InvalidPauseFlags
  | ProtocolPaused
  | InvalidAmount
  | InvalidRecipient
  | InvalidExpiry
  | InvalidSourceOwner
  | InvalidSourceMint
  | InsufficientFunds
  | InvalidCustodyBalance
  | InvalidSourceBalance
  | EscrowNotFunded
  | EscrowExpired
  | EscrowNotExpired
  | InvalidRecipientOwner
  | InvalidRecipientMint
  | InvalidRecipientBalance
  | InvalidMakerDestinationOwner
  | InvalidMakerDestinationMint
  | InvalidMakerDestinationBalance
  | InvalidVaultGuardian
  | InvalidVaultAuthority
  | InvalidNewVaultAuthority
  | VaultAssetDisabled
  | InvalidVaultAmount
  | InvalidDepositSourceOwner
  | InvalidDepositSourceMint
  | InvalidWithdrawalDestinationMint
  | InsufficientVaultFunds
  | InvalidVaultCustodyBalance
  | InvalidDepositSourceBalance
  | InvalidWithdrawalDestinationBalance
  | VaultPaused
  | UnauthorizedVaultPause
  | UnauthorizedVaultUnpause
  | VaultPauseUnchanged
  | InvalidRolePrincipal
  | InvalidPermissionMask
  | MissingVaultPermission
  | RoleNotActive
  | UnexpectedWithdrawalAccounts
  | InvalidWithdrawalPolicy
  | PerTransactionLimitExceeded
  | WindowLimitExceeded
  | WithdrawalPolicyOverflow
  | LiveWindowDurationChange
  | UnexpectedLimitAccounts
  | TimelockRequired
  | TimelockNotRequired
  | WithdrawalTimingOverflow
  | WithdrawalNotPending
  | WithdrawalTimelockActive
  | WithdrawalRequestExpired
  | InvalidWithdrawalRecipient
  | InvalidWithdrawalMint
  | UnauthorizedWithdrawalCancellation
  | UnexpectedRequestAccounts
  | UnexpectedCancellationAccounts
  | InvalidTokenProgram
  | UnsupportedTokenExtension

text \<open>
  Errors the Anchor framework reports when it loads and validates the accounts of
  an instruction, and the outcomes outside the program's own error enumeration: a
  failing token or system program call, and a Rust panic (overflow checks are on
  in the release profile).
\<close>

datatype anchor_error =
    AccountNotSigner
  | AccountNotInitialized
  | AccountOwnedByWrongProgram
  | AccountDiscriminatorMismatch
  | InvalidProgramId
  | AccountSysvarMismatch
  | AccountAlreadyInUse
  | ConstraintSeeds
  | ConstraintHasOne
  | ConstraintRaw

datatype error =
    IronVault iron_vault_error
  | Anchor anchor_error
  | External nat
  | Panic

type_synonym 'a result = "error + 'a"

section \<open>Events\<close>

datatype (plugins only: size) event =
    ProtocolInitialized
      (ev_version: u16) (ev_protocol_config: pubkey) (ev_admin: pubkey)
      (ev_guardian: pubkey)
  | ProtocolPauseUpdated
      (ev_version: u16) (ev_protocol_config: pubkey) (ev_caller: pubkey)
      (ev_previous_flags: u32) (ev_new_flags: u32)
  | EscrowCreated
      (ev_version: u16) (ev_escrow: pubkey) (ev_escrow_token: pubkey) (ev_maker: pubkey)
      (ev_recipient: pubkey) (ev_mint: pubkey) (ev_amount: u64) (ev_created_at: i64)
      (ev_expires_at: i64) (ev_escrow_id: u64)
  | EscrowReleased
      (ev_version: u16) (ev_escrow: pubkey) (ev_escrow_token: pubkey) (ev_maker: pubkey)
      (ev_recipient: pubkey) (ev_recipient_token: pubkey) (ev_mint: pubkey)
      (ev_amount: u64)
  | EscrowRefunded
      (ev_version: u16) (ev_escrow: pubkey) (ev_escrow_token: pubkey)
      (ev_caller: pubkey) (ev_maker: pubkey) (ev_maker_destination: pubkey)
      (ev_mint: pubkey) (ev_amount: u64)
  | VaultCreated
      (ev_version: u16) (ev_vault: pubkey) (ev_namespace_authority: pubkey)
      (ev_authority: pubkey) (ev_guardian: pubkey) (ev_vault_id: u64)
  | VaultAuthorityUpdated
      (ev_version: u16) (ev_vault: pubkey) (ev_previous_authority: pubkey)
      (ev_new_authority: pubkey)
  | VaultPauseUpdated
      (ev_version: u16) (ev_vault: pubkey) (ev_caller: pubkey) (ev_paused: bool)
  | VaultAssetRegistered
      (ev_version: u16) (ev_vault: pubkey) (ev_vault_asset: pubkey)
      (ev_vault_token: pubkey) (ev_mint: pubkey) (ev_token_program: pubkey)
  | VaultDeposit
      (ev_version: u16) (ev_vault: pubkey) (ev_vault_asset: pubkey)
      (ev_vault_token: pubkey) (ev_depositor: pubkey) (ev_source_token: pubkey)
      (ev_mint: pubkey) (ev_amount: u64)
  | VaultWithdrawal
      (ev_version: u16) (ev_vault: pubkey) (ev_vault_asset: pubkey)
      (ev_vault_token: pubkey) (ev_caller: pubkey) (ev_destination_token: pubkey)
      (ev_mint: pubkey) (ev_amount: u64)
  | RoleGranted
      (ev_version: u16) (ev_vault: pubkey) (ev_principal: pubkey) (ev_permissions: u64)
  | RoleRevoked
      (ev_version: u16) (ev_vault: pubkey) (ev_principal: pubkey)
      (ev_previous_permissions: u64)
  | VaultLimitsUpdated
      (ev_version: u16) (ev_vault: pubkey) (ev_vault_asset: pubkey) (ev_mint: pubkey)
      (ev_caller: pubkey) (ev_max_per_transaction: u64) (ev_window_limit: u64)
      (ev_window_seconds: i64) (ev_timelock_threshold: u64) (ev_timelock_seconds: i64)
      (ev_request_execution_window_seconds: i64) (ev_window_started_at: i64)
      (ev_window_spent: u64)
  | WithdrawalRequested
      (ev_version: u16) (ev_vault: pubkey) (ev_vault_asset: pubkey)
      (ev_withdrawal_request: pubkey) (ev_proposer: pubkey) (ev_recipient_owner: pubkey)
      (ev_recipient_token_account: pubkey) (ev_mint: pubkey) (ev_withdrawal_id: u64)
      (ev_amount: u64) (ev_created_at: i64) (ev_execute_after: i64) (ev_expires_at: i64)
  | WithdrawalExecuted
      (ev_version: u16) (ev_vault: pubkey) (ev_vault_asset: pubkey)
      (ev_withdrawal_request: pubkey) (ev_caller: pubkey)
      (ev_recipient_token_account: pubkey) (ev_mint: pubkey) (ev_withdrawal_id: u64)
      (ev_amount: u64)
  | WithdrawalCancelled
      (ev_version: u16) (ev_vault: pubkey) (ev_withdrawal_request: pubkey)
      (ev_caller: pubkey) (ev_proposer: pubkey) (ev_withdrawal_id: u64)

section \<open>Account layouts\<close>

record protocol_config =
  pc_version :: u16
  pc_admin :: pubkey
  pc_guardian :: pubkey
  pc_pause_flags :: u32
  pc_bump :: u8
  pc_reserved :: "u8 list"

datatype escrow_status = Funded | Released | Refunded

record escrow =
  es_maker :: pubkey
  es_recipient :: pubkey
  es_mint :: pubkey
  es_token_program :: pubkey
  es_escrow_id :: u64
  es_amount :: u64
  es_created_at :: i64
  es_expires_at :: i64
  es_status :: escrow_status
  es_bump :: u8
  es_reserved :: "u8 list"

record vault =
  va_namespace_authority :: pubkey
  va_authority :: pubkey
  va_guardian :: pubkey
  va_vault_id :: u64
  va_next_withdrawal_id :: u64
  va_paused :: bool
  va_bump :: u8
  va_reserved :: "u8 list"

record vault_asset =
  as_vault :: pubkey
  as_mint :: pubkey
  as_token_program :: pubkey
  as_max_per_transaction :: u64
  as_window_limit :: u64
  as_window_seconds :: i64
  as_window_started_at :: i64
  as_window_spent :: u64
  as_timelock_threshold :: u64
  as_timelock_seconds :: i64
  as_request_execution_window_seconds :: i64
  as_enabled :: bool
  as_bump :: u8
  as_reserved :: "u8 list"

record role_assignment =
  ra_vault :: pubkey
  ra_principal :: pubkey
  ra_permissions :: u64
  ra_active :: bool
  ra_bump :: u8
  ra_reserved :: "u8 list"

datatype withdrawal_status = Pending | Executed | Cancelled

record withdrawal_request =
  wr_vault :: pubkey
  wr_vault_asset :: pubkey
  wr_mint :: pubkey
  wr_token_program :: pubkey
  wr_proposer :: pubkey
  wr_recipient_owner :: pubkey
  wr_recipient_token_account :: pubkey
  wr_withdrawal_id :: u64
  wr_amount :: u64
  wr_created_at :: i64
  wr_execute_after :: i64
  wr_expires_at :: i64
  wr_status :: withdrawal_status
  wr_bump :: u8
  wr_reserved :: "u8 list"

text \<open>
  \<open>INIT_SPACE\<close> as Anchor's derive macro adds up the Borsh widths of the fields, in
  declaration order, and \<open>SPACE\<close> with the eight discriminator bytes in front.
\<close>

definition PROTOCOL_CONFIG_INIT_SPACE :: nat where
  "PROTOCOL_CONFIG_INIT_SPACE = sum_list [2, 32, 32, 4, 1, 61]"

definition PROTOCOL_CONFIG_SPACE :: nat where
  "PROTOCOL_CONFIG_SPACE = 8 + PROTOCOL_CONFIG_INIT_SPACE"

definition ESCROW_INIT_SPACE :: nat where
  "ESCROW_INIT_SPACE = sum_list [32, 32, 32, 32, 8, 8, 8, 8, 1, 1, 30]"

definition ESCROW_SPACE :: nat where
  "ESCROW_SPACE = 8 + ESCROW_INIT_SPACE"

definition VAULT_INIT_SPACE :: nat where
  "VAULT_INIT_SPACE = sum_list [32, 32, 32, 8, 8, 1, 1, 46]"

definition VAULT_SPACE :: nat where
  "VAULT_SPACE = 8 + VAULT_INIT_SPACE"

definition VAULT_ASSET_INIT_SPACE :: nat where
  "VAULT_ASSET_INIT_SPACE = sum_list [32, 32, 32, 8, 8, 8, 8, 8, 8, 8, 8, 1, 1, 30]"

definition VAULT_ASSET_SPACE :: nat where
  "VAULT_ASSET_SPACE = 8 + VAULT_ASSET_INIT_SPACE"

definition ROLE_ASSIGNMENT_INIT_SPACE :: nat where
  "ROLE_ASSIGNMENT_INIT_SPACE = sum_list [32, 32, 8, 1, 1, 54]"

definition ROLE_ASSIGNMENT_SPACE :: nat where
  "ROLE_ASSIGNMENT_SPACE = 8 + ROLE_ASSIGNMENT_INIT_SPACE"

definition WITHDRAWAL_REQUEST_INIT_SPACE :: nat where
  "WITHDRAWAL_REQUEST_INIT_SPACE =
     sum_list [32, 32, 32, 32, 32, 32, 32, 8, 8, 8, 8, 8, 1, 1, 30]"

definition WITHDRAWAL_REQUEST_SPACE :: nat where
  "WITHDRAWAL_REQUEST_SPACE = 8 + WITHDRAWAL_REQUEST_INIT_SPACE"

section \<open>Constants\<close>

definition INITIAL_SCHEMA_VERSION :: u16 where
  "INITIAL_SCHEMA_VERSION = 1"

definition PROTOCOL_SEED :: "u8 list" where
  "PROTOCOL_SEED = ascii ''protocol''"

definition ESCROW_SEED :: "u8 list" where
  "ESCROW_SEED = ascii ''escrow''"

definition ESCROW_TOKEN_SEED :: "u8 list" where
  "ESCROW_TOKEN_SEED = ascii ''escrow_token''"

definition VAULT_SEED :: "u8 list" where
  "VAULT_SEED = ascii ''vault''"

definition VAULT_ASSET_SEED :: "u8 list" where
  "VAULT_ASSET_SEED = ascii ''vault_asset''"

definition VAULT_TOKEN_SEED :: "u8 list" where
  "VAULT_TOKEN_SEED = ascii ''vault_token''"

definition ROLE_SEED :: "u8 list" where
  "ROLE_SEED = ascii ''role''"

definition WITHDRAWAL_SEED :: "u8 list" where
  "WITHDRAWAL_SEED = ascii ''withdrawal''"

definition PAUSE_ESCROW_CREATE :: u32 where
  "PAUSE_ESCROW_CREATE = push_bit 0 1"

definition PAUSE_ESCROW_RELEASE :: u32 where
  "PAUSE_ESCROW_RELEASE = push_bit 1 1"

definition PAUSE_VAULT_CONFIG :: u32 where
  "PAUSE_VAULT_CONFIG = push_bit 2 1"

definition PAUSE_VAULT_OUTFLOW :: u32 where
  "PAUSE_VAULT_OUTFLOW = push_bit 3 1"

definition KNOWN_PAUSE_FLAGS :: u32 where
  "KNOWN_PAUSE_FLAGS =
     PAUSE_ESCROW_CREATE OR PAUSE_ESCROW_RELEASE OR PAUSE_VAULT_CONFIG OR PAUSE_VAULT_OUTFLOW"

definition PERMISSION_WITHDRAW :: u64 where
  "PERMISSION_WITHDRAW = push_bit 0 1"

definition PERMISSION_REQUEST_WITHDRAWAL :: u64 where
  "PERMISSION_REQUEST_WITHDRAWAL = push_bit 1 1"

definition PERMISSION_CANCEL_WITHDRAWAL :: u64 where
  "PERMISSION_CANCEL_WITHDRAWAL = push_bit 2 1"

definition PERMISSION_MANAGE_ASSETS :: u64 where
  "PERMISSION_MANAGE_ASSETS = push_bit 3 1"

definition PERMISSION_MANAGE_LIMITS :: u64 where
  "PERMISSION_MANAGE_LIMITS = push_bit 4 1"

definition PERMISSION_MANAGE_ROLES :: u64 where
  "PERMISSION_MANAGE_ROLES = push_bit 5 1"

definition KNOWN_PERMISSIONS :: u64 where
  "KNOWN_PERMISSIONS =
     PERMISSION_WITHDRAW OR PERMISSION_REQUEST_WITHDRAWAL OR PERMISSION_CANCEL_WITHDRAWAL
     OR PERMISSION_MANAGE_ASSETS OR PERMISSION_MANAGE_LIMITS OR PERMISSION_MANAGE_ROLES"

lemmas seed_defs =
  PROTOCOL_SEED_def ESCROW_SEED_def ESCROW_TOKEN_SEED_def VAULT_SEED_def
  VAULT_ASSET_SEED_def VAULT_TOKEN_SEED_def ROLE_SEED_def WITHDRAWAL_SEED_def

lemma pause_flag_values [simp]:
  "PAUSE_ESCROW_CREATE = 1" "PAUSE_ESCROW_RELEASE = 2"
  "PAUSE_VAULT_CONFIG = 4" "PAUSE_VAULT_OUTFLOW = 8"
  by (simp_all add: PAUSE_ESCROW_CREATE_def PAUSE_ESCROW_RELEASE_def PAUSE_VAULT_CONFIG_def
      PAUSE_VAULT_OUTFLOW_def)

lemma permission_values [simp]:
  "PERMISSION_WITHDRAW = 1" "PERMISSION_REQUEST_WITHDRAWAL = 2"
  "PERMISSION_CANCEL_WITHDRAWAL = 4" "PERMISSION_MANAGE_ASSETS = 8"
  "PERMISSION_MANAGE_LIMITS = 16" "PERMISSION_MANAGE_ROLES = 32"
  by (simp_all add: PERMISSION_WITHDRAW_def PERMISSION_REQUEST_WITHDRAWAL_def
      PERMISSION_CANCEL_WITHDRAWAL_def PERMISSION_MANAGE_ASSETS_def PERMISSION_MANAGE_LIMITS_def
      PERMISSION_MANAGE_ROLES_def)

section \<open>Methods of the account types\<close>

definition is_paused :: "protocol_config \<Rightarrow> u32 \<Rightarrow> bool" where
  "is_paused config flag \<longleftrightarrow> pc_pause_flags config AND flag \<noteq> 0"

definition role_has :: "role_assignment \<Rightarrow> u64 \<Rightarrow> bool" where
  "role_has role permission \<longleftrightarrow>
     ra_active role \<and> ra_permissions role AND permission = permission"

end
