(* ===== verification/Codec.thy ===== *)
theory Codec
  imports State
begin

text \<open>
  Events on the wire. The program logs an event as an eight-byte discriminator followed by
  the Borsh encoding of its fields (\<open>programs/iron_vault/src/events.rs\<close>); the observer reads
  it back (\<open>observer/src/events.rs\<close>). The two sides declare the events separately; here each
  side is translated from its own source and the two are proved inverse to each other. SHA-256
  and base64 are parameters.
\<close>

section \<open>Field codecs\<close>

type_synonym 'a reader = "u8 list \<Rightarrow> ('a \<times> u8 list) option"

text \<open>
  A codec: what was written is read back, leaving the rest of the input, and nothing but what
  is written for a value is read as that value.
\<close>

locale codec =
  fixes put :: "'a \<Rightarrow> u8 list" and get :: "'a reader"
  assumes get_put: "get (put x @ rest) = Some (x, rest)"
    and put_get: "get bs = Some (x, rest) \<Longrightarrow> bs = put x @ rest"
begin

lemma get_iff: "get bs = Some (x, rest) \<longleftrightarrow> bs = put x @ rest"
  using get_put put_get by blast

lemma put_inject: "put x = put y \<longleftrightarrow> x = y"
  by (metis get_put option.inject prod.inject)

end

text \<open>Little-endian unsigned integers of \<open>n\<close> bytes.\<close>

definition get_word :: "nat \<Rightarrow> 'a :: len word reader" where
  "get_word n bs = (if length bs < n then None else Some (of_nat (le_nat (take n bs)), drop n bs))"

definition put_u16 :: "u16 \<Rightarrow> u8 list" where
  "put_u16 x = le_bytes 2 (unat x)"

definition put_u32 :: "u32 \<Rightarrow> u8 list" where
  "put_u32 x = le_bytes 4 (unat x)"

definition get_u16 :: "u16 reader" where
  "get_u16 = get_word 2"

definition get_u32 :: "u32 reader" where
  "get_u32 = get_word 4"

definition get_u64 :: "u64 reader" where
  "get_u64 = get_word 8"

definition get_pubkey :: "pubkey reader" where
  "get_pubkey = get_word 32"

definition put_bool :: "bool \<Rightarrow> u8 list" where
  "put_bool b = [if b then 1 else 0]"

definition get_u8 :: "u8 reader" where
  "get_u8 bs = (case bs of [] \<Rightarrow> None | b # rest \<Rightarrow> Some (b, rest))"

definition get_bool :: "bool reader" where
  "get_bool bs =
     (case bs of
        [] \<Rightarrow> None
      | b # rest \<Rightarrow> if b = 0 then Some (False, rest) else if b = 1 then Some (True, rest) else None)"

lemma get_word_iff:
  fixes w :: "'a :: len word"
  assumes len: "2 ^ LENGTH('a) = (256 ^ n :: nat)"
  shows "get_word n bs = Some (w, rest) \<longleftrightarrow> bs = le_bytes n (unat w) @ rest"
proof
  assume bs: "bs = le_bytes n (unat w) @ rest"
  have "unat w < 256 ^ n"
    using unsigned_less [of w] len by (metis (no_types))
  with bs show "get_word n bs = Some (w, rest)"
    by (simp add: get_word_def le_nat_le_bytes)
next
  assume "get_word n bs = Some (w, rest)"
  then have n: "n \<le> length bs" and w: "w = of_nat (le_nat (take n bs))" and rest: "rest = drop n bs"
    by (auto simp: get_word_def split: if_splits)
  from n have "le_nat (take n bs) < 256 ^ n"
    using le_nat_less [of "take n bs"] by simp
  with w len have "unat w = le_nat (take n bs)"
    by (simp add: unat_of_nat)
  with n rest show "bs = le_bytes n (unat w) @ rest"
    using le_bytes_le_nat [of "take n bs"] by simp
qed

lemma word_codec: "2 ^ LENGTH('a :: len) = (256 ^ n :: nat) \<Longrightarrow> codec (\<lambda>w :: 'a word. le_bytes n (unat w)) (get_word n)"
  by unfold_locales (simp_all add: get_word_iff)

interpretation u16: codec put_u16 get_u16
  unfolding put_u16_def get_u16_def by (rule word_codec) simp

interpretation u32: codec put_u32 get_u32
  unfolding put_u32_def get_u32_def by (rule word_codec) simp

interpretation u64: codec u64_le_bytes get_u64
  unfolding u64_le_bytes_def get_u64_def by (rule word_codec) simp

interpretation pubkey: codec pubkey_bytes get_pubkey
  unfolding pubkey_bytes_def get_pubkey_def by (rule word_codec) simp

interpretation u8: codec "\<lambda>b. [b]" get_u8
  by unfold_locales (auto simp: get_u8_def split: list.splits)

interpretation bool: codec put_bool get_bool
  by unfold_locales (auto simp: get_bool_def put_bool_def split: list.splits if_splits)

section \<open>Events on the program's side\<close>

text \<open>Sequencing of readers, as derived deserializers read field after field.\<close>

definition reads :: "'a reader \<Rightarrow> ('a \<Rightarrow> 'b reader) \<Rightarrow> 'b reader" where
  "reads r f bs = (case r bs of None \<Rightarrow> None | Some (x, rest) \<Rightarrow> f x rest)"

definition done_with :: "'a \<Rightarrow> 'a reader" where
  "done_with x bs = Some (x, bs)"

text \<open>The Borsh encoding of an event: its fields in the order of \<open>events.rs\<close>.\<close>

fun event_fields :: "event \<Rightarrow> u8 list" where
  "event_fields (ProtocolInitialized v config admin guardian) =
     put_u16 v @ pubkey_bytes config @ pubkey_bytes admin @ pubkey_bytes guardian"
| "event_fields (ProtocolPauseUpdated v config caller previous new) =
     put_u16 v @ pubkey_bytes config @ pubkey_bytes caller @ put_u32 previous @ put_u32 new"
| "event_fields (EscrowCreated v escrow token maker recipient mint amount created expires i) =
     put_u16 v @ pubkey_bytes escrow @ pubkey_bytes token @ pubkey_bytes maker
     @ pubkey_bytes recipient @ pubkey_bytes mint @ u64_le_bytes amount @ u64_le_bytes created
     @ u64_le_bytes expires @ u64_le_bytes i"
| "event_fields (EscrowReleased v escrow token maker recipient recipient_token mint amount) =
     put_u16 v @ pubkey_bytes escrow @ pubkey_bytes token @ pubkey_bytes maker
     @ pubkey_bytes recipient @ pubkey_bytes recipient_token @ pubkey_bytes mint @ u64_le_bytes amount"
| "event_fields (EscrowRefunded v escrow token caller maker destination mint amount) =
     put_u16 v @ pubkey_bytes escrow @ pubkey_bytes token @ pubkey_bytes caller @ pubkey_bytes maker
     @ pubkey_bytes destination @ pubkey_bytes mint @ u64_le_bytes amount"
| "event_fields (VaultCreated v vault namespace authority guardian i) =
     put_u16 v @ pubkey_bytes vault @ pubkey_bytes namespace @ pubkey_bytes authority
     @ pubkey_bytes guardian @ u64_le_bytes i"
| "event_fields (VaultAuthorityUpdated v vault previous new) =
     put_u16 v @ pubkey_bytes vault @ pubkey_bytes previous @ pubkey_bytes new"
| "event_fields (VaultPauseUpdated v vault caller paused) =
     put_u16 v @ pubkey_bytes vault @ pubkey_bytes caller @ put_bool paused"
| "event_fields (VaultAssetRegistered v vault asset token mint program) =
     put_u16 v @ pubkey_bytes vault @ pubkey_bytes asset @ pubkey_bytes token @ pubkey_bytes mint
     @ pubkey_bytes program"
| "event_fields (VaultDeposit v vault asset token depositor source mint amount) =
     put_u16 v @ pubkey_bytes vault @ pubkey_bytes asset @ pubkey_bytes token
     @ pubkey_bytes depositor @ pubkey_bytes source @ pubkey_bytes mint @ u64_le_bytes amount"
| "event_fields (VaultWithdrawal v vault asset token caller destination mint amount) =
     put_u16 v @ pubkey_bytes vault @ pubkey_bytes asset @ pubkey_bytes token
     @ pubkey_bytes caller @ pubkey_bytes destination @ pubkey_bytes mint @ u64_le_bytes amount"
| "event_fields (RoleGranted v vault holder permissions) =
     put_u16 v @ pubkey_bytes vault @ pubkey_bytes holder @ u64_le_bytes permissions"
| "event_fields (RoleRevoked v vault holder previous) =
     put_u16 v @ pubkey_bytes vault @ pubkey_bytes holder @ u64_le_bytes previous"
| "event_fields (VaultLimitsUpdated v vault asset mint caller maximum limit window threshold
     timelock execution started spent) =
     put_u16 v @ pubkey_bytes vault @ pubkey_bytes asset @ pubkey_bytes mint @ pubkey_bytes caller
     @ u64_le_bytes maximum @ u64_le_bytes limit @ u64_le_bytes window @ u64_le_bytes threshold
     @ u64_le_bytes timelock @ u64_le_bytes execution @ u64_le_bytes started @ u64_le_bytes spent"
| "event_fields (WithdrawalRequested v vault asset request_key proposer owner token mint i amount
     created execute_after expires) =
     put_u16 v @ pubkey_bytes vault @ pubkey_bytes asset @ pubkey_bytes request_key
     @ pubkey_bytes proposer @ pubkey_bytes owner @ pubkey_bytes token @ pubkey_bytes mint
     @ u64_le_bytes i @ u64_le_bytes amount @ u64_le_bytes created @ u64_le_bytes execute_after
     @ u64_le_bytes expires"
| "event_fields (WithdrawalExecuted v vault asset request_key caller token mint i amount) =
     put_u16 v @ pubkey_bytes vault @ pubkey_bytes asset @ pubkey_bytes request_key
     @ pubkey_bytes caller @ pubkey_bytes token @ pubkey_bytes mint @ u64_le_bytes i
     @ u64_le_bytes amount"
| "event_fields (WithdrawalCancelled v vault request_key caller proposer i) =
     put_u16 v @ pubkey_bytes vault @ pubkey_bytes request_key @ pubkey_bytes caller
     @ pubkey_bytes proposer @ u64_le_bytes i"

section \<open>Events on the observer's side\<close>

text \<open>The names \<open>event_enum!\<close> lists, in its order.\<close>

datatype (plugins only: size) event_name =
    ProtocolInitializedName | ProtocolPauseUpdatedName | EscrowCreatedName | EscrowReleasedName
  | EscrowRefundedName | VaultCreatedName | VaultAuthorityUpdatedName | VaultPauseUpdatedName
  | VaultAssetRegisteredName | VaultDepositName | VaultWithdrawalName | RoleGrantedName
  | RoleRevokedName | VaultLimitsUpdatedName | WithdrawalRequestedName | WithdrawalExecutedName
  | WithdrawalCancelledName

definition event_names :: "event_name list" where
  "event_names =
     [ProtocolInitializedName, ProtocolPauseUpdatedName, EscrowCreatedName, EscrowReleasedName,
      EscrowRefundedName, VaultCreatedName, VaultAuthorityUpdatedName, VaultPauseUpdatedName,
      VaultAssetRegisteredName, VaultDepositName, VaultWithdrawalName, RoleGrantedName,
      RoleRevokedName, VaultLimitsUpdatedName, WithdrawalRequestedName, WithdrawalExecutedName,
      WithdrawalCancelledName]"

text \<open>\<open>stringify!\<close>, and \<open>IronVaultEvent::name\<close>.\<close>

fun stringify :: "event_name \<Rightarrow> string" where
  "stringify ProtocolInitializedName = ''ProtocolInitialized''"
| "stringify ProtocolPauseUpdatedName = ''ProtocolPauseUpdated''"
| "stringify EscrowCreatedName = ''EscrowCreated''"
| "stringify EscrowReleasedName = ''EscrowReleased''"
| "stringify EscrowRefundedName = ''EscrowRefunded''"
| "stringify VaultCreatedName = ''VaultCreated''"
| "stringify VaultAuthorityUpdatedName = ''VaultAuthorityUpdated''"
| "stringify VaultPauseUpdatedName = ''VaultPauseUpdated''"
| "stringify VaultAssetRegisteredName = ''VaultAssetRegistered''"
| "stringify VaultDepositName = ''VaultDeposit''"
| "stringify VaultWithdrawalName = ''VaultWithdrawal''"
| "stringify RoleGrantedName = ''RoleGranted''"
| "stringify RoleRevokedName = ''RoleRevoked''"
| "stringify VaultLimitsUpdatedName = ''VaultLimitsUpdated''"
| "stringify WithdrawalRequestedName = ''WithdrawalRequested''"
| "stringify WithdrawalExecutedName = ''WithdrawalExecuted''"
| "stringify WithdrawalCancelledName = ''WithdrawalCancelled''"

fun name_of :: "event \<Rightarrow> event_name" where
  "name_of (ProtocolInitialized _ _ _ _) = ProtocolInitializedName"
| "name_of (ProtocolPauseUpdated _ _ _ _ _) = ProtocolPauseUpdatedName"
| "name_of (EscrowCreated _ _ _ _ _ _ _ _ _ _) = EscrowCreatedName"
| "name_of (EscrowReleased _ _ _ _ _ _ _ _) = EscrowReleasedName"
| "name_of (EscrowRefunded _ _ _ _ _ _ _ _) = EscrowRefundedName"
| "name_of (VaultCreated _ _ _ _ _ _) = VaultCreatedName"
| "name_of (VaultAuthorityUpdated _ _ _ _) = VaultAuthorityUpdatedName"
| "name_of (VaultPauseUpdated _ _ _ _) = VaultPauseUpdatedName"
| "name_of (VaultAssetRegistered _ _ _ _ _ _) = VaultAssetRegisteredName"
| "name_of (VaultDeposit _ _ _ _ _ _ _ _) = VaultDepositName"
| "name_of (VaultWithdrawal _ _ _ _ _ _ _ _) = VaultWithdrawalName"
| "name_of (RoleGranted _ _ _ _) = RoleGrantedName"
| "name_of (RoleRevoked _ _ _ _) = RoleRevokedName"
| "name_of (VaultLimitsUpdated _ _ _ _ _ _ _ _ _ _ _ _ _) = VaultLimitsUpdatedName"
| "name_of (WithdrawalRequested _ _ _ _ _ _ _ _ _ _ _ _ _) = WithdrawalRequestedName"
| "name_of (WithdrawalExecuted _ _ _ _ _ _ _ _ _) = WithdrawalExecutedName"
| "name_of (WithdrawalCancelled _ _ _ _ _ _) = WithdrawalCancelledName"

text \<open>The derived deserializers of the structs \<open>event_struct!\<close> declares.\<close>

fun read_event :: "event_name \<Rightarrow> event reader" where
  "read_event ProtocolInitializedName =
     reads get_u16 (\<lambda>v. reads get_pubkey (\<lambda>protocol_config.
     reads get_pubkey (\<lambda>admin. reads get_pubkey (\<lambda>guardian.
     done_with (ProtocolInitialized v protocol_config admin guardian)))))"
| "read_event ProtocolPauseUpdatedName =
     reads get_u16 (\<lambda>v. reads get_pubkey (\<lambda>protocol_config.
     reads get_pubkey (\<lambda>caller. reads get_u32 (\<lambda>previous_flags.
     reads get_u32 (\<lambda>new_flags.
     done_with (ProtocolPauseUpdated v protocol_config caller previous_flags new_flags))))))"
| "read_event EscrowCreatedName =
     reads get_u16 (\<lambda>v. reads get_pubkey (\<lambda>escrow.
     reads get_pubkey (\<lambda>escrow_token. reads get_pubkey (\<lambda>maker.
     reads get_pubkey (\<lambda>recipient. reads get_pubkey (\<lambda>mint.
     reads get_u64 (\<lambda>amount. reads get_u64 (\<lambda>created_at.
     reads get_u64 (\<lambda>expires_at. reads get_u64 (\<lambda>escrow_id.
     done_with (EscrowCreated v escrow escrow_token maker recipient mint amount created_at expires_at escrow_id)))))))))))"
| "read_event EscrowReleasedName =
     reads get_u16 (\<lambda>v. reads get_pubkey (\<lambda>escrow.
     reads get_pubkey (\<lambda>escrow_token. reads get_pubkey (\<lambda>maker.
     reads get_pubkey (\<lambda>recipient. reads get_pubkey (\<lambda>recipient_token.
     reads get_pubkey (\<lambda>mint. reads get_u64 (\<lambda>amount.
     done_with (EscrowReleased v escrow escrow_token maker recipient recipient_token mint amount)))))))))"
| "read_event EscrowRefundedName =
     reads get_u16 (\<lambda>v. reads get_pubkey (\<lambda>escrow.
     reads get_pubkey (\<lambda>escrow_token. reads get_pubkey (\<lambda>caller.
     reads get_pubkey (\<lambda>maker. reads get_pubkey (\<lambda>maker_destination.
     reads get_pubkey (\<lambda>mint. reads get_u64 (\<lambda>amount.
     done_with (EscrowRefunded v escrow escrow_token caller maker maker_destination mint amount)))))))))"
| "read_event VaultCreatedName =
     reads get_u16 (\<lambda>v. reads get_pubkey (\<lambda>vault.
     reads get_pubkey (\<lambda>namespace_authority. reads get_pubkey (\<lambda>authority.
     reads get_pubkey (\<lambda>guardian. reads get_u64 (\<lambda>vault_id.
     done_with (VaultCreated v vault namespace_authority authority guardian vault_id)))))))"
| "read_event VaultAuthorityUpdatedName =
     reads get_u16 (\<lambda>v. reads get_pubkey (\<lambda>vault.
     reads get_pubkey (\<lambda>previous_authority. reads get_pubkey (\<lambda>new_authority.
     done_with (VaultAuthorityUpdated v vault previous_authority new_authority)))))"
| "read_event VaultPauseUpdatedName =
     reads get_u16 (\<lambda>v. reads get_pubkey (\<lambda>vault.
     reads get_pubkey (\<lambda>caller. reads get_bool (\<lambda>paused.
     done_with (VaultPauseUpdated v vault caller paused)))))"
| "read_event VaultAssetRegisteredName =
     reads get_u16 (\<lambda>v. reads get_pubkey (\<lambda>vault.
     reads get_pubkey (\<lambda>vault_asset. reads get_pubkey (\<lambda>vault_token.
     reads get_pubkey (\<lambda>mint. reads get_pubkey (\<lambda>token_program.
     done_with (VaultAssetRegistered v vault vault_asset vault_token mint token_program)))))))"
| "read_event VaultDepositName =
     reads get_u16 (\<lambda>v. reads get_pubkey (\<lambda>vault.
     reads get_pubkey (\<lambda>vault_asset. reads get_pubkey (\<lambda>vault_token.
     reads get_pubkey (\<lambda>depositor. reads get_pubkey (\<lambda>source_token.
     reads get_pubkey (\<lambda>mint. reads get_u64 (\<lambda>amount.
     done_with (VaultDeposit v vault vault_asset vault_token depositor source_token mint amount)))))))))"
| "read_event VaultWithdrawalName =
     reads get_u16 (\<lambda>v. reads get_pubkey (\<lambda>vault.
     reads get_pubkey (\<lambda>vault_asset. reads get_pubkey (\<lambda>vault_token.
     reads get_pubkey (\<lambda>caller. reads get_pubkey (\<lambda>destination_token.
     reads get_pubkey (\<lambda>mint. reads get_u64 (\<lambda>amount.
     done_with (VaultWithdrawal v vault vault_asset vault_token caller destination_token mint amount)))))))))"
| "read_event RoleGrantedName =
     reads get_u16 (\<lambda>v. reads get_pubkey (\<lambda>vault.
     reads get_pubkey (\<lambda>principal. reads get_u64 (\<lambda>permissions.
     done_with (RoleGranted v vault principal permissions)))))"
| "read_event RoleRevokedName =
     reads get_u16 (\<lambda>v. reads get_pubkey (\<lambda>vault.
     reads get_pubkey (\<lambda>principal. reads get_u64 (\<lambda>previous_permissions.
     done_with (RoleRevoked v vault principal previous_permissions)))))"
| "read_event VaultLimitsUpdatedName =
     reads get_u16 (\<lambda>v. reads get_pubkey (\<lambda>vault.
     reads get_pubkey (\<lambda>vault_asset. reads get_pubkey (\<lambda>mint.
     reads get_pubkey (\<lambda>caller. reads get_u64 (\<lambda>max_per_transaction.
     reads get_u64 (\<lambda>window_limit. reads get_u64 (\<lambda>window_seconds.
     reads get_u64 (\<lambda>timelock_threshold. reads get_u64 (\<lambda>timelock_seconds.
     reads get_u64 (\<lambda>request_execution_window_seconds.
     reads get_u64 (\<lambda>window_started_at. reads get_u64 (\<lambda>window_spent.
     done_with (VaultLimitsUpdated v vault vault_asset mint caller max_per_transaction window_limit window_seconds timelock_threshold timelock_seconds request_execution_window_seconds window_started_at window_spent))))))))))))))"
| "read_event WithdrawalRequestedName =
     reads get_u16 (\<lambda>v. reads get_pubkey (\<lambda>vault.
     reads get_pubkey (\<lambda>vault_asset. reads get_pubkey (\<lambda>withdrawal_request.
     reads get_pubkey (\<lambda>proposer. reads get_pubkey (\<lambda>recipient_owner.
     reads get_pubkey (\<lambda>recipient_token_account. reads get_pubkey (\<lambda>mint.
     reads get_u64 (\<lambda>withdrawal_id. reads get_u64 (\<lambda>amount.
     reads get_u64 (\<lambda>created_at. reads get_u64 (\<lambda>execute_after.
     reads get_u64 (\<lambda>expires_at.
     done_with (WithdrawalRequested v vault vault_asset withdrawal_request proposer recipient_owner recipient_token_account mint withdrawal_id amount created_at execute_after expires_at))))))))))))))"
| "read_event WithdrawalExecutedName =
     reads get_u16 (\<lambda>v. reads get_pubkey (\<lambda>vault.
     reads get_pubkey (\<lambda>vault_asset. reads get_pubkey (\<lambda>withdrawal_request.
     reads get_pubkey (\<lambda>caller. reads get_pubkey (\<lambda>recipient_token_account.
     reads get_pubkey (\<lambda>mint. reads get_u64 (\<lambda>withdrawal_id.
     reads get_u64 (\<lambda>amount.
     done_with (WithdrawalExecuted v vault vault_asset withdrawal_request caller recipient_token_account mint withdrawal_id amount))))))))))"
| "read_event WithdrawalCancelledName =
     reads get_u16 (\<lambda>v. reads get_pubkey (\<lambda>vault.
     reads get_pubkey (\<lambda>withdrawal_request. reads get_pubkey (\<lambda>caller.
     reads get_pubkey (\<lambda>proposer. reads get_u64 (\<lambda>withdrawal_id.
     done_with (WithdrawalCancelled v vault withdrawal_request caller proposer withdrawal_id)))))))"

datatype decode_error =
    ShortEvent
  | InvalidPayload event_name
  | UnknownDiscriminator
  | InvalidBase64
  | NotAnEvent

text \<open>
  The first eight bytes of SHA-256 of \<open>event:<name>\<close>; \<open>decode\<close>, which tries the names in order
  and rejects trailing bytes (\<open>try_from_slice\<close>); and the reader of one log line. Anchor's
  \<open>emit!\<close> writes the discriminator in front of the fields.
\<close>

definition discriminator :: "(u8 list \<Rightarrow> u8 list) \<Rightarrow> event_name \<Rightarrow> u8 list" where
  "discriminator sha256 n = take 8 (sha256 (ascii (''event:'' @ stringify n)))"

definition decode :: "(u8 list \<Rightarrow> u8 list) \<Rightarrow> u8 list \<Rightarrow> decode_error + event" where
  "decode sha256 bytes =
     (if length bytes < 10 then Inl ShortEvent
      else case find (\<lambda>n. take 8 bytes = discriminator sha256 n) event_names of
             None \<Rightarrow> Inl UnknownDiscriminator
           | Some n \<Rightarrow>
               (case read_event n (drop 8 bytes) of
                  Some (event, []) \<Rightarrow> Inr event
                | _ \<Rightarrow> Inl (InvalidPayload n)))"

definition emit :: "(u8 list \<Rightarrow> u8 list) \<Rightarrow> event \<Rightarrow> u8 list" where
  "emit sha256 event = discriminator sha256 (name_of event) @ event_fields event"

definition strip_prefix :: "string \<Rightarrow> string \<Rightarrow> string option" where
  "strip_prefix p s = (if take (length p) s = p then Some (drop (length p) s) else None)"

definition decode_program_data ::
    "(u8 list \<Rightarrow> u8 list) \<Rightarrow> (string \<Rightarrow> u8 list option) \<Rightarrow> string \<Rightarrow> decode_error + event option" where
  "decode_program_data sha256 base64 log =
     (case strip_prefix ''Program data: '' log of
        None \<Rightarrow> Inr None
      | Some encoded \<Rightarrow>
          (case base64 encoded of
             None \<Rightarrow> Inl InvalidBase64
           | Some bytes \<Rightarrow>
               (case decode sha256 bytes of Inl e \<Rightarrow> Inl e | Inr event \<Rightarrow> Inr (Some event))))"

section \<open>Round trip\<close>

lemma reads_Some_iff:
  "reads r f bs = Some (y, rest) \<longleftrightarrow> (\<exists>x bs'. r bs = Some (x, bs') \<and> f x bs' = Some (y, rest))"
  by (auto simp: reads_def split: option.splits)

lemmas field_codecs = u16.get_put u32.get_put u64.get_put pubkey.get_put bool.get_put

lemmas field_iffs = u16.get_iff u32.get_iff u64.get_iff pubkey.get_iff bool.get_iff

lemma read_event_fields: "read_event (name_of event) (event_fields event @ rest) = Some (event, rest)"
  by (cases event) (simp_all add: reads_def done_with_def field_codecs)

lemma read_event_Some: "read_event n bs = Some (event, rest) \<Longrightarrow> name_of event = n \<and> bs = event_fields event @ rest"
  by (cases n) (auto simp: reads_Some_iff done_with_def field_iffs)

lemma read_event_iff: "read_event n bs = Some (event, rest) \<longleftrightarrow> name_of event = n \<and> bs = event_fields event @ rest"
  using read_event_fields read_event_Some by blast

lemma event_names_complete: "n \<in> set event_names"
  by (cases n) (simp_all add: event_names_def)

lemma event_fields_version: "\<exists>v rest. event_fields event = put_u16 v @ rest"
  by (cases event) auto

lemma find_unique:
  assumes "inj_on f (set xs)" "x \<in> set xs"
  shows "find (\<lambda>y. f x = f y) xs = Some x"
  using assms by (induction xs) (auto simp: inj_on_def)

lemma decode_Inr:
  assumes "decode sha256 bytes = Inr event"
  shows "bytes = emit sha256 event"
proof -
  from assms obtain n where "find (\<lambda>n. take 8 bytes = discriminator sha256 n) event_names = Some n"
    and r: "read_event n (drop 8 bytes) = Some (event, [])"
    by (auto simp: decode_def split: if_splits option.splits list.splits)
  then have "take 8 bytes = discriminator sha256 n"
    by (auto simp: find_Some_iff)
  moreover from read_event_Some [OF r] have "name_of event = n" "drop 8 bytes = event_fields event"
    by simp_all
  ultimately show ?thesis
    by (metis emit_def append_take_drop_id)
qed

lemma decode_emit:
  assumes len: "\<And>x. length (sha256 x) = 32" and inj: "inj (discriminator sha256)"
  shows "decode sha256 (emit sha256 event) = Inr event"
proof -
  have dlen: "length (discriminator sha256 n) = 8" for n
    by (simp add: discriminator_def len)
  obtain v rest where "event_fields event = put_u16 v @ rest"
    using event_fields_version by blast
  then have "10 \<le> length (emit sha256 event)"
    by (simp add: emit_def dlen put_u16_def)
  moreover have "find (\<lambda>n. discriminator sha256 (name_of event) = discriminator sha256 n) event_names
      = Some (name_of event)"
    using inj by (intro find_unique event_names_complete) (auto intro: inj_on_subset)
  moreover have "read_event (name_of event) (event_fields event) = Some (event, [])"
    using read_event_fields [of event "[]"] by simp
  ultimately show ?thesis
    by (simp add: decode_def emit_def dlen)
qed

text \<open>
  C35. The observer decodes exactly what the program emits: with a 32-byte hash whose event
  discriminators are pairwise distinct, a byte string decodes to an event if and only if it is
  the encoding of that event. In particular no trailing byte, no truncated payload and no
  other encoding is accepted, and the separately declared layouts of the two crates agree.
\<close>

theorem decode_iff_emitted:
  assumes "\<And>x. length (sha256 x) = 32" and "inj (discriminator sha256)"
  shows "decode sha256 bytes = Inr event \<longleftrightarrow> bytes = emit sha256 event"
  using decode_Inr decode_emit [OF assms] by blast

text \<open>A hash that numbers the event names, for concrete runs.\<close>

definition sample_hash :: "u8 list \<Rightarrow> u8 list" where
  "sample_hash bs = [of_nat (length bs), bs ! 10, bs ! 16] @ replicate 29 0"

lemma sample_hash_inj: "inj (discriminator sample_hash)"
proof (rule injI)
  fix m n
  assume "discriminator sample_hash m = discriminator sample_hash n"
  then show "m = n"
    by (cases m; cases n) (simp_all add: discriminator_def sample_hash_def ascii_def)
qed

theorem decode_iff_emitted_witness:
  "decode sample_hash (emit sample_hash (VaultPauseUpdated 1 13 4 True)) = Inr (VaultPauseUpdated 1 13 4 True)
   \<and> decode sample_hash (emit sample_hash (VaultPauseUpdated 1 13 4 True) @ [0])
       \<noteq> Inr (VaultPauseUpdated 1 13 4 True)"
  using decode_iff_emitted [of sample_hash, OF _ sample_hash_inj]
  by (simp add: sample_hash_def)

end
