(* ===== verification/Logs.thy ===== *)
theory Logs
  imports Codec
begin

text \<open>
  Reading transaction logs (\<open>observer/src/rpc.rs\<close>, \<open>extract_events\<close> and \<open>parse_invoke\<close>). The
  Solana runtime brackets the lines of each program call between an \<open>invoke\<close> and a \<open>success\<close>
  line; the observer follows these brackets and keeps the \<open>Program data\<close> lines of the frames
  that belong to the program, numbered by top-level instruction and by event. The specification
  is a tree of calls with its rendering as log lines. Strings are lists of bytes; all patterns
  are ASCII.
\<close>

type_synonym i32 = "32 word"

section \<open>String operations\<close>

text \<open>\<open>str::starts_with\<close>, \<open>ends_with\<close>, \<open>contains\<close>, \<open>split_once\<close>, \<open>strip_suffix\<close>, \<open>u32::from_str\<close>.\<close>

definition starts_with :: "string \<Rightarrow> string \<Rightarrow> bool" where
  "starts_with s p \<longleftrightarrow> take (length p) s = p"

definition ends_with :: "string \<Rightarrow> string \<Rightarrow> bool" where
  "ends_with s p \<longleftrightarrow> drop (length s - length p) s = p"

fun contains :: "string \<Rightarrow> string \<Rightarrow> bool" where
  "contains [] p \<longleftrightarrow> p = []"
| "contains (c # s) p \<longleftrightarrow> starts_with (c # s) p \<or> contains s p"

fun split_once :: "string \<Rightarrow> string \<Rightarrow> (string \<times> string) option" where
  "split_once p [] = (if p = [] then Some ([], []) else None)"
| "split_once p (c # s) =
     (if starts_with (c # s) p then Some ([], drop (length p) (c # s))
      else map_option (\<lambda>(a, b). (c # a, b)) (split_once p s))"

definition strip_suffix :: "string \<Rightarrow> string \<Rightarrow> string option" where
  "strip_suffix p s = (if ends_with s p then Some (take (length s - length p) s) else None)"

definition digit :: "char \<Rightarrow> nat option" where
  "digit c = (let n = of_char c in if 48 \<le> n \<and> n \<le> 57 then Some (n - 48) else None)"

fun parse_digits :: "nat \<Rightarrow> string \<Rightarrow> nat option" where
  "parse_digits acc [] = Some acc"
| "parse_digits acc (c # s) =
     (case digit c of
        None \<Rightarrow> None
      | Some d \<Rightarrow> if acc * 10 + d < 2 ^ 32 then parse_digits (acc * 10 + d) s else None)"

definition parse_u32 :: "string \<Rightarrow> u32 option" where
  "parse_u32 s =
     (let digits = (case s of c # r \<Rightarrow> if c = CHR ''+'' then r else s | [] \<Rightarrow> s)
      in if digits = [] then None else map_option of_nat (parse_digits 0 digits))"

section \<open>The scanner\<close>

text \<open>\<open>EventId\<close> and \<open>ObservedEvent\<close> of \<open>database.rs\<close>.\<close>

record event_id =
  id_transaction_signature :: string
  id_instruction_index :: u32
  id_event_index :: u32

record observed_event =
  ob_id :: event_id
  ob_slot :: u64
  ob_block_time :: "i64 option"
  ob_event :: event

definition parse_invoke :: "string \<Rightarrow> (string \<times> u32) option" where
  "parse_invoke log =
     Option.bind (strip_prefix ''Program '' log) (\<lambda>rest.
     Option.bind (split_once '' invoke ['' rest) (\<lambda>(program, suffix).
     Option.bind (strip_suffix '']'' suffix) (\<lambda>number.
     Option.bind (parse_u32 number) (\<lambda>depth. Some (program, depth)))))"

text \<open>
  The local variables of \<open>extract_events\<close>; the top of the stack is the head of the list. A
  released build wraps the two counters, and the theorems bound the number of lines.
\<close>

record scan =
  sc_stack :: "string list"
  sc_instruction_index :: i32
  sc_event_indexes :: "u32 \<rightharpoonup> u32"
  sc_output :: "(decode_error + observed_event) list"

definition scan_start :: scan where
  "scan_start = \<lparr>sc_stack = [], sc_instruction_index = - 1, sc_event_indexes = Map.empty, sc_output = []\<rparr>"

definition observe ::
    "(u8 list \<Rightarrow> u8 list) \<Rightarrow> (string \<Rightarrow> u8 list option) \<Rightarrow> string \<Rightarrow> u64 \<Rightarrow> i64 option \<Rightarrow> u32 \<Rightarrow> u32
     \<Rightarrow> string \<Rightarrow> decode_error + observed_event" where
  "observe sha256 base64 signature slot block_time index event_index log =
     (case decode_program_data sha256 base64 log of
        Inl e \<Rightarrow> Inl e
      | Inr None \<Rightarrow> Inl NotAnEvent
      | Inr (Some event) \<Rightarrow>
          Inr \<lparr>ob_id = \<lparr>id_transaction_signature = signature, id_instruction_index = index,
                         id_event_index = event_index\<rparr>,
               ob_slot = slot, ob_block_time = block_time, ob_event = event\<rparr>)"

definition scan_data ::
    "(u32 \<Rightarrow> u32 \<Rightarrow> string \<Rightarrow> decode_error + observed_event) \<Rightarrow> string \<Rightarrow> scan \<Rightarrow> scan" where
  "scan_data obs log s =
     (let index = (if sint (sc_instruction_index s) < 0 then 0 else sc_instruction_index s);
          event_index = (case sc_event_indexes s index of None \<Rightarrow> 0 | Some n \<Rightarrow> n)
      in s\<lparr>sc_event_indexes := (sc_event_indexes s)(index \<mapsto> event_index + 1),
           sc_output := sc_output s @ [obs index event_index log]\<rparr>)"

definition scan_line ::
    "(u32 \<Rightarrow> u32 \<Rightarrow> string \<Rightarrow> decode_error + observed_event) \<Rightarrow> string \<Rightarrow> string \<Rightarrow> scan \<Rightarrow> scan" where
  "scan_line obs program_id log s =
     (case parse_invoke log of
        Some (program, depth) \<Rightarrow>
          if depth = 1
          then s\<lparr>sc_instruction_index := sc_instruction_index s + 1, sc_stack := [program]\<rparr>
          else s\<lparr>sc_stack := program # sc_stack s\<rparr>
      | None \<Rightarrow>
          if starts_with log ''Program '' \<and> (ends_with log '' success'' \<or> contains log '' failed:'')
          then s\<lparr>sc_stack := tl (sc_stack s)\<rparr>
          else if sc_stack s \<noteq> [] \<and> hd (sc_stack s) = program_id \<and> starts_with log ''Program data: ''
          then scan_data obs log s
          else s)"

definition extract_events ::
    "(u8 list \<Rightarrow> u8 list) \<Rightarrow> (string \<Rightarrow> u8 list option) \<Rightarrow> string \<Rightarrow> u64 \<Rightarrow> i64 option \<Rightarrow> string list
     \<Rightarrow> string \<Rightarrow> (decode_error + observed_event) list" where
  "extract_events sha256 base64 signature slot block_time logs program_id =
     sc_output (fold (scan_line (observe sha256 base64 signature slot block_time) program_id) logs scan_start)"

section \<open>Facts on strings\<close>

lemma starts_with_append [simp]: "starts_with (p @ s) p"
  by (simp add: starts_with_def)

lemma starts_with_iff: "starts_with s p \<longleftrightarrow> (\<exists>r. s = p @ r)"
  by (metis append_take_drop_id append_eq_conv_conj starts_with_def)

lemma strip_prefix_append [simp]: "strip_prefix p (p @ s) = Some s"
  by (simp add: strip_prefix_def)

lemma ends_with_iff: "ends_with s p \<longleftrightarrow> (\<exists>a. s = a @ p)"
proof
  assume "ends_with s p"
  then have "s = take (length s - length p) s @ p"
    by (metis append_take_drop_id ends_with_def)
  then show "\<exists>a. s = a @ p"
    by blast
qed (auto simp: ends_with_def)

lemma strip_suffix_append [simp]: "strip_suffix p (s @ p) = Some s"
  by (simp add: strip_suffix_def ends_with_def)

lemma starts_with_set: "starts_with s p \<Longrightarrow> set p \<subseteq> set s"
  by (metis set_take_subset starts_with_def)

lemma contains_set: "contains s p \<Longrightarrow> set p \<subseteq> set s"
proof (induction s)
  case (Cons c s)
  then show ?case
    using starts_with_set [of "c # s" p] by auto
qed simp

lemma split_once_None: "\<not> set p \<subseteq> set s \<Longrightarrow> split_once p s = None"
proof (induction s)
  case (Cons c s)
  then show ?case
    using starts_with_set [of "c # s" p] by auto
qed auto

lemma split_once_first:
  assumes "c \<notin> set s"
  shows "split_once (c # p) (s @ (c # p) @ r) = Some (s, r)"
  using assms by (induction s) (auto simp: starts_with_def)

text \<open>Decimal numerals, as \<open>Display\<close> writes them, and that they are read back.\<close>

fun decimal :: "nat \<Rightarrow> string" where
  "decimal n = (if n < 10 then [] else decimal (n div 10)) @ [char_of (48 + n mod 10)]"

declare decimal.simps [simp del]

lemma digit_char [simp]: "d < 10 \<Longrightarrow> digit (char_of (48 + d)) = Some d"
  by (simp add: digit_def)

lemma parse_digits_append:
  "parse_digits acc (s @ t) = Option.bind (parse_digits acc s) (\<lambda>n. parse_digits n t)"
  by (induction s arbitrary: acc) (simp_all split: option.splits)

lemma parse_decimal: "n < 2 ^ 32 \<Longrightarrow> parse_digits 0 (decimal n) = Some n"
proof (induction n rule: decimal.induct)
  case (1 n)
  have "n mod 10 < 10" and "n div 10 * 10 + n mod 10 = n"
    by simp_all
  with 1 show ?case
    by (subst decimal.simps) (auto simp: parse_digits_append)
qed

lemma decimal_digits: "c \<in> set (decimal n) \<Longrightarrow> 48 \<le> (of_char c :: nat) \<and> (of_char c :: nat) \<le> 57"
proof (induction n rule: decimal.induct)
  case (1 n)
  have "n mod 10 < 10"
    by simp
  with 1 show ?case
    by (subst (asm) (2) decimal.simps) (auto split: if_splits)
qed

lemma decimal_nonempty [simp]: "decimal n \<noteq> []"
  by (subst decimal.simps) simp

lemma parse_u32_decimal [simp]:
  assumes "n < 2 ^ 32"
  shows "parse_u32 (decimal n) = Some (of_nat n)"
proof -
  obtain c r where d: "decimal n = c # r"
    using decimal_nonempty by (cases "decimal n") auto
  then have "c \<noteq> CHR ''+''"
    using decimal_digits [of c n] by auto
  with d parse_decimal [OF assms] show ?thesis
    by (auto simp: parse_u32_def Let_def)
qed

section \<open>Call trees\<close>

text \<open>
  What one call logs: data lines, other lines, and nested calls; and the lines the runtime
  writes for it. A nested call that fails fails its transaction, so a successful transaction has
  only \<open>success\<close> lines.
\<close>

datatype entry = Data string | Text string | Call string "entry list"

fun render :: "nat \<Rightarrow> entry \<Rightarrow> string list" where
  "render depth (Data encoded) = [''Program data: '' @ encoded]"
| "render depth (Text line) = [line]"
| "render depth (Call program entries) =
     [''Program '' @ program @ '' invoke ['' @ decimal depth @ '']'']
     @ concat (map (render (Suc depth)) entries)
     @ [''Program '' @ program @ '' success'']"

text \<open>
  Well-formed lines: program identifiers have no space and no bracket, data is base64 (in
  particular a multiple of four characters), and the other lines are none the observer reacts
  to. The last condition is a restriction on what programs log, not a fact about the runtime: a
  message \<open>Program log: ... success\<close> violates it. \<open>depth_of\<close> bounds the nesting.
\<close>

definition quiet :: "string \<Rightarrow> bool" where
  "quiet line \<longleftrightarrow> parse_invoke line = None \<and>
     \<not> (starts_with line ''Program '' \<and>
        (ends_with line '' success'' \<or> contains line '' failed:'' \<or> starts_with line ''Program data: ''))"

definition key_text :: "string \<Rightarrow> bool" where
  "key_text p \<longleftrightarrow> CHR '' '' \<notin> set p \<and> CHR ''['' \<notin> set p"

definition base64_text :: "string \<Rightarrow> bool" where
  "base64_text b \<longleftrightarrow> 4 dvd length b \<and> (\<forall>c \<in> set b. c \<notin> {CHR '' '', CHR ''['', CHR '':''})"

fun wf_entry :: "entry \<Rightarrow> bool" where
  "wf_entry (Data encoded) \<longleftrightarrow> base64_text encoded"
| "wf_entry (Text line) \<longleftrightarrow> quiet line"
| "wf_entry (Call program entries) \<longleftrightarrow> key_text program \<and> list_all wf_entry entries"

fun depth_of :: "entry \<Rightarrow> nat" where
  "depth_of (Call program entries) = Suc (Max (set (0 # map depth_of entries)))"
| "depth_of _ = 0"

text \<open>The data lines a program logs itself, in order, given the program of the current frame.\<close>

fun logged :: "string \<Rightarrow> string \<Rightarrow> entry \<Rightarrow> string list" where
  "logged me current (Data encoded) = (if current = me then [''Program data: '' @ encoded] else [])"
| "logged me current (Text line) = []"
| "logged me current (Call program entries) = concat (map (logged me program) entries)"

lemma parse_invoke_line:
  assumes "key_text p" "d < 2 ^ 32"
  shows "parse_invoke (''Program '' @ p @ '' invoke ['' @ decimal d @ '']'') = Some (p, of_nat d)"
proof -
  have "split_once '' invoke ['' (p @ '' invoke ['' @ decimal d @ '']'') = Some (p, decimal d @ '']'')"
    using assms(1) split_once_first [of "CHR '' ''" p "''invoke [''" "decimal d @ '']''"]
    by (simp add: key_text_def)
  then show ?thesis
    using assms(2) by (simp add: parse_invoke_def del: append.simps append_Cons)
qed

lemma parse_invoke_needs_bracket: "CHR ''['' \<notin> set log \<Longrightarrow> parse_invoke log = None"
proof -
  assume no: "CHR ''['' \<notin> set log"
  show "parse_invoke log = None"
  proof (cases "strip_prefix ''Program '' log")
    case (Some rest)
    then have "CHR ''['' \<notin> set rest"
      using no by (auto simp: strip_prefix_def split: if_splits dest: in_set_dropD)
    then have "split_once '' invoke ['' rest = None"
      by (intro split_once_None) auto
    with Some show ?thesis
      by (simp add: parse_invoke_def)
  qed (simp add: parse_invoke_def)
qed

lemma data_line_no_success:
  assumes "base64_text b"
  shows "\<not> ends_with (''Program data: '' @ b) '' success''"
proof
  assume "ends_with (''Program data: '' @ b) '' success''"
  then obtain a where a: "''Program data: '' @ b = a @ '' success''"
    unfolding ends_with_iff by blast
  have sp: "CHR '' '' \<notin> set b" and len: "4 dvd length b"
    using assms by (auto simp: base64_text_def)
  have la: "length b + 6 = length a"
    using arg_cong [OF a, of length] by simp
  have nth: "(''Program data: '' @ b) ! length a = CHR '' ''"
    unfolding a by simp
  have "length a < 14"
  proof (rule ccontr)
    assume "\<not> length a < 14"
    then have "(''Program data: '' @ b) ! length a = b ! (length a - 14)" "length a - 14 < length b"
      using la by (simp_all add: nth_append numeral_eq_Suc del: append_Cons)
    with nth sp show False
      by (metis nth_mem)
  qed
  with la have "length b < 8"
    by simp
  with len have "length b = 0 \<or> length b = 4"
    by presburger
  then have "length a = 6 \<or> length a = 10"
    using la by auto
  with nth show False
    by auto
qed

lemma data_line_no_failure:
  assumes "base64_text b"
  shows "\<not> contains (''Program data: '' @ b) '' failed:''"
proof -
  have "CHR '':'' \<notin> set b"
    using assms by (auto simp: base64_text_def)
  then have "\<not> starts_with b ''failed:''" "\<not> contains b '' failed:''"
    using starts_with_set [of b "''failed:''"] contains_set [of b "'' failed:''"] by auto
  then show ?thesis
    by (simp add: starts_with_def)
qed

section \<open>The scanner follows call trees\<close>

lemma scan_data_frame [simp]:
  "sc_stack (scan_data obs l s) = sc_stack s"
  "sc_instruction_index (scan_data obs l s) = sc_instruction_index s"
  "scan_data obs l (s\<lparr>sc_stack := t\<rparr>) = (scan_data obs l s)\<lparr>sc_stack := t\<rparr>"
  by (simp_all add: scan_data_def Let_def)

lemma fold_scan_data_frame [simp]:
  "sc_stack (fold (scan_data obs) ls s) = sc_stack s"
  "sc_instruction_index (fold (scan_data obs) ls s) = sc_instruction_index s"
  "fold (scan_data obs) ls (s\<lparr>sc_stack := t\<rparr>) = (fold (scan_data obs) ls s)\<lparr>sc_stack := t\<rparr>"
  by (induction ls arbitrary: s) simp_all

lemma scan_invoke:
  assumes "key_text p" "d < 2 ^ 32" "1 < d"
  shows "scan_line obs me (''Program '' @ p @ '' invoke ['' @ decimal d @ '']'') s =
    s\<lparr>sc_stack := p # sc_stack s\<rparr>"
proof -
  have "(of_nat d :: u32) \<noteq> 1"
    using assms(2,3) by (auto simp: word_unat_eq_iff unat_of_nat)
  then show ?thesis
    using parse_invoke_line [OF assms(1,2)] by (simp add: scan_line_def)
qed

lemma scan_invoke_top:
  assumes "key_text p"
  shows "scan_line obs me (''Program '' @ p @ '' invoke ['' @ decimal 1 @ '']'') s =
    s\<lparr>sc_instruction_index := sc_instruction_index s + 1, sc_stack := [p]\<rparr>"
  using parse_invoke_line [OF assms, of 1] by (simp add: scan_line_def)

lemma scan_success:
  assumes "key_text p"
  shows "scan_line obs me (''Program '' @ p @ '' success'') s = s\<lparr>sc_stack := tl (sc_stack s)\<rparr>"
proof -
  have "parse_invoke (''Program '' @ p @ '' success'') = None"
    using assms by (intro parse_invoke_needs_bracket) (simp add: key_text_def)
  moreover have "ends_with (''Program '' @ p @ '' success'') '' success''"
    unfolding ends_with_iff by (rule exI [of _ "''Program '' @ p"]) simp
  ultimately show ?thesis
    by (simp add: scan_line_def starts_with_def)
qed

lemma scan_data_line:
  assumes "base64_text b" "sc_stack s = current # rest"
  shows "scan_line obs me (''Program data: '' @ b) s =
    (if current = me then scan_data obs (''Program data: '' @ b) s else s)"
proof -
  have "parse_invoke (''Program data: '' @ b) = None"
    using assms(1) by (intro parse_invoke_needs_bracket) (auto simp: base64_text_def)
  then show ?thesis
    using data_line_no_success [OF assms(1)] data_line_no_failure [OF assms(1)] assms(2)
    by (simp add: scan_line_def del: append_Cons)
qed

lemma scan_quiet: "quiet line \<Longrightarrow> scan_line obs me line s = s"
  by (auto simp: scan_line_def quiet_def starts_with_def dest: arg_cong [of _ _ "take 8"])

lemma fold_concat_map:
  assumes "\<And>x s. x \<in> set xs \<Longrightarrow> P s \<Longrightarrow> fold f (g x) s = fold h (k x) s"
    and "\<And>x s. P s \<Longrightarrow> P (fold h (k x) s)" and "P s"
  shows "fold f (concat (map g xs)) s = fold h (concat (map k xs)) s"
  using assms(1,3) by (induction xs arbitrary: s) (simp_all add: assms(2))

lemma depth_of_member: "x \<in> set entries \<Longrightarrow> depth_of x < depth_of (Call program entries)"
  by (simp add: less_Suc_eq_le)

lemma scan_render:
  assumes "wf_entry e" "d + depth_of e \<le> 2 ^ 32" "1 < d" "sc_stack s = current # rest"
  shows "fold (scan_line obs me) (render d e) s = fold (scan_data obs) (logged me current e) s"
  using assms
proof (induction d e arbitrary: s current rest rule: render.induct)
  case (3 d p es)
  have *: "Suc d + depth_of x \<le> 2 ^ 32" if "x \<in> set es" for x
    using depth_of_member [OF that, of p] 3(3) by simp
  have p: "key_text p" and wf: "\<And>x. x \<in> set es \<Longrightarrow> wf_entry x" and d: "d < 2 ^ 32"
    using 3(2,3) by (auto simp: list_all_iff)
  have "fold (scan_line obs me) (concat (map (render (Suc d)) es)) (s\<lparr>sc_stack := p # sc_stack s\<rparr>)
      = fold (scan_data obs) (concat (map (logged me p) es)) (s\<lparr>sc_stack := p # sc_stack s\<rparr>)"
    by (rule fold_concat_map [where P = "\<lambda>s'. sc_stack s' = p # sc_stack s"])
       (use 3(1,4) * wf in \<open>auto simp del: depth_of.simps\<close>)
  with p d 3(4) show ?case
    by (simp add: scan_invoke scan_success del: append_Cons)
qed (simp_all add: scan_data_line scan_quiet del: append_Cons)

section \<open>Transactions\<close>

text \<open>A transaction is the list of its top-level calls.\<close>

type_synonym transaction = "(string \<times> entry list) list"

definition transaction_logs :: "transaction \<Rightarrow> string list" where
  "transaction_logs calls = concat (map (\<lambda>(p, es). render 1 (Call p es)) calls)"

definition wf_transaction :: "transaction \<Rightarrow> bool" where
  "wf_transaction calls \<longleftrightarrow>
     length calls < 2 ^ 31 \<and> (\<forall>(p, es) \<in> set calls. wf_entry (Call p es) \<and> depth_of (Call p es) < 2 ^ 32)"

definition numbered ::
    "(u32 \<Rightarrow> u32 \<Rightarrow> 'l \<Rightarrow> 'a) \<Rightarrow> nat \<Rightarrow> 'l list list \<Rightarrow> 'a list" where
  "numbered obs n lss =
     concat (map (\<lambda>(i, ls). map (\<lambda>(j, l). obs (of_nat i) (of_nat j) l) (enumerate 0 ls)) (enumerate n lss))"

lemma numbered_simps [simp]:
  "numbered obs n [] = []"
  "numbered obs n (ls # lss) =
     map (\<lambda>(j, l). obs (of_nat n) (of_nat j) l) (enumerate 0 ls) @ numbered obs (Suc n) lss"
  by (simp_all add: numbered_def)

lemma fold_scan_data:
  assumes "0 \<le> sint (sc_instruction_index s)"
    and "(case sc_event_indexes s (sc_instruction_index s) of None \<Rightarrow> 0 | Some m \<Rightarrow> m) = of_nat n"
  shows "sc_output (fold (scan_data obs) ls s) =
      sc_output s @ map (\<lambda>(j, l). obs (sc_instruction_index s) (of_nat j) l) (enumerate n ls) \<and>
    (\<forall>k. k \<noteq> sc_instruction_index s \<longrightarrow> sc_event_indexes (fold (scan_data obs) ls s) k = sc_event_indexes s k)"
  using assms
proof (induction ls arbitrary: s n)
  case (Cons l ls)
  let ?s = "scan_data obs l s"
  have "sc_output ?s = sc_output s @ [obs (sc_instruction_index s) (of_nat n) l]"
    and "sc_event_indexes ?s = (sc_event_indexes s)(sc_instruction_index s \<mapsto> of_nat (Suc n))"
    using Cons.prems by (simp_all add: scan_data_def Let_def algebra_simps)
  with Cons.IH [of ?s "Suc n"] Cons.prems show ?case
    by simp
qed simp

lemma scan_call:
  assumes "wf_entry (Call p es)" "depth_of (Call p es) < 2 ^ 32"
  shows "fold (scan_line obs me) (render 1 (Call p es)) s =
    (fold (scan_data obs) (logged me p (Call p es))
      (s\<lparr>sc_instruction_index := sc_instruction_index s + 1\<rparr>))\<lparr>sc_stack := []\<rparr>"
proof -
  let ?s = "s\<lparr>sc_instruction_index := sc_instruction_index s + 1, sc_stack := [p]\<rparr>"
  have p: "key_text p" and wf: "\<And>x. x \<in> set es \<Longrightarrow> wf_entry x"
    using assms(1) by (auto simp: list_all_iff)
  have *: "2 + depth_of x \<le> 2 ^ 32" if "x \<in> set es" for x
    using depth_of_member [OF that, of p] assms(2) by (simp del: depth_of.simps)
  have "fold (scan_line obs me) (concat (map (render (Suc 1)) es)) ?s
      = fold (scan_data obs) (concat (map (logged me p) es)) ?s"
  proof (rule fold_concat_map [where P = "\<lambda>s'. sc_stack s' = [p]"])
    fix x and s' :: scan
    assume "x \<in> set es" "sc_stack s' = [p]"
    then show "fold (scan_line obs me) (render (Suc 1) x) s' = fold (scan_data obs) (logged me p x) s'"
      using wf * by (intro scan_render [where rest = "[]"]) (simp_all add: numeral_2_eq_2)
  qed simp_all
  with p show ?thesis
    by (simp add: scan_invoke_top scan_success del: append_Cons One_nat_def)
qed

lemma sint_of_nat_i32: "n < 2 ^ 31 \<Longrightarrow> sint (of_nat n :: i32) = int n"
  by (simp add: signed_of_nat signed_take_bit_int_eq_self)

lemma of_nat_i32_inj: "n < 2 ^ 31 \<Longrightarrow> k < 2 ^ 31 \<Longrightarrow> (of_nat n :: i32) = of_nat k \<longleftrightarrow> n = k"
  by (metis of_nat_eq_iff sint_of_nat_i32)

lemma scan_transaction:
  assumes "sc_instruction_index s = word_of_int (int n - 1)" "n + length calls < 2 ^ 31"
    and "\<And>p es. (p, es) \<in> set calls \<Longrightarrow> wf_entry (Call p es) \<and> depth_of (Call p es) < 2 ^ 32"
    and "\<And>k. n \<le> k \<Longrightarrow> k < 2 ^ 31 \<Longrightarrow> sc_event_indexes s (of_nat k) = None"
  shows "sc_output (fold (scan_line obs me) (transaction_logs calls) s) =
    sc_output s @ numbered obs n (map (\<lambda>(p, es). logged me p (Call p es)) calls)"
  using assms
proof (induction calls arbitrary: s n)
  case Nil
  then show ?case
    by (simp add: transaction_logs_def)
next
  case (Cons c calls)
  obtain p es where c: "c = (p, es)"
    by (cases c)
  let ?ls = "logged me p (Call p es)"
  let ?s1 = "s\<lparr>sc_instruction_index := sc_instruction_index s + 1\<rparr>"
  let ?s2 = "(fold (scan_data obs) ?ls ?s1)\<lparr>sc_stack := []\<rparr>"
  have ix: "sc_instruction_index ?s1 = of_nat n"
    using Cons.prems(1) by (simp add: of_int_of_nat_eq)
  have nonneg: "0 \<le> sint (sc_instruction_index ?s1)"
    using Cons.prems(2) unfolding ix by (simp add: sint_of_nat_i32)
  have none: "sc_event_indexes ?s1 (sc_instruction_index ?s1) = None"
    using Cons.prems(2) Cons.prems(4) [of n] ix by simp
  have "sc_event_indexes ?s2 (of_nat k) = None" if "Suc n \<le> k" "k < 2 ^ 31" for k
  proof -
    have "(of_nat k :: i32) \<noteq> sc_instruction_index ?s1"
      using that Cons.prems(2) unfolding ix by (simp add: of_nat_i32_inj)
    then show ?thesis
      using fold_scan_data [OF nonneg, of 0] none Cons.prems(4) [of k] that by simp
  qed
  moreover have "sc_instruction_index ?s2 = word_of_int (int (Suc n) - 1)"
    using ix by simp
  ultimately have "sc_output (fold (scan_line obs me) (transaction_logs calls) ?s2) =
      sc_output ?s2 @ numbered obs (Suc n) (map (\<lambda>(p, es). logged me p (Call p es)) calls)"
    using Cons.prems(2,3) by (intro Cons.IH) auto
  moreover have "sc_output ?s2 = sc_output s @ map (\<lambda>(j, l). obs (of_nat n) (of_nat j) l) (enumerate 0 ?ls)"
    using fold_scan_data [OF nonneg, of 0] none ix by simp
  moreover have "fold (scan_line obs me) (render 1 (Call p es)) s = ?s2"
    using Cons.prems(3) [of p es] c by (intro scan_call) auto
  ultimately show ?case
    by (simp add: transaction_logs_def c del: render.simps logged.simps)
qed

lemma extract_transaction:
  assumes "wf_transaction calls"
  shows "extract_events sha256 base64 signature slot block_time (transaction_logs calls) me =
    numbered (observe sha256 base64 signature slot block_time) 0
      (map (\<lambda>(p, es). logged me p (Call p es)) calls)"
  unfolding extract_events_def
  by (subst scan_transaction [where n = 0])
     (use assms in \<open>auto simp: wf_transaction_def scan_start_def\<close>)

text \<open>The line Anchor's \<open>emit!\<close> logs for an event.\<close>

definition event_line :: "(u8 list \<Rightarrow> u8 list) \<Rightarrow> (u8 list \<Rightarrow> string) \<Rightarrow> event \<Rightarrow> string" where
  "event_line sha256 encode event = ''Program data: '' @ encode (emit sha256 event)"

lemma numbered_map: "numbered obs n (map (map f) lss) = numbered (\<lambda>i j l. obs i j (f l)) n lss"
  by (induction lss arbitrary: n) (auto simp: enumerate_eq_zip zip_map2)

definition observed ::
    "string \<Rightarrow> u64 \<Rightarrow> i64 option \<Rightarrow> u32 \<Rightarrow> u32 \<Rightarrow> event \<Rightarrow> observed_event" where
  "observed signature slot block_time index event_index event =
     \<lparr>ob_id = \<lparr>id_transaction_signature = signature, id_instruction_index = index, id_event_index = event_index\<rparr>,
      ob_slot = slot, ob_block_time = block_time, ob_event = event\<rparr>"

lemma observe_event_line:
  assumes "\<And>x. length (sha256 x) = 32" "inj (discriminator sha256)" "\<And>x. base64 (encode x) = Some x"
  shows "observe sha256 base64 signature slot block_time i j (event_line sha256 encode event) =
    Inr (observed signature slot block_time i j event)"
  by (simp add: observe_def decode_program_data_def event_line_def decode_emit [OF assms(1,2)] assms(3)
      observed_def del: append_Cons)

text \<open>
  C33. The observer reports exactly what the program emitted, if no program logs text that looks like
  a line of the runtime. For a successful transaction whose calls log the given events inside IronVault
  frames, at whatever depth and between other calls and quiet text lines, the scan of its logs
  yields these events and no others, in order, each under the index of its top-level instruction and its
  index among the events of that instruction, with no decoding error. A text line is quiet if it is no
  invoke line and, when it starts with Program, neither ends in success nor contains
  failed: nor is a data line; wf_transaction requires this of all text lines. Without the condition the
  claim is false of this code: log_text_hides_event is a transaction where a message ending in
  success makes the scan lose the event.
\<close>

theorem extract_exact:
  assumes "wf_transaction calls"
    and "\<And>x. length (sha256 x) = 32" and "inj (discriminator sha256)"
    and "\<And>x. base64 (encode x) = Some x"
    and "map (\<lambda>(p, es). logged me p (Call p es)) calls = map (map (event_line sha256 encode)) events"
  shows "extract_events sha256 base64 signature slot block_time (transaction_logs calls) me =
    numbered (\<lambda>i j event. Inr (observed signature slot block_time i j event)) 0 events"
  unfolding extract_transaction [OF assms(1)] assms(5) numbered_map observe_event_line [OF assms(2-4)] ..

text \<open>A stand-in for base64 with four letters for each byte, for concrete runs.\<close>

definition letters :: "u8 \<Rightarrow> string" where
  "letters b = [CHR ''A'', CHR ''A'', char_of (65 + unat b div 16), char_of (65 + unat b mod 16)]"

definition sample_encode :: "u8 list \<Rightarrow> string" where
  "sample_encode bs = concat (map letters bs)"

fun sample_base64 :: "string \<Rightarrow> u8 list option" where
  "sample_base64 [] = Some []"
| "sample_base64 (a # b # c # d # s) =
     map_option (Cons (of_nat ((of_char c - 65) * 16 + (of_char d - 65)))) (sample_base64 s)"
| "sample_base64 _ = None"

lemma nibbles: "unat (b :: u8) div 16 < 16" "unat b mod 16 < 16"
proof -
  have "unat b < 256"
    using unsigned_less [of b] by simp
  then show "unat b div 16 < 16" "unat b mod 16 < 16"
    by simp_all
qed

lemma sample_base64_encode: "sample_base64 (sample_encode x) = Some x"
proof (induction x)
  case (Cons b x)
  have "of_nat (unat b div 16 * 16 + unat b mod 16) = b"
    by (simp only: div_mult_mod_eq) simp
  then show ?case
    using Cons nibbles [of b] by (simp add: sample_encode_def letters_def)
qed (simp add: sample_encode_def)

lemma letters_char: "c \<in> set (letters b) \<Longrightarrow> 65 \<le> (of_char c :: nat) \<and> (of_char c :: nat) \<le> 80"
  using nibbles [of b] by (auto simp: letters_def)

lemma base64_text_letters: "base64_text (letters b)"
proof -
  have "length (letters b) = 4"
    by (simp add: letters_def)
  moreover have "c \<notin> {CHR '' '', CHR ''['', CHR '':''}" if "c \<in> set (letters b)" for c
    using letters_char [OF that] by auto
  ultimately show ?thesis
    by (simp add: base64_text_def)
qed

lemma base64_text_append: "base64_text a \<Longrightarrow> base64_text b \<Longrightarrow> base64_text (a @ b)"
  by (auto simp: base64_text_def)

lemma base64_text_sample: "base64_text (sample_encode x)"
proof (induction x)
  case (Cons b x)
  then show ?case
    using base64_text_append [OF base64_text_letters [of b]] by (simp add: sample_encode_def)
qed (simp add: sample_encode_def base64_text_def)

definition sample_transaction :: "event \<Rightarrow> transaction" where
  "sample_transaction event =
     [(''ComputeBudget'', []),
      (''Multisig'',
        [Text ''Program log: Instruction: Execute'',
         Call ''Iron'' [Data (sample_encode (emit sample_hash event)), Call ''Token'' [Data ''AAAA''],
                        Data (sample_encode (emit sample_hash event))]])]"

lemma sample_wf_transaction: "wf_transaction (sample_transaction event)"
proof -
  have "quiet ''Program log: Instruction: Execute''"
    by (simp add: quiet_def parse_invoke_def strip_prefix_def starts_with_def ends_with_def)
  moreover have "base64_text ''AAAA''"
    by (simp add: base64_text_def numeral_eq_Suc)
  ultimately show ?thesis
    by (simp add: wf_transaction_def sample_transaction_def base64_text_sample key_text_def)
qed

lemma sample_logged:
  "map (\<lambda>(p, es). logged ''Iron'' p (Call p es)) (sample_transaction event) =
     map (map (event_line sample_hash sample_encode)) [[], [event, event]]"
  by (simp add: sample_transaction_def event_line_def)

lemma sample_hash_length: "length (sample_hash x) = 32"
  by (simp add: sample_hash_def)

lemma sample_scan:
  "extract_events sample_hash sample_base64 signature slot block_time
     (transaction_logs (sample_transaction event)) ''Iron'' =
   [Inr (observed signature slot block_time 1 0 event), Inr (observed signature slot block_time 1 1 event)]"
  unfolding extract_transaction [OF sample_wf_transaction] sample_logged numbered_map
    observe_event_line [OF sample_hash_length sample_hash_inj sample_base64_encode]
  by simp

theorem extract_exact_witness:
  "extract_events sample_hash sample_base64 ''sig'' 42 None
     (transaction_logs (sample_transaction (VaultPauseUpdated 1 13 4 True))) ''Iron'' =
   [Inr (observed ''sig'' 42 None 1 0 (VaultPauseUpdated 1 13 4 True)),
    Inr (observed ''sig'' 42 None 1 1 (VaultPauseUpdated 1 13 4 True))]"
  using extract_exact [OF sample_wf_transaction sample_hash_length sample_hash_inj sample_base64_encode sample_logged]
  by simp

section \<open>Positions\<close>

text \<open>The decoded events of a scan, and the order of their positions.\<close>

definition oks :: "('e + 'a) list \<Rightarrow> 'a list" where
  "oks xs = concat (map (case_sum (\<lambda>_. []) (\<lambda>x. [x])) xs)"

lemma oks_simps [simp]: "oks [] = []" "oks (Inl e # xs) = oks xs" "oks (Inr x # xs) = x # oks xs"
  "oks (xs @ ys) = oks xs @ oks ys"
  by (simp_all add: oks_def)

definition earlier :: "observed_event \<Rightarrow> observed_event \<Rightarrow> bool" where
  "earlier a b \<longleftrightarrow>
     id_instruction_index (ob_id a) < id_instruction_index (ob_id b) \<or>
     id_instruction_index (ob_id a) = id_instruction_index (ob_id b) \<and>
     id_event_index (ob_id a) < id_event_index (ob_id b)"

definition current_index :: "scan \<Rightarrow> u32" where
  "current_index s = (if sint (sc_instruction_index s) < 0 then 0 else sc_instruction_index s)"

definition below :: "u32 \<Rightarrow> (u32 \<rightharpoonup> u32) \<Rightarrow> observed_event \<Rightarrow> bool" where
  "below index indexes x \<longleftrightarrow>
     id_instruction_index (ob_id x) < index \<or>
     id_instruction_index (ob_id x) = index \<and> (\<exists>m. indexes index = Some m \<and> id_event_index (ob_id x) < m)"

definition scan_inv :: "string \<Rightarrow> nat \<Rightarrow> scan \<Rightarrow> bool" where
  "scan_inv signature n s \<longleftrightarrow>
     (\<exists>k \<le> n. sc_instruction_index s = word_of_int (int k - 1)) \<and>
     (\<forall>i m. sc_event_indexes s i = Some m \<longrightarrow> unat m \<le> n) \<and>
     (\<forall>x \<in> set (oks (sc_output s)).
        below (current_index s) (sc_event_indexes s) x \<and> id_transaction_signature (ob_id x) = signature) \<and>
     sorted_wrt earlier (oks (sc_output s))"

lemma current_index_of:
  assumes "sc_instruction_index s = word_of_int (int k - 1)" "k < 2 ^ 31"
  shows "current_index s = of_nat (k - 1)"
proof (cases k)
  case (Suc j)
  then have "sc_instruction_index s = of_nat j" "0 \<le> sint (of_nat j :: i32)"
    using assms by (simp_all add: sint_of_nat_i32)
  with Suc show ?thesis
    by (simp add: current_index_def)
qed (use assms in \<open>simp add: current_index_def\<close>)

lemma of_nat_u32_mono: "i < j \<Longrightarrow> j < 2 ^ 31 \<Longrightarrow> (of_nat i :: u32) < of_nat j"
  by (simp add: word_less_nat_alt unat_of_nat)

lemma below_next:
  assumes "sc_instruction_index s = word_of_int (int k - 1)" "k + 1 < 2 ^ 31"
    and "below (current_index s) (sc_event_indexes s) x"
  shows "below (current_index (s\<lparr>sc_instruction_index := sc_instruction_index s + 1, sc_stack := st\<rparr>))
    (sc_event_indexes s) x"
proof (cases k)
  case 0
  with assms show ?thesis
    by (simp add: current_index_def)
next
  case (Suc j)
  let ?s = "s\<lparr>sc_instruction_index := sc_instruction_index s + 1, sc_stack := st\<rparr>"
  have "sc_instruction_index ?s = word_of_int (int (k + 1) - 1)"
    using assms(1) by simp
  then have "current_index ?s = of_nat (Suc j)" "current_index s = of_nat j"
    using current_index_of [of ?s "k + 1"] current_index_of [of s k] assms(1,2) Suc by simp_all
  moreover have "(of_nat j :: u32) < of_nat (Suc j)"
    using assms(2) Suc by (intro of_nat_u32_mono) simp_all
  ultimately show ?thesis
    using assms(3) unfolding below_def by (metis order_less_trans)
qed

lemma scan_data_inv:
  assumes inv: "scan_inv signature n s" and n: "n + 1 < 2 ^ 31"
    and obs: "\<And>i j l x. obs i j l = Inr x \<Longrightarrow> ob_id x =
      \<lparr>id_transaction_signature = signature, id_instruction_index = i, id_event_index = j\<rparr>"
  shows "scan_inv signature (n + 1) (scan_data obs l s)"
proof -
  define i where "i = current_index s"
  define j where "j = (case sc_event_indexes s i of None \<Rightarrow> 0 | Some m \<Rightarrow> m)"
  let ?s = "scan_data obs l s"
  have s: "sc_instruction_index ?s = sc_instruction_index s" "current_index ?s = i"
    "sc_event_indexes ?s = (sc_event_indexes s)(i \<mapsto> j + 1)" "sc_output ?s = sc_output s @ [obs i j l]"
    by (simp_all add: scan_data_def Let_def current_index_def i_def j_def)
  have "unat j \<le> n"
    using inv by (auto simp: j_def scan_inv_def split: option.splits)
  then have j: "unat (j + 1) = unat j + 1"
    using n by (simp add: unat_word_ariths)
  then have less: "j < j + 1"
    by (simp add: word_less_nat_alt)
  have old: "below i (sc_event_indexes ?s) x \<and> (id_instruction_index (ob_id x) < i \<or>
      id_instruction_index (ob_id x) = i \<and> id_event_index (ob_id x) < j)"
    if "x \<in> set (oks (sc_output s))" for x
    using that inv less by (auto simp: scan_inv_def below_def i_def j_def s(3) split: option.splits)
  have "sorted_wrt earlier (oks (sc_output ?s)) \<and>
      (\<forall>x \<in> set (oks (sc_output ?s)). below i (sc_event_indexes ?s) x \<and> id_transaction_signature (ob_id x) = signature)"
  proof (cases "obs i j l")
    case (Inl e)
    with inv old show ?thesis
      by (auto simp: s(4) scan_inv_def)
  next
    case (Inr x)
    have "sorted_wrt earlier (oks (sc_output s) @ [x])"
      using inv old obs [OF Inr] by (auto simp: scan_inv_def sorted_wrt_append earlier_def)
    moreover have "below i (sc_event_indexes ?s) x"
      using less obs [OF Inr] by (simp add: below_def s(3))
    ultimately show ?thesis
      using Inr inv old obs [OF Inr] by (auto simp: s(4) scan_inv_def)
  qed
  moreover have "\<exists>k \<le> n + 1. sc_instruction_index ?s = word_of_int (int k - 1)"
    using inv unfolding scan_inv_def s(1) by (meson le_SucI Suc_eq_plus1 le_add1 order_trans)
  moreover have "\<forall>k m. sc_event_indexes ?s k = Some m \<longrightarrow> unat m \<le> n + 1"
    using inv j \<open>unat j \<le> n\<close> by (auto simp: scan_inv_def s(3) intro: le_SucI)
  ultimately show ?thesis
    by (simp add: scan_inv_def s(2))
qed

lemma scan_inv_Suc: "scan_inv signature n s \<Longrightarrow> scan_inv signature (n + 1) s"
  unfolding scan_inv_def by (meson le_add1 order_trans)

lemma scan_inv_stack: "scan_inv signature n s \<Longrightarrow> scan_inv signature n (s\<lparr>sc_stack := st\<rparr>)"
  by (auto simp: scan_inv_def current_index_def)

lemma scan_inv_next:
  assumes "scan_inv signature n s" "n + 1 < 2 ^ 31"
  shows "scan_inv signature (n + 1)
    (s\<lparr>sc_instruction_index := sc_instruction_index s + 1, sc_stack := st\<rparr>)"
proof -
  from assms obtain k where k: "k \<le> n" "sc_instruction_index s = word_of_int (int k - 1)"
    by (auto simp: scan_inv_def)
  then have "sc_instruction_index s + 1 = word_of_int (int (k + 1) - 1)" "k + 1 \<le> n + 1"
    by simp_all
  then have "\<exists>k \<le> n + 1. sc_instruction_index s + 1 = word_of_int (int k - 1)"
    by blast
  moreover have "\<forall>x \<in> set (oks (sc_output s)).
      below (current_index (s\<lparr>sc_instruction_index := sc_instruction_index s + 1, sc_stack := st\<rparr>))
        (sc_event_indexes s) x \<and> id_transaction_signature (ob_id x) = signature"
    using assms below_next [OF k(2)] k(1) by (auto simp: scan_inv_def)
  moreover have "\<forall>i m. sc_event_indexes s i = Some m \<longrightarrow> unat m \<le> n + 1"
    using assms(1) by (auto simp: scan_inv_def intro: le_SucI)
  ultimately show ?thesis
    using assms(1) by (simp add: scan_inv_def)
qed

lemma scan_line_inv:
  assumes "scan_inv signature n s" "n + 1 < 2 ^ 31"
    and "\<And>i j l x. obs i j l = Inr x \<Longrightarrow> ob_id x =
      \<lparr>id_transaction_signature = signature, id_instruction_index = i, id_event_index = j\<rparr>"
  shows "scan_inv signature (n + 1) (scan_line obs me log s)"
  using scan_inv_next [OF assms(1,2)] scan_data_inv [OF assms] scan_inv_Suc [OF assms(1)]
    scan_inv_stack [OF scan_inv_Suc [OF assms(1)]]
  by (simp add: scan_line_def split: option.splits)

lemma fold_scan_inv:
  assumes "scan_inv signature n s" "n + length logs < 2 ^ 31"
    and "\<And>i j l x. obs i j l = Inr x \<Longrightarrow> ob_id x =
      \<lparr>id_transaction_signature = signature, id_instruction_index = i, id_event_index = j\<rparr>"
  shows "scan_inv signature (n + length logs) (fold (scan_line obs me) logs s)"
  using assms(1,2)
proof (induction logs arbitrary: n s)
  case (Cons l logs)
  then show ?case
    using Cons.IH [OF scan_line_inv [OF Cons.prems(1) _ assms(3)]] by simp
qed simp

lemma observe_id:
  "observe sha256 base64 signature slot block_time i j l = Inr x \<Longrightarrow> ob_id x =
     \<lparr>id_transaction_signature = signature, id_instruction_index = i, id_event_index = j\<rparr>"
  by (auto simp: observe_def split: sum.splits option.splits)

lemma extract_inv:
  assumes "length logs < 2 ^ 31"
  shows "\<exists>s. scan_inv signature (length logs) s \<and>
    extract_events sha256 base64 signature slot block_time logs me = sc_output s"
proof -
  have "scan_inv signature 0 scan_start"
    by (simp add: scan_inv_def scan_start_def)
  from fold_scan_inv [OF this _ observe_id] assms show ?thesis
    unfolding extract_events_def by fastforce
qed

lemma earlier_distinct: "sorted_wrt earlier xs \<Longrightarrow> distinct (map ob_id xs)"
  by (induction xs) (auto simp: earlier_def)

text \<open>
  C34. Whatever a transaction logs, hostile text included, the observer never gives two of its
  events the same identity: the positions it assigns increase strictly from event to event, all
  under the signature of the transaction.
\<close>

theorem event_ids_unique:
  assumes "length logs < 2 ^ 31"
    and "found = oks (extract_events sha256 base64 signature slot block_time logs me)"
  shows "sorted_wrt earlier found \<and> distinct (map ob_id found) \<and>
    (\<forall>x. x \<in> set found \<longrightarrow> id_transaction_signature (ob_id x) = signature)"
  using extract_inv [OF assms(1)] unfolding assms(2) scan_inv_def
  by (metis earlier_distinct)

theorem event_ids_unique_witness:
  "distinct (map ob_id (oks (extract_events sample_hash sample_base64 ''sig'' 42 None
     (transaction_logs (sample_transaction (VaultPauseUpdated 1 13 4 True))) ''Iron'')))"
  by (rule event_ids_unique [THEN conjunct2, THEN conjunct1])
     (simp_all add: transaction_logs_def sample_transaction_def)

section \<open>Log text that looks like a frame\<close>

text \<open>
  The scanner does not tell the runtime's bracket lines from text that programs log. A callee
  that logs a message ending in \<open>success\<close> makes it close one frame too many, and the event
  IronVault logs after that call is not seen: the hypothesis on quiet lines of the theorem above
  is needed.
\<close>

definition noisy_transaction :: "event \<Rightarrow> transaction" where
  "noisy_transaction event =
     [(''Iron'', [Call ''Token'' [Text ''Program log: hook success''],
                  Data (sample_encode (emit sample_hash event))])]"

lemma log_text_hides_event:
  "extract_events sample_hash sample_base64 signature slot block_time
     (transaction_logs (noisy_transaction event)) ''Iron'' = []"
proof -
  let ?line = "scan_line (observe sample_hash sample_base64 signature slot block_time) ''Iron''"
  let ?data = "''Program data: '' @ sample_encode (emit sample_hash event)"
  have "parse_invoke ?data = None"
    using base64_text_sample by (intro parse_invoke_needs_bracket) (auto simp: base64_text_def)
  then have data: "?line ?data s = s" if "sc_stack s = []" for s
    using that base64_text_sample data_line_no_success data_line_no_failure
    by (simp add: scan_line_def del: append_Cons)
  have note_line: "?line ''Program log: hook success'' s = s\<lparr>sc_stack := tl (sc_stack s)\<rparr>" for s
    by (simp add: scan_line_def parse_invoke_def strip_prefix_def starts_with_def ends_with_def)
  have keys: "key_text ''Iron''" "key_text ''Token''"
    by (simp_all add: key_text_def)
  note steps = scan_invoke_top [OF keys(1)] scan_invoke [OF keys(2), of "Suc (Suc 0)"] scan_success [OF keys(1)]
    scan_success [OF keys(2)]
  show ?thesis
    unfolding extract_events_def
    using steps data note_line
    by (simp add: transaction_logs_def noisy_transaction_def scan_start_def)
qed

end
