(* ===== verification/Store.thy ===== *)
theory Store
  imports Logs "HOL-Library.Product_Lexorder"
begin

text \<open>
  The observer's database (\<open>observer/src/database.rs\<close> on the schema of \<open>observer/migrations\<close>):
  the immutable events, three read models and the checkpoint. A table is a map from its
  primary key to its row; a statement that violates a constraint is an error, and an error
  rolls the transaction back. The columns \<open>observed_at\<close> and \<open>updated_at\<close>, which only the
  clock of the database server fills, are left out. Base58 and the JSON rendering of an event
  are parameters.
\<close>

section \<open>Tables\<close>

text \<open>\<open>INSERT ... ON CONFLICT DO NOTHING\<close> and \<open>UPDATE ... WHERE key = k AND ...\<close>.\<close>

definition insert_ignore :: "'k \<Rightarrow> 'r \<Rightarrow> ('k \<rightharpoonup> 'r) \<Rightarrow> ('k \<rightharpoonup> 'r)" where
  "insert_ignore k r t = (case t k of None \<Rightarrow> t(k \<mapsto> r) | Some _ \<Rightarrow> t)"

definition update_where :: "'k \<Rightarrow> ('r \<Rightarrow> bool) \<Rightarrow> ('r \<Rightarrow> 'r) \<Rightarrow> ('k \<rightharpoonup> 'r) \<Rightarrow> ('k \<rightharpoonup> 'r)" where
  "update_where k c f t = (case t k of None \<Rightarrow> t | Some r \<Rightarrow> if c r then t(k \<mapsto> f r) else t)"

text \<open>
  A position \<open>(slot, instruction_index, event_index)\<close>; SQL compares rows lexicographically, as
  the order on products does here.
\<close>

type_synonym position = "int \<times> int \<times> int"

record 'j event_row =
  pe_slot :: int
  pe_block_time :: "i64 option"
  pe_event_name :: string
  pe_schema_version :: int
  pe_payload :: 'j

text \<open>The columns \<open>last_slot\<close>, \<open>last_instruction_index\<close>, \<open>last_event_index\<close> and \<open>last_signature\<close>.\<close>

record last_seen =
  ls_slot :: int
  ls_instruction_index :: int
  ls_event_index :: int
  ls_signature :: string

definition last_position :: "last_seen \<Rightarrow> position" where
  "last_position l = (ls_slot l, ls_instruction_index l, ls_event_index l)"

record escrow_row =
  ew_escrow_token :: string
  ew_maker :: string
  ew_recipient :: string
  ew_mint :: string
  ew_amount :: u64
  ew_escrow_id :: u64
  ew_created_at :: i64
  ew_expires_at :: i64
  ew_status :: string
  ew_last :: last_seen

record vault_row =
  vw_namespace_authority :: string
  vw_authority :: string
  vw_guardian :: string
  vw_vault_id :: u64
  vw_paused :: bool
  vw_last :: last_seen

record request_row =
  rw_vault :: string
  rw_vault_asset :: string
  rw_proposer :: string
  rw_recipient_owner :: string
  rw_recipient_token_account :: string
  rw_mint :: string
  rw_withdrawal_id :: u64
  rw_amount :: u64
  rw_created_at :: i64
  rw_execute_after :: i64
  rw_expires_at :: i64
  rw_status :: string
  rw_last :: last_seen

record checkpoint_row =
  cp_slot :: int
  cp_transaction_signature :: string
  cp_instruction_index :: int
  cp_event_index :: int

definition checkpoint_position :: "checkpoint_row \<Rightarrow> position" where
  "checkpoint_position c = (cp_slot c, cp_instruction_index c, cp_event_index c)"

record 'j database =
  protocol_events :: "string \<times> int \<times> int \<rightharpoonup> 'j event_row"
  escrows :: "string \<rightharpoonup> escrow_row"
  vaults :: "string \<rightharpoonup> vault_row"
  withdrawal_requests :: "string \<rightharpoonup> request_row"
  sync_checkpoint :: "checkpoint_row option"

definition empty_database :: "'j database" where
  "empty_database =
     \<lparr>protocol_events = Map.empty, escrows = Map.empty, vaults = Map.empty,
      withdrawal_requests = Map.empty, sync_checkpoint = None\<rparr>"

section \<open>Statements\<close>

datatype store_error =
    SlotOverflow
  | InstructionOverflow
  | EventIndexOverflow
  | VersionOverflow
  | CheckViolation

text \<open>\<open>TryFrom\<close> of an unsigned integer for the signed integer of \<open>n\<close> bits.\<close>

definition try_signed :: "nat \<Rightarrow> 'a :: len word \<Rightarrow> int option" where
  "try_signed n x = (if uint x < 2 ^ (n - 1) then Some (uint x) else None)"

definition seen_at :: "position \<Rightarrow> string \<Rightarrow> last_seen" where
  "seen_at p signature =
     \<lparr>ls_slot = fst p, ls_instruction_index = fst (snd p), ls_event_index = snd (snd p),
      ls_signature = signature\<rparr>"

definition checkpoint_signature :: "'j database \<Rightarrow> string option" where
  "checkpoint_signature db = map_option cp_transaction_signature (sync_checkpoint db)"

definition update_escrow_status ::
    "string \<Rightarrow> string \<Rightarrow> position \<Rightarrow> string \<Rightarrow> 'j database \<Rightarrow> store_error + 'j database" where
  "update_escrow_status escrow status p signature db =
     (let newer = (\<lambda>r. last_position (ew_last r) < p) in
      ensure (case escrows db escrow of None \<Rightarrow> True
              | Some r \<Rightarrow> newer r \<longrightarrow> status \<in> {''funded'', ''released'', ''refunded''}) CheckViolation
      (Inr (db\<lparr>escrows := update_where escrow newer
                 (\<lambda>r. r\<lparr>ew_status := status, ew_last := seen_at p signature\<rparr>) (escrows db)\<rparr>)))"

definition update_withdrawal_status ::
    "string \<Rightarrow> string \<Rightarrow> position \<Rightarrow> string \<Rightarrow> 'j database \<Rightarrow> store_error + 'j database" where
  "update_withdrawal_status request_key status p signature db =
     (let newer = (\<lambda>r. last_position (rw_last r) < p) in
      ensure (case withdrawal_requests db request_key of None \<Rightarrow> True
              | Some r \<Rightarrow> newer r \<longrightarrow> status \<in> {''pending'', ''executed'', ''cancelled''}) CheckViolation
      (Inr (db\<lparr>withdrawal_requests := update_where request_key newer
                 (\<lambda>r. r\<lparr>rw_status := status, rw_last := seen_at p signature\<rparr>) (withdrawal_requests db)\<rparr>)))"

fun apply_projection ::
    "(pubkey \<Rightarrow> string) \<Rightarrow> event \<Rightarrow> position \<Rightarrow> string \<Rightarrow> 'j database \<Rightarrow> store_error + 'j database" where
  "apply_projection base58 (EscrowCreated _ escrow token maker recipient mint amount created expires i) p signature db =
     ensure (0 < amount) CheckViolation
     (Inr (db\<lparr>escrows := insert_ignore (base58 escrow)
        \<lparr>ew_escrow_token = base58 token, ew_maker = base58 maker, ew_recipient = base58 recipient,
         ew_mint = base58 mint, ew_amount = amount, ew_escrow_id = i, ew_created_at = created,
         ew_expires_at = expires, ew_status = ''funded'', ew_last = seen_at p signature\<rparr> (escrows db)\<rparr>))"
| "apply_projection base58 (EscrowReleased _ escrow _ _ _ _ _ _) p signature db =
     update_escrow_status (base58 escrow) ''released'' p signature db"
| "apply_projection base58 (EscrowRefunded _ escrow _ _ _ _ _ _) p signature db =
     update_escrow_status (base58 escrow) ''refunded'' p signature db"
| "apply_projection base58 (VaultCreated _ vault namespace authority guardian i) p signature db =
     Inr (db\<lparr>vaults := insert_ignore (base58 vault)
        \<lparr>vw_namespace_authority = base58 namespace, vw_authority = base58 authority,
         vw_guardian = base58 guardian, vw_vault_id = i, vw_paused = False,
         vw_last = seen_at p signature\<rparr> (vaults db)\<rparr>)"
| "apply_projection base58 (VaultAuthorityUpdated _ vault _ authority) p signature db =
     Inr (db\<lparr>vaults := update_where (base58 vault) (\<lambda>r. last_position (vw_last r) < p)
        (\<lambda>r. r\<lparr>vw_authority := base58 authority, vw_last := seen_at p signature\<rparr>) (vaults db)\<rparr>)"
| "apply_projection base58 (VaultPauseUpdated _ vault _ paused) p signature db =
     Inr (db\<lparr>vaults := update_where (base58 vault) (\<lambda>r. last_position (vw_last r) < p)
        (\<lambda>r. r\<lparr>vw_paused := paused, vw_last := seen_at p signature\<rparr>) (vaults db)\<rparr>)"
| "apply_projection base58
     (WithdrawalRequested _ vault asset request_key proposer owner token mint i amount created execute_after expires)
     p signature db =
     ensure (0 < amount) CheckViolation
     (Inr (db\<lparr>withdrawal_requests := insert_ignore (base58 request_key)
        \<lparr>rw_vault = base58 vault, rw_vault_asset = base58 asset, rw_proposer = base58 proposer,
         rw_recipient_owner = base58 owner, rw_recipient_token_account = base58 token,
         rw_mint = base58 mint, rw_withdrawal_id = i, rw_amount = amount, rw_created_at = created,
         rw_execute_after = execute_after, rw_expires_at = expires, rw_status = ''pending'',
         rw_last = seen_at p signature\<rparr> (withdrawal_requests db)\<rparr>))"
| "apply_projection base58 (WithdrawalExecuted _ _ _ request_key _ _ _ _ _) p signature db =
     update_withdrawal_status (base58 request_key) ''executed'' p signature db"
| "apply_projection base58 (WithdrawalCancelled _ _ request_key _ _ _) p signature db =
     update_withdrawal_status (base58 request_key) ''cancelled'' p signature db"
| "apply_projection base58 _ p signature db = Inr db"

definition checkpoint_at :: "position \<Rightarrow> string \<Rightarrow> checkpoint_row" where
  "checkpoint_at p signature =
     \<lparr>cp_slot = fst p, cp_transaction_signature = signature, cp_instruction_index = fst (snd p),
      cp_event_index = snd (snd p)\<rparr>"

definition update_checkpoint :: "position \<Rightarrow> string \<Rightarrow> 'j database \<Rightarrow> 'j database" where
  "update_checkpoint p signature db =
     db\<lparr>sync_checkpoint :=
       (case sync_checkpoint db of
          None \<Rightarrow> Some (checkpoint_at p signature)
        | Some old \<Rightarrow> if checkpoint_position old < p then Some (checkpoint_at p signature) else Some old)\<rparr>"

text \<open>
  The first statement of \<open>persist\<close>: the \<open>CHECK\<close> on the schema version comes before the conflict
  test (the other checks of the table hold for converted values); the result says whether a
  row was inserted.
\<close>

definition insert_event ::
    "(event \<Rightarrow> 'j) \<Rightarrow> observed_event \<Rightarrow> position \<Rightarrow> int \<Rightarrow> 'j database \<Rightarrow> store_error + bool \<times> 'j database" where
  "insert_event payload x p version db =
     (let key = (id_transaction_signature (ob_id x), snd p) in
      ensure (0 < version) CheckViolation
      (Inr (protocol_events db key = None,
            db\<lparr>protocol_events := insert_ignore key
              \<lparr>pe_slot = fst p, pe_block_time = ob_block_time x,
               pe_event_name = stringify (name_of (ob_event x)), pe_schema_version = version,
               pe_payload = payload (ob_event x)\<rparr> (protocol_events db)\<rparr>)))"

definition persist ::
    "(pubkey \<Rightarrow> string) \<Rightarrow> (event \<Rightarrow> 'j) \<Rightarrow> observed_event \<Rightarrow> 'j database \<Rightarrow> store_error + bool \<times> 'j database" where
  "persist base58 payload x db =
     and_then (ok_or (try_signed 64 (ob_slot x)) SlotOverflow) (\<lambda>slot.
     and_then (ok_or (try_signed 32 (id_instruction_index (ob_id x))) InstructionOverflow) (\<lambda>instruction.
     and_then (ok_or (try_signed 32 (id_event_index (ob_id x))) EventIndexOverflow) (\<lambda>event_index.
     and_then (ok_or (try_signed 16 (ev_version (ob_event x))) VersionOverflow) (\<lambda>version.
     let p = (slot, instruction, event_index); signature = id_transaction_signature (ob_id x) in
     and_then (insert_event payload x p version db) (\<lambda>(inserted, db1).
     and_then (if inserted then apply_projection base58 (ob_event x) p signature db1 else Inr db1) (\<lambda>db2.
     Inr (inserted, update_checkpoint p signature db2)))))))"

text \<open>Storing a sequence; the first error stops it.\<close>

fun put_all :: "('x \<Rightarrow> 'd \<Rightarrow> 'e + bool \<times> 'd) \<Rightarrow> 'x list \<Rightarrow> 'd \<Rightarrow> 'e + 'd" where
  "put_all put [] d = Inr d"
| "put_all put (x # xs) d = and_then (put x d) (\<lambda>(_, d'). put_all put xs d')"

lemma put_all_append: "put_all put (xs @ ys) d = and_then (put_all put xs d) (put_all put ys)"
  by (induction xs arbitrary: d) (auto simp: and_then_def split: sum.splits)

section \<open>Conversions\<close>

text \<open>The position and key of an event, and when its numbers fit the columns.\<close>

definition position_of :: "observed_event \<Rightarrow> position" where
  "position_of x =
     (uint (ob_slot x), uint (id_instruction_index (ob_id x)), uint (id_event_index (ob_id x)))"

definition key_of :: "observed_event \<Rightarrow> string \<times> int \<times> int" where
  "key_of x = (id_transaction_signature (ob_id x), snd (position_of x))"

definition storable :: "observed_event \<Rightarrow> bool" where
  "storable x \<longleftrightarrow> uint (ob_slot x) < 2 ^ 63 \<and> uint (id_instruction_index (ob_id x)) < 2 ^ 31
     \<and> uint (id_event_index (ob_id x)) < 2 ^ 31
     \<and> 0 < uint (ev_version (ob_event x)) \<and> uint (ev_version (ob_event x)) < 2 ^ 15"

definition with_event :: "(event \<Rightarrow> 'j) \<Rightarrow> observed_event \<Rightarrow> 'j database \<Rightarrow> 'j database" where
  "with_event payload x db = db\<lparr>protocol_events := insert_ignore (key_of x)
     \<lparr>pe_slot = fst (position_of x), pe_block_time = ob_block_time x,
      pe_event_name = stringify (name_of (ob_event x)),
      pe_schema_version = uint (ev_version (ob_event x)),
      pe_payload = payload (ob_event x)\<rparr> (protocol_events db)\<rparr>"

lemma key_of_inject: "key_of x = key_of y \<longleftrightarrow> ob_id x = ob_id y"
  by (cases "ob_id x"; cases "ob_id y") (simp add: key_of_def position_of_def word_uint_eq_iff)

lemma insert_ignore_idem: "t k \<noteq> None \<Longrightarrow> insert_ignore k r t = t"
  by (auto simp: insert_ignore_def)

lemma insert_ignore_apply:
  "insert_ignore k r t j = (if j = k \<and> t k = None then Some r else t j)"
  by (auto simp: insert_ignore_def split: option.splits)

lemma update_where_apply:
  "update_where k c f t j =
     (if j = k then (case t k of None \<Rightarrow> None | Some r \<Rightarrow> Some (if c r then f r else r)) else t j)"
  by (auto simp: update_where_def split: option.splits)

lemma with_event_idem: "protocol_events db (key_of x) \<noteq> None \<Longrightarrow> with_event payload x db = db"
  by (simp add: with_event_def insert_ignore_idem)

lemma persist_storable:
  assumes "storable x"
  shows "persist base58 payload x db =
    (if protocol_events db (key_of x) = None
     then and_then (apply_projection base58 (ob_event x) (position_of x) (fst (key_of x)) (with_event payload x db))
       (\<lambda>db'. Inr (True, update_checkpoint (position_of x) (fst (key_of x)) db'))
     else Inr (False, update_checkpoint (position_of x) (fst (key_of x)) db))"
proof (cases "protocol_events db (key_of x)")
  case None
  with assms show ?thesis
    by (simp add: storable_def persist_def try_signed_def insert_event_def Let_def key_of_def
        position_of_def with_event_def cong del: and_then_cong)
next
  case (Some r)
  with assms show ?thesis
    using with_event_idem [of db x payload]
    by (simp add: storable_def persist_def try_signed_def insert_event_def Let_def key_of_def
        position_of_def with_event_def cong del: and_then_cong)
qed

lemma persist_Inr_storable: "persist base58 payload x db = Inr r \<Longrightarrow> storable x"
  by (auto simp: persist_def try_signed_def insert_event_def storable_def Let_def success_iff split: if_splits)

lemma apply_projection_frame:
  "apply_projection base58 event p signature db = Inr db' \<Longrightarrow>
     protocol_events db' = protocol_events db \<and> sync_checkpoint db' = sync_checkpoint db"
  by (cases event) (auto simp: update_escrow_status_def update_withdrawal_status_def Let_def success_iff)

lemma update_checkpoint_frame [simp]:
  "protocol_events (update_checkpoint p signature db) = protocol_events db"
  "escrows (update_checkpoint p signature db) = escrows db"
  "vaults (update_checkpoint p signature db) = vaults db"
  "withdrawal_requests (update_checkpoint p signature db) = withdrawal_requests db"
  by (simp_all add: update_checkpoint_def)

lemma with_event_frame [simp]:
  "escrows (with_event payload x db) = escrows db"
  "vaults (with_event payload x db) = vaults db"
  "withdrawal_requests (with_event payload x db) = withdrawal_requests db"
  "sync_checkpoint (with_event payload x db) = sync_checkpoint db"
  by (simp_all add: with_event_def)

text \<open>What one \<open>persist\<close> does to the event table and the checkpoint.\<close>

lemma persist_Inr:
  assumes "persist base58 payload x db = Inr (inserted, db')"
  shows "storable x"
    and "inserted \<longleftrightarrow> protocol_events db (key_of x) = None"
    and "protocol_events db' = protocol_events (with_event payload x db)"
    and "sync_checkpoint db' = sync_checkpoint (update_checkpoint (position_of x) (fst (key_of x)) db)"
  using persist_Inr_storable [OF assms] assms
  by (auto simp: persist_storable success_iff update_checkpoint_def Let_def with_event_idem
      dest!: apply_projection_frame split: if_splits)

section \<open>Replay\<close>

text \<open>
  The contract the rest of the observer relies on: what was stored is recorded, stays recorded
  whatever is stored later, and storing it again changes nothing.
\<close>

locale replay_store =
  fixes put :: "'x \<Rightarrow> 'd \<Rightarrow> 'e + bool \<times> 'd" and recorded :: "'x \<Rightarrow> 'd \<Rightarrow> bool"
  assumes put_records: "put x d = Inr (b, d') \<Longrightarrow> recorded x d'"
    and put_keeps: "put x d = Inr (b, d') \<Longrightarrow> recorded y d \<Longrightarrow> recorded y d'"
    and put_again: "recorded x d \<Longrightarrow> put x d = Inr (False, d)"
begin

lemma put_all_keeps: "put_all put xs d = Inr d' \<Longrightarrow> recorded y d \<Longrightarrow> recorded y d'"
  by (induction xs arbitrary: d) (auto simp: success_iff dest: put_keeps)

lemma put_all_records: "put_all put xs d = Inr d' \<Longrightarrow> x \<in> set xs \<Longrightarrow> recorded x d'"
  by (induction xs arbitrary: d) (auto simp: success_iff dest: put_records put_all_keeps)

lemma put_all_again: "(\<And>x. x \<in> set xs \<Longrightarrow> recorded x d) \<Longrightarrow> put_all put (xs @ ys) d = put_all put ys d"
  by (induction xs) (simp_all add: put_again)

lemma run_twice: "put_all put xs d = Inr d' \<Longrightarrow> put_all put (xs @ ys) d' = put_all put (xs @ ys) d"
  using put_all_again [of xs d' ys] put_all_records [of xs d d'] by (simp add: put_all_append)

lemma interrupted:
  assumes "put_all put xs d = Inr d1" "put_all put ys d1 = Inr d2" "xs @ us = ys @ vs"
  shows "\<exists>ws rest. ws @ rest = ys @ vs \<and> put_all put ws d = Inr d2"
proof (cases "length xs \<le> length ys")
  case True
  with assms(3) obtain zs where "ys = xs @ zs"
    by (auto simp: append_eq_append_conv2)
  then show ?thesis
    using run_twice [OF assms(1), of zs] assms(2) by (intro exI [of _ ys] exI [of _ vs]) simp
next
  case False
  with assms(3) obtain zs where "xs = ys @ zs"
    by (auto simp: append_eq_append_conv2)
  then have "put_all put (ys @ []) d1 = put_all put [] d1"
    by (intro put_all_again put_all_records [OF assms(1)]) simp
  then show ?thesis
    using assms by (intro exI [of _ xs] exI [of _ us]) simp
qed

lemma replay: "put_all put xs d = Inr d' \<Longrightarrow> set ys \<subseteq> set xs \<Longrightarrow> put_all put (ys @ zs) d' = put_all put zs d'"
  by (rule put_all_again) (auto intro: put_all_records)

end

definition recorded :: "observed_event \<Rightarrow> 'j database \<Rightarrow> bool" where
  "recorded x db \<longleftrightarrow> storable x \<and> protocol_events db (key_of x) \<noteq> None
     \<and> (\<exists>c. sync_checkpoint db = Some c \<and> position_of x \<le> checkpoint_position c)"

lemma position_at [simp]:
  "checkpoint_position (checkpoint_at p signature) = p" "last_position (seen_at p signature) = p"
  by (simp_all add: checkpoint_position_def checkpoint_at_def last_position_def seen_at_def)

lemma checkpoint_grows:
  assumes "sync_checkpoint (update_checkpoint p signature db) = Some c"
  shows "p \<le> checkpoint_position c"
    and "sync_checkpoint db = Some c' \<Longrightarrow> checkpoint_position c' \<le> checkpoint_position c"
  using assms by (auto simp: update_checkpoint_def split: option.splits if_splits)

lemma update_checkpoint_idem:
  assumes "sync_checkpoint db = Some c" "p \<le> checkpoint_position c"
  shows "update_checkpoint p signature db = db"
proof -
  have "\<not> checkpoint_position c < p"
    using assms(2) by (simp add: not_less)
  with assms(1) show ?thesis
    by (simp add: update_checkpoint_def)
qed

lemma update_checkpoint_Some: "\<exists>c. sync_checkpoint (update_checkpoint p signature db) = Some c"
  by (auto simp: update_checkpoint_def split: option.splits)

interpretation db: replay_store "persist base58 payload" recorded for base58 payload
proof (unfold_locales, goal_cases)
  case (1 x d b d')
  then show ?case
    using persist_Inr [OF 1] update_checkpoint_Some [of "position_of x" "fst (key_of x)" d]
    by (auto simp: recorded_def with_event_def insert_ignore_apply dest: checkpoint_grows)
next
  case (2 x d b d' y)
  from update_checkpoint_Some obtain c where
    c: "sync_checkpoint (update_checkpoint (position_of x) (fst (key_of x)) d) = Some c"
    by blast
  from 2 show ?case
    using persist_Inr [OF 2(1)] c checkpoint_grows(2) [OF c]
    by (fastforce simp: recorded_def with_event_def insert_ignore_apply)
next
  case (3 x d)
  then obtain c where "storable x" "protocol_events d (key_of x) \<noteq> None"
      "sync_checkpoint d = Some c" "position_of x \<le> checkpoint_position c"
    by (auto simp: recorded_def)
  then show ?case
    by (auto simp: persist_storable update_checkpoint_idem)
qed

text \<open>
  C29. Delivery is at least once, storage is exactly once: when a sequence of events has been
  stored, in whatever state the database was before, storing any of them again, any number of
  times and in any order, reports no insertion and changes no table and not the checkpoint, so a
  replay before new events has the effect of the new events alone.
\<close>

theorem replay_changes_nothing:
  assumes "put_all (persist base58 payload) xs db = Inr db'" "set ys \<subseteq> set xs"
  shows "(\<forall>x. x \<in> set xs \<longrightarrow> persist base58 payload x db' = Inr (False, db'))
    \<and> put_all (persist base58 payload) (ys @ zs) db' = put_all (persist base58 payload) zs db'"
  using db.put_all_records [OF assms(1)] db.put_again db.replay [OF assms] by blast

definition sample_stored :: observed_event where
  "sample_stored = observed ''sig'' 42 None 1 0 (VaultPauseUpdated 1 13 4 True)"

lemma sample_stored_runs:
  "\<exists>db. put_all (persist base58 payload) [sample_stored] empty_database = Inr db"
proof -
  have "storable sample_stored"
    by (simp add: sample_stored_def storable_def observed_def)
  then show ?thesis
    by (simp add: persist_storable empty_database_def sample_stored_def observed_def)
qed

theorem replay_changes_nothing_witness:
  "\<exists>db. put_all (persist (\<lambda>_. ''k'') (\<lambda>_. ())) [sample_stored] empty_database = Inr db
     \<and> persist (\<lambda>_. ''k'') (\<lambda>_. ()) sample_stored db = Inr (False, db)"
proof -
  obtain db where "put_all (persist (\<lambda>_. ''k'') (\<lambda>_. ())) [sample_stored] empty_database = Inr db"
    using sample_stored_runs by blast
  with replay_changes_nothing [OF this, of "[]"] show ?thesis
    by auto
qed

section \<open>Errors\<close>

fun zero_amount :: "event \<Rightarrow> bool" where
  "zero_amount (EscrowCreated _ _ _ _ _ _ amount _ _ _) \<longleftrightarrow> amount = 0"
| "zero_amount (WithdrawalRequested _ _ _ _ _ _ _ _ _ amount _ _ _) \<longleftrightarrow> amount = 0"
| "zero_amount _ \<longleftrightarrow> False"

lemma projection_fails_iff:
  "(\<exists>e. apply_projection base58 event p signature db = Inl e) \<longleftrightarrow> zero_amount event"
  by (cases event) (auto simp: update_escrow_status_def update_withdrawal_status_def Let_def ensure_Inl_iff
      word_neq_0_conv [symmetric] split: option.splits)

lemma persist_succeeds:
  assumes "storable x" "\<not> zero_amount (ob_event x)"
  shows "\<exists>b db'. persist base58 payload x db = Inr (b, db')"
proof -
  obtain db' where "apply_projection base58 (ob_event x) (position_of x) (fst (key_of x)) (with_event payload x db) = Inr db'"
    using projection_fails_iff [of base58 "ob_event x"] assms(2) by (metis sum.exhaust)
  with assms(1) show ?thesis
    by (auto simp: persist_storable)
qed

lemma stores_succeed:
  assumes "\<And>x. x \<in> set xs \<Longrightarrow> storable x \<and> \<not> zero_amount (ob_event x)"
  shows "\<exists>db'. put_all (persist base58 payload) xs db = Inr db'"
  using assms
proof (induction xs arbitrary: db)
  case (Cons x xs)
  then obtain b db1 where "persist base58 payload x db = Inr (b, db1)"
    using persist_succeeds [of x base58 payload db] by auto
  with Cons show ?case
    by simp
qed simp

text \<open>
  C38. When storing fails: exactly when the slot, an index or the schema version does not fit its
  column, the version is zero, or a new escrow or request has amount zero. Every other event is
  stored, whatever the tables hold.
\<close>

theorem persist_fails_iff:
  "(\<exists>e. persist base58 payload x db = Inl e) \<longleftrightarrow>
     \<not> storable x \<or> protocol_events db (key_of x) = None \<and> zero_amount (ob_event x)"
proof (cases "storable x")
  case True
  then show ?thesis
    using projection_fails_iff [of base58 "ob_event x" "position_of x" "fst (key_of x)" "with_event payload x db"]
    by (auto simp: persist_storable failure_iff)
next
  case False
  then show ?thesis
    using persist_Inr_storable by (metis sum.exhaust)
qed

theorem persist_fails_iff_witness:
  "(\<exists>e. persist (\<lambda>_. ''k'') (\<lambda>_. ()) (sample_stored\<lparr>ob_slot := 2 ^ 63\<rparr>) empty_database = Inl e)
   \<and> \<not> (\<exists>e. persist (\<lambda>_. ''k'') (\<lambda>_. ()) sample_stored empty_database = Inl e)"
  unfolding persist_fails_iff by (simp add: storable_def sample_stored_def observed_def)

section \<open>The checkpoint\<close>

definition next_checkpoint :: "observed_event \<Rightarrow> checkpoint_row option \<Rightarrow> checkpoint_row option" where
  "next_checkpoint x c =
     (case c of
        None \<Rightarrow> Some (checkpoint_at (position_of x) (fst (key_of x)))
      | Some old \<Rightarrow> if checkpoint_position old < position_of x
                    then Some (checkpoint_at (position_of x) (fst (key_of x))) else Some old)"

lemma next_checkpoint_simps [simp]:
  "next_checkpoint x None = Some (checkpoint_at (position_of x) (fst (key_of x)))"
  "next_checkpoint x (Some c) = (if checkpoint_position c < position_of x
     then Some (checkpoint_at (position_of x) (fst (key_of x))) else Some c)"
  by (simp_all add: next_checkpoint_def)

lemma put_all_checkpoint:
  "put_all (persist base58 payload) xs db = Inr db' \<Longrightarrow>
     sync_checkpoint db' = fold next_checkpoint xs (sync_checkpoint db)"
proof (induction xs arbitrary: db)
  case (Cons x xs)
  then obtain b db1 where "persist base58 payload x db = Inr (b, db1)"
      "put_all (persist base58 payload) xs db1 = Inr db'"
    by (auto simp: success_iff)
  moreover from this(1) have "sync_checkpoint db1 = next_checkpoint x (sync_checkpoint db)"
    using persist_Inr(4) by (fastforce simp: next_checkpoint_def update_checkpoint_def)
  ultimately show ?case
    using Cons.IH by simp
qed simp

lemma fold_checkpoint:
  assumes "xs \<noteq> []"
  shows "\<exists>x \<in> set xs. fold next_checkpoint xs None = Some (checkpoint_at (position_of x) (fst (key_of x)))
    \<and> (\<forall>y \<in> set xs. position_of y \<le> position_of x)"
  using assms
proof (induction xs rule: rev_induct)
  case (snoc x xs)
  show ?case
  proof (cases "xs = []")
    case False
    with snoc.IH obtain z where z: "z \<in> set xs" "\<forall>y \<in> set xs. position_of y \<le> position_of z"
        "fold next_checkpoint xs None = Some (checkpoint_at (position_of z) (fst (key_of z)))"
      by blast
    show ?thesis
    proof (cases "position_of z < position_of x")
      case True
      then have "\<forall>y \<in> set (xs @ [x]). position_of y \<le> position_of x"
        using z(2) by auto
      with True z(3) show ?thesis
        by auto
    next
      case False
      with z show ?thesis
        by auto
    qed
  qed simp
qed simp

text \<open>
  After any non-empty sequence of events the checkpoint is at the greatest position among
  them and names the transaction of an event at that position.
\<close>

theorem checkpoint_is_greatest:
  assumes "put_all (persist base58 payload) xs empty_database = Inr db" "xs \<noteq> []"
  shows "\<exists>x \<in> set xs. checkpoint_signature db = Some (id_transaction_signature (ob_id x))
    \<and> map_option checkpoint_position (sync_checkpoint db) = Some (position_of x)
    \<and> (\<forall>y \<in> set xs. position_of y \<le> position_of x)"
proof -
  from fold_checkpoint [OF assms(2)] put_all_checkpoint [OF assms(1)]
  obtain x where "x \<in> set xs" "sync_checkpoint db = Some (checkpoint_at (position_of x) (fst (key_of x)))"
      "\<forall>y \<in> set xs. position_of y \<le> position_of x"
    by (auto simp: empty_database_def)
  then show ?thesis
    by (intro bexI [of _ x]) (simp_all add: checkpoint_signature_def, simp add: checkpoint_at_def key_of_def)
qed

theorem checkpoint_is_greatest_witness:
  "\<exists>db. put_all (persist (\<lambda>_. ''k'') (\<lambda>_. ())) [sample_stored] empty_database = Inr db
     \<and> checkpoint_signature db = Some ''sig''"
proof -
  obtain db where "put_all (persist (\<lambda>_. ''k'') (\<lambda>_. ())) [sample_stored] empty_database = Inr db"
    using sample_stored_runs by blast
  with checkpoint_is_greatest [OF this] show ?thesis
    by (auto simp: sample_stored_def observed_def)
qed

end
