(* ===== verification/Runtime.thy ===== *)
theory Runtime
  imports State
begin

text \<open>
  The environment the program runs in: the account store, the accounts and signers
  a transaction supplies, and the checks Anchor performs for the account types and
  attributes the program declares. What the program calls outside its own sources
  (address derivation, rent and account creation, the token programs, the mint
  extension parser) is a \<open>runtime\<close> value, an argument of every operation; the laws
  a property needs of it are the locales at the end of this theory.
\<close>

section \<open>Accounts and the ledger\<close>

text \<open>
  Token-program state as far as IronVault or a transfer reads it. \<open>mi_tlv\<close> and \<open>ta_tlv\<close> are
  the extension areas of a Token-2022 mint and of a Token-2022 account in serialized form. IronVault
  refuses mints with extensions; it never looks at the extensions of an account, but the token
  program does (a destination that requires a memo, for instance, refuses a transfer without one).
\<close>

record mint =
  mi_decimals :: u8
  mi_tlv :: "u8 list"

record token_account =
  ta_mint :: pubkey
  ta_owner :: pubkey
  ta_amount :: u64
  ta_frozen :: bool
  ta_tlv :: "u8 list"

datatype account_data =
    ConfigData protocol_config
  | EscrowData escrow
  | VaultData vault
  | AssetData vault_asset
  | RoleData role_assignment
  | RequestData withdrawal_request
  | MintData mint
  | TokenData token_account
  | OtherData "u8 list"

text \<open>
  An account is its owning program and its data; an address that was never
  allocated is absent from the ledger.
\<close>

record account =
  acc_program :: pubkey
  acc_data :: account_data

type_synonym ledger = "pubkey \<rightharpoonup> account"

text \<open>The key of the program, \<open>declare_id!\<close> in \<open>lib.rs\<close>, and \<open>Pubkey::default()\<close>.\<close>

definition ID :: pubkey where
  "ID = 20205126326444989453216880274393495559513178202059097652681931464844975204373"

definition default_pubkey :: pubkey where
  "default_pubkey = 0"

text \<open>The key of the clock sysvar, \<open>SysvarC1ock11111111111111111111111111111111\<close>.\<close>

definition CLOCK_ID :: pubkey where
  "CLOCK_ID = 3512878167608208032457634246192321785897632024330188679557512800006"

text \<open>Program state, token accounts and mints in the ledger, and token balances.\<close>

abbreviation state_at :: "ledger \<Rightarrow> pubkey \<Rightarrow> account_data \<Rightarrow> bool" where
  "state_at L k d \<equiv> L k = Some \<lparr>acc_program = ID, acc_data = d\<rparr>"

abbreviation token_at :: "ledger \<Rightarrow> pubkey \<Rightarrow> pubkey \<Rightarrow> token_account \<Rightarrow> bool" where
  "token_at L k p ta \<equiv> L k = Some \<lparr>acc_program = p, acc_data = TokenData ta\<rparr>"

abbreviation mint_at :: "ledger \<Rightarrow> pubkey \<Rightarrow> pubkey \<Rightarrow> mint \<Rightarrow> bool" where
  "mint_at L k p m \<equiv> L k = Some \<lparr>acc_program = p, acc_data = MintData m\<rparr>"

definition token_balance :: "ledger \<Rightarrow> pubkey \<Rightarrow> nat" where
  "token_balance L k =
     (case L k of
        None \<Rightarrow> 0
      | Some a \<Rightarrow> (case acc_data a of TokenData ta \<Rightarrow> unat (ta_amount ta) | _ \<Rightarrow> 0))"

lemma token_balance_at [simp]: "token_at L k p ta \<Longrightarrow> token_balance L k = unat (ta_amount ta)"
  by (simp add: token_balance_def)

section \<open>The runtime\<close>

text \<open>A \<open>TransferChecked\<close> call: its accounts, the keys that sign it, its arguments.\<close>

record transfer =
  tr_program :: pubkey
  tr_from :: pubkey
  tr_mint :: pubkey
  tr_to :: pubkey
  tr_authority :: pubkey
  tr_signed :: bool
  tr_amount :: u64
  tr_decimals :: u8

record runtime =
  rt_token_id :: pubkey
  rt_token_2022_id :: pubkey
  rt_system_id :: pubkey
  rt_find_program_address :: "u8 list list \<Rightarrow> pubkey \<times> u8"
  rt_create_program_address :: "u8 list list \<Rightarrow> pubkey option"
  rt_pays_rent :: "pubkey \<Rightarrow> nat \<Rightarrow> bool"
  rt_token_account_space :: "pubkey \<Rightarrow> nat"
  rt_initialize_token_account :: "pubkey \<Rightarrow> pubkey \<Rightarrow> pubkey \<Rightarrow> nat + token_account"
  rt_extension_types :: "u8 list \<Rightarrow> nat + nat list"
  rt_transfer_checked :: "transfer \<Rightarrow> ledger \<Rightarrow> nat + ledger"

text \<open>What a transaction brings along: its signers, the clock, extra accounts.\<close>

record tx =
  tx_signers :: "pubkey set"
  tx_now :: i64
  tx_remaining_accounts :: "pubkey list"

section \<open>Account types\<close>

text \<open>\<open>Signer<'info>\<close>, \<open>Program<'info, System>\<close>, \<open>Interface<'info, TokenInterface>\<close>.\<close>

definition signer :: "tx \<Rightarrow> pubkey \<Rightarrow> unit result" where
  "signer t k = ensure (k \<in> tx_signers t) (Anchor AccountNotSigner) (Inr ())"

definition system_program :: "runtime \<Rightarrow> pubkey \<Rightarrow> unit result" where
  "system_program rt k = ensure (k = rt_system_id rt) (Anchor InvalidProgramId) (Inr ())"

definition token_interface :: "runtime \<Rightarrow> pubkey \<Rightarrow> unit result" where
  "token_interface rt k =
     ensure (k = rt_token_id rt \<or> k = rt_token_2022_id rt) (Anchor InvalidProgramId) (Inr ())"

text \<open>\<open>Sysvar<'info, Clock>\<close>: the account of the clock; its value is the time of the transaction.\<close>

definition sysvar_clock :: "pubkey \<Rightarrow> unit result" where
  "sysvar_clock k = ensure (k = CLOCK_ID) (Anchor AccountSysvarMismatch) (Inr ())"

text \<open>
  \<open>Account<'info, T>\<close>: owned by the program, with the discriminator of \<open>T\<close>; the view
  selects the data of type \<open>T\<close>. \<open>InterfaceAccount<'info, T>\<close>: owned by either token
  program; the owning program is returned with the data.
\<close>

definition load :: "(account_data \<Rightarrow> 'a option) \<Rightarrow> ledger \<Rightarrow> pubkey \<Rightarrow> 'a result" where
  "load view L k =
     (case L k of
        None \<Rightarrow> Inl (Anchor AccountNotInitialized)
      | Some a \<Rightarrow>
          ensure (acc_program a = ID) (Anchor AccountOwnedByWrongProgram)
            (ok_or (view (acc_data a)) (Anchor AccountDiscriminatorMismatch)))"

definition load_interface ::
    "runtime \<Rightarrow> (account_data \<Rightarrow> 'a option) \<Rightarrow> ledger \<Rightarrow> pubkey \<Rightarrow> (pubkey \<times> 'a) result" where
  "load_interface rt view L k =
     (case L k of
        None \<Rightarrow> Inl (Anchor AccountNotInitialized)
      | Some a \<Rightarrow>
          ensure (acc_program a = rt_token_id rt \<or> acc_program a = rt_token_2022_id rt)
            (Anchor AccountOwnedByWrongProgram)
            (and_then (ok_or (view (acc_data a)) (Anchor AccountDiscriminatorMismatch))
              (\<lambda>d. Inr (acc_program a, d))))"

fun config_of :: "account_data \<Rightarrow> protocol_config option" where
  "config_of (ConfigData c) = Some c"
| "config_of _ = None"

fun escrow_of :: "account_data \<Rightarrow> escrow option" where
  "escrow_of (EscrowData e) = Some e"
| "escrow_of _ = None"

fun vault_of :: "account_data \<Rightarrow> vault option" where
  "vault_of (VaultData v) = Some v"
| "vault_of _ = None"

fun asset_of :: "account_data \<Rightarrow> vault_asset option" where
  "asset_of (AssetData a) = Some a"
| "asset_of _ = None"

fun role_of :: "account_data \<Rightarrow> role_assignment option" where
  "role_of (RoleData r) = Some r"
| "role_of _ = None"

fun request_of :: "account_data \<Rightarrow> withdrawal_request option" where
  "request_of (RequestData w) = Some w"
| "request_of _ = None"

fun mint_of :: "account_data \<Rightarrow> mint option" where
  "mint_of (MintData m) = Some m"
| "mint_of _ = None"

fun token_of :: "account_data \<Rightarrow> token_account option" where
  "token_of (TokenData t) = Some t"
| "token_of _ = None"

section \<open>Account attributes\<close>

text \<open>
  \<open>seeds = [...], bump = b\<close> recomputes the address from the stored bump;
  \<open>seeds = [...], bump\<close> searches the canonical one, which \<open>ctx.bumps\<close> exposes.
\<close>

definition seeds_with_bump :: "runtime \<Rightarrow> pubkey \<Rightarrow> u8 list list \<Rightarrow> u8 \<Rightarrow> unit result" where
  "seeds_with_bump rt k seeds bump =
     ensure (rt_create_program_address rt (seeds @ [[bump]]) = Some k)
       (Anchor ConstraintSeeds) (Inr ())"

definition seeds_canonical :: "runtime \<Rightarrow> pubkey \<Rightarrow> u8 list list \<Rightarrow> u8 result" where
  "seeds_canonical rt k seeds =
     ensure (fst (rt_find_program_address rt seeds) = k)
       (Anchor ConstraintSeeds) (Inr (snd (rt_find_program_address rt seeds)))"

definition has_one :: "pubkey \<Rightarrow> pubkey \<Rightarrow> unit result" where
  "has_one stored k = ensure (stored = k) (Anchor ConstraintHasOne) (Inr ())"

definition constraint_raw :: "bool \<Rightarrow> unit result" where
  "constraint_raw c = ensure c (Anchor ConstraintRaw) (Inr ())"

text \<open>\<open>constraint = c @ IronVaultError::e\<close>, and \<open>require!(c, IronVaultError::e)\<close>.\<close>

definition constraint :: "bool \<Rightarrow> iron_vault_error \<Rightarrow> unit result" where
  "constraint c e = ensure c (IronVault e) (Inr ())"

definition require :: "bool \<Rightarrow> iron_vault_error \<Rightarrow> unit result" where
  "require c e = ensure c (IronVault e) (Inr ())"

text \<open>
  \<open>init, payer = p, space = n\<close> on a program account: the canonical address is unused,
  the payer funds it, and it becomes a zeroed account of the program. Returns the
  bump with the new ledger. \<open>init\<close> with \<open>token::mint\<close> and \<open>token::authority\<close> creates a
  token account at the canonical address.
\<close>

definition init_account ::
    "runtime \<Rightarrow> pubkey \<Rightarrow> nat \<Rightarrow> pubkey \<Rightarrow> u8 list list \<Rightarrow> ledger \<Rightarrow> (u8 \<times> ledger) result" where
  "init_account rt payer space k seeds L =
     and_then (seeds_canonical rt k seeds) (\<lambda>bump.
     ensure (L k = None) (Anchor AccountAlreadyInUse)
     (ensure (rt_pays_rent rt payer space) (External 1)
     (Inr (bump, L(k \<mapsto> \<lparr>acc_program = ID, acc_data = OtherData (replicate space 0)\<rparr>)))))"

definition init_token_account ::
    "runtime \<Rightarrow> pubkey \<Rightarrow> pubkey \<Rightarrow> u8 list list \<Rightarrow> pubkey \<Rightarrow> pubkey \<Rightarrow> pubkey \<Rightarrow> ledger
      \<Rightarrow> (u8 \<times> ledger) result" where
  "init_token_account rt payer k seeds token_program mint authority L =
     and_then (seeds_canonical rt k seeds) (\<lambda>bump.
     ensure (L k = None) (Anchor AccountAlreadyInUse)
     (ensure (rt_pays_rent rt payer (rt_token_account_space rt token_program)) (External 1)
     (and_then (map_err External (rt_initialize_token_account rt token_program mint authority)) (\<lambda>ta.
     Inr (bump, L(k \<mapsto> \<lparr>acc_program = token_program, acc_data = TokenData ta\<rparr>))))))"

text \<open>Writing a program account back when the instruction returns.\<close>

definition store :: "pubkey \<Rightarrow> account_data \<Rightarrow> ledger \<Rightarrow> ledger" where
  "store k d L = L(k \<mapsto> \<lparr>acc_program = ID, acc_data = d\<rparr>)"

text \<open>\<open>InterfaceAccount::reload\<close> of a token account, and its amount.\<close>

definition reload_amount :: "ledger \<Rightarrow> pubkey \<Rightarrow> u64 result" where
  "reload_amount L k =
     (case L k of
        None \<Rightarrow> Inl (Anchor AccountNotInitialized)
      | Some a \<Rightarrow>
          and_then (ok_or (token_of (acc_data a)) (Anchor AccountDiscriminatorMismatch))
            (\<lambda>t. Inr (ta_amount t)))"

text \<open>
  The two expressions of the handlers that can panic: a plain \<open>-\<close> on \<open>u64\<close> values panics when
  it underflows, and \<open>xs[i]\<close> panics when \<open>i\<close> is out of bounds. \<open>a.checked_add(b).ok_or(e)?\<close>
  fails with the error it names.
\<close>

definition index_or_panic :: "'a list \<Rightarrow> nat \<Rightarrow> 'a result" where
  "index_or_panic xs i = (if i < length xs then Inr (xs ! i) else Inl Panic)"

definition minus_u64 :: "u64 \<Rightarrow> u64 \<Rightarrow> u64 result" where
  "minus_u64 a b = ok_or (checked_sub_u64 a b) Panic"

definition add_u64_or :: "u64 \<Rightarrow> u64 \<Rightarrow> iron_vault_error \<Rightarrow> u64 result" where
  "add_u64_or a b e = ok_or (checked_add_u64 a b) (IronVault e)"

definition add_i64_or :: "i64 \<Rightarrow> i64 \<Rightarrow> iron_vault_error \<Rightarrow> i64 result" where
  "add_i64_or a b e = ok_or (checked_add_i64 a b) (IronVault e)"

text \<open>
  \<open>token_interface::transfer_checked\<close>. A key signs the call when it signed the
  transaction or when the signer seeds of \<open>CpiContext::new_with_signer\<close> derive it.
\<close>

definition cpi_signed :: "runtime \<Rightarrow> tx \<Rightarrow> u8 list list \<Rightarrow> pubkey \<Rightarrow> bool" where
  "cpi_signed rt t signer_seeds authority \<longleftrightarrow>
     authority \<in> tx_signers t
     \<or> (signer_seeds \<noteq> [] \<and> rt_create_program_address rt signer_seeds = Some authority)"

definition transfer_checked :: "runtime \<Rightarrow> transfer \<Rightarrow> ledger \<Rightarrow> ledger result" where
  "transfer_checked rt x L = map_err External (rt_transfer_checked rt x L)"

section \<open>Address seeds\<close>

text \<open>The seed lists of the program's derived addresses, as the attributes spell them.\<close>

definition protocol_seeds :: "u8 list list" where
  "protocol_seeds = [PROTOCOL_SEED]"

definition escrow_seeds :: "pubkey \<Rightarrow> u64 \<Rightarrow> u8 list list" where
  "escrow_seeds maker escrow_id = [ESCROW_SEED, pubkey_bytes maker, u64_le_bytes escrow_id]"

definition escrow_token_seeds :: "pubkey \<Rightarrow> u8 list list" where
  "escrow_token_seeds escrow = [ESCROW_TOKEN_SEED, pubkey_bytes escrow]"

definition vault_seeds :: "pubkey \<Rightarrow> u64 \<Rightarrow> u8 list list" where
  "vault_seeds namespace vault_id = [VAULT_SEED, pubkey_bytes namespace, u64_le_bytes vault_id]"

definition vault_asset_seeds :: "pubkey \<Rightarrow> pubkey \<Rightarrow> u8 list list" where
  "vault_asset_seeds vault mint = [VAULT_ASSET_SEED, pubkey_bytes vault, pubkey_bytes mint]"

definition vault_token_seeds :: "pubkey \<Rightarrow> pubkey \<Rightarrow> u8 list list" where
  "vault_token_seeds vault mint = [VAULT_TOKEN_SEED, pubkey_bytes vault, pubkey_bytes mint]"

definition role_seeds :: "pubkey \<Rightarrow> pubkey \<Rightarrow> u8 list list" where
  "role_seeds vault holder = [ROLE_SEED, pubkey_bytes vault, pubkey_bytes holder]"

definition withdrawal_seeds :: "pubkey \<Rightarrow> u64 \<Rightarrow> u8 list list" where
  "withdrawal_seeds vault withdrawal_id =
     [WITHDRAWAL_SEED, pubkey_bytes vault, u64_le_bytes withdrawal_id]"

section \<open>When validation succeeds\<close>

lemma signer_Inr_iff [success_iff]: "signer t k = Inr u \<longleftrightarrow> k \<in> tx_signers t"
  by (simp add: signer_def success_iff)

lemma system_program_Inr_iff [success_iff]: "system_program rt k = Inr u \<longleftrightarrow> k = rt_system_id rt"
  by (simp add: system_program_def success_iff)

lemma sysvar_clock_Inr_iff [success_iff]: "sysvar_clock k = Inr u \<longleftrightarrow> k = CLOCK_ID"
  by (simp add: sysvar_clock_def success_iff)

lemma token_interface_Inr_iff [success_iff]:
  "token_interface rt k = Inr u \<longleftrightarrow> k = rt_token_id rt \<or> k = rt_token_2022_id rt"
  by (simp add: token_interface_def success_iff)

lemma load_Inr_iff [success_iff]:
  "load view L k = Inr d \<longleftrightarrow> (\<exists>x. L k = Some \<lparr>acc_program = ID, acc_data = x\<rparr> \<and> view x = Some d)"
  by (auto simp: load_def success_iff split: option.splits) (metis account.surjective unit.exhaust)

lemma load_interface_Inr_iff [success_iff]:
  "load_interface rt view L k = Inr (p, d) \<longleftrightarrow>
     (p = rt_token_id rt \<or> p = rt_token_2022_id rt)
     \<and> (\<exists>x. L k = Some \<lparr>acc_program = p, acc_data = x\<rparr> \<and> view x = Some d)"
  by (auto simp: load_interface_def success_iff split: option.splits)
     (metis account.surjective unit.exhaust)+

lemma config_of_Some [success_iff]: "config_of x = Some c \<longleftrightarrow> x = ConfigData c"
  by (cases x) auto

lemma escrow_of_Some [success_iff]: "escrow_of x = Some c \<longleftrightarrow> x = EscrowData c"
  by (cases x) auto

lemma vault_of_Some [success_iff]: "vault_of x = Some c \<longleftrightarrow> x = VaultData c"
  by (cases x) auto

lemma asset_of_Some [success_iff]: "asset_of x = Some c \<longleftrightarrow> x = AssetData c"
  by (cases x) auto

lemma role_of_Some [success_iff]: "role_of x = Some c \<longleftrightarrow> x = RoleData c"
  by (cases x) auto

lemma request_of_Some [success_iff]: "request_of x = Some c \<longleftrightarrow> x = RequestData c"
  by (cases x) auto

lemma mint_of_Some [success_iff]: "mint_of x = Some c \<longleftrightarrow> x = MintData c"
  by (cases x) auto

lemma token_of_Some [success_iff]: "token_of x = Some c \<longleftrightarrow> x = TokenData c"
  by (cases x) auto

lemma seeds_with_bump_Inr_iff [success_iff]:
  "seeds_with_bump rt k seeds bump = Inr u \<longleftrightarrow>
     rt_create_program_address rt (seeds @ [[bump]]) = Some k"
  by (simp add: seeds_with_bump_def success_iff)

lemma seeds_canonical_Inr_iff [success_iff]:
  "seeds_canonical rt k seeds = Inr bump \<longleftrightarrow> rt_find_program_address rt seeds = (k, bump)"
  by (cases "rt_find_program_address rt seeds") (auto simp: seeds_canonical_def success_iff)

lemma has_one_Inr_iff [success_iff]: "has_one stored k = Inr u \<longleftrightarrow> stored = k"
  by (simp add: has_one_def success_iff)

lemma constraint_raw_Inr_iff [success_iff]: "constraint_raw c = Inr u \<longleftrightarrow> c"
  by (simp add: constraint_raw_def success_iff)

lemma constraint_Inr_iff [success_iff]: "constraint c e = Inr u \<longleftrightarrow> c"
  by (simp add: constraint_def success_iff)

lemma require_Inr_iff [success_iff]: "require c e = Inr u \<longleftrightarrow> c"
  by (simp add: require_def success_iff)

lemma init_account_Inr_iff [success_iff]:
  "init_account rt payer space k seeds L = Inr (bump, L') \<longleftrightarrow>
     rt_find_program_address rt seeds = (k, bump) \<and> L k = None \<and> rt_pays_rent rt payer space
     \<and> L' = L(k \<mapsto> \<lparr>acc_program = ID, acc_data = OtherData (replicate space 0)\<rparr>)"
  by (auto simp: init_account_def success_iff)

lemma init_token_account_Inr_iff [success_iff]:
  "init_token_account rt payer k seeds token_program mint authority L = Inr (bump, L') \<longleftrightarrow>
     rt_find_program_address rt seeds = (k, bump) \<and> L k = None
     \<and> rt_pays_rent rt payer (rt_token_account_space rt token_program)
     \<and> (\<exists>ta. rt_initialize_token_account rt token_program mint authority = Inr ta
          \<and> L' = L(k \<mapsto> \<lparr>acc_program = token_program, acc_data = TokenData ta\<rparr>))"
  by (auto simp: init_token_account_def success_iff)

lemma reload_amount_Inr_iff [success_iff]:
  "reload_amount L k = Inr n \<longleftrightarrow>
     (\<exists>p ta. L k = Some \<lparr>acc_program = p, acc_data = TokenData ta\<rparr> \<and> n = ta_amount ta)"
  by (auto simp: reload_amount_def success_iff split: option.splits)
     (metis account.surjective unit.exhaust)

lemma index_or_panic_Inr_iff [success_iff]:
  "index_or_panic xs i = Inr x \<longleftrightarrow> i < length xs \<and> x = xs ! i"
  by (auto simp: index_or_panic_def)

lemma minus_u64_Inr_iff [success_iff]: "minus_u64 a b = Inr c \<longleftrightarrow> b \<le> a \<and> c = a - b"
  by (simp add: minus_u64_def success_iff)

lemma add_u64_or_Inr_iff [success_iff]: "add_u64_or a b e = Inr c \<longleftrightarrow> unat c = unat a + unat b"
  by (simp add: add_u64_or_def success_iff)

lemma add_i64_or_Inr_iff [success_iff]: "add_i64_or a b e = Inr c \<longleftrightarrow> sint c = sint a + sint b"
  by (simp add: add_i64_or_def success_iff)

lemma transfer_checked_Inr_iff [success_iff]:
  "transfer_checked rt x L = Inr L' \<longleftrightarrow> rt_transfer_checked rt x L = Inr L'"
  by (simp add: transfer_checked_def success_iff)

end
