(* ===== verification/Security.thy ===== *)
theory Security
  imports Runtime
begin

text \<open>
  The shared checks of \<open>security/\<close>: protocol pause scopes, live role permissions and
  the mint extension policy, and the authorization pattern that the vault
  instructions build from them.
\<close>

unbundle bit_operations_syntax

section \<open>Pause\<close>

definition require_protocol_active :: "protocol_config \<Rightarrow> u32 \<Rightarrow> unit result" where
  "require_protocol_active config flag = require (\<not> is_paused config flag) ProtocolPaused"

lemma require_protocol_active_Inr_iff [success_iff]:
  "require_protocol_active config flag = Inr u \<longleftrightarrow> \<not> is_paused config flag"
  by (simp add: require_protocol_active_def success_iff)

section \<open>Role permissions\<close>

text \<open>
  An account that is absent from the ledger is owned by the system program, so it
  fails the ownership comparison.
\<close>

definition validate_role_permission ::
    "runtime \<Rightarrow> ledger \<Rightarrow> pubkey \<Rightarrow> pubkey \<Rightarrow> pubkey \<Rightarrow> u64 \<Rightarrow> unit result" where
  "validate_role_permission rt L role_info vault caller permission =
     (let expected_role = fst (rt_find_program_address rt (role_seeds vault caller)) in
      and_then (require (role_info = expected_role) MissingVaultPermission) (\<lambda>_.
      case L role_info of
        None \<Rightarrow> Inl (IronVault MissingVaultPermission)
      | Some info \<Rightarrow>
          and_then (require (acc_program info = ID) MissingVaultPermission) (\<lambda>_.
          and_then (ok_or (role_of (acc_data info)) (IronVault MissingVaultPermission)) (\<lambda>role.
          and_then (require (ra_vault role = vault) MissingVaultPermission) (\<lambda>_.
          and_then (require (ra_principal role = caller) MissingVaultPermission) (\<lambda>_.
          require (role_has role permission) MissingVaultPermission))))))"

lemma validate_role_permission_Inr_iff [success_iff]:
  "validate_role_permission rt L role_info vault caller permission = Inr u \<longleftrightarrow>
     role_info = fst (rt_find_program_address rt (role_seeds vault caller))
     \<and> (\<exists>role. L role_info = Some \<lparr>acc_program = ID, acc_data = RoleData role\<rparr>
          \<and> ra_vault role = vault \<and> ra_principal role = caller \<and> role_has role permission)"
  by (auto simp: validate_role_permission_def success_iff Let_def split: option.splits)
     (metis account.surjective unit.exhaust)

text \<open>Every failure of the role check is the same error: it discloses nothing else.\<close>

lemma validate_role_permission_cases:
  "validate_role_permission rt L role_info vault caller permission
     \<in> {Inr (), Inl (IronVault MissingVaultPermission)}"
  by (auto simp: validate_role_permission_def Let_def and_then_def require_def ensure_def ok_or_def
      split: option.splits sum.splits if_splits)

text \<open>
  The pattern shared by \<open>withdraw\<close>, \<open>update_limits\<close>, \<open>request_withdrawal\<close> and
  \<open>cancel_withdrawal\<close>: an intrinsic actor passes no remaining account, anybody else
  passes exactly one, a role account that carries the permission. The role account is
  \<open>ctx.remaining_accounts[0]\<close>, an index that panics on an empty list.
\<close>

definition authorize_operator ::
    "runtime \<Rightarrow> tx \<Rightarrow> ledger \<Rightarrow> bool \<Rightarrow> pubkey \<Rightarrow> pubkey \<Rightarrow> u64 \<Rightarrow> iron_vault_error \<Rightarrow> iron_vault_error
      \<Rightarrow> unit result" where
  "authorize_operator rt t L intrinsic vault caller permission unexpected missing =
     (if intrinsic
      then require (tx_remaining_accounts t = []) unexpected
      else
        and_then (require (length (tx_remaining_accounts t) \<le> 1) unexpected) (\<lambda>_.
        and_then (require (length (tx_remaining_accounts t) = 1) missing) (\<lambda>_.
        and_then (index_or_panic (tx_remaining_accounts t) 0) (\<lambda>role_info.
        validate_role_permission rt L role_info vault caller permission))))"

text \<open>What a caller needs to pass for a non-intrinsic actor: a live canonical role.\<close>

definition holds_permission ::
    "runtime \<Rightarrow> ledger \<Rightarrow> pubkey \<Rightarrow> pubkey \<Rightarrow> u64 \<Rightarrow> bool" where
  "holds_permission rt L vault caller permission \<longleftrightarrow>
     (case load role_of L (fst (rt_find_program_address rt (role_seeds vault caller))) of
        Inl _ \<Rightarrow> False
      | Inr role \<Rightarrow>
          ra_vault role = vault \<and> ra_principal role = caller \<and> role_has role permission)"

lemma holds_permission_iff:
  "holds_permission rt L vault caller permission \<longleftrightarrow>
     (\<exists>role. L (fst (rt_find_program_address rt (role_seeds vault caller))) =
          Some \<lparr>acc_program = ID, acc_data = RoleData role\<rparr>
        \<and> ra_vault role = vault \<and> ra_principal role = caller \<and> role_has role permission)"
  (is "_ \<longleftrightarrow> (\<exists>role. ?at role \<and> ?ok role)")
proof -
  let ?m = "load role_of L (fst (rt_find_program_address rt (role_seeds vault caller)))"
  have at: "?m = Inr role \<longleftrightarrow> ?at role" for role
    by (auto simp: success_iff)
  have "holds_permission rt L vault caller permission \<longleftrightarrow> (\<exists>role. ?m = Inr role \<and> ?ok role)"
    by (cases ?m) (auto simp: holds_permission_def)
  then show ?thesis
    by (simp only: at)
qed

lemma authorize_operator_Inr_iff [success_iff]:
  "authorize_operator rt t L intrinsic vault caller permission unexpected missing = Inr u \<longleftrightarrow>
     (if intrinsic then tx_remaining_accounts t = []
      else tx_remaining_accounts t = [fst (rt_find_program_address rt (role_seeds vault caller))]
           \<and> holds_permission rt L vault caller permission)"
  by (auto simp: authorize_operator_def success_iff holds_permission_iff length_Suc_conv)

lemma role_has_bits:
  "role_has role permission \<longleftrightarrow>
     ra_active role \<and> (\<forall>n. bit permission n \<longrightarrow> bit (ra_permissions role) n)"
  by (simp add: role_has_def mask_covers_iff_bits)

lemma role_inactive: "\<not> ra_active role \<Longrightarrow> \<not> role_has role permission"
  by (simp add: role_has_def)

section \<open>Token policy\<close>

definition mint_extensions_supported :: "runtime \<Rightarrow> pubkey \<Rightarrow> mint \<Rightarrow> bool result" where
  "mint_extensions_supported rt owner m =
     (if owner = rt_token_id rt then Inr True
      else and_then (map_err External (rt_extension_types rt (mi_tlv m))) (\<lambda>types.
           Inr (types = [])))"

text \<open>The two \<open>constraint\<close> attributes every instruction puts on its mint account.\<close>

definition mint_constraints :: "runtime \<Rightarrow> pubkey \<Rightarrow> mint \<Rightarrow> pubkey \<Rightarrow> unit result" where
  "mint_constraints rt owner m token_program =
     and_then (constraint (owner = token_program) InvalidTokenProgram) (\<lambda>_.
     and_then (mint_extensions_supported rt owner m) (\<lambda>supported.
     constraint supported UnsupportedTokenExtension))"

definition mint_supported :: "runtime \<Rightarrow> pubkey \<Rightarrow> mint \<Rightarrow> bool" where
  "mint_supported rt owner m \<longleftrightarrow> owner = rt_token_id rt \<or> rt_extension_types rt (mi_tlv m) = Inr []"

lemma mint_constraints_Inr_iff [success_iff]:
  "mint_constraints rt owner m token_program = Inr u \<longleftrightarrow>
     owner = token_program \<and> mint_supported rt owner m"
  by (auto simp: mint_constraints_def mint_extensions_supported_def mint_supported_def success_iff)

end
