(* ===== verification/Protocol.thy ===== *)
theory Protocol
  imports Security
begin

text \<open>
  Protocol administration: the dispatch smoke test \<open>initialize\<close>, creation of the
  singleton configuration (\<open>initialize_protocol.rs\<close>) and the pause mask under admin
  or add-only guardian control (\<open>set_protocol_pause.rs\<close>).
\<close>

unbundle bit_operations_syntax

type_synonym outcome = "(ledger \<times> event list) result"

section \<open>initialize\<close>

definition dispatch :: "ledger \<Rightarrow> outcome" where
  "dispatch L = Inr (L, [])"

section \<open>initialize\_protocol\<close>

record initialize_protocol_accounts =
  ip_initializer :: pubkey
  ip_protocol_config :: pubkey
  ip_system_program :: pubkey

definition initialize_protocol_validate ::
    "runtime \<Rightarrow> tx \<Rightarrow> initialize_protocol_accounts \<Rightarrow> ledger \<Rightarrow> (u8 \<times> ledger) result" where
  "initialize_protocol_validate rt t a L =
     and_then (signer t (ip_initializer a)) (\<lambda>_.
     and_then (system_program rt (ip_system_program a)) (\<lambda>_.
     init_account rt (ip_initializer a) PROTOCOL_CONFIG_SPACE (ip_protocol_config a)
       protocol_seeds L))"

definition initialize_protocol_account ::
    "initialize_protocol_accounts \<Rightarrow> u8 \<Rightarrow> pubkey \<Rightarrow> pubkey \<Rightarrow> ledger \<Rightarrow> outcome" where
  "initialize_protocol_account a bump admin guardian L =
     and_then (require (admin \<noteq> default_pubkey \<and> guardian \<noteq> default_pubkey \<and> admin \<noteq> guardian)
       InvalidProtocolAuthority) (\<lambda>_.
     let config = \<lparr>pc_version = INITIAL_SCHEMA_VERSION, pc_admin = admin, pc_guardian = guardian,
                   pc_pause_flags = 0, pc_bump = bump, pc_reserved = replicate 61 0\<rparr>
     in Inr (store (ip_protocol_config a) (ConfigData config) L,
             [ProtocolInitialized INITIAL_SCHEMA_VERSION (ip_protocol_config a) admin guardian]))"

definition initialize_protocol ::
    "runtime \<Rightarrow> tx \<Rightarrow> initialize_protocol_accounts \<Rightarrow> pubkey \<Rightarrow> pubkey \<Rightarrow> ledger \<Rightarrow> outcome" where
  "initialize_protocol rt t a admin guardian L =
     and_then (initialize_protocol_validate rt t a L) (\<lambda>(bump, L').
     initialize_protocol_account a bump admin guardian L')"

section \<open>set\_protocol\_pause\<close>

record set_protocol_pause_accounts =
  sp_caller :: pubkey
  sp_protocol_config :: pubkey

definition set_protocol_pause_validate ::
    "runtime \<Rightarrow> tx \<Rightarrow> set_protocol_pause_accounts \<Rightarrow> ledger \<Rightarrow> protocol_config result" where
  "set_protocol_pause_validate rt t a L =
     and_then (signer t (sp_caller a)) (\<lambda>_.
     and_then (load config_of L (sp_protocol_config a)) (\<lambda>config.
     and_then (seeds_with_bump rt (sp_protocol_config a) protocol_seeds (pc_bump config)) (\<lambda>_.
     Inr config)))"

definition set_pause ::
    "set_protocol_pause_accounts \<Rightarrow> protocol_config \<Rightarrow> u32 \<Rightarrow> ledger \<Rightarrow> outcome" where
  "set_pause a config flags L =
     and_then (require (flags AND NOT KNOWN_PAUSE_FLAGS = 0) InvalidPauseFlags) (\<lambda>_.
     let caller = sp_caller a in
     and_then (require (caller = pc_admin config \<or> caller = pc_guardian config)
       UnauthorizedProtocolPause) (\<lambda>_.
     and_then (if caller = pc_guardian config
               then require (flags AND pc_pause_flags config = pc_pause_flags config)
                      GuardianCannotUnpause
               else Inr ()) (\<lambda>_.
     let previous_flags = pc_pause_flags config in
     Inr (store (sp_protocol_config a) (ConfigData (config\<lparr>pc_pause_flags := flags\<rparr>)) L,
          [ProtocolPauseUpdated INITIAL_SCHEMA_VERSION (sp_protocol_config a) caller
             previous_flags flags]))))"

definition set_protocol_pause ::
    "runtime \<Rightarrow> tx \<Rightarrow> set_protocol_pause_accounts \<Rightarrow> u32 \<Rightarrow> ledger \<Rightarrow> outcome" where
  "set_protocol_pause rt t a flags L =
     and_then (set_protocol_pause_validate rt t a L) (\<lambda>config. set_pause a config flags L)"

section \<open>When the operations succeed\<close>

lemma initialize_protocol_Inr_iff:
  "initialize_protocol rt t a admin guardian L = Inr (L', evs) \<longleftrightarrow>
     ip_initializer a \<in> tx_signers t \<and> ip_system_program a = rt_system_id rt
     \<and> L (ip_protocol_config a) = None
     \<and> rt_pays_rent rt (ip_initializer a) PROTOCOL_CONFIG_SPACE
     \<and> admin \<noteq> default_pubkey \<and> guardian \<noteq> default_pubkey \<and> admin \<noteq> guardian
     \<and> (\<exists>bump. rt_find_program_address rt protocol_seeds = (ip_protocol_config a, bump)
         \<and> L' = store (ip_protocol_config a)
             (ConfigData \<lparr>pc_version = INITIAL_SCHEMA_VERSION, pc_admin = admin,
                pc_guardian = guardian, pc_pause_flags = 0, pc_bump = bump,
                pc_reserved = replicate 61 0\<rparr>) L)
     \<and> evs = [ProtocolInitialized INITIAL_SCHEMA_VERSION (ip_protocol_config a) admin guardian]"
  by (auto simp: initialize_protocol_def initialize_protocol_validate_def
      initialize_protocol_account_def success_iff Let_def store_def)

lemma set_protocol_pause_Inr_iff:
  "set_protocol_pause rt t a flags L = Inr (L', evs) \<longleftrightarrow>
     sp_caller a \<in> tx_signers t
     \<and> (\<exists>config. L (sp_protocol_config a) = Some \<lparr>acc_program = ID, acc_data = ConfigData config\<rparr>
         \<and> rt_create_program_address rt (protocol_seeds @ [[pc_bump config]])
             = Some (sp_protocol_config a)
         \<and> flags AND NOT KNOWN_PAUSE_FLAGS = 0
         \<and> (sp_caller a = pc_admin config \<or> sp_caller a = pc_guardian config)
         \<and> (sp_caller a = pc_guardian config \<longrightarrow>
              flags AND pc_pause_flags config = pc_pause_flags config)
         \<and> L' = store (sp_protocol_config a) (ConfigData (config\<lparr>pc_pause_flags := flags\<rparr>)) L
         \<and> evs = [ProtocolPauseUpdated INITIAL_SCHEMA_VERSION (sp_protocol_config a) (sp_caller a)
                    (pc_pause_flags config) flags])"
  by (auto simp: set_protocol_pause_def set_protocol_pause_validate_def set_pause_def
      success_iff Let_def)

end
