(* ===== verification/Vault_Admin.thy ===== *)
theory Vault_Admin
  imports Protocol
begin

text \<open>
  Vault configuration: \<open>create_vault.rs\<close>, \<open>set_vault_authority.rs\<close>, \<open>pause_vault.rs\<close>,
  \<open>register_asset.rs\<close>, \<open>grant_role.rs\<close>, \<open>revoke_role.rs\<close> and \<open>update_limits.rs\<close>. None
  of these instructions calls a transfer.
\<close>

unbundle bit_operations_syntax

section \<open>create\_vault\<close>

record create_vault_accounts =
  cv_authority :: pubkey
  cv_protocol_config :: pubkey
  cv_vault :: pubkey
  cv_system_program :: pubkey

definition create_vault_validate ::
    "runtime \<Rightarrow> tx \<Rightarrow> create_vault_accounts \<Rightarrow> u64 \<Rightarrow> ledger \<Rightarrow> (protocol_config \<times> u8 \<times> ledger) result" where
  "create_vault_validate rt t a vault_id L =
     and_then (signer t (cv_authority a)) (\<lambda>_.
     and_then (load config_of L (cv_protocol_config a)) (\<lambda>config.
     and_then (system_program rt (cv_system_program a)) (\<lambda>_.
     and_then (init_account rt (cv_authority a) VAULT_SPACE (cv_vault a)
       (vault_seeds (cv_authority a) vault_id) L) (\<lambda>(bump, L').
     and_then (seeds_with_bump rt (cv_protocol_config a) protocol_seeds (pc_bump config)) (\<lambda>_.
     Inr (config, bump, L'))))))"

definition create_vault_account ::
    "create_vault_accounts \<Rightarrow> protocol_config \<Rightarrow> u8 \<Rightarrow> u64 \<Rightarrow> pubkey \<Rightarrow> ledger \<Rightarrow> outcome" where
  "create_vault_account a config bump vault_id guardian L =
     and_then (require_protocol_active config PAUSE_VAULT_CONFIG) (\<lambda>_.
     let authority = cv_authority a in
     and_then (require (guardian \<noteq> default_pubkey \<and> guardian \<noteq> authority) InvalidVaultGuardian) (\<lambda>_.
     let v = \<lparr>va_namespace_authority = authority, va_authority = authority, va_guardian = guardian,
              va_vault_id = vault_id, va_next_withdrawal_id = 0, va_paused = False,
              va_bump = bump, va_reserved = replicate 46 0\<rparr>
     in Inr (store (cv_vault a) (VaultData v) L,
             [VaultCreated INITIAL_SCHEMA_VERSION (cv_vault a) authority authority guardian vault_id])))"

definition create_vault ::
    "runtime \<Rightarrow> tx \<Rightarrow> create_vault_accounts \<Rightarrow> u64 \<Rightarrow> pubkey \<Rightarrow> ledger \<Rightarrow> outcome" where
  "create_vault rt t a vault_id guardian L =
     and_then (create_vault_validate rt t a vault_id L) (\<lambda>(config, bump, L').
     create_vault_account a config bump vault_id guardian L')"

section \<open>set\_vault\_authority\<close>

record set_vault_authority_accounts =
  sa_current_authority :: pubkey
  sa_protocol_config :: pubkey
  sa_vault :: pubkey

text \<open>The \<open>seeds\<close> attribute of an existing vault account, shared by all instructions.\<close>

definition vault_address :: "runtime \<Rightarrow> pubkey \<Rightarrow> vault \<Rightarrow> unit result" where
  "vault_address rt k v =
     seeds_with_bump rt k (vault_seeds (va_namespace_authority v) (va_vault_id v)) (va_bump v)"

definition set_vault_authority_validate ::
    "runtime \<Rightarrow> tx \<Rightarrow> set_vault_authority_accounts \<Rightarrow> ledger \<Rightarrow> (protocol_config \<times> vault) result" where
  "set_vault_authority_validate rt t a L =
     and_then (signer t (sa_current_authority a)) (\<lambda>_.
     and_then (load config_of L (sa_protocol_config a)) (\<lambda>config.
     and_then (load vault_of L (sa_vault a)) (\<lambda>v.
     and_then (seeds_with_bump rt (sa_protocol_config a) protocol_seeds (pc_bump config)) (\<lambda>_.
     and_then (vault_address rt (sa_vault a) v) (\<lambda>_.
     and_then (constraint (va_authority v = sa_current_authority a) InvalidVaultAuthority) (\<lambda>_.
     Inr (config, v)))))))"

definition set_authority ::
    "set_vault_authority_accounts \<Rightarrow> protocol_config \<Rightarrow> vault \<Rightarrow> pubkey \<Rightarrow> ledger \<Rightarrow> outcome" where
  "set_authority a config v new_authority L =
     and_then (require_protocol_active config PAUSE_VAULT_CONFIG) (\<lambda>_.
     let previous_authority = va_authority v in
     and_then (require (new_authority \<noteq> default_pubkey \<and> new_authority \<noteq> previous_authority
       \<and> new_authority \<noteq> va_guardian v) InvalidNewVaultAuthority) (\<lambda>_.
     Inr (store (sa_vault a) (VaultData (v\<lparr>va_authority := new_authority\<rparr>)) L,
          [VaultAuthorityUpdated INITIAL_SCHEMA_VERSION (sa_vault a) previous_authority new_authority])))"

definition set_vault_authority ::
    "runtime \<Rightarrow> tx \<Rightarrow> set_vault_authority_accounts \<Rightarrow> pubkey \<Rightarrow> ledger \<Rightarrow> outcome" where
  "set_vault_authority rt t a new_authority L =
     and_then (set_vault_authority_validate rt t a L) (\<lambda>(config, v).
     set_authority a config v new_authority L)"

section \<open>pause\_vault and unpause\_vault\<close>

record pause_vault_accounts =
  pv_caller :: pubkey
  pv_vault :: pubkey

record unpause_vault_accounts =
  uv_authority :: pubkey
  uv_vault :: pubkey

definition pause_vault_validate ::
    "runtime \<Rightarrow> tx \<Rightarrow> pause_vault_accounts \<Rightarrow> ledger \<Rightarrow> vault result" where
  "pause_vault_validate rt t a L =
     and_then (signer t (pv_caller a)) (\<lambda>_.
     and_then (load vault_of L (pv_vault a)) (\<lambda>v.
     and_then (vault_address rt (pv_vault a) v) (\<lambda>_.
     Inr v)))"

definition unpause_vault_validate ::
    "runtime \<Rightarrow> tx \<Rightarrow> unpause_vault_accounts \<Rightarrow> ledger \<Rightarrow> vault result" where
  "unpause_vault_validate rt t a L =
     and_then (signer t (uv_authority a)) (\<lambda>_.
     and_then (load vault_of L (uv_vault a)) (\<lambda>v.
     and_then (vault_address rt (uv_vault a) v) (\<lambda>_.
     and_then (constraint (va_authority v = uv_authority a) UnauthorizedVaultUnpause) (\<lambda>_.
     Inr v))))"

definition pause :: "pause_vault_accounts \<Rightarrow> vault \<Rightarrow> ledger \<Rightarrow> outcome" where
  "pause a v L =
     (let caller = pv_caller a in
      and_then (require (caller = va_authority v \<or> caller = va_guardian v) UnauthorizedVaultPause) (\<lambda>_.
      and_then (require (\<not> va_paused v) VaultPauseUnchanged) (\<lambda>_.
      Inr (store (pv_vault a) (VaultData (v\<lparr>va_paused := True\<rparr>)) L,
           [VaultPauseUpdated INITIAL_SCHEMA_VERSION (pv_vault a) caller True]))))"

definition unpause :: "unpause_vault_accounts \<Rightarrow> vault \<Rightarrow> ledger \<Rightarrow> outcome" where
  "unpause a v L =
     and_then (require (va_paused v) VaultPauseUnchanged) (\<lambda>_.
     Inr (store (uv_vault a) (VaultData (v\<lparr>va_paused := False\<rparr>)) L,
          [VaultPauseUpdated INITIAL_SCHEMA_VERSION (uv_vault a) (uv_authority a) False]))"

definition pause_vault :: "runtime \<Rightarrow> tx \<Rightarrow> pause_vault_accounts \<Rightarrow> ledger \<Rightarrow> outcome" where
  "pause_vault rt t a L = and_then (pause_vault_validate rt t a L) (\<lambda>v. pause a v L)"

definition unpause_vault :: "runtime \<Rightarrow> tx \<Rightarrow> unpause_vault_accounts \<Rightarrow> ledger \<Rightarrow> outcome" where
  "unpause_vault rt t a L = and_then (unpause_vault_validate rt t a L) (\<lambda>v. unpause a v L)"

section \<open>register\_asset\<close>

record register_asset_accounts =
  rg_authority :: pubkey
  rg_protocol_config :: pubkey
  rg_vault :: pubkey
  rg_mint :: pubkey
  rg_vault_asset :: pubkey
  rg_vault_token :: pubkey
  rg_token_program :: pubkey
  rg_system_program :: pubkey

definition register_asset_validate ::
    "runtime \<Rightarrow> tx \<Rightarrow> register_asset_accounts \<Rightarrow> ledger \<Rightarrow> (protocol_config \<times> u8 \<times> ledger) result" where
  "register_asset_validate rt t a L =
     and_then (signer t (rg_authority a)) (\<lambda>_.
     and_then (load config_of L (rg_protocol_config a)) (\<lambda>config.
     and_then (load vault_of L (rg_vault a)) (\<lambda>v.
     and_then (load_interface rt mint_of L (rg_mint a)) (\<lambda>(mint_owner, m).
     and_then (token_interface rt (rg_token_program a)) (\<lambda>_.
     and_then (system_program rt (rg_system_program a)) (\<lambda>_.
     and_then (init_account rt (rg_authority a) VAULT_ASSET_SPACE (rg_vault_asset a)
       (vault_asset_seeds (rg_vault a) (rg_mint a)) L) (\<lambda>(bump, L1).
     and_then (init_token_account rt (rg_authority a) (rg_vault_token a)
       (vault_token_seeds (rg_vault a) (rg_mint a)) (rg_token_program a) (rg_mint a) (rg_vault a) L1)
       (\<lambda>(_, L2).
     and_then (seeds_with_bump rt (rg_protocol_config a) protocol_seeds (pc_bump config)) (\<lambda>_.
     and_then (vault_address rt (rg_vault a) v) (\<lambda>_.
     and_then (constraint (va_authority v = rg_authority a) InvalidVaultAuthority) (\<lambda>_.
     and_then (mint_constraints rt mint_owner m (rg_token_program a)) (\<lambda>_.
     Inr (config, bump, L2)))))))))))))"

definition register_vault_asset ::
    "tx \<Rightarrow> register_asset_accounts \<Rightarrow> protocol_config \<Rightarrow> u8 \<Rightarrow> ledger \<Rightarrow> outcome" where
  "register_vault_asset t a config bump L =
     and_then (require_protocol_active config PAUSE_VAULT_CONFIG) (\<lambda>_.
     let asset = \<lparr>as_vault = rg_vault a, as_mint = rg_mint a, as_token_program = rg_token_program a,
                  as_max_per_transaction = u64_MAX, as_window_limit = u64_MAX,
                  as_window_seconds = 0, as_window_started_at = tx_now t, as_window_spent = 0,
                  as_timelock_threshold = u64_MAX, as_timelock_seconds = 0,
                  as_request_execution_window_seconds = 0, as_enabled = True,
                  as_bump = bump, as_reserved = replicate 30 0\<rparr>
     in Inr (store (rg_vault_asset a) (AssetData asset) L,
             [VaultAssetRegistered INITIAL_SCHEMA_VERSION (rg_vault a) (rg_vault_asset a)
                (rg_vault_token a) (rg_mint a) (rg_token_program a)]))"

definition register_asset :: "runtime \<Rightarrow> tx \<Rightarrow> register_asset_accounts \<Rightarrow> ledger \<Rightarrow> outcome" where
  "register_asset rt t a L =
     and_then (register_asset_validate rt t a L) (\<lambda>(config, bump, L').
     register_vault_asset t a config bump L')"

section \<open>grant\_role\<close>

record grant_role_accounts =
  gr_authority :: pubkey
  gr_protocol_config :: pubkey
  gr_vault :: pubkey
  gr_role_assignment :: pubkey
  gr_system_program :: pubkey

text \<open>\<open>init_if_needed\<close>: an absent account is created, an existing one must load.\<close>

definition init_role_if_needed ::
    "runtime \<Rightarrow> pubkey \<Rightarrow> nat \<Rightarrow> pubkey \<Rightarrow> u8 list list \<Rightarrow> ledger \<Rightarrow> (u8 \<times> ledger) result" where
  "init_role_if_needed rt payer space k seeds L =
     (if L k = None
      then init_account rt payer space k seeds L
      else
        and_then (seeds_canonical rt k seeds) (\<lambda>bump.
        and_then (load role_of L k) (\<lambda>_. Inr (bump, L))))"

definition grant_role_validate ::
    "runtime \<Rightarrow> tx \<Rightarrow> grant_role_accounts \<Rightarrow> pubkey \<Rightarrow> ledger \<Rightarrow> (protocol_config \<times> vault \<times> u8 \<times> ledger) result" where
  "grant_role_validate rt t a holder L =
     and_then (signer t (gr_authority a)) (\<lambda>_.
     and_then (load config_of L (gr_protocol_config a)) (\<lambda>config.
     and_then (load vault_of L (gr_vault a)) (\<lambda>v.
     and_then (system_program rt (gr_system_program a)) (\<lambda>_.
     and_then (init_role_if_needed rt (gr_authority a) ROLE_ASSIGNMENT_SPACE (gr_role_assignment a)
       (role_seeds (gr_vault a) holder) L) (\<lambda>(bump, L').
     and_then (seeds_with_bump rt (gr_protocol_config a) protocol_seeds (pc_bump config)) (\<lambda>_.
     and_then (vault_address rt (gr_vault a) v) (\<lambda>_.
     and_then (constraint (va_authority v = gr_authority a) InvalidVaultAuthority) (\<lambda>_.
     Inr (config, v, bump, L')))))))))"

definition grant ::
    "grant_role_accounts \<Rightarrow> protocol_config \<Rightarrow> vault \<Rightarrow> u8 \<Rightarrow> pubkey \<Rightarrow> u64 \<Rightarrow> ledger \<Rightarrow> outcome" where
  "grant a config v bump holder permissions L =
     and_then (require_protocol_active config PAUSE_VAULT_CONFIG) (\<lambda>_.
     and_then (require (holder \<noteq> default_pubkey \<and> holder \<noteq> va_authority v
       \<and> holder \<noteq> va_guardian v) InvalidRolePrincipal) (\<lambda>_.
     and_then (require (permissions \<noteq> 0 \<and> permissions AND NOT KNOWN_PERMISSIONS = 0)
       InvalidPermissionMask) (\<lambda>_.
     let role = \<lparr>ra_vault = gr_vault a, ra_principal = holder, ra_permissions = permissions,
                 ra_active = True, ra_bump = bump, ra_reserved = replicate 54 0\<rparr>
     in Inr (store (gr_role_assignment a) (RoleData role) L,
             [RoleGranted INITIAL_SCHEMA_VERSION (gr_vault a) holder permissions]))))"

definition grant_role ::
    "runtime \<Rightarrow> tx \<Rightarrow> grant_role_accounts \<Rightarrow> pubkey \<Rightarrow> u64 \<Rightarrow> ledger \<Rightarrow> outcome" where
  "grant_role rt t a holder permissions L =
     and_then (grant_role_validate rt t a holder L) (\<lambda>(config, v, bump, L').
     grant a config v bump holder permissions L')"

section \<open>revoke\_role\<close>

record revoke_role_accounts =
  rv_authority :: pubkey
  rv_protocol_config :: pubkey
  rv_vault :: pubkey
  rv_role_assignment :: pubkey

definition revoke_role_validate ::
    "runtime \<Rightarrow> tx \<Rightarrow> revoke_role_accounts \<Rightarrow> pubkey \<Rightarrow> ledger
      \<Rightarrow> (protocol_config \<times> vault \<times> role_assignment) result" where
  "revoke_role_validate rt t a holder L =
     and_then (signer t (rv_authority a)) (\<lambda>_.
     and_then (load config_of L (rv_protocol_config a)) (\<lambda>config.
     and_then (load vault_of L (rv_vault a)) (\<lambda>v.
     and_then (load role_of L (rv_role_assignment a)) (\<lambda>role.
     and_then (seeds_with_bump rt (rv_protocol_config a) protocol_seeds (pc_bump config)) (\<lambda>_.
     and_then (vault_address rt (rv_vault a) v) (\<lambda>_.
     and_then (constraint (va_authority v = rv_authority a) InvalidVaultAuthority) (\<lambda>_.
     and_then (seeds_with_bump rt (rv_role_assignment a) (role_seeds (rv_vault a) holder)
       (ra_bump role)) (\<lambda>_.
     and_then (has_one (ra_vault role) (rv_vault a)) (\<lambda>_.
     and_then (constraint_raw (ra_principal role = holder)) (\<lambda>_.
     Inr (config, v, role)))))))))))"

definition revoke ::
    "revoke_role_accounts \<Rightarrow> protocol_config \<Rightarrow> role_assignment \<Rightarrow> ledger \<Rightarrow> outcome" where
  "revoke a config role L =
     and_then (require_protocol_active config PAUSE_VAULT_CONFIG) (\<lambda>_.
     and_then (require (ra_active role) RoleNotActive) (\<lambda>_.
     let previous_permissions = ra_permissions role in
     Inr (store (rv_role_assignment a)
            (RoleData (role\<lparr>ra_permissions := 0, ra_active := False\<rparr>)) L,
          [RoleRevoked INITIAL_SCHEMA_VERSION (ra_vault role) (ra_principal role)
             previous_permissions])))"

definition revoke_role ::
    "runtime \<Rightarrow> tx \<Rightarrow> revoke_role_accounts \<Rightarrow> pubkey \<Rightarrow> ledger \<Rightarrow> outcome" where
  "revoke_role rt t a holder L =
     and_then (revoke_role_validate rt t a holder L) (\<lambda>(config, v, role).
     revoke a config role L)"

section \<open>update\_limits\<close>

record update_limits_accounts =
  ul_caller :: pubkey
  ul_protocol_config :: pubkey
  ul_vault :: pubkey
  ul_mint :: pubkey
  ul_vault_asset :: pubkey
  ul_clock :: pubkey

text \<open>The policy arguments of the instruction, in the order it takes them.\<close>

record policy =
  po_max_per_transaction :: u64
  po_window_limit :: u64
  po_window_seconds :: i64
  po_timelock_threshold :: u64
  po_timelock_seconds :: i64
  po_request_execution_window_seconds :: i64

text \<open>The attributes of an existing asset account that do not name a token program.\<close>

definition asset_address :: "runtime \<Rightarrow> pubkey \<Rightarrow> pubkey \<Rightarrow> pubkey \<Rightarrow> vault_asset \<Rightarrow> unit result" where
  "asset_address rt k vault_key mint_key asset =
     and_then (seeds_with_bump rt k (vault_asset_seeds vault_key mint_key) (as_bump asset)) (\<lambda>_.
     and_then (has_one (as_vault asset) vault_key) (\<lambda>_.
     has_one (as_mint asset) mint_key))"

definition update_limits_validate ::
    "runtime \<Rightarrow> tx \<Rightarrow> update_limits_accounts \<Rightarrow> ledger
      \<Rightarrow> (protocol_config \<times> vault \<times> vault_asset) result" where
  "update_limits_validate rt t a L =
     and_then (signer t (ul_caller a)) (\<lambda>_.
     and_then (load config_of L (ul_protocol_config a)) (\<lambda>config.
     and_then (load vault_of L (ul_vault a)) (\<lambda>v.
     and_then (load_interface rt mint_of L (ul_mint a)) (\<lambda>(mint_owner, m).
     and_then (load asset_of L (ul_vault_asset a)) (\<lambda>asset.
     and_then (sysvar_clock (ul_clock a)) (\<lambda>_.
     and_then (seeds_with_bump rt (ul_protocol_config a) protocol_seeds (pc_bump config)) (\<lambda>_.
     and_then (vault_address rt (ul_vault a) v) (\<lambda>_.
     and_then (mint_constraints rt mint_owner m (as_token_program asset)) (\<lambda>_.
     and_then (asset_address rt (ul_vault_asset a) (ul_vault a) (ul_mint a) asset) (\<lambda>_.
     Inr (config, v, asset)))))))))))"

definition update_limits_authorize ::
    "runtime \<Rightarrow> tx \<Rightarrow> ledger \<Rightarrow> update_limits_accounts \<Rightarrow> vault \<Rightarrow> unit result" where
  "update_limits_authorize rt t L a v =
     authorize_operator rt t L (ul_caller a = va_authority v) (ul_vault a) (ul_caller a)
       PERMISSION_MANAGE_LIMITS UnexpectedLimitAccounts MissingVaultPermission"

definition valid_policy :: "policy \<Rightarrow> bool" where
  "valid_policy q \<longleftrightarrow>
     po_max_per_transaction q > 0 \<and> po_window_limit q > 0 \<and> sint (po_window_seconds q) > 0
     \<and> po_max_per_transaction q \<le> po_window_limit q
     \<and> po_timelock_threshold q \<le> po_max_per_transaction q
     \<and> sint (po_timelock_seconds q) > 0
     \<and> sint (po_request_execution_window_seconds q) > 0"

text \<open>The window the updated asset starts from: its start and its spend.\<close>

definition updated_window :: "vault_asset \<Rightarrow> i64 \<Rightarrow> i64 \<Rightarrow> (i64 \<times> u64) result" where
  "updated_window asset window_seconds now =
     (if as_window_seconds asset = 0 then Inr (now, 0)
      else if as_window_seconds asset \<noteq> window_seconds then
        and_then (add_i64_or (as_window_started_at asset) (as_window_seconds asset)
          WithdrawalPolicyOverflow) (\<lambda>current_window_ends.
        and_then (require (sint now \<ge> sint current_window_ends) LiveWindowDurationChange) (\<lambda>_.
        Inr (now, 0)))
      else Inr (as_window_started_at asset, as_window_spent asset))"

definition update_asset :: "vault_asset \<Rightarrow> policy \<Rightarrow> i64 \<Rightarrow> u64 \<Rightarrow> vault_asset" where
  "update_asset asset q started spent =
     asset\<lparr>as_window_started_at := started, as_window_spent := spent,
           as_max_per_transaction := po_max_per_transaction q,
           as_window_limit := po_window_limit q,
           as_window_seconds := po_window_seconds q,
           as_timelock_threshold := po_timelock_threshold q,
           as_timelock_seconds := po_timelock_seconds q,
           as_request_execution_window_seconds := po_request_execution_window_seconds q\<rparr>"

definition update_handler ::
    "runtime \<Rightarrow> tx \<Rightarrow> update_limits_accounts \<Rightarrow> protocol_config \<Rightarrow> vault \<Rightarrow> vault_asset \<Rightarrow> policy
      \<Rightarrow> ledger \<Rightarrow> outcome" where
  "update_handler rt t a config v asset q L =
     and_then (require_protocol_active config PAUSE_VAULT_CONFIG) (\<lambda>_.
     and_then (update_limits_authorize rt t L a v) (\<lambda>_.
     and_then (require (valid_policy q) InvalidWithdrawalPolicy) (\<lambda>_.
     and_then (updated_window asset (po_window_seconds q) (tx_now t)) (\<lambda>(started, spent).
     Inr (store (ul_vault_asset a) (AssetData (update_asset asset q started spent)) L,
          [VaultLimitsUpdated INITIAL_SCHEMA_VERSION (ul_vault a) (ul_vault_asset a)
             (as_mint asset) (ul_caller a) (po_max_per_transaction q) (po_window_limit q)
             (po_window_seconds q) (po_timelock_threshold q) (po_timelock_seconds q)
             (po_request_execution_window_seconds q) started spent])))))"

definition update_limits ::
    "runtime \<Rightarrow> tx \<Rightarrow> update_limits_accounts \<Rightarrow> policy \<Rightarrow> ledger \<Rightarrow> outcome" where
  "update_limits rt t a q L =
     and_then (update_limits_validate rt t a L) (\<lambda>(config, v, asset).
     update_handler rt t a config v asset q L)"

section \<open>When the operations succeed\<close>

lemma vault_address_Inr_iff [success_iff]:
  "vault_address rt k v = Inr u \<longleftrightarrow>
     rt_create_program_address rt
       (vault_seeds (va_namespace_authority v) (va_vault_id v) @ [[va_bump v]]) = Some k"
  by (simp add: vault_address_def success_iff)

lemma asset_address_Inr_iff [success_iff]:
  "asset_address rt k vault_key mint_key asset = Inr u \<longleftrightarrow>
     rt_create_program_address rt (vault_asset_seeds vault_key mint_key @ [[as_bump asset]]) = Some k
     \<and> as_vault asset = vault_key \<and> as_mint asset = mint_key"
  by (auto simp: asset_address_def success_iff)

lemma create_vault_Inr_iff:
  "create_vault rt t a vault_id guardian L = Inr (L', evs) \<longleftrightarrow>
     cv_authority a \<in> tx_signers t \<and> cv_system_program a = rt_system_id rt
     \<and> L (cv_vault a) = None \<and> rt_pays_rent rt (cv_authority a) VAULT_SPACE
     \<and> guardian \<noteq> default_pubkey \<and> guardian \<noteq> cv_authority a
     \<and> (\<exists>config. state_at L (cv_protocol_config a) (ConfigData config)
          \<and> rt_create_program_address rt (protocol_seeds @ [[pc_bump config]])
              = Some (cv_protocol_config a)
          \<and> \<not> is_paused config PAUSE_VAULT_CONFIG)
     \<and> (\<exists>bump. rt_find_program_address rt (vault_seeds (cv_authority a) vault_id) = (cv_vault a, bump)
          \<and> L' = store (cv_vault a) (VaultData
              \<lparr>va_namespace_authority = cv_authority a, va_authority = cv_authority a,
               va_guardian = guardian, va_vault_id = vault_id, va_next_withdrawal_id = 0,
               va_paused = False, va_bump = bump, va_reserved = replicate 46 0\<rparr>) L)
     \<and> evs = [VaultCreated INITIAL_SCHEMA_VERSION (cv_vault a) (cv_authority a) (cv_authority a)
                guardian vault_id]"
  by (auto simp: create_vault_def create_vault_validate_def create_vault_account_def success_iff
      Let_def store_def)

lemma set_vault_authority_Inr_iff:
  "set_vault_authority rt t a new_authority L = Inr (L', evs) \<longleftrightarrow>
     (\<exists>config v. state_at L (sa_protocol_config a) (ConfigData config)
        \<and> state_at L (sa_vault a) (VaultData v)
        \<and> va_authority v = sa_current_authority a \<and> sa_current_authority a \<in> tx_signers t
        \<and> rt_create_program_address rt (protocol_seeds @ [[pc_bump config]])
            = Some (sa_protocol_config a)
        \<and> rt_create_program_address rt
            (vault_seeds (va_namespace_authority v) (va_vault_id v) @ [[va_bump v]]) = Some (sa_vault a)
        \<and> \<not> is_paused config PAUSE_VAULT_CONFIG
        \<and> new_authority \<noteq> default_pubkey \<and> new_authority \<noteq> va_authority v
        \<and> new_authority \<noteq> va_guardian v
        \<and> L' = store (sa_vault a) (VaultData (v\<lparr>va_authority := new_authority\<rparr>)) L
        \<and> evs = [VaultAuthorityUpdated INITIAL_SCHEMA_VERSION (sa_vault a) (va_authority v)
                   new_authority])"
  by (auto simp: set_vault_authority_def set_vault_authority_validate_def set_authority_def success_iff
      Let_def)

lemma pause_vault_Inr_iff:
  "pause_vault rt t a L = Inr (L', evs) \<longleftrightarrow>
     (\<exists>v. state_at L (pv_vault a) (VaultData v) \<and> pv_caller a \<in> tx_signers t
        \<and> rt_create_program_address rt
            (vault_seeds (va_namespace_authority v) (va_vault_id v) @ [[va_bump v]]) = Some (pv_vault a)
        \<and> (pv_caller a = va_authority v \<or> pv_caller a = va_guardian v) \<and> \<not> va_paused v
        \<and> L' = store (pv_vault a) (VaultData (v\<lparr>va_paused := True\<rparr>)) L
        \<and> evs = [VaultPauseUpdated INITIAL_SCHEMA_VERSION (pv_vault a) (pv_caller a) True])"
  by (auto simp: pause_vault_def pause_vault_validate_def pause_def success_iff Let_def)

lemma unpause_vault_Inr_iff:
  "unpause_vault rt t a L = Inr (L', evs) \<longleftrightarrow>
     (\<exists>v. state_at L (uv_vault a) (VaultData v) \<and> uv_authority a \<in> tx_signers t
        \<and> rt_create_program_address rt
            (vault_seeds (va_namespace_authority v) (va_vault_id v) @ [[va_bump v]]) = Some (uv_vault a)
        \<and> va_authority v = uv_authority a \<and> va_paused v
        \<and> L' = store (uv_vault a) (VaultData (v\<lparr>va_paused := False\<rparr>)) L
        \<and> evs = [VaultPauseUpdated INITIAL_SCHEMA_VERSION (uv_vault a) (uv_authority a) False])"
  by (auto simp: unpause_vault_def unpause_vault_validate_def unpause_def success_iff Let_def)

definition registered_asset :: "tx \<Rightarrow> register_asset_accounts \<Rightarrow> u8 \<Rightarrow> vault_asset" where
  "registered_asset t a bump =
     \<lparr>as_vault = rg_vault a, as_mint = rg_mint a, as_token_program = rg_token_program a,
      as_max_per_transaction = u64_MAX, as_window_limit = u64_MAX,
      as_window_seconds = 0, as_window_started_at = tx_now t, as_window_spent = 0,
      as_timelock_threshold = u64_MAX, as_timelock_seconds = 0,
      as_request_execution_window_seconds = 0, as_enabled = True,
      as_bump = bump, as_reserved = replicate 30 0\<rparr>"

lemma register_asset_Inr_iff:
  "register_asset rt t a L = Inr (L', evs) \<longleftrightarrow>
     rg_authority a \<in> tx_signers t \<and> rg_system_program a = rt_system_id rt
     \<and> (rg_token_program a = rt_token_id rt \<or> rg_token_program a = rt_token_2022_id rt)
     \<and> (\<exists>config v m. state_at L (rg_protocol_config a) (ConfigData config)
          \<and> state_at L (rg_vault a) (VaultData v) \<and> mint_at L (rg_mint a) (rg_token_program a) m
          \<and> rt_create_program_address rt (protocol_seeds @ [[pc_bump config]])
              = Some (rg_protocol_config a)
          \<and> rt_create_program_address rt
              (vault_seeds (va_namespace_authority v) (va_vault_id v) @ [[va_bump v]]) = Some (rg_vault a)
          \<and> va_authority v = rg_authority a \<and> mint_supported rt (rg_token_program a) m
          \<and> \<not> is_paused config PAUSE_VAULT_CONFIG)
     \<and> L (rg_vault_asset a) = None \<and> L (rg_vault_token a) = None
     \<and> rg_vault_asset a \<noteq> rg_vault_token a
     \<and> rt_pays_rent rt (rg_authority a) VAULT_ASSET_SPACE
     \<and> rt_pays_rent rt (rg_authority a) (rt_token_account_space rt (rg_token_program a))
     \<and> fst (rt_find_program_address rt (vault_token_seeds (rg_vault a) (rg_mint a))) = rg_vault_token a
     \<and> (\<exists>bump ta. rt_find_program_address rt (vault_asset_seeds (rg_vault a) (rg_mint a))
            = (rg_vault_asset a, bump)
          \<and> rt_initialize_token_account rt (rg_token_program a) (rg_mint a) (rg_vault a) = Inr ta
          \<and> L' = store (rg_vault_asset a) (AssetData (registered_asset t a bump))
              (L(rg_vault_token a \<mapsto> \<lparr>acc_program = rg_token_program a, acc_data = TokenData ta\<rparr>)))
     \<and> evs = [VaultAssetRegistered INITIAL_SCHEMA_VERSION (rg_vault a) (rg_vault_asset a)
                (rg_vault_token a) (rg_mint a) (rg_token_program a)]"
  by (auto simp: register_asset_def register_asset_validate_def register_vault_asset_def success_iff
      Let_def store_def registered_asset_def prod_eq_iff fun_upd_twist split: if_splits)

definition granted_role :: "grant_role_accounts \<Rightarrow> u8 \<Rightarrow> pubkey \<Rightarrow> u64 \<Rightarrow> role_assignment" where
  "granted_role a bump holder permissions =
     \<lparr>ra_vault = gr_vault a, ra_principal = holder, ra_permissions = permissions,
      ra_active = True, ra_bump = bump, ra_reserved = replicate 54 0\<rparr>"

lemma grant_role_Inr_iff:
  "grant_role rt t a holder permissions L = Inr (L', evs) \<longleftrightarrow>
     gr_authority a \<in> tx_signers t \<and> gr_system_program a = rt_system_id rt
     \<and> (\<exists>config v. state_at L (gr_protocol_config a) (ConfigData config)
          \<and> state_at L (gr_vault a) (VaultData v)
          \<and> rt_create_program_address rt (protocol_seeds @ [[pc_bump config]])
              = Some (gr_protocol_config a)
          \<and> rt_create_program_address rt
              (vault_seeds (va_namespace_authority v) (va_vault_id v) @ [[va_bump v]]) = Some (gr_vault a)
          \<and> va_authority v = gr_authority a
          \<and> \<not> is_paused config PAUSE_VAULT_CONFIG
          \<and> holder \<noteq> default_pubkey \<and> holder \<noteq> va_authority v \<and> holder \<noteq> va_guardian v)
     \<and> permissions \<noteq> 0 \<and> permissions AND NOT KNOWN_PERMISSIONS = 0
     \<and> (L (gr_role_assignment a) = None \<and> rt_pays_rent rt (gr_authority a) ROLE_ASSIGNMENT_SPACE
        \<or> (\<exists>role. state_at L (gr_role_assignment a) (RoleData role)))
     \<and> (\<exists>bump. rt_find_program_address rt (role_seeds (gr_vault a) holder) = (gr_role_assignment a, bump)
          \<and> L' = store (gr_role_assignment a) (RoleData (granted_role a bump holder permissions)) L)
     \<and> evs = [RoleGranted INITIAL_SCHEMA_VERSION (gr_vault a) holder permissions]"
  by (auto simp: grant_role_def grant_role_validate_def init_role_if_needed_def grant_def success_iff
      Let_def granted_role_def store_def split: if_splits)

lemma revoke_role_Inr_iff:
  "revoke_role rt t a holder L = Inr (L', evs) \<longleftrightarrow>
     rv_authority a \<in> tx_signers t
     \<and> (\<exists>config v. state_at L (rv_protocol_config a) (ConfigData config)
          \<and> state_at L (rv_vault a) (VaultData v)
          \<and> rt_create_program_address rt (protocol_seeds @ [[pc_bump config]])
              = Some (rv_protocol_config a)
          \<and> rt_create_program_address rt
              (vault_seeds (va_namespace_authority v) (va_vault_id v) @ [[va_bump v]]) = Some (rv_vault a)
          \<and> va_authority v = rv_authority a
          \<and> \<not> is_paused config PAUSE_VAULT_CONFIG)
     \<and> (\<exists>role. state_at L (rv_role_assignment a) (RoleData role)
          \<and> rt_create_program_address rt (role_seeds (rv_vault a) holder @ [[ra_bump role]])
              = Some (rv_role_assignment a)
          \<and> ra_vault role = rv_vault a \<and> ra_principal role = holder \<and> ra_active role
          \<and> L' = store (rv_role_assignment a)
              (RoleData (role\<lparr>ra_permissions := 0, ra_active := False\<rparr>)) L
          \<and> evs = [RoleRevoked INITIAL_SCHEMA_VERSION (rv_vault a) holder (ra_permissions role)])"
  by (auto simp: revoke_role_def revoke_role_validate_def revoke_def success_iff Let_def)

lemma updated_window_Inr_iff:
  "updated_window asset window_seconds now = Inr (started, spent) \<longleftrightarrow>
     (if as_window_seconds asset = 0 then started = now \<and> spent = 0
      else if as_window_seconds asset \<noteq> window_seconds
      then (\<exists>e :: i64. sint e = sint (as_window_started_at asset) + sint (as_window_seconds asset)
              \<and> sint e \<le> sint now) \<and> started = now \<and> spent = 0
      else started = as_window_started_at asset \<and> spent = as_window_spent asset)"
  by (auto simp: updated_window_def success_iff)

lemma update_limits_Inr_iff:
  "update_limits rt t a q L = Inr (L', evs) \<longleftrightarrow>
     ul_caller a \<in> tx_signers t \<and> ul_clock a = CLOCK_ID \<and> valid_policy q
     \<and> (\<exists>config v m asset started spent.
          state_at L (ul_protocol_config a) (ConfigData config)
          \<and> state_at L (ul_vault a) (VaultData v)
          \<and> state_at L (ul_vault_asset a) (AssetData asset)
          \<and> (as_token_program asset = rt_token_id rt \<or> as_token_program asset = rt_token_2022_id rt)
          \<and> mint_at L (ul_mint a) (as_token_program asset) m
          \<and> mint_supported rt (as_token_program asset) m
          \<and> rt_create_program_address rt (protocol_seeds @ [[pc_bump config]])
              = Some (ul_protocol_config a)
          \<and> rt_create_program_address rt
              (vault_seeds (va_namespace_authority v) (va_vault_id v) @ [[va_bump v]]) = Some (ul_vault a)
          \<and> rt_create_program_address rt
              (vault_asset_seeds (ul_vault a) (ul_mint a) @ [[as_bump asset]]) = Some (ul_vault_asset a)
          \<and> as_vault asset = ul_vault a \<and> as_mint asset = ul_mint a
          \<and> \<not> is_paused config PAUSE_VAULT_CONFIG
          \<and> update_limits_authorize rt t L a v = Inr ()
          \<and> updated_window asset (po_window_seconds q) (tx_now t) = Inr (started, spent)
          \<and> L' = store (ul_vault_asset a) (AssetData (update_asset asset q started spent)) L
          \<and> evs = [VaultLimitsUpdated INITIAL_SCHEMA_VERSION (ul_vault a) (ul_vault_asset a)
                     (ul_mint a) (ul_caller a) (po_max_per_transaction q) (po_window_limit q)
                     (po_window_seconds q) (po_timelock_threshold q) (po_timelock_seconds q)
                     (po_request_execution_window_seconds q) started spent])"
  by (auto simp: update_limits_def update_limits_validate_def update_handler_def success_iff)

end
