(* ===== verification/Vault_Flow.thy ===== *)
theory Vault_Flow
  imports Vault_Admin
begin

text \<open>
  Token flow of the vaults: \<open>deposit.rs\<close>, \<open>withdraw.rs\<close> with its rolling-window
  accounting, and the timelocked request lifecycle of \<open>request_withdrawal.rs\<close>,
  \<open>execute_withdrawal.rs\<close> and \<open>cancel_withdrawal.rs\<close>.
\<close>

section \<open>deposit\<close>

record deposit_accounts =
  de_depositor :: pubkey
  de_vault :: pubkey
  de_mint :: pubkey
  de_vault_asset :: pubkey
  de_source_token :: pubkey
  de_vault_token :: pubkey
  de_token_program :: pubkey

definition deposit_validate ::
    "runtime \<Rightarrow> tx \<Rightarrow> deposit_accounts \<Rightarrow> ledger
      \<Rightarrow> (mint \<times> vault_asset \<times> token_account \<times> token_account) result" where
  "deposit_validate rt t a L =
     and_then (signer t (de_depositor a)) (\<lambda>_.
     and_then (load vault_of L (de_vault a)) (\<lambda>v.
     and_then (load_interface rt mint_of L (de_mint a)) (\<lambda>(mint_owner, m).
     and_then (load asset_of L (de_vault_asset a)) (\<lambda>asset.
     and_then (load_interface rt token_of L (de_source_token a)) (\<lambda>(source_owner, source).
     and_then (load_interface rt token_of L (de_vault_token a)) (\<lambda>(custody_owner, custody).
     and_then (token_interface rt (de_token_program a)) (\<lambda>_.
     and_then (vault_address rt (de_vault a) v) (\<lambda>_.
     and_then (mint_constraints rt mint_owner m (de_token_program a)) (\<lambda>_.
     and_then (asset_address rt (de_vault_asset a) (de_vault a) (de_mint a) asset) (\<lambda>_.
     and_then (constraint_raw (as_token_program asset = de_token_program a)) (\<lambda>_.
     and_then (constraint (ta_owner source = de_depositor a) InvalidDepositSourceOwner) (\<lambda>_.
     and_then (constraint (ta_mint source = as_mint asset) InvalidDepositSourceMint) (\<lambda>_.
     and_then (constraint (source_owner = de_token_program a) InvalidTokenProgram) (\<lambda>_.
     and_then (seeds_canonical rt (de_vault_token a) (vault_token_seeds (de_vault a) (de_mint a))) (\<lambda>_.
     and_then (constraint (ta_owner custody = de_vault a) InvalidVaultCustodyBalance) (\<lambda>_.
     and_then (constraint (ta_mint custody = as_mint asset) InvalidDepositSourceMint) (\<lambda>_.
     and_then (constraint (custody_owner = de_token_program a) InvalidTokenProgram) (\<lambda>_.
     Inr (m, asset, source, custody)))))))))))))))))))"

definition deposit_tokens ::
    "runtime \<Rightarrow> tx \<Rightarrow> deposit_accounts \<Rightarrow> mint \<Rightarrow> vault_asset \<Rightarrow> token_account \<Rightarrow> token_account
      \<Rightarrow> u64 \<Rightarrow> ledger \<Rightarrow> outcome" where
  "deposit_tokens rt t a m asset source custody amount L =
     and_then (require (amount > 0) InvalidVaultAmount) (\<lambda>_.
     and_then (require (as_enabled asset) VaultAssetDisabled) (\<lambda>_.
     and_then (require (ta_amount source \<ge> amount) InsufficientFunds) (\<lambda>_.
     let source_before = ta_amount source; custody_before = ta_amount custody in
     and_then (add_u64_or custody_before amount InvalidVaultCustodyBalance) (\<lambda>custody_after.
     and_then (transfer_checked rt
       \<lparr>tr_program = de_token_program a, tr_from = de_source_token a, tr_mint = de_mint a,
        tr_to = de_vault_token a, tr_authority = de_depositor a,
        tr_signed = cpi_signed rt t [] (de_depositor a),
        tr_amount = amount, tr_decimals = mi_decimals m\<rparr> L) (\<lambda>L1.
     and_then (reload_amount L1 (de_source_token a)) (\<lambda>source_now.
     and_then (reload_amount L1 (de_vault_token a)) (\<lambda>custody_now.
     and_then (minus_u64 source_before amount) (\<lambda>expected_source.
     and_then (require (source_now = expected_source) InvalidDepositSourceBalance) (\<lambda>_.
     and_then (require (custody_now = custody_after) InvalidVaultCustodyBalance) (\<lambda>_.
     Inr (L1, [VaultDeposit INITIAL_SCHEMA_VERSION (de_vault a) (de_vault_asset a) (de_vault_token a)
                 (de_depositor a) (de_source_token a) (de_mint a) amount])))))))))))"

definition deposit :: "runtime \<Rightarrow> tx \<Rightarrow> deposit_accounts \<Rightarrow> u64 \<Rightarrow> ledger \<Rightarrow> outcome" where
  "deposit rt t a amount L =
     and_then (deposit_validate rt t a L) (\<lambda>(m, asset, source, custody).
     deposit_tokens rt t a m asset source custody amount L)"

section \<open>withdraw\<close>

record withdraw_accounts =
  wi_caller :: pubkey
  wi_protocol_config :: pubkey
  wi_vault :: pubkey
  wi_mint :: pubkey
  wi_vault_asset :: pubkey
  wi_vault_token :: pubkey
  wi_destination_token :: pubkey
  wi_token_program :: pubkey

definition withdraw_validate ::
    "runtime \<Rightarrow> tx \<Rightarrow> withdraw_accounts \<Rightarrow> ledger
      \<Rightarrow> (protocol_config \<times> vault \<times> mint \<times> vault_asset \<times> token_account \<times> token_account) result" where
  "withdraw_validate rt t a L =
     and_then (signer t (wi_caller a)) (\<lambda>_.
     and_then (load config_of L (wi_protocol_config a)) (\<lambda>config.
     and_then (load vault_of L (wi_vault a)) (\<lambda>v.
     and_then (load_interface rt mint_of L (wi_mint a)) (\<lambda>(mint_owner, m).
     and_then (load asset_of L (wi_vault_asset a)) (\<lambda>asset.
     and_then (load_interface rt token_of L (wi_vault_token a)) (\<lambda>(custody_owner, custody).
     and_then (load_interface rt token_of L (wi_destination_token a)) (\<lambda>(dest_owner, dest).
     and_then (token_interface rt (wi_token_program a)) (\<lambda>_.
     and_then (seeds_with_bump rt (wi_protocol_config a) protocol_seeds (pc_bump config)) (\<lambda>_.
     and_then (vault_address rt (wi_vault a) v) (\<lambda>_.
     and_then (mint_constraints rt mint_owner m (wi_token_program a)) (\<lambda>_.
     and_then (asset_address rt (wi_vault_asset a) (wi_vault a) (wi_mint a) asset) (\<lambda>_.
     and_then (constraint_raw (as_token_program asset = wi_token_program a)) (\<lambda>_.
     and_then (seeds_canonical rt (wi_vault_token a) (vault_token_seeds (wi_vault a) (wi_mint a))) (\<lambda>_.
     and_then (constraint (ta_owner custody = wi_vault a) InvalidVaultCustodyBalance) (\<lambda>_.
     and_then (constraint (ta_mint custody = as_mint asset) InvalidWithdrawalDestinationMint) (\<lambda>_.
     and_then (constraint (custody_owner = wi_token_program a) InvalidTokenProgram) (\<lambda>_.
     and_then (constraint (ta_mint dest = as_mint asset) InvalidWithdrawalDestinationMint) (\<lambda>_.
     and_then (constraint (dest_owner = wi_token_program a) InvalidTokenProgram) (\<lambda>_.
     Inr (config, v, m, asset, custody, dest))))))))))))))))))))"

definition next_window_state :: "vault_asset \<Rightarrow> u64 \<Rightarrow> i64 \<Rightarrow> (i64 \<times> u64) result" where
  "next_window_state asset amount now =
     (if as_window_seconds asset = 0
      then Inr (as_window_started_at asset, as_window_spent asset)
      else
        and_then (require (sint (as_window_seconds asset) > 0) InvalidWithdrawalPolicy) (\<lambda>_.
        and_then (add_i64_or (as_window_started_at asset) (as_window_seconds asset)
          WithdrawalPolicyOverflow) (\<lambda>window_ends.
        let (window_start, spent_before) =
              (if sint now \<ge> sint window_ends then (now, 0)
               else (as_window_started_at asset, as_window_spent asset)) in
        and_then (add_u64_or spent_before amount WithdrawalPolicyOverflow) (\<lambda>spent_after.
        and_then (require (as_window_limit asset \<ge> spent_after) WindowLimitExceeded) (\<lambda>_.
        Inr (window_start, spent_after))))))"

definition withdraw_authorize ::
    "runtime \<Rightarrow> tx \<Rightarrow> ledger \<Rightarrow> withdraw_accounts \<Rightarrow> vault \<Rightarrow> unit result" where
  "withdraw_authorize rt t L a v =
     authorize_operator rt t L (wi_caller a = va_authority v) (wi_vault a) (wi_caller a)
       PERMISSION_WITHDRAW UnexpectedWithdrawalAccounts MissingVaultPermission"

definition withdraw_tokens ::
    "runtime \<Rightarrow> tx \<Rightarrow> withdraw_accounts \<Rightarrow> protocol_config \<Rightarrow> vault \<Rightarrow> mint \<Rightarrow> vault_asset
      \<Rightarrow> token_account \<Rightarrow> token_account \<Rightarrow> u64 \<Rightarrow> ledger \<Rightarrow> outcome" where
  "withdraw_tokens rt t a config v m asset custody dest amount L =
     and_then (require_protocol_active config PAUSE_VAULT_OUTFLOW) (\<lambda>_.
     and_then (withdraw_authorize rt t L a v) (\<lambda>_.
     and_then (require (amount > 0) InvalidVaultAmount) (\<lambda>_.
     and_then (require (\<not> va_paused v) VaultPaused) (\<lambda>_.
     and_then (require (as_enabled asset) VaultAssetDisabled) (\<lambda>_.
     and_then (require (as_max_per_transaction asset \<ge> amount) PerTransactionLimitExceeded) (\<lambda>_.
     and_then (require (as_timelock_threshold asset \<ge> amount) TimelockRequired) (\<lambda>_.
     and_then (require (ta_amount custody \<ge> amount) InsufficientVaultFunds) (\<lambda>_.
     and_then (next_window_state asset amount (tx_now t)) (\<lambda>(next_window_start, next_window_spent).
     let custody_before = ta_amount custody; destination_before = ta_amount dest in
     and_then (add_u64_or destination_before amount InvalidWithdrawalDestinationBalance)
       (\<lambda>destination_after.
     let signer_seeds = vault_seeds (va_namespace_authority v) (va_vault_id v) @ [[va_bump v]] in
     and_then (transfer_checked rt
       \<lparr>tr_program = wi_token_program a, tr_from = wi_vault_token a, tr_mint = wi_mint a,
        tr_to = wi_destination_token a, tr_authority = wi_vault a,
        tr_signed = cpi_signed rt t signer_seeds (wi_vault a),
        tr_amount = amount, tr_decimals = mi_decimals m\<rparr> L) (\<lambda>L1.
     and_then (reload_amount L1 (wi_vault_token a)) (\<lambda>custody_now.
     and_then (reload_amount L1 (wi_destination_token a)) (\<lambda>destination_now.
     and_then (minus_u64 custody_before amount) (\<lambda>expected_custody.
     and_then (require (custody_now = expected_custody) InvalidVaultCustodyBalance) (\<lambda>_.
     and_then (require (destination_now = destination_after)
       InvalidWithdrawalDestinationBalance) (\<lambda>_.
     let asset' = (if sint (as_window_seconds asset) > 0
                   then asset\<lparr>as_window_started_at := next_window_start,
                              as_window_spent := next_window_spent\<rparr>
                   else asset) in
     Inr (store (wi_vault_asset a) (AssetData asset') L1,
          [VaultWithdrawal INITIAL_SCHEMA_VERSION (wi_vault a) (wi_vault_asset a) (wi_vault_token a)
             (wi_caller a) (wi_destination_token a) (wi_mint a) amount])))))))))))))))))"

definition withdraw :: "runtime \<Rightarrow> tx \<Rightarrow> withdraw_accounts \<Rightarrow> u64 \<Rightarrow> ledger \<Rightarrow> outcome" where
  "withdraw rt t a amount L =
     and_then (withdraw_validate rt t a L) (\<lambda>(config, v, m, asset, custody, dest).
     withdraw_tokens rt t a config v m asset custody dest amount L)"

section \<open>request\_withdrawal\<close>

record request_withdrawal_accounts =
  rq_proposer :: pubkey
  rq_protocol_config :: pubkey
  rq_vault :: pubkey
  rq_mint :: pubkey
  rq_vault_asset :: pubkey
  rq_recipient_token :: pubkey
  rq_withdrawal_request :: pubkey
  rq_system_program :: pubkey
  rq_clock :: pubkey

definition request_withdrawal_validate ::
    "runtime \<Rightarrow> tx \<Rightarrow> request_withdrawal_accounts \<Rightarrow> ledger
      \<Rightarrow> (protocol_config \<times> vault \<times> vault_asset \<times> token_account \<times> u8 \<times> ledger) result" where
  "request_withdrawal_validate rt t a L =
     and_then (signer t (rq_proposer a)) (\<lambda>_.
     and_then (load config_of L (rq_protocol_config a)) (\<lambda>config.
     and_then (load vault_of L (rq_vault a)) (\<lambda>v.
     and_then (load_interface rt mint_of L (rq_mint a)) (\<lambda>(mint_owner, m).
     and_then (load asset_of L (rq_vault_asset a)) (\<lambda>asset.
     and_then (load_interface rt token_of L (rq_recipient_token a)) (\<lambda>(recipient_owner, recipient).
     and_then (system_program rt (rq_system_program a)) (\<lambda>_.
     and_then (sysvar_clock (rq_clock a)) (\<lambda>_.
     and_then (init_account rt (rq_proposer a) WITHDRAWAL_REQUEST_SPACE (rq_withdrawal_request a)
       (withdrawal_seeds (rq_vault a) (va_next_withdrawal_id v)) L) (\<lambda>(bump, L').
     and_then (seeds_with_bump rt (rq_protocol_config a) protocol_seeds (pc_bump config)) (\<lambda>_.
     and_then (vault_address rt (rq_vault a) v) (\<lambda>_.
     and_then (mint_constraints rt mint_owner m (as_token_program asset)) (\<lambda>_.
     and_then (asset_address rt (rq_vault_asset a) (rq_vault a) (rq_mint a) asset) (\<lambda>_.
     and_then (constraint (ta_mint recipient = rq_mint a) InvalidWithdrawalMint) (\<lambda>_.
     and_then (constraint (recipient_owner = as_token_program asset) InvalidTokenProgram) (\<lambda>_.
     Inr (config, v, asset, recipient, bump, L'))))))))))))))))"

definition request_authorize ::
    "runtime \<Rightarrow> tx \<Rightarrow> ledger \<Rightarrow> request_withdrawal_accounts \<Rightarrow> vault \<Rightarrow> unit result" where
  "request_authorize rt t L a v =
     authorize_operator rt t L (rq_proposer a = va_authority v) (rq_vault a) (rq_proposer a)
       PERMISSION_REQUEST_WITHDRAWAL UnexpectedRequestAccounts MissingVaultPermission"

definition request ::
    "runtime \<Rightarrow> tx \<Rightarrow> request_withdrawal_accounts \<Rightarrow> protocol_config \<Rightarrow> vault \<Rightarrow> vault_asset
      \<Rightarrow> token_account \<Rightarrow> u8 \<Rightarrow> u64 \<Rightarrow> ledger \<Rightarrow> outcome" where
  "request rt t a config v asset recipient bump amount L =
     and_then (require_protocol_active config PAUSE_VAULT_OUTFLOW) (\<lambda>_.
     and_then (request_authorize rt t L a v) (\<lambda>_.
     and_then (require (amount > 0) InvalidVaultAmount) (\<lambda>_.
     and_then (require (\<not> va_paused v) VaultPaused) (\<lambda>_.
     and_then (require (as_enabled asset) VaultAssetDisabled) (\<lambda>_.
     and_then (require (amount > as_timelock_threshold asset) TimelockNotRequired) (\<lambda>_.
     and_then (require (as_max_per_transaction asset \<ge> amount) PerTransactionLimitExceeded) (\<lambda>_.
     let now = tx_now t in
     and_then (add_i64_or now (as_timelock_seconds asset) WithdrawalTimingOverflow) (\<lambda>execute_after.
     and_then (add_i64_or execute_after (as_request_execution_window_seconds asset)
       WithdrawalTimingOverflow) (\<lambda>expires_at.
     and_then (require (sint execute_after > sint now) InvalidWithdrawalPolicy) (\<lambda>_.
     and_then (require (sint expires_at > sint execute_after) InvalidWithdrawalPolicy) (\<lambda>_.
     let withdrawal_id = va_next_withdrawal_id v in
     and_then (add_u64_or withdrawal_id 1 WithdrawalPolicyOverflow) (\<lambda>next_id.
     let w = \<lparr>wr_vault = rq_vault a, wr_vault_asset = rq_vault_asset a, wr_mint = rq_mint a,
              wr_token_program = as_token_program asset, wr_proposer = rq_proposer a,
              wr_recipient_owner = ta_owner recipient,
              wr_recipient_token_account = rq_recipient_token a,
              wr_withdrawal_id = withdrawal_id, wr_amount = amount, wr_created_at = now,
              wr_execute_after = execute_after, wr_expires_at = expires_at,
              wr_status = Pending, wr_bump = bump, wr_reserved = replicate 30 0\<rparr> in
     Inr (store (rq_withdrawal_request a) (RequestData w)
            (store (rq_vault a) (VaultData (v\<lparr>va_next_withdrawal_id := next_id\<rparr>)) L),
          [WithdrawalRequested INITIAL_SCHEMA_VERSION (rq_vault a) (rq_vault_asset a)
             (rq_withdrawal_request a) (rq_proposer a) (ta_owner recipient) (rq_recipient_token a)
             (rq_mint a) withdrawal_id amount now execute_after expires_at])))))))))))))"

definition request_withdrawal ::
    "runtime \<Rightarrow> tx \<Rightarrow> request_withdrawal_accounts \<Rightarrow> u64 \<Rightarrow> ledger \<Rightarrow> outcome" where
  "request_withdrawal rt t a amount L =
     and_then (request_withdrawal_validate rt t a L) (\<lambda>(config, v, asset, recipient, bump, L').
     request rt t a config v asset recipient bump amount L')"

section \<open>execute\_withdrawal\<close>

record execute_withdrawal_accounts =
  ex_caller :: pubkey
  ex_protocol_config :: pubkey
  ex_vault :: pubkey
  ex_mint :: pubkey
  ex_vault_asset :: pubkey
  ex_withdrawal_request :: pubkey
  ex_vault_token :: pubkey
  ex_recipient_token :: pubkey
  ex_token_program :: pubkey
  ex_clock :: pubkey

definition execute_withdrawal_validate ::
    "runtime \<Rightarrow> tx \<Rightarrow> execute_withdrawal_accounts \<Rightarrow> ledger
      \<Rightarrow> (protocol_config \<times> vault \<times> mint \<times> vault_asset \<times> withdrawal_request \<times> token_account
          \<times> token_account) result" where
  "execute_withdrawal_validate rt t a L =
     and_then (signer t (ex_caller a)) (\<lambda>_.
     and_then (load config_of L (ex_protocol_config a)) (\<lambda>config.
     and_then (load vault_of L (ex_vault a)) (\<lambda>v.
     and_then (load_interface rt mint_of L (ex_mint a)) (\<lambda>(mint_owner, m).
     and_then (load asset_of L (ex_vault_asset a)) (\<lambda>asset.
     and_then (load request_of L (ex_withdrawal_request a)) (\<lambda>w.
     and_then (load_interface rt token_of L (ex_vault_token a)) (\<lambda>(custody_owner, custody).
     and_then (load_interface rt token_of L (ex_recipient_token a)) (\<lambda>(dest_owner, dest).
     and_then (token_interface rt (ex_token_program a)) (\<lambda>_.
     and_then (sysvar_clock (ex_clock a)) (\<lambda>_.
     and_then (seeds_with_bump rt (ex_protocol_config a) protocol_seeds (pc_bump config)) (\<lambda>_.
     and_then (vault_address rt (ex_vault a) v) (\<lambda>_.
     and_then (mint_constraints rt mint_owner m (ex_token_program a)) (\<lambda>_.
     and_then (asset_address rt (ex_vault_asset a) (ex_vault a) (ex_mint a) asset) (\<lambda>_.
     and_then (constraint_raw (as_token_program asset = ex_token_program a)) (\<lambda>_.
     and_then (seeds_with_bump rt (ex_withdrawal_request a)
       (withdrawal_seeds (ex_vault a) (wr_withdrawal_id w)) (wr_bump w)) (\<lambda>_.
     and_then (has_one (wr_vault w) (ex_vault a)) (\<lambda>_.
     and_then (has_one (wr_vault_asset w) (ex_vault_asset a)) (\<lambda>_.
     and_then (has_one (wr_mint w) (ex_mint a)) (\<lambda>_.
     and_then (constraint_raw (wr_token_program w = ex_token_program a)) (\<lambda>_.
     and_then (seeds_canonical rt (ex_vault_token a) (vault_token_seeds (ex_vault a) (ex_mint a))) (\<lambda>_.
     and_then (constraint (ta_owner custody = ex_vault a) InvalidVaultCustodyBalance) (\<lambda>_.
     and_then (constraint (ta_mint custody = ex_mint a) InvalidWithdrawalMint) (\<lambda>_.
     and_then (constraint (custody_owner = ex_token_program a) InvalidTokenProgram) (\<lambda>_.
     and_then (constraint (ex_recipient_token a = wr_recipient_token_account w)
       InvalidWithdrawalRecipient) (\<lambda>_.
     and_then (constraint (ta_owner dest = wr_recipient_owner w) InvalidWithdrawalRecipient) (\<lambda>_.
     and_then (constraint (ta_mint dest = wr_mint w) InvalidWithdrawalMint) (\<lambda>_.
     and_then (constraint (dest_owner = ex_token_program a) InvalidTokenProgram) (\<lambda>_.
     Inr (config, v, m, asset, w, custody, dest)))))))))))))))))))))))))))))"

definition execute ::
    "runtime \<Rightarrow> tx \<Rightarrow> execute_withdrawal_accounts \<Rightarrow> protocol_config \<Rightarrow> vault \<Rightarrow> mint \<Rightarrow> vault_asset
      \<Rightarrow> withdrawal_request \<Rightarrow> token_account \<Rightarrow> token_account \<Rightarrow> ledger \<Rightarrow> outcome" where
  "execute rt t a config v m asset w custody dest L =
     and_then (require_protocol_active config PAUSE_VAULT_OUTFLOW) (\<lambda>_.
     and_then (require (wr_status w = Pending) WithdrawalNotPending) (\<lambda>_.
     let now = tx_now t in
     and_then (require (sint now \<ge> sint (wr_execute_after w)) WithdrawalTimelockActive) (\<lambda>_.
     and_then (require (sint (wr_expires_at w) \<ge> sint now) WithdrawalRequestExpired) (\<lambda>_.
     and_then (require (\<not> va_paused v) VaultPaused) (\<lambda>_.
     and_then (require (as_enabled asset) VaultAssetDisabled) (\<lambda>_.
     and_then (require (as_max_per_transaction asset \<ge> wr_amount w) PerTransactionLimitExceeded) (\<lambda>_.
     and_then (require (ta_amount custody \<ge> wr_amount w) InsufficientVaultFunds) (\<lambda>_.
     and_then (next_window_state asset (wr_amount w) now) (\<lambda>(next_window_start, next_window_spent).
     let custody_before = ta_amount custody; destination_before = ta_amount dest in
     and_then (add_u64_or destination_before (wr_amount w) InvalidWithdrawalDestinationBalance)
       (\<lambda>destination_after.
     let signer_seeds = vault_seeds (va_namespace_authority v) (va_vault_id v) @ [[va_bump v]] in
     and_then (transfer_checked rt
       \<lparr>tr_program = ex_token_program a, tr_from = ex_vault_token a, tr_mint = ex_mint a,
        tr_to = ex_recipient_token a, tr_authority = ex_vault a,
        tr_signed = cpi_signed rt t signer_seeds (ex_vault a),
        tr_amount = wr_amount w, tr_decimals = mi_decimals m\<rparr> L) (\<lambda>L1.
     and_then (reload_amount L1 (ex_vault_token a)) (\<lambda>custody_now.
     and_then (reload_amount L1 (ex_recipient_token a)) (\<lambda>destination_now.
     and_then (minus_u64 custody_before (wr_amount w)) (\<lambda>expected_custody.
     and_then (require (custody_now = expected_custody) InvalidVaultCustodyBalance) (\<lambda>_.
     and_then (require (destination_now = destination_after)
       InvalidWithdrawalDestinationBalance) (\<lambda>_.
     let asset' = asset\<lparr>as_window_started_at := next_window_start,
                        as_window_spent := next_window_spent\<rparr>;
         w' = w\<lparr>wr_status := Executed\<rparr> in
     Inr (store (ex_withdrawal_request a) (RequestData w')
            (store (ex_vault_asset a) (AssetData asset') L1),
          [WithdrawalExecuted INITIAL_SCHEMA_VERSION (ex_vault a) (ex_vault_asset a)
             (ex_withdrawal_request a) (ex_caller a) (ex_recipient_token a) (ex_mint a)
             (wr_withdrawal_id w) (wr_amount w)])))))))))))))))))"

definition execute_withdrawal ::
    "runtime \<Rightarrow> tx \<Rightarrow> execute_withdrawal_accounts \<Rightarrow> ledger \<Rightarrow> outcome" where
  "execute_withdrawal rt t a L =
     and_then (execute_withdrawal_validate rt t a L) (\<lambda>(config, v, m, asset, w, custody, dest).
     execute rt t a config v m asset w custody dest L)"

section \<open>cancel\_withdrawal\<close>

record cancel_withdrawal_accounts =
  ca_caller :: pubkey
  ca_vault :: pubkey
  ca_withdrawal_request :: pubkey

definition cancel_withdrawal_validate ::
    "runtime \<Rightarrow> tx \<Rightarrow> cancel_withdrawal_accounts \<Rightarrow> ledger \<Rightarrow> (vault \<times> withdrawal_request) result" where
  "cancel_withdrawal_validate rt t a L =
     and_then (signer t (ca_caller a)) (\<lambda>_.
     and_then (load vault_of L (ca_vault a)) (\<lambda>v.
     and_then (load request_of L (ca_withdrawal_request a)) (\<lambda>w.
     and_then (vault_address rt (ca_vault a) v) (\<lambda>_.
     and_then (seeds_with_bump rt (ca_withdrawal_request a)
       (withdrawal_seeds (ca_vault a) (wr_withdrawal_id w)) (wr_bump w)) (\<lambda>_.
     and_then (has_one (wr_vault w) (ca_vault a)) (\<lambda>_.
     Inr (v, w)))))))"

definition cancel_authorize ::
    "runtime \<Rightarrow> tx \<Rightarrow> ledger \<Rightarrow> cancel_withdrawal_accounts \<Rightarrow> vault \<Rightarrow> withdrawal_request \<Rightarrow> unit result" where
  "cancel_authorize rt t L a v w =
     authorize_operator rt t L
       (ca_caller a = va_authority v \<or> ca_caller a = va_guardian v \<or> ca_caller a = wr_proposer w)
       (ca_vault a) (ca_caller a) PERMISSION_CANCEL_WITHDRAWAL
       UnexpectedCancellationAccounts UnauthorizedWithdrawalCancellation"

definition cancel ::
    "runtime \<Rightarrow> tx \<Rightarrow> cancel_withdrawal_accounts \<Rightarrow> vault \<Rightarrow> withdrawal_request \<Rightarrow> ledger \<Rightarrow> outcome" where
  "cancel rt t a v w L =
     and_then (require (wr_status w = Pending) WithdrawalNotPending) (\<lambda>_.
     and_then (cancel_authorize rt t L a v w) (\<lambda>_.
     Inr (store (ca_withdrawal_request a) (RequestData (w\<lparr>wr_status := Cancelled\<rparr>)) L,
          [WithdrawalCancelled INITIAL_SCHEMA_VERSION (ca_vault a) (ca_withdrawal_request a)
             (ca_caller a) (wr_proposer w) (wr_withdrawal_id w)])))"

definition cancel_withdrawal ::
    "runtime \<Rightarrow> tx \<Rightarrow> cancel_withdrawal_accounts \<Rightarrow> ledger \<Rightarrow> outcome" where
  "cancel_withdrawal rt t a L =
     and_then (cancel_withdrawal_validate rt t a L) (\<lambda>(v, w). cancel rt t a v w L)"

section \<open>When the operations succeed\<close>

definition vault_signer_seeds :: "vault \<Rightarrow> u8 list list" where
  "vault_signer_seeds v = vault_seeds (va_namespace_authority v) (va_vault_id v) @ [[va_bump v]]"

definition deposit_transfer :: "runtime \<Rightarrow> tx \<Rightarrow> deposit_accounts \<Rightarrow> mint \<Rightarrow> u64 \<Rightarrow> transfer" where
  "deposit_transfer rt t a m amount =
     \<lparr>tr_program = de_token_program a, tr_from = de_source_token a, tr_mint = de_mint a,
      tr_to = de_vault_token a, tr_authority = de_depositor a,
      tr_signed = cpi_signed rt t [] (de_depositor a),
      tr_amount = amount, tr_decimals = mi_decimals m\<rparr>"

definition withdraw_transfer :: "runtime \<Rightarrow> tx \<Rightarrow> withdraw_accounts \<Rightarrow> vault \<Rightarrow> mint \<Rightarrow> u64 \<Rightarrow> transfer" where
  "withdraw_transfer rt t a v m amount =
     \<lparr>tr_program = wi_token_program a, tr_from = wi_vault_token a, tr_mint = wi_mint a,
      tr_to = wi_destination_token a, tr_authority = wi_vault a,
      tr_signed = cpi_signed rt t (vault_signer_seeds v) (wi_vault a),
      tr_amount = amount, tr_decimals = mi_decimals m\<rparr>"

definition execute_transfer ::
    "runtime \<Rightarrow> tx \<Rightarrow> execute_withdrawal_accounts \<Rightarrow> vault \<Rightarrow> mint \<Rightarrow> u64 \<Rightarrow> transfer" where
  "execute_transfer rt t a v m amount =
     \<lparr>tr_program = ex_token_program a, tr_from = ex_vault_token a, tr_mint = ex_mint a,
      tr_to = ex_recipient_token a, tr_authority = ex_vault a,
      tr_signed = cpi_signed rt t (vault_signer_seeds v) (ex_vault a),
      tr_amount = amount, tr_decimals = mi_decimals m\<rparr>"

lemma deposit_validate_Inr_iff:
  "deposit_validate rt t a L = Inr (m, asset, source, custody) \<longleftrightarrow>
     de_depositor a \<in> tx_signers t
     \<and> (\<exists>v. state_at L (de_vault a) (VaultData v)
          \<and> rt_create_program_address rt (vault_signer_seeds v) = Some (de_vault a))
     \<and> mint_at L (de_mint a) (de_token_program a) m
     \<and> state_at L (de_vault_asset a) (AssetData asset)
     \<and> token_at L (de_source_token a) (de_token_program a) source
     \<and> token_at L (de_vault_token a) (de_token_program a) custody
     \<and> (de_token_program a = rt_token_id rt \<or> de_token_program a = rt_token_2022_id rt)
     \<and> mint_supported rt (de_token_program a) m
     \<and> rt_create_program_address rt
         (vault_asset_seeds (de_vault a) (de_mint a) @ [[as_bump asset]]) = Some (de_vault_asset a)
     \<and> as_vault asset = de_vault a \<and> as_mint asset = de_mint a
     \<and> as_token_program asset = de_token_program a
     \<and> ta_owner source = de_depositor a \<and> ta_mint source = de_mint a
     \<and> fst (rt_find_program_address rt (vault_token_seeds (de_vault a) (de_mint a))) = de_vault_token a
     \<and> ta_owner custody = de_vault a \<and> ta_mint custody = de_mint a"
  by (auto simp: deposit_validate_def success_iff prod_eq_iff vault_signer_seeds_def)

lemma deposit_tokens_Inr_iff:
  "deposit_tokens rt t a m asset source custody amount L = Inr (L', evs) \<longleftrightarrow>
     0 < amount \<and> as_enabled asset \<and> amount \<le> ta_amount source
     \<and> rt_transfer_checked rt (deposit_transfer rt t a m amount) L = Inr L'
     \<and> (\<exists>p q source' custody'.
          token_at L' (de_source_token a) p source' \<and> token_at L' (de_vault_token a) q custody'
          \<and> ta_amount source' = ta_amount source - amount
          \<and> unat (ta_amount custody') = unat (ta_amount custody) + unat amount)
     \<and> evs = [VaultDeposit INITIAL_SCHEMA_VERSION (de_vault a) (de_vault_asset a) (de_vault_token a)
                (de_depositor a) (de_source_token a) (de_mint a) amount]"
  by (auto simp: deposit_tokens_def success_iff Let_def deposit_transfer_def)

lemma withdraw_validate_Inr_iff:
  "withdraw_validate rt t a L = Inr (config, v, m, asset, custody, dest) \<longleftrightarrow>
     wi_caller a \<in> tx_signers t
     \<and> state_at L (wi_protocol_config a) (ConfigData config)
     \<and> state_at L (wi_vault a) (VaultData v)
     \<and> mint_at L (wi_mint a) (wi_token_program a) m
     \<and> state_at L (wi_vault_asset a) (AssetData asset)
     \<and> token_at L (wi_vault_token a) (wi_token_program a) custody
     \<and> token_at L (wi_destination_token a) (wi_token_program a) dest
     \<and> (wi_token_program a = rt_token_id rt \<or> wi_token_program a = rt_token_2022_id rt)
     \<and> mint_supported rt (wi_token_program a) m
     \<and> rt_create_program_address rt (protocol_seeds @ [[pc_bump config]]) = Some (wi_protocol_config a)
     \<and> rt_create_program_address rt (vault_signer_seeds v) = Some (wi_vault a)
     \<and> rt_create_program_address rt
         (vault_asset_seeds (wi_vault a) (wi_mint a) @ [[as_bump asset]]) = Some (wi_vault_asset a)
     \<and> as_vault asset = wi_vault a \<and> as_mint asset = wi_mint a
     \<and> as_token_program asset = wi_token_program a
     \<and> fst (rt_find_program_address rt (vault_token_seeds (wi_vault a) (wi_mint a))) = wi_vault_token a
     \<and> ta_owner custody = wi_vault a \<and> ta_mint custody = wi_mint a
     \<and> ta_mint dest = wi_mint a"
  by (auto simp: withdraw_validate_def success_iff prod_eq_iff vault_signer_seeds_def)

text \<open>The asset after an outflow that \<open>next_window_state\<close> admitted.\<close>

definition charge :: "vault_asset \<Rightarrow> i64 \<Rightarrow> u64 \<Rightarrow> vault_asset" where
  "charge asset started spent = asset\<lparr>as_window_started_at := started, as_window_spent := spent\<rparr>"

lemma next_window_state_Inr_iff:
  "next_window_state asset amount now = Inr (started, spent) \<longleftrightarrow>
     (if as_window_seconds asset = 0
      then started = as_window_started_at asset \<and> spent = as_window_spent asset
      else 0 < sint (as_window_seconds asset)
        \<and> sint (as_window_started_at asset) + sint (as_window_seconds asset) < 2 ^ 63
        \<and> (if sint (as_window_started_at asset) + sint (as_window_seconds asset) \<le> sint now
           then started = now \<and> spent = amount
           else started = as_window_started_at asset
                \<and> unat spent = unat (as_window_spent asset) + unat amount)
        \<and> spent \<le> as_window_limit asset)"
proof (cases "checked_add_i64 (as_window_started_at asset) (as_window_seconds asset)")
  case None
  then show ?thesis
    using sint_i64_bounds(1) [of "as_window_started_at asset"]
    by (auto simp: next_window_state_def add_i64_or_def checked_add_i64_def success_iff split: if_splits)
next
  case (Some e)
  then have e: "sint e = sint (as_window_started_at asset) + sint (as_window_seconds asset)"
    by (simp add: success_iff)
  then have "sint (as_window_started_at asset) + sint (as_window_seconds asset) < 2 ^ 63"
    by (metis sint_i64_bounds(2))
  moreover have ends: "add_i64_or (as_window_started_at asset) (as_window_seconds asset) err = Inr e"
    for err
    by (simp add: add_i64_or_def Some)
  ultimately show ?thesis
    using e by (auto simp: next_window_state_def ends success_iff word_unat_eq_iff [symmetric])
qed

lemma charge_next_window:
  "next_window_state asset amount now = Inr (started, spent) \<Longrightarrow>
     (if sint (as_window_seconds asset) > 0 then charge asset started spent else asset)
     = charge asset started spent"
  by (auto simp: next_window_state_Inr_iff charge_def split: if_splits)

lemma unat_succ_iff:
  fixes x y :: u64
  shows "unat y = Suc (unat x) \<longleftrightarrow> Suc (unat x) < 2 ^ 64 \<and> y = x + 1"
proof
  assume y: "unat y = Suc (unat x)"
  then have lt: "Suc (unat x) < 2 ^ 64"
    using unat_u64_bound [of y] by simp
  then have "unat (x + 1) = Suc (unat x)"
    by (simp add: unat_word_ariths)
  then show "Suc (unat x) < 2 ^ 64 \<and> y = x + 1"
    using lt y by (metis word_unat_eq_iff)
next
  assume "Suc (unat x) < 2 ^ 64 \<and> y = x + 1"
  then show "unat y = Suc (unat x)"
    by (simp add: unat_word_ariths)
qed

lemma withdraw_tokens_Inr_iff:
  "withdraw_tokens rt t a config v m asset custody dest amount L = Inr (L', evs) \<longleftrightarrow>
     \<not> is_paused config PAUSE_VAULT_OUTFLOW
     \<and> withdraw_authorize rt t L a v = Inr ()
     \<and> 0 < amount \<and> \<not> va_paused v \<and> as_enabled asset
     \<and> amount \<le> as_max_per_transaction asset \<and> amount \<le> as_timelock_threshold asset
     \<and> amount \<le> ta_amount custody
     \<and> (\<exists>started spent L1 p q custody' dest'.
          next_window_state asset amount (tx_now t) = Inr (started, spent)
          \<and> rt_transfer_checked rt (withdraw_transfer rt t a v m amount) L = Inr L1
          \<and> token_at L1 (wi_vault_token a) p custody' \<and> token_at L1 (wi_destination_token a) q dest'
          \<and> ta_amount custody' = ta_amount custody - amount
          \<and> unat (ta_amount dest') = unat (ta_amount dest) + unat amount
          \<and> L' = store (wi_vault_asset a)
              (AssetData (if sint (as_window_seconds asset) > 0 then charge asset started spent
                          else asset)) L1)
     \<and> evs = [VaultWithdrawal INITIAL_SCHEMA_VERSION (wi_vault a) (wi_vault_asset a) (wi_vault_token a)
                (wi_caller a) (wi_destination_token a) (wi_mint a) amount]"
  unfolding charge_def
  by (cases "next_window_state asset amount (tx_now t)";
      cases "rt_transfer_checked rt (withdraw_transfer rt t a v m amount) L")
    (auto simp: withdraw_tokens_def success_iff Let_def withdraw_transfer_def vault_signer_seeds_def
      split del: if_split)

text \<open>The record \<open>request_withdrawal\<close> writes.\<close>

definition requested ::
    "tx \<Rightarrow> request_withdrawal_accounts \<Rightarrow> vault \<Rightarrow> vault_asset \<Rightarrow> token_account \<Rightarrow> u8 \<Rightarrow> u64 \<Rightarrow> i64 \<Rightarrow> i64
      \<Rightarrow> withdrawal_request" where
  "requested t a v asset recipient bump amount execute_after expires_at =
     \<lparr>wr_vault = rq_vault a, wr_vault_asset = rq_vault_asset a, wr_mint = rq_mint a,
      wr_token_program = as_token_program asset, wr_proposer = rq_proposer a,
      wr_recipient_owner = ta_owner recipient,
      wr_recipient_token_account = rq_recipient_token a,
      wr_withdrawal_id = va_next_withdrawal_id v, wr_amount = amount, wr_created_at = tx_now t,
      wr_execute_after = execute_after, wr_expires_at = expires_at,
      wr_status = Pending, wr_bump = bump, wr_reserved = replicate 30 0\<rparr>"

lemma request_withdrawal_validate_Inr_iff:
  "request_withdrawal_validate rt t a L = Inr (config, v, asset, recipient, bump, L0) \<longleftrightarrow>
     rq_proposer a \<in> tx_signers t
     \<and> state_at L (rq_protocol_config a) (ConfigData config)
     \<and> state_at L (rq_vault a) (VaultData v)
     \<and> (\<exists>m. mint_at L (rq_mint a) (as_token_program asset) m
          \<and> mint_supported rt (as_token_program asset) m)
     \<and> state_at L (rq_vault_asset a) (AssetData asset)
     \<and> token_at L (rq_recipient_token a) (as_token_program asset) recipient
     \<and> (as_token_program asset = rt_token_id rt \<or> as_token_program asset = rt_token_2022_id rt)
     \<and> rq_system_program a = rt_system_id rt \<and> rq_clock a = CLOCK_ID
     \<and> L (rq_withdrawal_request a) = None
     \<and> rt_find_program_address rt (withdrawal_seeds (rq_vault a) (va_next_withdrawal_id v))
         = (rq_withdrawal_request a, bump)
     \<and> rt_pays_rent rt (rq_proposer a) WITHDRAWAL_REQUEST_SPACE
     \<and> L0 = L(rq_withdrawal_request a \<mapsto>
         \<lparr>acc_program = ID, acc_data = OtherData (replicate WITHDRAWAL_REQUEST_SPACE 0)\<rparr>)
     \<and> rt_create_program_address rt (protocol_seeds @ [[pc_bump config]]) = Some (rq_protocol_config a)
     \<and> rt_create_program_address rt (vault_signer_seeds v) = Some (rq_vault a)
     \<and> rt_create_program_address rt
         (vault_asset_seeds (rq_vault a) (rq_mint a) @ [[as_bump asset]]) = Some (rq_vault_asset a)
     \<and> as_vault asset = rq_vault a \<and> as_mint asset = rq_mint a
     \<and> ta_mint recipient = rq_mint a"
  by (auto simp: request_withdrawal_validate_def success_iff prod_eq_iff vault_signer_seeds_def)

lemma request_Inr_iff:
  "request rt t a config v asset recipient bump amount L = Inr (L', evs) \<longleftrightarrow>
     \<not> is_paused config PAUSE_VAULT_OUTFLOW
     \<and> request_authorize rt t L a v = Inr ()
     \<and> 0 < amount \<and> \<not> va_paused v \<and> as_enabled asset
     \<and> as_timelock_threshold asset < amount \<and> amount \<le> as_max_per_transaction asset
     \<and> Suc (unat (va_next_withdrawal_id v)) < 2 ^ 64
     \<and> (\<exists>execute_after expires_at.
          sint execute_after = sint (tx_now t) + sint (as_timelock_seconds asset)
          \<and> sint expires_at = sint execute_after + sint (as_request_execution_window_seconds asset)
          \<and> 0 < sint (as_timelock_seconds asset)
          \<and> 0 < sint (as_request_execution_window_seconds asset)
          \<and> L' = store (rq_withdrawal_request a)
                   (RequestData (requested t a v asset recipient bump amount execute_after expires_at))
                   (store (rq_vault a)
                     (VaultData (v\<lparr>va_next_withdrawal_id := va_next_withdrawal_id v + 1\<rparr>)) L)
          \<and> evs = [WithdrawalRequested INITIAL_SCHEMA_VERSION (rq_vault a) (rq_vault_asset a)
              (rq_withdrawal_request a) (rq_proposer a) (ta_owner recipient) (rq_recipient_token a)
              (rq_mint a) (va_next_withdrawal_id v) amount (tx_now t) execute_after expires_at])"
  by (auto simp: request_def success_iff Let_def requested_def unat_succ_iff)

lemma execute_withdrawal_validate_Inr_iff:
  "execute_withdrawal_validate rt t a L = Inr (config, v, m, asset, w, custody, dest) \<longleftrightarrow>
     ex_caller a \<in> tx_signers t
     \<and> state_at L (ex_protocol_config a) (ConfigData config)
     \<and> state_at L (ex_vault a) (VaultData v)
     \<and> mint_at L (ex_mint a) (ex_token_program a) m
     \<and> state_at L (ex_vault_asset a) (AssetData asset)
     \<and> state_at L (ex_withdrawal_request a) (RequestData w)
     \<and> token_at L (ex_vault_token a) (ex_token_program a) custody
     \<and> token_at L (ex_recipient_token a) (ex_token_program a) dest
     \<and> (ex_token_program a = rt_token_id rt \<or> ex_token_program a = rt_token_2022_id rt)
     \<and> ex_clock a = CLOCK_ID
     \<and> mint_supported rt (ex_token_program a) m
     \<and> rt_create_program_address rt (protocol_seeds @ [[pc_bump config]]) = Some (ex_protocol_config a)
     \<and> rt_create_program_address rt (vault_signer_seeds v) = Some (ex_vault a)
     \<and> rt_create_program_address rt
         (vault_asset_seeds (ex_vault a) (ex_mint a) @ [[as_bump asset]]) = Some (ex_vault_asset a)
     \<and> as_vault asset = ex_vault a \<and> as_mint asset = ex_mint a
     \<and> as_token_program asset = ex_token_program a
     \<and> rt_create_program_address rt (withdrawal_seeds (ex_vault a) (wr_withdrawal_id w) @ [[wr_bump w]])
         = Some (ex_withdrawal_request a)
     \<and> wr_vault w = ex_vault a \<and> wr_vault_asset w = ex_vault_asset a \<and> wr_mint w = ex_mint a
     \<and> wr_token_program w = ex_token_program a
     \<and> fst (rt_find_program_address rt (vault_token_seeds (ex_vault a) (ex_mint a))) = ex_vault_token a
     \<and> ta_owner custody = ex_vault a \<and> ta_mint custody = ex_mint a
     \<and> wr_recipient_token_account w = ex_recipient_token a
     \<and> ta_owner dest = wr_recipient_owner w \<and> ta_mint dest = ex_mint a"
  by (auto simp: execute_withdrawal_validate_def success_iff prod_eq_iff vault_signer_seeds_def)

lemma execute_Inr_iff:
  "execute rt t a config v m asset w custody dest L = Inr (L', evs) \<longleftrightarrow>
     \<not> is_paused config PAUSE_VAULT_OUTFLOW
     \<and> wr_status w = Pending
     \<and> sint (wr_execute_after w) \<le> sint (tx_now t) \<and> sint (tx_now t) \<le> sint (wr_expires_at w)
     \<and> \<not> va_paused v \<and> as_enabled asset
     \<and> wr_amount w \<le> as_max_per_transaction asset \<and> wr_amount w \<le> ta_amount custody
     \<and> (\<exists>started spent L1 p q custody' dest'.
          next_window_state asset (wr_amount w) (tx_now t) = Inr (started, spent)
          \<and> rt_transfer_checked rt (execute_transfer rt t a v m (wr_amount w)) L = Inr L1
          \<and> token_at L1 (ex_vault_token a) p custody' \<and> token_at L1 (ex_recipient_token a) q dest'
          \<and> ta_amount custody' = ta_amount custody - wr_amount w
          \<and> unat (ta_amount dest') = unat (ta_amount dest) + unat (wr_amount w)
          \<and> L' = store (ex_withdrawal_request a) (RequestData (w\<lparr>wr_status := Executed\<rparr>))
              (store (ex_vault_asset a) (AssetData (charge asset started spent)) L1))
     \<and> evs = [WithdrawalExecuted INITIAL_SCHEMA_VERSION (ex_vault a) (ex_vault_asset a)
                (ex_withdrawal_request a) (ex_caller a) (ex_recipient_token a) (ex_mint a)
                (wr_withdrawal_id w) (wr_amount w)]"
  by (cases "next_window_state asset (wr_amount w) (tx_now t)";
      cases "rt_transfer_checked rt (execute_transfer rt t a v m (wr_amount w)) L")
    (auto simp: execute_def success_iff Let_def execute_transfer_def vault_signer_seeds_def charge_def)

lemma cancel_withdrawal_Inr_iff:
  "cancel_withdrawal rt t a L = Inr (L', evs) \<longleftrightarrow>
     ca_caller a \<in> tx_signers t
     \<and> (\<exists>v w. state_at L (ca_vault a) (VaultData v)
        \<and> state_at L (ca_withdrawal_request a) (RequestData w)
        \<and> rt_create_program_address rt (vault_signer_seeds v) = Some (ca_vault a)
        \<and> rt_create_program_address rt
            (withdrawal_seeds (ca_vault a) (wr_withdrawal_id w) @ [[wr_bump w]])
            = Some (ca_withdrawal_request a)
        \<and> wr_vault w = ca_vault a \<and> wr_status w = Pending
        \<and> cancel_authorize rt t L a v w = Inr ()
        \<and> L' = store (ca_withdrawal_request a) (RequestData (w\<lparr>wr_status := Cancelled\<rparr>)) L
        \<and> evs = [WithdrawalCancelled INITIAL_SCHEMA_VERSION (ca_vault a) (ca_withdrawal_request a)
                   (ca_caller a) (wr_proposer w) (wr_withdrawal_id w)])"
  by (auto simp: cancel_withdrawal_def cancel_withdrawal_validate_def cancel_def success_iff
      vault_signer_seeds_def)

end
