(* ===== verification/Escrows.thy ===== *)
theory Escrows
  imports Protocol
begin

text \<open>
  Fixed-destination escrow: \<open>create_escrow.rs\<close>, \<open>release_escrow.rs\<close> and
  \<open>refund_escrow.rs\<close>. Each instruction is its account validation (the \<open>Accounts\<close>
  struct with its attributes) followed by its handler.
\<close>

section \<open>create\_escrow\<close>

record create_escrow_accounts =
  ce_maker :: pubkey
  ce_protocol_config :: pubkey
  ce_mint :: pubkey
  ce_maker_token :: pubkey
  ce_escrow :: pubkey
  ce_escrow_token :: pubkey
  ce_token_program :: pubkey
  ce_system_program :: pubkey

definition create_escrow_validate ::
    "runtime \<Rightarrow> tx \<Rightarrow> create_escrow_accounts \<Rightarrow> u64 \<Rightarrow> ledger
      \<Rightarrow> (protocol_config \<times> mint \<times> token_account \<times> u8 \<times> ledger) result" where
  "create_escrow_validate rt t a escrow_id L =
     and_then (signer t (ce_maker a)) (\<lambda>_.
     and_then (load config_of L (ce_protocol_config a)) (\<lambda>config.
     and_then (load_interface rt mint_of L (ce_mint a)) (\<lambda>(mint_owner, m).
     and_then (load_interface rt token_of L (ce_maker_token a)) (\<lambda>(maker_token_owner, maker_token).
     and_then (token_interface rt (ce_token_program a)) (\<lambda>_.
     and_then (system_program rt (ce_system_program a)) (\<lambda>_.
     and_then (init_account rt (ce_maker a) ESCROW_SPACE (ce_escrow a)
       (escrow_seeds (ce_maker a) escrow_id) L) (\<lambda>(bump, L1).
     and_then (init_token_account rt (ce_maker a) (ce_escrow_token a)
       (escrow_token_seeds (ce_escrow a)) (ce_token_program a) (ce_mint a) (ce_escrow a) L1)
       (\<lambda>(_, L2).
     and_then (seeds_with_bump rt (ce_protocol_config a) protocol_seeds (pc_bump config)) (\<lambda>_.
     and_then (mint_constraints rt mint_owner m (ce_token_program a)) (\<lambda>_.
     and_then (constraint (ta_owner maker_token = ce_maker a) InvalidSourceOwner) (\<lambda>_.
     and_then (constraint (ta_mint maker_token = ce_mint a) InvalidSourceMint) (\<lambda>_.
     and_then (constraint (maker_token_owner = ce_token_program a) InvalidTokenProgram) (\<lambda>_.
     Inr (config, m, maker_token, bump, L2))))))))))))))"

definition create ::
    "runtime \<Rightarrow> tx \<Rightarrow> create_escrow_accounts \<Rightarrow> protocol_config \<Rightarrow> mint \<Rightarrow> token_account \<Rightarrow> u8
      \<Rightarrow> u64 \<Rightarrow> pubkey \<Rightarrow> u64 \<Rightarrow> i64 \<Rightarrow> ledger \<Rightarrow> outcome" where
  "create rt t a config m maker_token bump escrow_id recipient amount expires_at L =
     and_then (require_protocol_active config PAUSE_ESCROW_CREATE) (\<lambda>_.
     let maker = ce_maker a; now = tx_now t in
     and_then (require (amount > 0) InvalidAmount) (\<lambda>_.
     and_then (require (recipient \<noteq> default_pubkey \<and> recipient \<noteq> maker) InvalidRecipient) (\<lambda>_.
     and_then (require (sint expires_at > sint now) InvalidExpiry) (\<lambda>_.
     and_then (require (ta_amount maker_token \<ge> amount) InsufficientFunds) (\<lambda>_.
     and_then (reload_amount L (ce_escrow_token a)) (\<lambda>custody.
     and_then (require (custody = 0) InvalidCustodyBalance) (\<lambda>_.
     let esc = \<lparr>es_maker = maker, es_recipient = recipient, es_mint = ce_mint a,
                es_token_program = ce_token_program a, es_escrow_id = escrow_id,
                es_amount = amount, es_created_at = now, es_expires_at = expires_at,
                es_status = Funded, es_bump = bump, es_reserved = replicate 30 0\<rparr>;
         source_before = ta_amount maker_token in
     and_then (transfer_checked rt
       \<lparr>tr_program = ce_token_program a, tr_from = ce_maker_token a, tr_mint = ce_mint a,
        tr_to = ce_escrow_token a, tr_authority = maker, tr_signed = cpi_signed rt t [] maker,
        tr_amount = amount, tr_decimals = mi_decimals m\<rparr> L) (\<lambda>L1.
     and_then (reload_amount L1 (ce_maker_token a)) (\<lambda>source_after.
     and_then (reload_amount L1 (ce_escrow_token a)) (\<lambda>custody_after.
     and_then (minus_u64 source_before amount) (\<lambda>expected_source.
     and_then (require (source_after = expected_source) InvalidSourceBalance) (\<lambda>_.
     and_then (require (custody_after = amount) InvalidCustodyBalance) (\<lambda>_.
     Inr (store (ce_escrow a) (EscrowData esc) L1,
          [EscrowCreated INITIAL_SCHEMA_VERSION (ce_escrow a) (ce_escrow_token a) maker recipient
             (ce_mint a) amount now expires_at escrow_id]))))))))))))))"

definition create_escrow ::
    "runtime \<Rightarrow> tx \<Rightarrow> create_escrow_accounts \<Rightarrow> u64 \<Rightarrow> pubkey \<Rightarrow> u64 \<Rightarrow> i64 \<Rightarrow> ledger \<Rightarrow> outcome" where
  "create_escrow rt t a escrow_id recipient amount expires_at L =
     and_then (create_escrow_validate rt t a escrow_id L) (\<lambda>(config, m, maker_token, bump, L').
     create rt t a config m maker_token bump escrow_id recipient amount expires_at L')"

section \<open>release\_escrow\<close>

record release_escrow_accounts =
  re_maker :: pubkey
  re_protocol_config :: pubkey
  re_escrow :: pubkey
  re_mint :: pubkey
  re_escrow_token :: pubkey
  re_recipient_token :: pubkey
  re_token_program :: pubkey

definition release_escrow_validate ::
    "runtime \<Rightarrow> tx \<Rightarrow> release_escrow_accounts \<Rightarrow> ledger
      \<Rightarrow> (protocol_config \<times> escrow \<times> mint \<times> token_account \<times> token_account) result" where
  "release_escrow_validate rt t a L =
     and_then (signer t (re_maker a)) (\<lambda>_.
     and_then (load config_of L (re_protocol_config a)) (\<lambda>config.
     and_then (load escrow_of L (re_escrow a)) (\<lambda>esc.
     and_then (load_interface rt mint_of L (re_mint a)) (\<lambda>(mint_owner, m).
     and_then (load_interface rt token_of L (re_escrow_token a)) (\<lambda>(custody_owner, custody).
     and_then (load_interface rt token_of L (re_recipient_token a)) (\<lambda>(dest_owner, dest).
     and_then (token_interface rt (re_token_program a)) (\<lambda>_.
     and_then (seeds_with_bump rt (re_protocol_config a) protocol_seeds (pc_bump config)) (\<lambda>_.
     and_then (seeds_with_bump rt (re_escrow a) (escrow_seeds (es_maker esc) (es_escrow_id esc))
       (es_bump esc)) (\<lambda>_.
     and_then (has_one (es_maker esc) (re_maker a)) (\<lambda>_.
     and_then (has_one (es_mint esc) (re_mint a)) (\<lambda>_.
     and_then (constraint_raw (es_token_program esc = re_token_program a)) (\<lambda>_.
     and_then (mint_constraints rt mint_owner m (re_token_program a)) (\<lambda>_.
     and_then (seeds_canonical rt (re_escrow_token a) (escrow_token_seeds (re_escrow a))) (\<lambda>_.
     and_then (constraint (ta_owner custody = re_escrow a) InvalidCustodyBalance) (\<lambda>_.
     and_then (constraint (ta_mint custody = es_mint esc) InvalidSourceMint) (\<lambda>_.
     and_then (constraint (custody_owner = re_token_program a) InvalidTokenProgram) (\<lambda>_.
     and_then (constraint (ta_owner dest = es_recipient esc) InvalidRecipientOwner) (\<lambda>_.
     and_then (constraint (ta_mint dest = es_mint esc) InvalidRecipientMint) (\<lambda>_.
     and_then (constraint (dest_owner = re_token_program a) InvalidTokenProgram) (\<lambda>_.
     Inr (config, esc, m, custody, dest)))))))))))))))))))))"

definition release ::
    "runtime \<Rightarrow> tx \<Rightarrow> release_escrow_accounts \<Rightarrow> protocol_config \<Rightarrow> escrow \<Rightarrow> mint \<Rightarrow> token_account
      \<Rightarrow> token_account \<Rightarrow> ledger \<Rightarrow> outcome" where
  "release rt t a config esc m custody dest L =
     and_then (require_protocol_active config PAUSE_ESCROW_RELEASE) (\<lambda>_.
     and_then (require (es_status esc = Funded) EscrowNotFunded) (\<lambda>_.
     and_then (require (sint (es_expires_at esc) > sint (tx_now t)) EscrowExpired) (\<lambda>_.
     and_then (require (ta_amount custody \<ge> es_amount esc) InsufficientFunds) (\<lambda>_.
     let amount = es_amount esc;
         signer_seeds = escrow_seeds (es_maker esc) (es_escrow_id esc) @ [[es_bump esc]];
         custody_before = ta_amount custody;
         recipient_before = ta_amount dest in
     and_then (transfer_checked rt
       \<lparr>tr_program = re_token_program a, tr_from = re_escrow_token a, tr_mint = re_mint a,
        tr_to = re_recipient_token a, tr_authority = re_escrow a,
        tr_signed = cpi_signed rt t signer_seeds (re_escrow a),
        tr_amount = amount, tr_decimals = mi_decimals m\<rparr> L) (\<lambda>L1.
     and_then (reload_amount L1 (re_escrow_token a)) (\<lambda>custody_after.
     and_then (reload_amount L1 (re_recipient_token a)) (\<lambda>recipient_after.
     and_then (minus_u64 custody_before amount) (\<lambda>expected_custody.
     and_then (require (custody_after = expected_custody) InvalidCustodyBalance) (\<lambda>_.
     and_then (add_u64_or recipient_before amount InvalidRecipientBalance) (\<lambda>expected_recipient.
     and_then (require (recipient_after = expected_recipient) InvalidRecipientBalance) (\<lambda>_.
     Inr (store (re_escrow a) (EscrowData (esc\<lparr>es_status := Released\<rparr>)) L1,
          [EscrowReleased INITIAL_SCHEMA_VERSION (re_escrow a) (re_escrow_token a) (es_maker esc)
             (es_recipient esc) (re_recipient_token a) (es_mint esc) amount]))))))))))))"

definition release_escrow ::
    "runtime \<Rightarrow> tx \<Rightarrow> release_escrow_accounts \<Rightarrow> ledger \<Rightarrow> outcome" where
  "release_escrow rt t a L =
     and_then (release_escrow_validate rt t a L) (\<lambda>(config, esc, m, custody, dest).
     release rt t a config esc m custody dest L)"

section \<open>refund\_escrow\<close>

record refund_escrow_accounts =
  rf_caller :: pubkey
  rf_escrow :: pubkey
  rf_mint :: pubkey
  rf_escrow_token :: pubkey
  rf_maker_destination :: pubkey
  rf_token_program :: pubkey
  rf_clock :: pubkey

definition refund_escrow_validate ::
    "runtime \<Rightarrow> tx \<Rightarrow> refund_escrow_accounts \<Rightarrow> ledger
      \<Rightarrow> (escrow \<times> mint \<times> token_account \<times> token_account) result" where
  "refund_escrow_validate rt t a L =
     and_then (signer t (rf_caller a)) (\<lambda>_.
     and_then (load escrow_of L (rf_escrow a)) (\<lambda>esc.
     and_then (load_interface rt mint_of L (rf_mint a)) (\<lambda>(mint_owner, m).
     and_then (load_interface rt token_of L (rf_escrow_token a)) (\<lambda>(custody_owner, custody).
     and_then (load_interface rt token_of L (rf_maker_destination a)) (\<lambda>(dest_owner, dest).
     and_then (token_interface rt (rf_token_program a)) (\<lambda>_.
     and_then (sysvar_clock (rf_clock a)) (\<lambda>_.
     and_then (seeds_with_bump rt (rf_escrow a) (escrow_seeds (es_maker esc) (es_escrow_id esc))
       (es_bump esc)) (\<lambda>_.
     and_then (has_one (es_mint esc) (rf_mint a)) (\<lambda>_.
     and_then (constraint_raw (es_token_program esc = rf_token_program a)) (\<lambda>_.
     and_then (mint_constraints rt mint_owner m (rf_token_program a)) (\<lambda>_.
     and_then (seeds_canonical rt (rf_escrow_token a) (escrow_token_seeds (rf_escrow a))) (\<lambda>_.
     and_then (constraint (ta_owner custody = rf_escrow a) InvalidCustodyBalance) (\<lambda>_.
     and_then (constraint (ta_mint custody = es_mint esc) InvalidSourceMint) (\<lambda>_.
     and_then (constraint (custody_owner = rf_token_program a) InvalidTokenProgram) (\<lambda>_.
     and_then (constraint (ta_owner dest = es_maker esc) InvalidMakerDestinationOwner) (\<lambda>_.
     and_then (constraint (ta_mint dest = es_mint esc) InvalidMakerDestinationMint) (\<lambda>_.
     and_then (constraint (dest_owner = rf_token_program a) InvalidTokenProgram) (\<lambda>_.
     Inr (esc, m, custody, dest)))))))))))))))))))"

definition refund ::
    "runtime \<Rightarrow> tx \<Rightarrow> refund_escrow_accounts \<Rightarrow> escrow \<Rightarrow> mint \<Rightarrow> token_account \<Rightarrow> token_account
      \<Rightarrow> ledger \<Rightarrow> outcome" where
  "refund rt t a esc m custody dest L =
     and_then (require (es_status esc = Funded) EscrowNotFunded) (\<lambda>_.
     and_then (require (sint (tx_now t) \<ge> sint (es_expires_at esc)) EscrowNotExpired) (\<lambda>_.
     and_then (require (ta_amount custody \<ge> es_amount esc) InsufficientFunds) (\<lambda>_.
     let amount = es_amount esc;
         signer_seeds = escrow_seeds (es_maker esc) (es_escrow_id esc) @ [[es_bump esc]];
         custody_before = ta_amount custody;
         destination_before = ta_amount dest in
     and_then (transfer_checked rt
       \<lparr>tr_program = rf_token_program a, tr_from = rf_escrow_token a, tr_mint = rf_mint a,
        tr_to = rf_maker_destination a, tr_authority = rf_escrow a,
        tr_signed = cpi_signed rt t signer_seeds (rf_escrow a),
        tr_amount = amount, tr_decimals = mi_decimals m\<rparr> L) (\<lambda>L1.
     and_then (reload_amount L1 (rf_escrow_token a)) (\<lambda>custody_after.
     and_then (reload_amount L1 (rf_maker_destination a)) (\<lambda>destination_after.
     and_then (minus_u64 custody_before amount) (\<lambda>expected_custody.
     and_then (require (custody_after = expected_custody) InvalidCustodyBalance) (\<lambda>_.
     and_then (add_u64_or destination_before amount InvalidMakerDestinationBalance)
       (\<lambda>expected_destination.
     and_then (require (destination_after = expected_destination)
       InvalidMakerDestinationBalance) (\<lambda>_.
     Inr (store (rf_escrow a) (EscrowData (esc\<lparr>es_status := Refunded\<rparr>)) L1,
          [EscrowRefunded INITIAL_SCHEMA_VERSION (rf_escrow a) (rf_escrow_token a) (rf_caller a)
             (es_maker esc) (rf_maker_destination a) (es_mint esc) amount])))))))))))"

definition refund_escrow ::
    "runtime \<Rightarrow> tx \<Rightarrow> refund_escrow_accounts \<Rightarrow> ledger \<Rightarrow> outcome" where
  "refund_escrow rt t a L =
     and_then (refund_escrow_validate rt t a L) (\<lambda>(esc, m, custody, dest).
     refund rt t a esc m custody dest L)"

section \<open>When the operations succeed\<close>

text \<open>
  The transfer each operation asks the token program for, and the exact conditions
  under which an operation returns, with the ledger it returns.
\<close>

definition create_transfer :: "runtime \<Rightarrow> tx \<Rightarrow> create_escrow_accounts \<Rightarrow> mint \<Rightarrow> u64 \<Rightarrow> transfer" where
  "create_transfer rt t a m amount =
     \<lparr>tr_program = ce_token_program a, tr_from = ce_maker_token a, tr_mint = ce_mint a,
      tr_to = ce_escrow_token a, tr_authority = ce_maker a,
      tr_signed = cpi_signed rt t [] (ce_maker a),
      tr_amount = amount, tr_decimals = mi_decimals m\<rparr>"

definition release_transfer :: "runtime \<Rightarrow> tx \<Rightarrow> release_escrow_accounts \<Rightarrow> escrow \<Rightarrow> mint \<Rightarrow> transfer" where
  "release_transfer rt t a esc m =
     \<lparr>tr_program = re_token_program a, tr_from = re_escrow_token a, tr_mint = re_mint a,
      tr_to = re_recipient_token a, tr_authority = re_escrow a,
      tr_signed = cpi_signed rt t
        (escrow_seeds (es_maker esc) (es_escrow_id esc) @ [[es_bump esc]]) (re_escrow a),
      tr_amount = es_amount esc, tr_decimals = mi_decimals m\<rparr>"

definition refund_transfer :: "runtime \<Rightarrow> tx \<Rightarrow> refund_escrow_accounts \<Rightarrow> escrow \<Rightarrow> mint \<Rightarrow> transfer" where
  "refund_transfer rt t a esc m =
     \<lparr>tr_program = rf_token_program a, tr_from = rf_escrow_token a, tr_mint = rf_mint a,
      tr_to = rf_maker_destination a, tr_authority = rf_escrow a,
      tr_signed = cpi_signed rt t
        (escrow_seeds (es_maker esc) (es_escrow_id esc) @ [[es_bump esc]]) (rf_escrow a),
      tr_amount = es_amount esc, tr_decimals = mi_decimals m\<rparr>"

lemma release_escrow_validate_Inr_iff:
  "release_escrow_validate rt t a L = Inr (config, esc, m, custody, dest) \<longleftrightarrow>
     re_maker a \<in> tx_signers t
     \<and> state_at L (re_protocol_config a) (ConfigData config)
     \<and> state_at L (re_escrow a) (EscrowData esc)
     \<and> mint_at L (re_mint a) (re_token_program a) m
     \<and> token_at L (re_escrow_token a) (re_token_program a) custody
     \<and> token_at L (re_recipient_token a) (re_token_program a) dest
     \<and> (re_token_program a = rt_token_id rt \<or> re_token_program a = rt_token_2022_id rt)
     \<and> rt_create_program_address rt (protocol_seeds @ [[pc_bump config]]) = Some (re_protocol_config a)
     \<and> rt_create_program_address rt (escrow_seeds (es_maker esc) (es_escrow_id esc) @ [[es_bump esc]])
         = Some (re_escrow a)
     \<and> es_maker esc = re_maker a \<and> es_mint esc = re_mint a
     \<and> es_token_program esc = re_token_program a
     \<and> mint_supported rt (re_token_program a) m
     \<and> fst (rt_find_program_address rt (escrow_token_seeds (re_escrow a))) = re_escrow_token a
     \<and> ta_owner custody = re_escrow a \<and> ta_mint custody = es_mint esc
     \<and> ta_owner dest = es_recipient esc \<and> ta_mint dest = es_mint esc"
  by (auto simp: release_escrow_validate_def success_iff prod_eq_iff)

lemma refund_escrow_validate_Inr_iff:
  "refund_escrow_validate rt t a L = Inr (esc, m, custody, dest) \<longleftrightarrow>
     rf_caller a \<in> tx_signers t
     \<and> state_at L (rf_escrow a) (EscrowData esc)
     \<and> mint_at L (rf_mint a) (rf_token_program a) m
     \<and> token_at L (rf_escrow_token a) (rf_token_program a) custody
     \<and> token_at L (rf_maker_destination a) (rf_token_program a) dest
     \<and> (rf_token_program a = rt_token_id rt \<or> rf_token_program a = rt_token_2022_id rt)
     \<and> rf_clock a = CLOCK_ID
     \<and> rt_create_program_address rt (escrow_seeds (es_maker esc) (es_escrow_id esc) @ [[es_bump esc]])
         = Some (rf_escrow a)
     \<and> es_mint esc = rf_mint a
     \<and> es_token_program esc = rf_token_program a
     \<and> mint_supported rt (rf_token_program a) m
     \<and> fst (rt_find_program_address rt (escrow_token_seeds (rf_escrow a))) = rf_escrow_token a
     \<and> ta_owner custody = rf_escrow a \<and> ta_mint custody = es_mint esc
     \<and> ta_owner dest = es_maker esc \<and> ta_mint dest = es_mint esc"
  by (auto simp: refund_escrow_validate_def success_iff prod_eq_iff)

lemma release_Inr_iff:
  "release rt t a config esc m custody dest L = Inr (L', evs) \<longleftrightarrow>
     \<not> is_paused config PAUSE_ESCROW_RELEASE \<and> es_status esc = Funded
     \<and> sint (tx_now t) < sint (es_expires_at esc)
     \<and> es_amount esc \<le> ta_amount custody
     \<and> (\<exists>L1 p q custody' dest'.
          rt_transfer_checked rt (release_transfer rt t a esc m) L = Inr L1
          \<and> token_at L1 (re_escrow_token a) p custody' \<and> token_at L1 (re_recipient_token a) q dest'
          \<and> ta_amount custody' = ta_amount custody - es_amount esc
          \<and> unat (ta_amount dest') = unat (ta_amount dest) + unat (es_amount esc)
          \<and> L' = store (re_escrow a) (EscrowData (esc\<lparr>es_status := Released\<rparr>)) L1)
     \<and> evs = [EscrowReleased INITIAL_SCHEMA_VERSION (re_escrow a) (re_escrow_token a) (es_maker esc)
                (es_recipient esc) (re_recipient_token a) (es_mint esc) (es_amount esc)]"
  by (auto simp: release_def success_iff Let_def release_transfer_def)

lemma refund_Inr_iff:
  "refund rt t a esc m custody dest L = Inr (L', evs) \<longleftrightarrow>
     es_status esc = Funded
     \<and> sint (es_expires_at esc) \<le> sint (tx_now t)
     \<and> es_amount esc \<le> ta_amount custody
     \<and> (\<exists>L1 p q custody' dest'.
          rt_transfer_checked rt (refund_transfer rt t a esc m) L = Inr L1
          \<and> token_at L1 (rf_escrow_token a) p custody' \<and> token_at L1 (rf_maker_destination a) q dest'
          \<and> ta_amount custody' = ta_amount custody - es_amount esc
          \<and> unat (ta_amount dest') = unat (ta_amount dest) + unat (es_amount esc)
          \<and> L' = store (rf_escrow a) (EscrowData (esc\<lparr>es_status := Refunded\<rparr>)) L1)
     \<and> evs = [EscrowRefunded INITIAL_SCHEMA_VERSION (rf_escrow a) (rf_escrow_token a) (rf_caller a)
                (es_maker esc) (rf_maker_destination a) (es_mint esc) (es_amount esc)]"
  by (auto simp: refund_def success_iff Let_def refund_transfer_def)

definition created_escrow ::
    "tx \<Rightarrow> create_escrow_accounts \<Rightarrow> u8 \<Rightarrow> u64 \<Rightarrow> pubkey \<Rightarrow> u64 \<Rightarrow> i64 \<Rightarrow> escrow" where
  "created_escrow t a bump escrow_id recipient amount expires_at =
     \<lparr>es_maker = ce_maker a, es_recipient = recipient, es_mint = ce_mint a,
      es_token_program = ce_token_program a, es_escrow_id = escrow_id,
      es_amount = amount, es_created_at = tx_now t, es_expires_at = expires_at,
      es_status = Funded, es_bump = bump, es_reserved = replicate 30 0\<rparr>"

lemma create_escrow_validate_Inr_iff:
  "create_escrow_validate rt t a escrow_id L = Inr (config, m, maker_token, bump, L2) \<longleftrightarrow>
     ce_maker a \<in> tx_signers t
     \<and> state_at L (ce_protocol_config a) (ConfigData config)
     \<and> mint_at L (ce_mint a) (ce_token_program a) m
     \<and> token_at L (ce_maker_token a) (ce_token_program a) maker_token
     \<and> (ce_token_program a = rt_token_id rt \<or> ce_token_program a = rt_token_2022_id rt)
     \<and> ce_system_program a = rt_system_id rt
     \<and> rt_find_program_address rt (escrow_seeds (ce_maker a) escrow_id) = (ce_escrow a, bump)
     \<and> fst (rt_find_program_address rt (escrow_token_seeds (ce_escrow a))) = ce_escrow_token a
     \<and> L (ce_escrow a) = None \<and> L (ce_escrow_token a) = None \<and> ce_escrow a \<noteq> ce_escrow_token a
     \<and> rt_pays_rent rt (ce_maker a) ESCROW_SPACE
     \<and> rt_pays_rent rt (ce_maker a) (rt_token_account_space rt (ce_token_program a))
     \<and> rt_create_program_address rt (protocol_seeds @ [[pc_bump config]]) = Some (ce_protocol_config a)
     \<and> mint_supported rt (ce_token_program a) m
     \<and> ta_owner maker_token = ce_maker a \<and> ta_mint maker_token = ce_mint a
     \<and> (\<exists>ta. rt_initialize_token_account rt (ce_token_program a) (ce_mint a) (ce_escrow a) = Inr ta
          \<and> L2 = L(ce_escrow a \<mapsto> \<lparr>acc_program = ID, acc_data = OtherData (replicate ESCROW_SPACE 0)\<rparr>,
                   ce_escrow_token a \<mapsto> \<lparr>acc_program = ce_token_program a, acc_data = TokenData ta\<rparr>))"
  by (auto simp: create_escrow_validate_def success_iff prod_eq_iff split: if_splits)

lemma create_Inr_iff:
  "create rt t a config m maker_token bump escrow_id recipient amount expires_at L = Inr (L', evs) \<longleftrightarrow>
     \<not> is_paused config PAUSE_ESCROW_CREATE \<and> 0 < amount
     \<and> recipient \<noteq> default_pubkey \<and> recipient \<noteq> ce_maker a
     \<and> sint (tx_now t) < sint expires_at
     \<and> amount \<le> ta_amount maker_token
     \<and> (\<exists>p ta. token_at L (ce_escrow_token a) p ta \<and> ta_amount ta = 0)
     \<and> (\<exists>L1 p q source' custody'.
          rt_transfer_checked rt (create_transfer rt t a m amount) L = Inr L1
          \<and> token_at L1 (ce_maker_token a) p source' \<and> token_at L1 (ce_escrow_token a) q custody'
          \<and> ta_amount source' = ta_amount maker_token - amount
          \<and> ta_amount custody' = amount
          \<and> L' = store (ce_escrow a)
              (EscrowData (created_escrow t a bump escrow_id recipient amount expires_at)) L1)
     \<and> evs = [EscrowCreated INITIAL_SCHEMA_VERSION (ce_escrow a) (ce_escrow_token a) (ce_maker a)
                recipient (ce_mint a) amount (tx_now t) expires_at escrow_id]"
  by (auto simp: create_def success_iff Let_def create_transfer_def created_escrow_def)

end
