(* ===== verification/Addresses.thy ===== *)
theory Addresses
  imports Runtime
begin

text \<open>
  The program's derived addresses. \<open>find_program_address\<close> hashes the concatenation of
  the seeds it is given, without separators, so two seed lists with the same
  concatenation are the same address. \<open>pda\<close> names what an address stands for; the
  seed lists of distinct ones never concatenate to the same bytes.
\<close>

datatype pda =
    ProtocolPda
  | EscrowPda pubkey u64
  | EscrowTokenPda pubkey
  | VaultPda pubkey u64
  | VaultAssetPda pubkey pubkey
  | VaultTokenPda pubkey pubkey
  | RolePda pubkey pubkey
  | WithdrawalPda pubkey u64

fun pda_seeds :: "pda \<Rightarrow> u8 list list" where
  "pda_seeds ProtocolPda = protocol_seeds"
| "pda_seeds (EscrowPda maker i) = escrow_seeds maker i"
| "pda_seeds (EscrowTokenPda escrow) = escrow_token_seeds escrow"
| "pda_seeds (VaultPda namespace i) = vault_seeds namespace i"
| "pda_seeds (VaultAssetPda vault mint) = vault_asset_seeds vault mint"
| "pda_seeds (VaultTokenPda vault mint) = vault_token_seeds vault mint"
| "pda_seeds (RolePda vault holder) = role_seeds vault holder"
| "pda_seeds (WithdrawalPda vault i) = withdrawal_seeds vault i"

lemmas seed_list_defs =
  protocol_seeds_def escrow_seeds_def escrow_token_seeds_def vault_seeds_def vault_asset_seeds_def
  vault_token_seeds_def role_seeds_def withdrawal_seeds_def

lemma seed_lengths:
  "length PROTOCOL_SEED = 8" "length ESCROW_SEED = 6" "length ESCROW_TOKEN_SEED = 12"
  "length VAULT_SEED = 5" "length VAULT_ASSET_SEED = 11" "length VAULT_TOKEN_SEED = 11"
  "length ROLE_SEED = 4" "length WITHDRAWAL_SEED = 10"
  by (simp_all add: seed_defs)

lemma asset_token_seeds_differ: "VAULT_ASSET_SEED \<noteq> VAULT_TOKEN_SEED"
  by (simp add: seed_defs ascii_def)

text \<open>The number of bytes hashed for an address, without the bump.\<close>

definition pda_width :: "pda \<Rightarrow> nat" where
  "pda_width p =
     (case p of ProtocolPda \<Rightarrow> 8 | EscrowPda _ _ \<Rightarrow> 46 | EscrowTokenPda _ \<Rightarrow> 44 | VaultPda _ _ \<Rightarrow> 45
      | VaultAssetPda _ _ \<Rightarrow> 75 | VaultTokenPda _ _ \<Rightarrow> 75 | RolePda _ _ \<Rightarrow> 68 | WithdrawalPda _ _ \<Rightarrow> 50)"

lemma pda_seeds_concat_length: "length (concat (pda_seeds p)) = pda_width p"
  by (cases p) (simp_all add: seed_list_defs seed_lengths pda_width_def)

lemma pda_concat_inject: "concat (pda_seeds p) = concat (pda_seeds q) \<longleftrightarrow> p = q"
proof
  assume eq: "concat (pda_seeds p) = concat (pda_seeds q)"
  then have "pda_width p = pda_width q"
    by (metis pda_seeds_concat_length)
  with eq show "p = q"
    by (cases p; cases q)
      (simp_all add: pda_width_def seed_list_defs seed_lengths asset_token_seeds_differ
        asset_token_seeds_differ [symmetric])
qed simp

lemma pda_seeds_inject: "pda_seeds p = pda_seeds q \<longleftrightarrow> p = q"
  using pda_concat_inject by metis

text \<open>Comparisons of seed lists by name, for evaluating an address table.\<close>

lemma pda_seeds_fold:
  "protocol_seeds = pda_seeds ProtocolPda"
  "escrow_seeds maker i = pda_seeds (EscrowPda maker i)"
  "escrow_token_seeds escrow = pda_seeds (EscrowTokenPda escrow)"
  "vault_seeds namespace i = pda_seeds (VaultPda namespace i)"
  "vault_asset_seeds vault mint = pda_seeds (VaultAssetPda vault mint)"
  "vault_token_seeds vault mint = pda_seeds (VaultTokenPda vault mint)"
  "role_seeds vault holder = pda_seeds (RolePda vault holder)"
  "withdrawal_seeds vault i = pda_seeds (WithdrawalPda vault i)"
  by simp_all

text \<open>
  C28. The seeds of the program's accounts are domain separated: the bytes that are hashed
  determine which account the address stands for and the bump, although one namespace is a
  prefix of another and seeds are concatenated without separators.
\<close>

theorem pda_domain_separation:
  "concat (pda_seeds p @ [[b]]) = concat (pda_seeds q @ [[c]]) \<longleftrightarrow> p = q \<and> b = c"
  using pda_concat_inject by auto

end
