(* ===== verification/Token_Runtime.thy ===== *)
theory Token_Runtime
  imports Runtime
begin

text \<open>
  The contract of the code the program calls but does not contain. \<open>token_laws\<close>
  states what the token programs and the Solana runtime guarantee of a token call:
  it touches the two token accounts it names and nothing else, and it keeps their
  mint, owner and program. \<open>live_token_laws\<close> adds that a well-formed transfer between
  unfrozen accounts without extensions, of a mint without extensions, succeeds; nothing is
  assumed of a transfer that involves an extension of a mint or of an account. \<open>pda_laws\<close> states that the canonical bump found for a
  seed list derives the same address again. The reference runtime is an executable
  instance that follows the documented behaviour of the SPL token programs for mints
  without extensions; it serves the concrete runs of the development.
\<close>

section \<open>Laws\<close>

locale token_laws =
  fixes rt :: runtime
  assumes token_id_foreign: "rt_token_id rt \<noteq> ID"
    and token_2022_id_foreign: "rt_token_2022_id rt \<noteq> ID"
    and transfer_frame: "rt_transfer_checked rt x L = Inr L' \<Longrightarrow> k \<noteq> tr_from x \<Longrightarrow> k \<noteq> tr_to x
      \<Longrightarrow> L' k = L k"
    and transfer_shape: "rt_transfer_checked rt x L = Inr L' \<Longrightarrow> k = tr_from x \<or> k = tr_to x
      \<Longrightarrow> \<exists>p ta n b. token_at L k p ta \<and> token_at L' k p (ta\<lparr>ta_amount := n, ta_tlv := b\<rparr>)"
    and initialize_contents: "rt_initialize_token_account rt p m owner = Inr ta
      \<Longrightarrow> ta_mint ta = m \<and> ta_owner ta = owner \<and> ta_amount ta = 0"
begin

lemma transfer_non_token:
  assumes "rt_transfer_checked rt x L = Inr L'" and "L k = Some a" and "token_of (acc_data a) = None"
  shows "L' k = Some a"
  using assms transfer_shape [OF assms(1), of k] transfer_frame [OF assms(1), of k] by fastforce

lemma transfer_absent:
  assumes "rt_transfer_checked rt x L = Inr L'"
  shows "L' k = None \<longleftrightarrow> L k = None"
  using assms transfer_shape [OF assms(1), of k] transfer_frame [OF assms(1), of k] by fastforce

lemma transfer_non_token_rev:
  assumes "rt_transfer_checked rt x L = Inr L'" and "L' k = Some a" and "token_of (acc_data a) = None"
  shows "L k = Some a"
  using assms transfer_shape [OF assms(1), of k] transfer_frame [OF assms(1), of k] by fastforce

lemma transfer_token:
  assumes "rt_transfer_checked rt x L = Inr L'" and "token_at L k p ta"
  obtains n b where "token_at L' k p (ta\<lparr>ta_amount := n, ta_tlv := b\<rparr>)"
proof (cases "k = tr_from x \<or> k = tr_to x")
  case True
  then obtain p' ta' n b where "token_at L k p' ta'" "token_at L' k p' (ta'\<lparr>ta_amount := n, ta_tlv := b\<rparr>)"
    using transfer_shape [OF assms(1)] by blast
  with assms(2) have "token_at L' k p (ta\<lparr>ta_amount := n, ta_tlv := b\<rparr>)"
    by simp
  then show ?thesis by (rule that)
next
  case False
  with transfer_frame [OF assms(1)] assms(2) have "token_at L' k p (ta\<lparr>ta_amount := ta_amount ta, ta_tlv := ta_tlv ta\<rparr>)"
    by simp
  then show ?thesis by (rule that)
qed

end

text \<open>
  \<open>transfer_completes\<close>: a transfer whose accounts, mint, decimals and signature are in
  order, that the source covers and the destination can take, goes through and moves
  exactly the amount, provided neither account is frozen and neither the mint nor an account
  has extensions. With account extensions Token-2022 documents transfers that fail (a
  destination with \<open>MemoTransfer\<close> requires a memo, a source with \<open>CpiGuard\<close> refuses its
  owner's signature in a cross-program call), so they are outside the law.
\<close>

definition transfer_ready :: "transfer \<Rightarrow> ledger \<Rightarrow> token_account \<Rightarrow> token_account \<Rightarrow> bool" where
  "transfer_ready x L src dst \<longleftrightarrow>
     L (tr_from x) = Some \<lparr>acc_program = tr_program x, acc_data = TokenData src\<rparr>
     \<and> L (tr_to x) = Some \<lparr>acc_program = tr_program x, acc_data = TokenData dst\<rparr>
     \<and> (\<exists>m. L (tr_mint x) = Some \<lparr>acc_program = tr_program x, acc_data = MintData m\<rparr>
          \<and> mi_tlv m = [] \<and> mi_decimals m = tr_decimals x)
     \<and> tr_from x \<noteq> tr_to x \<and> \<not> ta_frozen src \<and> \<not> ta_frozen dst
     \<and> ta_tlv src = [] \<and> ta_tlv dst = []
     \<and> ta_mint src = tr_mint x \<and> ta_mint dst = tr_mint x
     \<and> ta_owner src = tr_authority x \<and> tr_signed x
     \<and> tr_amount x \<le> ta_amount src \<and> unat (ta_amount dst) + unat (tr_amount x) < 2 ^ 64"

locale live_token_laws = token_laws +
  assumes transfer_completes:
    "tr_program x = rt_token_id rt \<or> tr_program x = rt_token_2022_id rt \<Longrightarrow>
     transfer_ready x L src dst \<Longrightarrow>
     \<exists>L'. rt_transfer_checked rt x L = Inr L'
       \<and> token_at L' (tr_from x) (tr_program x) (src\<lparr>ta_amount := ta_amount src - tr_amount x\<rparr>)
       \<and> token_at L' (tr_to x) (tr_program x) (dst\<lparr>ta_amount := ta_amount dst + tr_amount x\<rparr>)"

locale pda_laws =
  fixes rt :: runtime
  assumes find_creates: "rt_find_program_address rt seeds = (k, bump)
    \<Longrightarrow> rt_create_program_address rt (seeds @ [[bump]]) = Some k"

section \<open>A reference runtime\<close>

text \<open>
  \<open>TransferChecked\<close> of the SPL token programs: both accounts and the mint belong to
  the program, neither account is frozen, mints and decimals match, the owner of the
  source signs, the source covers the amount; a transfer to itself changes nothing. An
  extension byte 8 (\<open>MemoTransfer\<close>) of the destination stands for the requirement of a
  memo, which the calls modelled here never carry.
\<close>

definition spl_transfer_checked :: "transfer \<Rightarrow> ledger \<Rightarrow> nat + ledger" where
  "spl_transfer_checked x L =
     (case (L (tr_from x), L (tr_to x), L (tr_mint x)) of
        (Some f, Some g, Some m) \<Rightarrow>
          (case (token_of (acc_data f), token_of (acc_data g), mint_of (acc_data m)) of
             (Some src, Some dst, Some mi) \<Rightarrow>
               ensure (acc_program f = tr_program x \<and> acc_program g = tr_program x
                       \<and> acc_program m = tr_program x) 7
               (ensure (\<not> ta_frozen src \<and> \<not> ta_frozen dst) 17
               (ensure (8 \<notin> set (ta_tlv dst)) 36
               (ensure (tr_amount x \<le> ta_amount src) 1
               (ensure (ta_mint src = tr_mint x \<and> ta_mint dst = tr_mint x) 3
               (ensure (mi_decimals mi = tr_decimals x) 18
               (ensure (tr_signed x \<and> ta_owner src = tr_authority x) 4
               (if tr_from x = tr_to x then Inr L
                else
                  and_then (ok_or (checked_add_u64 (ta_amount dst) (tr_amount x)) 14) (\<lambda>sum.
                  Inr (L(tr_from x \<mapsto> f\<lparr>acc_data := TokenData (src\<lparr>ta_amount := ta_amount src - tr_amount x\<rparr>)\<rparr>,
                         tr_to x \<mapsto> g\<lparr>acc_data := TokenData (dst\<lparr>ta_amount := sum\<rparr>)\<rparr>))))))))))
           | _ \<Rightarrow> Inl 2)
      | _ \<Rightarrow> Inl 2)"

definition spl_initialize_token_account :: "pubkey \<Rightarrow> pubkey \<Rightarrow> pubkey \<Rightarrow> nat + token_account" where
  "spl_initialize_token_account p m owner =
     Inr \<lparr>ta_mint = m, ta_owner = owner, ta_amount = 0, ta_frozen = False, ta_tlv = []\<rparr>"

text \<open>
  A runtime over an address table: the first bump tried is accepted. Program ids and
  the extension parser (one byte per extension type) stand for the real ones.
\<close>

definition reference_runtime :: "(u8 list list \<Rightarrow> pubkey) \<Rightarrow> runtime" where
  "reference_runtime address =
     \<lparr>rt_token_id = 1001, rt_token_2022_id = 1002, rt_system_id = 0,
      rt_find_program_address = (\<lambda>seeds. (address seeds, 255)),
      rt_create_program_address =
        (\<lambda>seeds. if seeds \<noteq> [] \<and> last seeds = [255] then Some (address (butlast seeds)) else None),
      rt_pays_rent = (\<lambda>_ _. True),
      rt_token_account_space = (\<lambda>_. 165),
      rt_initialize_token_account = spl_initialize_token_account,
      rt_extension_types = (\<lambda>tlv. Inr (map unat tlv)),
      rt_transfer_checked = spl_transfer_checked\<rparr>"

lemma reference_runtime_simps [simp]:
  "rt_token_id (reference_runtime address) = 1001"
  "rt_token_2022_id (reference_runtime address) = 1002"
  "rt_system_id (reference_runtime address) = 0"
  "rt_find_program_address (reference_runtime address) seeds = (address seeds, 255)"
  "rt_create_program_address (reference_runtime address) (seeds @ [[b]]) =
     (if b = 255 then Some (address seeds) else None)"
  "rt_pays_rent (reference_runtime address) payer n"
  "rt_initialize_token_account (reference_runtime address) = spl_initialize_token_account"
  "rt_extension_types (reference_runtime address) tlv = Inr (map unat tlv)"
  "rt_transfer_checked (reference_runtime address) = spl_transfer_checked"
  by (simp_all add: reference_runtime_def)

lemma spl_transfer_checked_Inr:
  assumes "spl_transfer_checked x L = Inr L'"
  obtains src dst sum where
    "token_at L (tr_from x) (tr_program x) src" "token_at L (tr_to x) (tr_program x) dst"
    "L' = (if tr_from x = tr_to x then L
           else L(tr_from x \<mapsto> \<lparr>acc_program = tr_program x,
                     acc_data = TokenData (src\<lparr>ta_amount := ta_amount src - tr_amount x\<rparr>)\<rparr>,
                  tr_to x \<mapsto> \<lparr>acc_program = tr_program x,
                     acc_data = TokenData (dst\<lparr>ta_amount := sum\<rparr>)\<rparr>))"
proof -
  from assms obtain f g m src dst mi where
      L: "L (tr_from x) = Some f" "L (tr_to x) = Some g" "L (tr_mint x) = Some m"
    and d: "acc_data f = TokenData src" "acc_data g = TokenData dst" "acc_data m = MintData mi"
    by (auto simp: spl_transfer_checked_def success_iff split: option.splits)
  from assms L d have p: "acc_program f = tr_program x" "acc_program g = tr_program x"
    by (auto simp: spl_transfer_checked_def success_iff)
  from d p have fg: "f = \<lparr>acc_program = tr_program x, acc_data = TokenData src\<rparr>"
      "g = \<lparr>acc_program = tr_program x, acc_data = TokenData dst\<rparr>"
    by (simp_all add: account.equality)
  from assms L d p obtain sum where "L' = (if tr_from x = tr_to x then L
           else L(tr_from x \<mapsto> f\<lparr>acc_data := TokenData (src\<lparr>ta_amount := ta_amount src - tr_amount x\<rparr>)\<rparr>,
                  tr_to x \<mapsto> g\<lparr>acc_data := TokenData (dst\<lparr>ta_amount := sum\<rparr>)\<rparr>))"
    by (auto simp: spl_transfer_checked_def success_iff split: if_splits)
  with L fg show ?thesis
    by (intro that [of src dst sum]) simp_all
qed

interpretation reference_token: token_laws "reference_runtime address" for address
proof
  show "rt_token_id (reference_runtime address) \<noteq> ID"
      "rt_token_2022_id (reference_runtime address) \<noteq> ID"
    by (simp_all add: ID_def)
next
  fix x L L' k
  assume "rt_transfer_checked (reference_runtime address) x L = Inr L'"
    and "k \<noteq> tr_from x" "k \<noteq> tr_to x"
  then show "L' k = L k"
    by (auto elim!: spl_transfer_checked_Inr)
next
  fix x L L' k
  assume "rt_transfer_checked (reference_runtime address) x L = Inr L'"
    and "k = tr_from x \<or> k = tr_to x"
  then have "\<exists>p ta n. token_at L k p ta \<and> token_at L' k p (ta\<lparr>ta_amount := n\<rparr>)"
    by (auto elim!: spl_transfer_checked_Inr split: if_splits)
       (metis token_account.surjective token_account.update_convs(3))+
  then show "\<exists>p ta n b. token_at L k p ta \<and> token_at L' k p (ta\<lparr>ta_amount := n, ta_tlv := b\<rparr>)"
    by (metis token_account.surjective token_account.update_convs(3,5))
next
  fix p m owner ta
  assume "rt_initialize_token_account (reference_runtime address) p m owner = Inr ta"
  then show "ta_mint ta = m \<and> ta_owner ta = owner \<and> ta_amount ta = 0"
    by (auto simp: spl_initialize_token_account_def)
qed

interpretation reference_live: live_token_laws "reference_runtime address" for address
proof
  fix x L src dst
  assume "transfer_ready x L src dst"
  then show "\<exists>L'. rt_transfer_checked (reference_runtime address) x L = Inr L'
      \<and> token_at L' (tr_from x) (tr_program x) (src\<lparr>ta_amount := ta_amount src - tr_amount x\<rparr>)
      \<and> token_at L' (tr_to x) (tr_program x) (dst\<lparr>ta_amount := ta_amount dst + tr_amount x\<rparr>)"
    by (auto simp: transfer_ready_def spl_transfer_checked_def checked_add_u64_def word_less_nat_alt)
qed

interpretation reference_pda: pda_laws "reference_runtime address" for address
  by standard auto

end
