(* ===== verification/Sample.thy ===== *)
theory Sample
  imports Addresses Token_Runtime Security
begin

text \<open>
  A small world for concrete runs: the reference runtime over a table of addresses,
  a configured protocol, an escrow that expires at time 1000, a vault with one asset,
  a role for an operator and two withdrawal requests.
  Wallets are the keys 1 to 9, derived addresses 10 to 19, the mint is 20 and
  token accounts are 21 to 29.
\<close>

fun sample_key :: "pda \<Rightarrow> pubkey" where
  "sample_key ProtocolPda = 10"
| "sample_key (EscrowPda maker i) = (if maker = 1 \<and> i = 7 then 11 else if maker = 1 \<and> i = 8 then 18 else 99)"
| "sample_key (EscrowTokenPda escrow) = (if escrow = 11 then 12 else if escrow = 18 then 19 else 99)"
| "sample_key (VaultPda namespace i) = (if namespace = 3 \<and> i = 0 then 13 else 99)"
| "sample_key (VaultAssetPda vault mint) = (if vault = 13 \<and> mint = 20 then 14 else 99)"
| "sample_key (VaultTokenPda vault mint) = (if vault = 13 \<and> mint = 20 then 15 else 99)"
| "sample_key (RolePda vault holder) = (if vault = 13 \<and> holder = 5 then 16 else 99)"
| "sample_key (WithdrawalPda vault i) = (if vault = 13 \<and> i = 0 then 17 else if vault = 13 \<and> i = 1 then 27 else 99)"

text \<open>The table as a function of seed lists, which it reads field by field.\<close>

definition sample_address :: "u8 list list \<Rightarrow> pubkey" where
  "sample_address seeds =
     (if seeds = protocol_seeds then 10
      else if seeds = escrow_seeds 1 7 then 11
      else if seeds = escrow_token_seeds 11 then 12
      else if seeds = escrow_seeds 1 8 then 18
      else if seeds = escrow_token_seeds 18 then 19
      else if seeds = vault_seeds 3 0 then 13
      else if seeds = vault_asset_seeds 13 20 then 14
      else if seeds = vault_token_seeds 13 20 then 15
      else if seeds = role_seeds 13 5 then 16
      else if seeds = withdrawal_seeds 13 0 then 17
      else if seeds = withdrawal_seeds 13 1 then 27
      else 99)"

lemma sample_address_pda: "sample_address (pda_seeds p) = sample_key p"
  by (cases p) (simp_all add: sample_address_def pda_seeds_fold pda_seeds_inject del: pda_seeds.simps)

lemma sample_address_simps [simp]:
  "sample_address protocol_seeds = 10"
  "sample_address (escrow_seeds maker i) = sample_key (EscrowPda maker i)"
  "sample_address (escrow_token_seeds escrow) = sample_key (EscrowTokenPda escrow)"
  "sample_address (vault_seeds namespace i) = sample_key (VaultPda namespace i)"
  "sample_address (vault_asset_seeds vault mint) = sample_key (VaultAssetPda vault mint)"
  "sample_address (vault_token_seeds vault mint) = sample_key (VaultTokenPda vault mint)"
  "sample_address (role_seeds vault holder) = sample_key (RolePda vault holder)"
  "sample_address (withdrawal_seeds vault i) = sample_key (WithdrawalPda vault i)"
  using sample_address_pda [of ProtocolPda] sample_address_pda [of "EscrowPda maker i"]
    sample_address_pda [of "EscrowTokenPda escrow"] sample_address_pda [of "VaultPda namespace i"]
    sample_address_pda [of "VaultAssetPda vault mint"] sample_address_pda [of "VaultTokenPda vault mint"]
    sample_address_pda [of "RolePda vault holder"] sample_address_pda [of "WithdrawalPda vault i"]
  by simp_all

definition sample_runtime :: runtime where
  "sample_runtime = reference_runtime sample_address"

definition sample_config :: protocol_config where
  "sample_config =
     \<lparr>pc_version = 1, pc_admin = 6, pc_guardian = 7, pc_pause_flags = 0, pc_bump = 255,
      pc_reserved = replicate 61 0\<rparr>"

definition sample_escrow :: escrow where
  "sample_escrow =
     \<lparr>es_maker = 1, es_recipient = 2, es_mint = 20, es_token_program = 1001, es_escrow_id = 7,
      es_amount = 50, es_created_at = 10, es_expires_at = 1000, es_status = Funded, es_bump = 255,
      es_reserved = replicate 30 0\<rparr>"

definition sample_vault :: vault where
  "sample_vault =
     \<lparr>va_namespace_authority = 3, va_authority = 3, va_guardian = 4, va_vault_id = 0,
      va_next_withdrawal_id = 1, va_paused = False, va_bump = 255, va_reserved = replicate 46 0\<rparr>"

definition sample_asset :: vault_asset where
  "sample_asset =
     \<lparr>as_vault = 13, as_mint = 20, as_token_program = 1001, as_max_per_transaction = 100,
      as_window_limit = 150, as_window_seconds = 3600, as_window_started_at = 0,
      as_window_spent = 60, as_timelock_threshold = 40, as_timelock_seconds = 60,
      as_request_execution_window_seconds = 600, as_enabled = True, as_bump = 255,
      as_reserved = replicate 30 0\<rparr>"

definition sample_role :: role_assignment where
  "sample_role =
     \<lparr>ra_vault = 13, ra_principal = 5, ra_permissions = 23, ra_active = True, ra_bump = 255,
      ra_reserved = replicate 54 0\<rparr>"

definition sample_request :: withdrawal_request where
  "sample_request =
     \<lparr>wr_vault = 13, wr_vault_asset = 14, wr_mint = 20, wr_token_program = 1001, wr_proposer = 5,
      wr_recipient_owner = 2, wr_recipient_token_account = 22, wr_withdrawal_id = 0,
      wr_amount = 80, wr_created_at = 40, wr_execute_after = 100, wr_expires_at = 700,
      wr_status = Pending, wr_bump = 255, wr_reserved = replicate 30 0\<rparr>"

definition sample_tokens :: "pubkey \<Rightarrow> u64 \<Rightarrow> account" where
  "sample_tokens owner amount =
     \<lparr>acc_program = 1001,
      acc_data = TokenData \<lparr>ta_mint = 20, ta_owner = owner, ta_amount = amount, ta_frozen = False, ta_tlv = []\<rparr>\<rparr>"

definition sample_state :: "account_data \<Rightarrow> account" where
  "sample_state d = \<lparr>acc_program = ID, acc_data = d\<rparr>"

definition sample_ledger :: ledger where
  "sample_ledger =
     [10 \<mapsto> sample_state (ConfigData sample_config),
      11 \<mapsto> sample_state (EscrowData sample_escrow),
      12 \<mapsto> sample_tokens 11 50,
      13 \<mapsto> sample_state (VaultData sample_vault),
      14 \<mapsto> sample_state (AssetData sample_asset),
      15 \<mapsto> sample_tokens 13 500,
      16 \<mapsto> sample_state (RoleData sample_role),
      17 \<mapsto> sample_state (RequestData sample_request),
      20 \<mapsto> \<lparr>acc_program = 1001, acc_data = MintData \<lparr>mi_decimals = 6, mi_tlv = []\<rparr>\<rparr>,
      21 \<mapsto> sample_tokens 1 1000,
      22 \<mapsto> sample_tokens 2 5]"

text \<open>A transaction signed by the given wallets at a given time.\<close>

definition sample_tx :: "pubkey set \<Rightarrow> i64 \<Rightarrow> pubkey list \<Rightarrow> tx" where
  "sample_tx signers now remaining =
     \<lparr>tx_signers = signers, tx_now = now, tx_remaining_accounts = remaining\<rparr>"

lemmas sample_defs =
  sample_runtime_def sample_config_def sample_escrow_def sample_vault_def sample_asset_def
  sample_role_def sample_request_def sample_tokens_def sample_state_def sample_ledger_def
  sample_tx_def

text \<open>What the simplifier unfolds to run an operation on the sample world.\<close>

lemmas run_defs =
  sample_defs signer_def load_def load_interface_def token_interface_def system_program_def sysvar_clock_def
  seeds_with_bump_def seeds_canonical_def has_one_def constraint_def constraint_raw_def
  mint_constraints_def mint_extensions_supported_def require_def require_protocol_active_def
  is_paused_def Let_def transfer_checked_def spl_transfer_checked_def cpi_signed_def
  reload_amount_def minus_u64_def checked_sub_u64_def add_u64_or_def checked_add_u64_def
  add_i64_or_def checked_add_i64_def and_then_def init_account_def init_token_account_def
  spl_initialize_token_account_def authorize_operator_def index_or_panic_def validate_role_permission_def
  role_has_def store_def default_pubkey_def

lemma sample_token_laws: "token_laws sample_runtime"
  unfolding sample_runtime_def by (rule reference_token.token_laws_axioms)

lemma sample_live_token_laws: "live_token_laws sample_runtime"
  unfolding sample_runtime_def by (rule reference_live.live_token_laws_axioms)

lemma sample_pda_laws: "pda_laws sample_runtime"
  unfolding sample_runtime_def by (rule reference_pda.pda_laws_axioms)

end
