(* ===== verification/Escrow_Safety.thy ===== *)
theory Escrow_Safety
  imports Escrows Sample
begin

text \<open>
  What an escrow promises its maker and its recipient: creation locks exactly the
  agreed amount, release and refund pay it out exactly, to the party the record
  names, on either side of the expiry, and no pause keeps an expired escrow from being
  refunded.
\<close>

section \<open>Decomposition\<close>

lemma create_escrowE:
  assumes "create_escrow rt t a escrow_id recipient amount expires_at L = Inr (L', evs)"
  obtains config m maker_token bump L2 where
    "create_escrow_validate rt t a escrow_id L = Inr (config, m, maker_token, bump, L2)"
    "create rt t a config m maker_token bump escrow_id recipient amount expires_at L2 = Inr (L', evs)"
  using assms by (auto simp: create_escrow_def success_iff)

lemma release_escrowE:
  assumes "release_escrow rt t a L = Inr (L', evs)"
  obtains config esc m custody dest where
    "release_escrow_validate rt t a L = Inr (config, esc, m, custody, dest)"
    "release rt t a config esc m custody dest L = Inr (L', evs)"
  using assms by (auto simp: release_escrow_def success_iff)

lemma refund_escrowE:
  assumes "refund_escrow rt t a L = Inr (L', evs)"
  obtains esc m custody dest where
    "refund_escrow_validate rt t a L = Inr (esc, m, custody, dest)"
    "refund rt t a esc m custody dest L = Inr (L', evs)"
  using assms by (auto simp: refund_escrow_def success_iff)

section \<open>Exact payment\<close>

text \<open>
  What a payout of \<open>n\<close> units does to the two balances, and that it cannot be from an
  account to itself.
\<close>

definition pays :: "ledger \<Rightarrow> ledger \<Rightarrow> pubkey \<Rightarrow> pubkey \<Rightarrow> nat \<Rightarrow> bool" where
  "pays L L' source destination n \<longleftrightarrow>
     token_balance L' source + n = token_balance L source
     \<and> token_balance L' destination = token_balance L destination + n"

lemma paysI:
  assumes "token_at L source p x" "token_at L destination q y"
    and "token_at L1 source p' x'" "token_at L1 destination q' y'"
    and "n \<le> ta_amount x" "ta_amount x' = ta_amount x - n"
    and "unat (ta_amount y') = unat (ta_amount y) + unat n"
    and "k \<noteq> source" "k \<noteq> destination"
  shows "pays L (store k d L1) source destination (unat n)"
  using assms unat_sub_le [OF assms(5)] unat_mono
  by (simp add: pays_def token_balance_def store_def word_le_nat_alt)

lemma release_pays:
  assumes v: "release_escrow_validate rt t a L = Inr (config, esc, m, custody, dest)"
    and r: "release rt t a config esc m custody dest L = Inr (L', evs)"
  shows "pays L L' (re_escrow_token a) (re_recipient_token a) (unat (es_amount esc))"
proof -
  note v = v [unfolded release_escrow_validate_Inr_iff] and r = r [unfolded release_Inr_iff]
  from v have "re_escrow a \<noteq> re_escrow_token a" "re_escrow a \<noteq> re_recipient_token a"
    by auto
  with v r show ?thesis
    by (auto intro!: paysI)
qed

lemma refund_pays:
  assumes v: "refund_escrow_validate rt t a L = Inr (esc, m, custody, dest)"
    and r: "refund rt t a esc m custody dest L = Inr (L', evs)"
  shows "pays L L' (rf_escrow_token a) (rf_maker_destination a) (unat (es_amount esc))"
proof -
  note v = v [unfolded refund_escrow_validate_Inr_iff] and r = r [unfolded refund_Inr_iff]
  from v have "rf_escrow a \<noteq> rf_escrow_token a" "rf_escrow a \<noteq> rf_maker_destination a"
    by auto
  with v r show ?thesis
    by (auto intro!: paysI)
qed

lemma create_pays:
  assumes v: "create_escrow_validate rt t a escrow_id L = Inr (config, m, maker_token, bump, L2)"
    and c: "create rt t a config m maker_token bump escrow_id recipient amount expires_at L2
      = Inr (L', evs)"
  shows "token_balance L' (ce_escrow_token a) = unat amount"
    and "token_balance L' (ce_maker_token a) + unat amount = token_balance L (ce_maker_token a)"
proof -
  note v = v [unfolded create_escrow_validate_Inr_iff] and c = c [unfolded create_Inr_iff]
  from v have ne: "ce_escrow a \<noteq> ce_escrow_token a" "ce_escrow a \<noteq> ce_maker_token a"
    by auto
  from c have "unat (ta_amount maker_token - amount) + unat amount = unat (ta_amount maker_token)"
    using unat_sub_le [of amount "ta_amount maker_token"] by (auto simp: word_le_nat_alt)
  with ne v c show "token_balance L' (ce_escrow_token a) = unat amount"
    and "token_balance L' (ce_maker_token a) + unat amount = token_balance L (ce_maker_token a)"
    by (auto simp: store_def token_balance_def)
qed

text \<open>
  C8. A successful release pays the escrowed amount, exactly, from the custody account
  to a token account of the stored recipient; it needs the maker's signature, a funded
  escrow and a time before expiry, and leaves the record unchanged but for its status.
\<close>

theorem release_exact:
  assumes "release_escrow rt t a L = Inr (L', evs)"
  shows "\<exists>esc dest. state_at L (re_escrow a) (EscrowData esc)
    \<and> es_status esc = Funded \<and> es_maker esc \<in> tx_signers t
    \<and> sint (tx_now t) < sint (es_expires_at esc)
    \<and> token_at L (re_recipient_token a) (es_token_program esc) dest
    \<and> ta_owner dest = es_recipient esc \<and> ta_mint dest = es_mint esc
    \<and> pays L L' (fst (rt_find_program_address rt (escrow_token_seeds (re_escrow a))))
        (re_recipient_token a) (unat (es_amount esc))
    \<and> state_at L' (re_escrow a) (EscrowData (esc\<lparr>es_status := Released\<rparr>))
    \<and> evs = [EscrowReleased INITIAL_SCHEMA_VERSION (re_escrow a) (re_escrow_token a)
        (es_maker esc) (es_recipient esc) (re_recipient_token a) (es_mint esc) (es_amount esc)]"
  using assms
proof (rule release_escrowE)
  fix config esc m custody dest
  assume v: "release_escrow_validate rt t a L = Inr (config, esc, m, custody, dest)"
    and r: "release rt t a config esc m custody dest L = Inr (L', evs)"
  note p = release_pays [OF v r]
  note v = v [unfolded release_escrow_validate_Inr_iff] and r = r [unfolded release_Inr_iff]
  from p v r show ?thesis
    by (intro exI [of _ esc] exI [of _ dest]) (auto simp: store_def)
qed

definition sample_release :: release_escrow_accounts where
  "sample_release =
     \<lparr>re_maker = 1, re_protocol_config = 10, re_escrow = 11, re_mint = 20, re_escrow_token = 12,
      re_recipient_token = 22, re_token_program = 1001\<rparr>"

lemma sample_release_runs:
  "\<exists>L' evs. release_escrow sample_runtime (sample_tx {1} 500 []) sample_release sample_ledger
     = Inr (L', evs)"
  by (simp add: release_escrow_def release_escrow_validate_def release_def sample_release_def run_defs)

theorem release_exact_witness:
  "\<exists>L' evs. release_escrow sample_runtime (sample_tx {1} 500 []) sample_release sample_ledger
       = Inr (L', evs)
     \<and> pays sample_ledger L' 12 22 50"
proof -
  obtain L' evs where run:
    "release_escrow sample_runtime (sample_tx {1} 500 []) sample_release sample_ledger = Inr (L', evs)"
    using sample_release_runs by blast
  from release_exact [OF this] have "pays sample_ledger L' 12 22 50"
    by (auto simp: sample_release_def sample_defs)
  with run show ?thesis by blast
qed

text \<open>
  C9. A successful refund pays the escrowed amount, exactly, from the custody account to
  a token account of the stored maker, whoever calls it; it needs a funded escrow that
  has expired and leaves the record unchanged but for its status.
\<close>

theorem refund_exact:
  assumes "refund_escrow rt t a L = Inr (L', evs)"
  shows "\<exists>esc dest. state_at L (rf_escrow a) (EscrowData esc)
    \<and> es_status esc = Funded \<and> rf_caller a \<in> tx_signers t
    \<and> sint (es_expires_at esc) \<le> sint (tx_now t)
    \<and> token_at L (rf_maker_destination a) (es_token_program esc) dest
    \<and> ta_owner dest = es_maker esc \<and> ta_mint dest = es_mint esc
    \<and> pays L L' (fst (rt_find_program_address rt (escrow_token_seeds (rf_escrow a))))
        (rf_maker_destination a) (unat (es_amount esc))
    \<and> state_at L' (rf_escrow a) (EscrowData (esc\<lparr>es_status := Refunded\<rparr>))
    \<and> evs = [EscrowRefunded INITIAL_SCHEMA_VERSION (rf_escrow a) (rf_escrow_token a)
        (rf_caller a) (es_maker esc) (rf_maker_destination a) (es_mint esc) (es_amount esc)]"
  using assms
proof (rule refund_escrowE)
  fix esc m custody dest
  assume v: "refund_escrow_validate rt t a L = Inr (esc, m, custody, dest)"
    and r: "refund rt t a esc m custody dest L = Inr (L', evs)"
  note p = refund_pays [OF v r]
  note v = v [unfolded refund_escrow_validate_Inr_iff] and r = r [unfolded refund_Inr_iff]
  from p v r show ?thesis
    by (intro exI [of _ esc] exI [of _ dest]) (auto simp: store_def)
qed

definition sample_refund :: refund_escrow_accounts where
  "sample_refund =
     \<lparr>rf_caller = 9, rf_escrow = 11, rf_mint = 20, rf_escrow_token = 12,
      rf_maker_destination = 21, rf_token_program = 1001, rf_clock = CLOCK_ID\<rparr>"

lemma sample_refund_runs:
  "\<exists>L' evs. refund_escrow sample_runtime (sample_tx {9} 1000 []) sample_refund sample_ledger
     = Inr (L', evs)"
  by (simp add: refund_escrow_def refund_escrow_validate_def refund_def sample_refund_def run_defs)

theorem refund_exact_witness:
  "\<exists>L' evs. refund_escrow sample_runtime (sample_tx {9} 1000 []) sample_refund sample_ledger
       = Inr (L', evs)
     \<and> pays sample_ledger L' 12 21 50"
proof -
  obtain L' evs where run:
    "refund_escrow sample_runtime (sample_tx {9} 1000 []) sample_refund sample_ledger = Inr (L', evs)"
    using sample_refund_runs by blast
  from refund_exact [OF this] have "pays sample_ledger L' 12 21 50"
    by (auto simp: sample_refund_def sample_defs)
  with run show ?thesis by blast
qed

text \<open>
  C10. A successful creation records the terms the maker asked for at an address that was
  unused, funded, and moves exactly the amount out of the maker's account into a custody
  account that was unused too and now holds nothing else. The maker signed, the amount is
  positive, the expiry lies ahead and the recipient is neither unset nor the maker.
\<close>

theorem create_exact:
  assumes "create_escrow rt t a escrow_id recipient amount expires_at L = Inr (L', evs)"
  shows "L (ce_escrow a) = None \<and> L (ce_escrow_token a) = None
    \<and> ce_maker a \<in> tx_signers t \<and> 0 < amount
    \<and> recipient \<noteq> default_pubkey \<and> recipient \<noteq> ce_maker a
    \<and> sint (tx_now t) < sint expires_at
    \<and> token_balance L' (ce_escrow_token a) = unat amount
    \<and> token_balance L' (ce_maker_token a) + unat amount = token_balance L (ce_maker_token a)
    \<and> (\<exists>bump. rt_find_program_address rt (escrow_seeds (ce_maker a) escrow_id) = (ce_escrow a, bump)
        \<and> state_at L' (ce_escrow a) (EscrowData
            \<lparr>es_maker = ce_maker a, es_recipient = recipient, es_mint = ce_mint a,
             es_token_program = ce_token_program a, es_escrow_id = escrow_id,
             es_amount = amount, es_created_at = tx_now t, es_expires_at = expires_at,
             es_status = Funded, es_bump = bump, es_reserved = replicate 30 0\<rparr>))"
  using assms
proof (rule create_escrowE)
  fix config m maker_token bump L2
  assume v: "create_escrow_validate rt t a escrow_id L = Inr (config, m, maker_token, bump, L2)"
    and c: "create rt t a config m maker_token bump escrow_id recipient amount expires_at L2
      = Inr (L', evs)"
  note p = create_pays [OF v c]
  note v = v [unfolded create_escrow_validate_Inr_iff] and c = c [unfolded create_Inr_iff]
  from p v c show ?thesis
    by (auto simp: store_def created_escrow_def)
qed

definition sample_create :: create_escrow_accounts where
  "sample_create =
     \<lparr>ce_maker = 1, ce_protocol_config = 10, ce_mint = 20, ce_maker_token = 21, ce_escrow = 18,
      ce_escrow_token = 19, ce_token_program = 1001, ce_system_program = 0\<rparr>"

lemma sample_create_runs:
  "\<exists>L' evs. create_escrow sample_runtime (sample_tx {1} 500 []) sample_create 8 2 300 900 sample_ledger
     = Inr (L', evs)"
  by (simp add: create_escrow_def create_escrow_validate_def create_def sample_create_def run_defs)

theorem create_exact_witness:
  "\<exists>L' evs. create_escrow sample_runtime (sample_tx {1} 500 []) sample_create 8 2 300 900 sample_ledger
       = Inr (L', evs)
     \<and> token_balance L' 19 = 300 \<and> token_balance L' 21 + 300 = token_balance sample_ledger 21"
proof -
  obtain L' evs where run:
    "create_escrow sample_runtime (sample_tx {1} 500 []) sample_create 8 2 300 900 sample_ledger
       = Inr (L', evs)"
    using sample_create_runs by blast
  from create_exact [OF this] have "token_balance L' 19 = 300"
      "token_balance L' 21 + 300 = token_balance sample_ledger 21"
    by (simp_all add: sample_create_def)
  with run show ?thesis by blast
qed

section \<open>No pause blocks a refund\<close>

text \<open>
  C11. No pause and no authority of the protocol can block a refund. Once a funded escrow has expired,
  any signer's refund goes through and marks it refunded, provided that the tokens themselves can
  move: the custody account is not frozen and covers the amount, the destination is another token
  account of the maker for the same mint, not frozen and able to take the amount without overflow,
  the mint has no extensions and neither token account has any (a Token-2022 destination that
  requires a memo, for instance, is refused by the token program). No pause flag and no protocol
  authority occurs in the hypotheses; the account of the protocol configuration is not even passed.
\<close>

theorem refund_live:
  assumes "live_token_laws rt"
    and "rf_caller a \<in> tx_signers t" "rf_clock a = CLOCK_ID"
    and esc: "state_at L (rf_escrow a) (EscrowData esc)"
    and "es_status esc = Funded" "sint (es_expires_at esc) \<le> sint (tx_now t)"
    and "rt_create_program_address rt
      (escrow_seeds (es_maker esc) (es_escrow_id esc) @ [[es_bump esc]]) = Some (rf_escrow a)"
    and "rf_mint a = es_mint esc" "rf_token_program a = es_token_program esc"
    and "es_token_program esc = rt_token_id rt \<or> es_token_program esc = rt_token_2022_id rt"
    and "mint_at L (es_mint esc) (es_token_program esc) m" "mi_tlv m = []"
      "rt_extension_types rt [] = Inr []"
    and "rf_escrow_token a = fst (rt_find_program_address rt (escrow_token_seeds (rf_escrow a)))"
    and "token_at L (rf_escrow_token a) (es_token_program esc) custody"
      "ta_owner custody = rf_escrow a" "ta_mint custody = es_mint esc" "\<not> ta_frozen custody"
      "ta_tlv custody = []"
      "es_amount esc \<le> ta_amount custody"
    and "token_at L (rf_maker_destination a) (es_token_program esc) dest"
      "ta_owner dest = es_maker esc" "ta_mint dest = es_mint esc" "\<not> ta_frozen dest"
      "ta_tlv dest = []"
      "unat (ta_amount dest) + unat (es_amount esc) < 2 ^ 64"
    and "rf_maker_destination a \<noteq> rf_escrow_token a"
  shows "\<exists>L' evs. refund_escrow rt t a L = Inr (L', evs)
    \<and> state_at L' (rf_escrow a) (EscrowData (esc\<lparr>es_status := Refunded\<rparr>))"
proof -
  let ?x = "refund_transfer rt t a esc m"
  have ready: "transfer_ready ?x L custody dest"
    using assms by (simp add: transfer_ready_def refund_transfer_def cpi_signed_def)
  have "tr_program ?x = rt_token_id rt \<or> tr_program ?x = rt_token_2022_id rt"
    using assms by (simp add: refund_transfer_def)
  then obtain L1 where L1: "rt_transfer_checked rt ?x L = Inr L1"
      "token_at L1 (rf_escrow_token a) (tr_program ?x) (custody\<lparr>ta_amount := ta_amount custody - es_amount esc\<rparr>)"
      "token_at L1 (rf_maker_destination a) (tr_program ?x) (dest\<lparr>ta_amount := ta_amount dest + es_amount esc\<rparr>)"
    using live_token_laws.transfer_completes [OF assms(1) _ ready] by (auto simp: refund_transfer_def)
  moreover have "unat (ta_amount dest + es_amount esc) = unat (ta_amount dest) + unat (es_amount esc)"
    using assms by (simp add: unat_word_ariths)
  ultimately have "refund rt t a esc m custody dest L =
      Inr (store (rf_escrow a) (EscrowData (esc\<lparr>es_status := Refunded\<rparr>)) L1,
        [EscrowRefunded INITIAL_SCHEMA_VERSION (rf_escrow a) (rf_escrow_token a) (rf_caller a)
          (es_maker esc) (rf_maker_destination a) (es_mint esc) (es_amount esc)])"
    using assms by (auto simp: refund_Inr_iff)
  moreover have "refund_escrow_validate rt t a L = Inr (esc, m, custody, dest)"
    using assms by (simp add: refund_escrow_validate_Inr_iff mint_supported_def)
  ultimately show ?thesis
    by (simp add: refund_escrow_def and_then_def store_def)
qed

theorem refund_live_witness:
  "\<exists>L' evs. refund_escrow sample_runtime (sample_tx {9} 1000 []) sample_refund
        (sample_ledger(10 \<mapsto> sample_state (ConfigData (sample_config\<lparr>pc_pause_flags := 15\<rparr>))))
      = Inr (L', evs)
     \<and> state_at L' 11 (EscrowData (sample_escrow\<lparr>es_status := Refunded\<rparr>))"
  using refund_live [OF sample_live_token_laws, of sample_refund "sample_tx {9} 1000 []"
      "sample_ledger(10 \<mapsto> sample_state (ConfigData (sample_config\<lparr>pc_pause_flags := 15\<rparr>)))"
      sample_escrow "\<lparr>mi_decimals = 6, mi_tlv = []\<rparr>"
      "\<lparr>ta_mint = 20, ta_owner = 11, ta_amount = 50, ta_frozen = False, ta_tlv = []\<rparr>"
      "\<lparr>ta_mint = 20, ta_owner = 1, ta_amount = 1000, ta_frozen = False, ta_tlv = []\<rparr>"]
  by (simp add: sample_refund_def sample_defs)

end
