(* ===== verification/Vault_Safety.thy ===== *)
theory Vault_Safety
  imports Vault_Flow Escrow_Safety
begin

text \<open>
  What a vault promises: outflow happens only for the authority or a live role, within
  the limits, out of the vault's own custody and exactly; a timelocked request pays the
  recipient it recorded, inside its execution window; cancellation works whatever is
  paused; deposits arrive exactly.
\<close>

section \<open>Decomposition\<close>

lemma depositE:
  assumes "deposit rt t a amount L = Inr (L', evs)"
  obtains m asset source custody where
    "deposit_validate rt t a L = Inr (m, asset, source, custody)"
    "deposit_tokens rt t a m asset source custody amount L = Inr (L', evs)"
  using assms by (auto simp: deposit_def success_iff)

lemma withdrawE:
  assumes "withdraw rt t a amount L = Inr (L', evs)"
  obtains config v m asset custody dest where
    "withdraw_validate rt t a L = Inr (config, v, m, asset, custody, dest)"
    "withdraw_tokens rt t a config v m asset custody dest amount L = Inr (L', evs)"
  using assms by (auto simp: withdraw_def success_iff)

lemma request_withdrawalE:
  assumes "request_withdrawal rt t a amount L = Inr (L', evs)"
  obtains config v asset recipient bump L0 where
    "request_withdrawal_validate rt t a L = Inr (config, v, asset, recipient, bump, L0)"
    "request rt t a config v asset recipient bump amount L0 = Inr (L', evs)"
  using assms by (auto simp: request_withdrawal_def success_iff)

lemma execute_withdrawalE:
  assumes "execute_withdrawal rt t a L = Inr (L', evs)"
  obtains config v m asset w custody dest where
    "execute_withdrawal_validate rt t a L = Inr (config, v, m, asset, w, custody, dest)"
    "execute rt t a config v m asset w custody dest L = Inr (L', evs)"
  using assms by (auto simp: execute_withdrawal_def success_iff)

text \<open>A payment that is followed by a write to the asset, and by one to a request.\<close>

lemma pays_store:
  "pays L L' source destination n \<Longrightarrow> k \<noteq> source \<Longrightarrow> k \<noteq> destination
     \<Longrightarrow> pays L (store k d L') source destination n"
  by (simp add: pays_def token_balance_def store_def)

lemma deposit_pays:
  assumes v: "deposit_validate rt t a L = Inr (m, asset, source, custody)"
    and d: "deposit_tokens rt t a m asset source custody amount L = Inr (L', evs)"
  shows "pays L L' (de_source_token a) (de_vault_token a) (unat amount)"
  using v d unat_sub_le
  by (auto simp: deposit_validate_Inr_iff deposit_tokens_Inr_iff pays_def token_balance_def
      word_le_nat_alt)

lemma withdraw_pays:
  assumes v: "withdraw_validate rt t a L = Inr (config, v, m, asset, custody, dest)"
    and w: "withdraw_tokens rt t a config v m asset custody dest amount L = Inr (L', evs)"
  shows "pays L L' (wi_vault_token a) (wi_destination_token a) (unat amount)"
proof -
  note v = v [unfolded withdraw_validate_Inr_iff] and w = w [unfolded withdraw_tokens_Inr_iff]
  from v have "wi_vault_asset a \<noteq> wi_vault_token a" "wi_vault_asset a \<noteq> wi_destination_token a"
    by auto
  with v w show ?thesis
    by (auto intro!: paysI)
qed

lemma execute_pays:
  assumes v: "execute_withdrawal_validate rt t a L = Inr (config, v, m, asset, w, custody, dest)"
    and e: "execute rt t a config v m asset w custody dest L = Inr (L', evs)"
  shows "pays L L' (ex_vault_token a) (ex_recipient_token a) (unat (wr_amount w))"
proof -
  note v = v [unfolded execute_withdrawal_validate_Inr_iff] and e = e [unfolded execute_Inr_iff]
  from e obtain started spent L1 p q custody' dest' where
      L1: "token_at L1 (ex_vault_token a) p custody'" "token_at L1 (ex_recipient_token a) q dest'"
      "ta_amount custody' = ta_amount custody - wr_amount w"
      "unat (ta_amount dest') = unat (ta_amount dest) + unat (wr_amount w)"
    and L': "L' = store (ex_withdrawal_request a) (RequestData (w\<lparr>wr_status := Executed\<rparr>))
        (store (ex_vault_asset a) (AssetData (charge asset started spent)) L1)"
    by blast
  from v have ne: "ex_vault_asset a \<noteq> ex_vault_token a" "ex_vault_asset a \<noteq> ex_recipient_token a"
      "ex_withdrawal_request a \<noteq> ex_vault_token a" "ex_withdrawal_request a \<noteq> ex_recipient_token a"
    by auto
  with v e L1 have "pays L (store (ex_vault_asset a) (AssetData (charge asset started spent)) L1)
      (ex_vault_token a) (ex_recipient_token a) (unat (wr_amount w))"
    by (auto intro!: paysI)
  with ne L' show ?thesis
    by (simp add: pays_store)
qed

section \<open>Outflow\<close>

text \<open>
  C12. A successful withdrawal pays exactly the amount out of the custody account of the
  vault for that mint. The caller signed and is the vault authority or holds a live role
  with the withdraw permission; neither the protocol outflow nor the vault is paused, the
  asset is enabled, and the amount is positive, within the per-transaction maximum, at most
  the timelock threshold and within the window, whose new state is recorded.
\<close>

theorem withdraw_exact:
  assumes "withdraw rt t a amount L = Inr (L', evs)"
  shows "\<exists>config v asset started spent.
      state_at L (wi_protocol_config a) (ConfigData config) \<and> \<not> is_paused config PAUSE_VAULT_OUTFLOW
    \<and> state_at L (wi_vault a) (VaultData v) \<and> \<not> va_paused v
    \<and> wi_caller a \<in> tx_signers t
    \<and> (wi_caller a = va_authority v
       \<or> holds_permission rt L (wi_vault a) (wi_caller a) PERMISSION_WITHDRAW)
    \<and> state_at L (wi_vault_asset a) (AssetData asset) \<and> as_vault asset = wi_vault a
    \<and> as_mint asset = wi_mint a \<and> as_enabled asset
    \<and> 0 < amount \<and> amount \<le> as_max_per_transaction asset \<and> amount \<le> as_timelock_threshold asset
    \<and> next_window_state asset amount (tx_now t) = Inr (started, spent)
    \<and> pays L L' (fst (rt_find_program_address rt (vault_token_seeds (wi_vault a) (as_mint asset))))
        (wi_destination_token a) (unat amount)
    \<and> state_at L' (wi_vault_asset a)
        (AssetData (asset\<lparr>as_window_started_at := started, as_window_spent := spent\<rparr>))
    \<and> evs = [VaultWithdrawal INITIAL_SCHEMA_VERSION (wi_vault a) (wi_vault_asset a) (wi_vault_token a)
        (wi_caller a) (wi_destination_token a) (wi_mint a) amount]"
  using assms
proof (rule withdrawE)
  fix config v m asset custody dest
  assume v: "withdraw_validate rt t a L = Inr (config, v, m, asset, custody, dest)"
    and w: "withdraw_tokens rt t a config v m asset custody dest amount L = Inr (L', evs)"
  note paid = withdraw_pays [OF v w]
  note v = v [unfolded withdraw_validate_Inr_iff] and w = w [unfolded withdraw_tokens_Inr_iff]
  from w obtain started spent L1 where
      win: "next_window_state asset amount (tx_now t) = Inr (started, spent)"
    and L': "L' = store (wi_vault_asset a) (AssetData (charge asset started spent)) L1"
    using charge_next_window by fastforce
  from w have "wi_caller a = va_authority v
      \<or> holds_permission rt L (wi_vault a) (wi_caller a) PERMISSION_WITHDRAW"
    by (auto simp: withdraw_authorize_def success_iff split: if_splits)
  with paid v w win L' show ?thesis
    by (intro exI [of _ config] exI [of _ v] exI [of _ asset] exI [of _ started] exI [of _ spent])
      (simp add: store_def charge_def)
qed

definition sample_withdraw :: withdraw_accounts where
  "sample_withdraw =
     \<lparr>wi_caller = 5, wi_protocol_config = 10, wi_vault = 13, wi_mint = 20, wi_vault_asset = 14,
      wi_vault_token = 15, wi_destination_token = 22, wi_token_program = 1001\<rparr>"

lemma sample_withdraw_runs:
  "\<exists>L' evs. withdraw sample_runtime (sample_tx {5} 500 [16]) sample_withdraw 30 sample_ledger
     = Inr (L', evs)"
  by (simp add: withdraw_def withdraw_validate_def withdraw_tokens_def withdraw_authorize_def
      vault_address_def asset_address_def next_window_state_def sample_withdraw_def run_defs)

theorem withdraw_exact_witness:
  "\<exists>L' evs. withdraw sample_runtime (sample_tx {5} 500 [16]) sample_withdraw 30 sample_ledger
       = Inr (L', evs)
     \<and> pays sample_ledger L' 15 22 30
     \<and> holds_permission sample_runtime sample_ledger 13 5 PERMISSION_WITHDRAW"
proof -
  obtain L' evs where run:
    "withdraw sample_runtime (sample_tx {5} 500 [16]) sample_withdraw 30 sample_ledger = Inr (L', evs)"
    using sample_withdraw_runs by blast
  from withdraw_exact [OF this] have "pays sample_ledger L' 15 22 30"
      "holds_permission sample_runtime sample_ledger 13 5 PERMISSION_WITHDRAW"
    by (auto simp: sample_withdraw_def sample_defs)
  with run show ?thesis by blast
qed

text \<open>
  C13. A successful execution pays exactly the recorded amount from the custody account of
  the vault to the recorded recipient account, still owned by the recorded recipient. The
  request was pending and is now executed and otherwise unchanged; the timelock has run out
  and the execution window has not; the pauses, the per-transaction maximum and the window
  of the moment of execution apply.
\<close>

theorem execute_exact:
  assumes "execute_withdrawal rt t a L = Inr (L', evs)"
  shows "\<exists>config v asset w dest started spent.
      state_at L (ex_protocol_config a) (ConfigData config) \<and> \<not> is_paused config PAUSE_VAULT_OUTFLOW
    \<and> state_at L (ex_vault a) (VaultData v) \<and> \<not> va_paused v
    \<and> state_at L (ex_withdrawal_request a) (RequestData w)
    \<and> wr_vault w = ex_vault a \<and> wr_vault_asset w = ex_vault_asset a \<and> wr_status w = Pending
    \<and> sint (wr_execute_after w) \<le> sint (tx_now t) \<and> sint (tx_now t) \<le> sint (wr_expires_at w)
    \<and> state_at L (ex_vault_asset a) (AssetData asset) \<and> as_enabled asset
    \<and> wr_amount w \<le> as_max_per_transaction asset
    \<and> next_window_state asset (wr_amount w) (tx_now t) = Inr (started, spent)
    \<and> token_at L (wr_recipient_token_account w) (wr_token_program w) dest
    \<and> ta_owner dest = wr_recipient_owner w
    \<and> pays L L' (fst (rt_find_program_address rt (vault_token_seeds (wr_vault w) (wr_mint w))))
        (wr_recipient_token_account w) (unat (wr_amount w))
    \<and> state_at L' (ex_withdrawal_request a) (RequestData (w\<lparr>wr_status := Executed\<rparr>))
    \<and> state_at L' (ex_vault_asset a)
        (AssetData (asset\<lparr>as_window_started_at := started, as_window_spent := spent\<rparr>))"
  using assms
proof (rule execute_withdrawalE)
  fix config v m asset w custody dest
  assume v: "execute_withdrawal_validate rt t a L = Inr (config, v, m, asset, w, custody, dest)"
    and e: "execute rt t a config v m asset w custody dest L = Inr (L', evs)"
  note paid = execute_pays [OF v e]
  note v = v [unfolded execute_withdrawal_validate_Inr_iff] and e = e [unfolded execute_Inr_iff]
  from e obtain started spent L1 where
      win: "next_window_state asset (wr_amount w) (tx_now t) = Inr (started, spent)"
    and L': "L' = store (ex_withdrawal_request a) (RequestData (w\<lparr>wr_status := Executed\<rparr>))
        (store (ex_vault_asset a) (AssetData (charge asset started spent)) L1)"
    by blast
  from v have "ex_vault_asset a \<noteq> ex_withdrawal_request a"
    by auto
  with paid v e win L' show ?thesis
    by (intro exI [of _ config] exI [of _ v] exI [of _ asset] exI [of _ w] exI [of _ dest]
        exI [of _ started] exI [of _ spent]) (simp add: store_def charge_def)
qed

definition sample_execute :: execute_withdrawal_accounts where
  "sample_execute =
     \<lparr>ex_caller = 9, ex_protocol_config = 10, ex_vault = 13, ex_mint = 20, ex_vault_asset = 14,
      ex_withdrawal_request = 17, ex_vault_token = 15, ex_recipient_token = 22,
      ex_token_program = 1001, ex_clock = CLOCK_ID\<rparr>"

lemma sample_execute_runs:
  "\<exists>L' evs. execute_withdrawal sample_runtime (sample_tx {9} 100 []) sample_execute sample_ledger
     = Inr (L', evs)"
  by (simp add: execute_withdrawal_def execute_withdrawal_validate_def execute_def
      vault_address_def asset_address_def next_window_state_def sample_execute_def run_defs)

theorem execute_exact_witness:
  "\<exists>L' evs. execute_withdrawal sample_runtime (sample_tx {9} 100 []) sample_execute sample_ledger
       = Inr (L', evs)
     \<and> pays sample_ledger L' 15 22 80
     \<and> state_at L' 17 (RequestData (sample_request\<lparr>wr_status := Executed\<rparr>))"
proof -
  obtain L' evs where run:
    "execute_withdrawal sample_runtime (sample_tx {9} 100 []) sample_execute sample_ledger = Inr (L', evs)"
    using sample_execute_runs by blast
  from execute_exact [OF this] have "pays sample_ledger L' 15 22 80"
      "state_at L' 17 (RequestData (sample_request\<lparr>wr_status := Executed\<rparr>))"
    by (auto simp: sample_execute_def sample_defs)
  with run show ?thesis by blast
qed

section \<open>Requests\<close>

text \<open>
  C18. A successful request records, at the unused address of the next id, a pending request
  for an amount above the timelock threshold and within the maximum, for the recipient
  account that was passed and its owner of the moment; it cannot be executed before the
  timelock has passed, and it expires strictly after that. The id counter advances by one
  without wrapping, and no token balance moves.
\<close>

theorem request_recorded:
  assumes "request_withdrawal rt t a amount L = Inr (L', evs)"
  shows "\<exists>v asset recipient w.
      state_at L (rq_vault a) (VaultData v) \<and> state_at L (rq_vault_asset a) (AssetData asset)
    \<and> token_at L (rq_recipient_token a) (as_token_program asset) recipient
    \<and> as_timelock_threshold asset < amount \<and> amount \<le> as_max_per_transaction asset
    \<and> L (rq_withdrawal_request a) = None
    \<and> rt_find_program_address rt (withdrawal_seeds (rq_vault a) (va_next_withdrawal_id v))
        = (rq_withdrawal_request a, wr_bump w)
    \<and> state_at L' (rq_withdrawal_request a) (RequestData w)
    \<and> wr_status w = Pending \<and> wr_amount w = amount \<and> wr_proposer w = rq_proposer a
    \<and> wr_withdrawal_id w = va_next_withdrawal_id v
    \<and> wr_vault w = rq_vault a \<and> wr_vault_asset w = rq_vault_asset a
    \<and> wr_recipient_token_account w = rq_recipient_token a \<and> wr_recipient_owner w = ta_owner recipient
    \<and> sint (wr_execute_after w) = sint (tx_now t) + sint (as_timelock_seconds asset)
    \<and> sint (tx_now t) < sint (wr_execute_after w) \<and> sint (wr_execute_after w) < sint (wr_expires_at w)
    \<and> state_at L' (rq_vault a)
        (VaultData (v\<lparr>va_next_withdrawal_id := va_next_withdrawal_id v + 1\<rparr>))
    \<and> unat (va_next_withdrawal_id v + 1) = unat (va_next_withdrawal_id v) + 1
    \<and> (\<forall>k. token_balance L' k = token_balance L k)"
  using assms
proof (rule request_withdrawalE)
  fix config v asset recipient bump L0
  assume val: "request_withdrawal_validate rt t a L = Inr (config, v, asset, recipient, bump, L0)"
    and r: "request rt t a config v asset recipient bump amount L0 = Inr (L', evs)"
  note val = val [unfolded request_withdrawal_validate_Inr_iff] and r = r [unfolded request_Inr_iff]
  from r obtain ea xa where times:
      "sint ea = sint (tx_now t) + sint (as_timelock_seconds asset)"
      "sint xa = sint ea + sint (as_request_execution_window_seconds asset)"
      "0 < sint (as_timelock_seconds asset)" "0 < sint (as_request_execution_window_seconds asset)"
    and L': "L' = store (rq_withdrawal_request a)
        (RequestData (requested t a v asset recipient bump amount ea xa))
        (store (rq_vault a) (VaultData (v\<lparr>va_next_withdrawal_id := va_next_withdrawal_id v + 1\<rparr>)) L0)"
    by blast
  have "unat (va_next_withdrawal_id v + 1) = unat (va_next_withdrawal_id v) + 1"
    using r unat_succ_iff by auto
  moreover from val have "rq_withdrawal_request a \<noteq> rq_vault a"
    by auto
  moreover from val L' have "token_balance L' k = token_balance L k" for k
    by (auto simp: store_def token_balance_def)
  ultimately show ?thesis
    using val r times L'
    by (intro exI [of _ v] exI [of _ asset] exI [of _ recipient]
        exI [of _ "requested t a v asset recipient bump amount ea xa"])
      (simp add: store_def requested_def)
qed

definition sample_rq :: request_withdrawal_accounts where
  "sample_rq =
     \<lparr>rq_proposer = 5, rq_protocol_config = 10, rq_vault = 13, rq_mint = 20, rq_vault_asset = 14,
      rq_recipient_token = 22, rq_withdrawal_request = 27, rq_system_program = 0, rq_clock = CLOCK_ID\<rparr>"

lemma sample_rq_runs:
  "\<exists>L' evs. request_withdrawal sample_runtime (sample_tx {5} 500 [16]) sample_rq 90 sample_ledger
     = Inr (L', evs)"
  by (simp add: request_withdrawal_def request_withdrawal_validate_def request_def
      request_authorize_def vault_address_def asset_address_def sample_rq_def run_defs)

theorem request_recorded_witness:
  "\<exists>L' evs w. request_withdrawal sample_runtime (sample_tx {5} 500 [16]) sample_rq 90 sample_ledger
       = Inr (L', evs)
     \<and> state_at L' 27 (RequestData w) \<and> sint (wr_execute_after w) = 560 \<and> wr_amount w = 90"
proof -
  obtain L' evs where run:
    "request_withdrawal sample_runtime (sample_tx {5} 500 [16]) sample_rq 90 sample_ledger = Inr (L', evs)"
    using sample_rq_runs by blast
  from request_recorded [OF this] have
    "\<exists>w. state_at L' 27 (RequestData w) \<and> sint (wr_execute_after w) = 560 \<and> wr_amount w = 90"
    by (auto simp: sample_rq_def sample_defs)
  with run show ?thesis by blast
qed

text \<open>
  C19. Cancelling is open to the vault authority, the vault guardian, the proposer of the
  request and a holder of the cancel permission, and to nobody else: on a pending request
  of the vault, with its accounts in order, the call succeeds exactly for those, and then
  changes the status of the request and nothing else. No pause is consulted.
\<close>

theorem cancel_exactly_authorized:
  assumes "ca_caller a \<in> tx_signers t"
    and "state_at L (ca_vault a) (VaultData v)"
    and "state_at L (ca_withdrawal_request a) (RequestData w)"
    and "rt_create_program_address rt
      (vault_seeds (va_namespace_authority v) (va_vault_id v) @ [[va_bump v]]) = Some (ca_vault a)"
    and "rt_create_program_address rt (withdrawal_seeds (ca_vault a) (wr_withdrawal_id w) @ [[wr_bump w]])
      = Some (ca_withdrawal_request a)"
    and "wr_vault w = ca_vault a" "wr_status w = Pending"
    and intrinsic: "ca_caller a \<in> {va_authority v, va_guardian v, wr_proposer w} \<Longrightarrow>
      tx_remaining_accounts t = []"
    and operator: "ca_caller a \<notin> {va_authority v, va_guardian v, wr_proposer w} \<Longrightarrow>
      tx_remaining_accounts t
        = [fst (rt_find_program_address rt (role_seeds (ca_vault a) (ca_caller a)))]"
  shows "(\<exists>L' evs. cancel_withdrawal rt t a L = Inr (L', evs)
            \<and> L' = L(ca_withdrawal_request a \<mapsto>
                \<lparr>acc_program = ID, acc_data = RequestData (w\<lparr>wr_status := Cancelled\<rparr>)\<rparr>))
    \<longleftrightarrow> ca_caller a \<in> {va_authority v, va_guardian v, wr_proposer w}
       \<or> holds_permission rt L (ca_vault a) (ca_caller a) PERMISSION_CANCEL_WITHDRAWAL"
  using assms
  by (auto simp: cancel_withdrawal_Inr_iff cancel_authorize_def success_iff store_def
      vault_signer_seeds_def)

theorem cancel_exactly_authorized_witness:
  "\<exists>L' evs. cancel_withdrawal sample_runtime (sample_tx {4} 900 [])
      \<lparr>ca_caller = 4, ca_vault = 13, ca_withdrawal_request = 17\<rparr> sample_ledger = Inr (L', evs)
     \<and> L' = sample_ledger(17 \<mapsto>
         \<lparr>acc_program = ID, acc_data = RequestData (sample_request\<lparr>wr_status := Cancelled\<rparr>)\<rparr>)"
  using cancel_exactly_authorized
    [of "\<lparr>ca_caller = 4, ca_vault = 13, ca_withdrawal_request = 17\<rparr>" "sample_tx {4} 900 []"
      sample_ledger sample_vault sample_request sample_runtime]
  by (simp add: sample_defs)

section \<open>Deposits\<close>

text \<open>
  C26. A successful deposit moves exactly the amount from an account of the depositor, who
  signed, into the custody account of the vault for that mint; the asset belongs to the
  vault and is enabled, and neither pauses nor program state play a part: every account
  the program owns is unchanged.
\<close>

theorem deposit_exact:
  assumes "token_laws rt" and "deposit rt t a amount L = Inr (L', evs)"
  shows "\<exists>asset source. state_at L (de_vault_asset a) (AssetData asset)
    \<and> as_vault asset = de_vault a \<and> as_enabled asset \<and> 0 < amount
    \<and> de_depositor a \<in> tx_signers t
    \<and> token_at L (de_source_token a) (as_token_program asset) source
    \<and> ta_owner source = de_depositor a
    \<and> pays L L' (de_source_token a)
        (fst (rt_find_program_address rt (vault_token_seeds (de_vault a) (as_mint asset)))) (unat amount)
    \<and> (\<forall>k d. state_at L k d \<and> token_of d = None \<longrightarrow> state_at L' k d)"
  using assms(2)
proof (rule depositE)
  fix m asset source custody
  assume v: "deposit_validate rt t a L = Inr (m, asset, source, custody)"
    and d: "deposit_tokens rt t a m asset source custody amount L = Inr (L', evs)"
  note paid = deposit_pays [OF v d]
  note v = v [unfolded deposit_validate_Inr_iff] and d = d [unfolded deposit_tokens_Inr_iff]
  have "state_at L' k x" if "state_at L k x" "token_of x = None" for k x
    using token_laws.transfer_non_token [OF assms(1)] d that by fastforce
  with paid v d show ?thesis
    by (intro exI [of _ asset] exI [of _ source]) simp
qed

definition sample_deposit :: deposit_accounts where
  "sample_deposit =
     \<lparr>de_depositor = 1, de_vault = 13, de_mint = 20, de_vault_asset = 14, de_source_token = 21,
      de_vault_token = 15, de_token_program = 1001\<rparr>"

lemma sample_deposit_runs:
  "\<exists>L' evs. deposit sample_runtime (sample_tx {1} 500 []) sample_deposit 400 sample_ledger
     = Inr (L', evs)"
  by (simp add: deposit_def deposit_validate_def deposit_tokens_def vault_address_def
      asset_address_def sample_deposit_def run_defs)

theorem deposit_exact_witness:
  "\<exists>L' evs. deposit sample_runtime (sample_tx {1} 500 []) sample_deposit 400 sample_ledger
       = Inr (L', evs)
     \<and> pays sample_ledger L' 21 15 400"
proof -
  obtain L' evs where run:
    "deposit sample_runtime (sample_tx {1} 500 []) sample_deposit 400 sample_ledger = Inr (L', evs)"
    using sample_deposit_runs by blast
  from deposit_exact [OF sample_token_laws this] have "pays sample_ledger L' 21 15 400"
    by (auto simp: sample_deposit_def sample_defs)
  with run show ?thesis by blast
qed

end
