(* ===== verification/Limits.thy ===== *)
theory Limits
  imports Vault_Safety
begin

text \<open>
  The rolling withdrawal window. \<open>next_window_state\<close> keeps a start and a spend in
  64-bit counters; here it is compared with the total a sequence of outflows adds up to
  over the unbounded integers: inside one window exactly the sequences that stay within
  the limit are admitted, and no period shorter than the window sees more than twice the
  limit, the most any fixed-window scheme lets through around a boundary.
\<close>

section \<open>Sequences of outflows\<close>

text \<open>A sequence of outflows of one asset, each an amount and a time, charged in order.\<close>

fun spend_all :: "vault_asset \<Rightarrow> (u64 \<times> i64) list \<Rightarrow> vault_asset result" where
  "spend_all asset [] = Inr asset"
| "spend_all asset ((amount, now) # xs) =
     and_then (next_window_state asset amount now) (\<lambda>(started, spent).
     spend_all (charge asset started spent) xs)"

definition outflow_total :: "(u64 \<times> i64) list \<Rightarrow> nat" where
  "outflow_total xs = (\<Sum>(amount, now)\<leftarrow>xs. unat amount)"

lemma outflow_total_simps [simp]:
  "outflow_total [] = 0" "outflow_total ((amount, now) # xs) = unat amount + outflow_total xs"
  "outflow_total (xs @ ys) = outflow_total xs + outflow_total ys"
  by (simp_all add: outflow_total_def)

definition window_end :: "vault_asset \<Rightarrow> int" where
  "window_end asset = sint (as_window_started_at asset) + sint (as_window_seconds asset)"

lemma charge_simps [simp]:
  "as_window_seconds (charge asset s p) = as_window_seconds asset"
  "as_window_limit (charge asset s p) = as_window_limit asset"
  "as_window_started_at (charge asset s p) = s"
  "as_window_spent (charge asset s p) = p"
  "window_end (charge asset s p) = sint s + sint (as_window_seconds asset)"
  "charge asset (as_window_started_at asset) (as_window_spent asset) = asset"
  "charge (charge asset s p) s' p' = charge asset s' p'"
  by (simp_all add: charge_def window_end_def)

lemma charge_idle:
  "next_window_state asset amount now = Inr (started, spent) \<Longrightarrow>
     (if 0 < sint (as_window_seconds asset) then charge asset started spent else asset) = charge asset started spent"
  by (auto simp: next_window_state_Inr_iff charge_def split: if_splits)

lemma spend_all_Cons_Inr_iff:
  "spend_all asset ((amount, now) # xs) = Inr asset' \<longleftrightarrow>
     (\<exists>started spent. next_window_state asset amount now = Inr (started, spent)
        \<and> spend_all (charge asset started spent) xs = Inr asset')"
  by (auto simp: success_iff)

lemma spend_all_append_Inr_iff:
  "spend_all asset (xs @ ys) = Inr asset' \<longleftrightarrow>
     (\<exists>mid. spend_all asset xs = Inr mid \<and> spend_all mid ys = Inr asset')"
  by (induction asset xs rule: spend_all.induct) (auto simp: success_iff)

section \<open>Inside one window\<close>

lemma next_window_same:
  assumes "0 < sint (as_window_seconds asset)" "window_end asset < 2 ^ 63"
    and "sint now < window_end asset"
  shows "next_window_state asset amount now = Inr (started, spent) \<longleftrightarrow>
    started = as_window_started_at asset
    \<and> unat spent = unat (as_window_spent asset) + unat amount
    \<and> unat (as_window_spent asset) + unat amount \<le> unat (as_window_limit asset)"
  using assms by (auto simp: next_window_state_Inr_iff window_end_def word_le_nat_alt)

lemma unat_exists_u64: "n \<le> unat (b :: u64) \<Longrightarrow> \<exists>x :: u64. unat x = n"
  using unat_u64_bound [of b] by (intro exI [of _ "of_nat n"]) (simp add: unat_of_nat)

lemma two_spends:
  fixes limit :: u64
  shows "(\<exists>spent :: u64. unat spent = m \<and> m \<le> unat limit \<and> unat spent + n \<le> unat limit
        \<and> (\<exists>p :: u64. unat p = unat spent + n \<and> P p))
    \<longleftrightarrow> m + n \<le> unat limit \<and> (\<exists>p. unat p = m + n \<and> P p)"
    (is "?step \<longleftrightarrow> ?sum")
proof
  assume ?sum
  moreover from this obtain q :: u64 where "unat q = m"
    using unat_exists_u64 [of _ limit] by (metis add_leD1)
  ultimately show ?step
    by (intro exI [of _ q]) auto
qed auto

lemma spend_all_same_window:
  assumes "0 < sint (as_window_seconds asset)" "window_end asset < 2 ^ 63"
    and "\<forall>(amount, now) \<in> set xs. sint now < window_end asset" "xs \<noteq> []"
  shows "spend_all asset xs = Inr asset' \<longleftrightarrow>
    unat (as_window_spent asset) + outflow_total xs \<le> unat (as_window_limit asset)
    \<and> (\<exists>spent. unat spent = unat (as_window_spent asset) + outflow_total xs
         \<and> asset' = charge asset (as_window_started_at asset) spent)"
  using assms
proof (induction xs arbitrary: asset)
  case (Cons x xs)
  obtain amount now where x: "x = (amount, now)" by fastforce
  note same = next_window_same [OF Cons.prems(1,2), of now amount]
  show ?case
  proof (cases "xs = []")
    case True
    have now: "sint now < window_end asset"
      using Cons.prems x by simp
    show ?thesis
      unfolding x True spend_all_Cons_Inr_iff same [OF now] by auto
  next
    case False
    have rest: "spend_all (charge asset (as_window_started_at asset) spent) xs = Inr asset' \<longleftrightarrow>
        unat spent + outflow_total xs \<le> unat (as_window_limit asset)
        \<and> (\<exists>p. unat p = unat spent + outflow_total xs
             \<and> asset' = charge asset (as_window_started_at asset) p)" for spent
      using Cons.IH [of "charge asset (as_window_started_at asset) spent"] Cons.prems False
      by (simp add: x window_end_def)
    have now: "sint now < window_end asset"
      using Cons.prems x by simp
    have "spend_all asset (x # xs) = Inr asset' \<longleftrightarrow>
        (\<exists>spent. unat spent = unat (as_window_spent asset) + unat amount
           \<and> unat (as_window_spent asset) + unat amount \<le> unat (as_window_limit asset)
           \<and> spend_all (charge asset (as_window_started_at asset) spent) xs = Inr asset')"
      unfolding x spend_all_Cons_Inr_iff same [OF now] by blast
    also have "\<dots> \<longleftrightarrow>
        (\<exists>spent :: u64. unat spent = unat (as_window_spent asset) + unat amount
           \<and> unat (as_window_spent asset) + unat amount \<le> unat (as_window_limit asset)
           \<and> unat spent + outflow_total xs \<le> unat (as_window_limit asset)
           \<and> (\<exists>p. unat p = unat spent + outflow_total xs
                \<and> asset' = charge asset (as_window_started_at asset) p))"
      by (simp only: rest)
    also have "\<dots> \<longleftrightarrow>
        unat (as_window_spent asset) + unat amount + outflow_total xs \<le> unat (as_window_limit asset)
        \<and> (\<exists>p. unat p = unat (as_window_spent asset) + unat amount + outflow_total xs
             \<and> asset' = charge asset (as_window_started_at asset) p)"
      by (rule two_spends)
    finally show ?thesis
      by (simp add: x add.assoc)
  qed
qed simp

text \<open>
  C3. Inside one window the counters compute the sum: a non-empty sequence of outflows, all
  before the end of the current window, is admitted exactly when what was already spent
  plus the amounts, added up without wrap-around, stays within the window limit; the window
  then keeps its start and its spend is that sum.
\<close>

theorem window_admits_exactly:
  assumes "0 < sint (as_window_seconds asset)" "window_end asset < 2 ^ 63"
    and "\<forall>(amount, now) \<in> set xs. sint now < window_end asset" "xs \<noteq> []"
  shows "((\<exists>asset'. spend_all asset xs = Inr asset') \<longleftrightarrow>
      unat (as_window_spent asset) + outflow_total xs \<le> unat (as_window_limit asset))
    \<and> (\<forall>asset'. spend_all asset xs = Inr asset' \<longrightarrow>
      as_window_started_at asset' = as_window_started_at asset
      \<and> unat (as_window_spent asset') = unat (as_window_spent asset) + outflow_total xs)"
  unfolding spend_all_same_window [OF assms]
  using unat_exists_u64 [of "unat (as_window_spent asset) + outflow_total xs" "as_window_limit asset"]
  by auto

theorem window_admits_exactly_witness:
  "(\<exists>asset'. spend_all sample_asset [(30, 500), (60, 1200)] = Inr asset')
   \<and> \<not> (\<exists>asset'. spend_all sample_asset [(30, 500), (61, 1200)] = Inr asset')"
  using window_admits_exactly [of sample_asset "[(30, 500), (60, 1200)]"]
    window_admits_exactly [of sample_asset "[(30, 500), (61, 1200)]"]
  by (simp add: sample_asset_def window_end_def)

section \<open>Across windows\<close>

lemma next_window_rollover:
  assumes "0 < sint (as_window_seconds asset)" "window_end asset \<le> sint now"
    and "next_window_state asset amount now = Inr (started, spent)"
  shows "started = now" "spent = amount" "amount \<le> as_window_limit asset"
  using assms by (auto simp: next_window_state_Inr_iff window_end_def split: if_splits)

lemma next_window_defined:
  assumes "0 < sint (as_window_seconds asset)"
    and "next_window_state asset amount now = Inr r"
  shows "window_end asset < 2 ^ 63"
  using assms by (cases r) (auto simp: next_window_state_Inr_iff window_end_def split: if_splits)

text \<open>A sequence that fits in one window spends at most its limit.\<close>

lemma total_in_window:
  assumes "0 < sint (as_window_seconds asset)" "spend_all asset xs = Inr asset'"
    and "\<forall>(amount, now) \<in> set xs. sint now < window_end asset"
  shows "outflow_total xs \<le> unat (as_window_limit asset)"
proof (cases xs)
  case (Cons x ys)
  obtain amount now where x: "x = (amount, now)" by fastforce
  with assms Cons have "window_end asset < 2 ^ 63"
    using next_window_defined [OF assms(1)] by (auto simp: success_iff)
  from iffD1 [OF spend_all_same_window [OF assms(1) this assms(3)] assms(2)] Cons show ?thesis
    by auto
qed simp

text \<open>A sequence that starts a new window with its first outflow and fits in it.\<close>

lemma total_from_rollover:
  assumes "0 < sint (as_window_seconds asset)" "spend_all asset ((amount, now) # xs) = Inr asset'"
    and "window_end asset \<le> sint now"
    and "\<forall>(amount, later) \<in> set xs. sint later < sint now + sint (as_window_seconds asset)"
  shows "unat amount + outflow_total xs \<le> unat (as_window_limit asset)"
proof -
  from assms(2) obtain s p where n: "next_window_state asset amount now = Inr (s, p)"
    and rest: "spend_all (charge asset s p) xs = Inr asset'"
    by (auto simp: success_iff)
  note roll = next_window_rollover [OF assms(1,3) n]
  show ?thesis
  proof (cases xs)
    case Nil
    with roll show ?thesis by (simp add: word_le_nat_alt)
  next
    case (Cons y ys)
    from rest Cons assms(1) have "window_end (charge asset s p) < 2 ^ 63"
      using next_window_defined [of "charge asset s p"] by (cases y) (auto simp: success_iff)
    with spend_all_same_window [of "charge asset s p" xs asset'] rest roll assms Cons show ?thesis
      by (simp add: word_le_nat_alt)
  qed
qed

lemma spend_all_keeps:
  "spend_all asset xs = Inr asset' \<Longrightarrow>
     as_window_seconds asset' = as_window_seconds asset \<and> as_window_limit asset' = as_window_limit asset"
  by (induction asset xs rule: spend_all.induct) (auto simp: success_iff)

lemma spend_all_window_end:
  assumes "0 < sint (as_window_seconds asset)" "spend_all asset xs = Inr asset'"
    and "\<forall>(amount, now) \<in> set xs. sint now < window_end asset"
  shows "window_end asset' = window_end asset"
proof (cases xs)
  case (Cons x ys)
  with assms have "window_end asset < 2 ^ 63"
    using next_window_defined [OF assms(1)] by (cases x) (auto simp: success_iff)
  from iffD1 [OF spend_all_same_window [OF assms(1) this assms(3)] assms(2)] Cons show ?thesis
    by (auto simp: window_end_def)
qed (use assms in simp)

text \<open>
  In any period shorter than the window the outflows of an asset
  add up to at most twice the window limit, whatever window was running before; the policy
  is unchanged over the period.
\<close>

lemma window_sliding_bound:
  assumes W: "0 < sint (as_window_seconds asset)"
    and run: "spend_all asset xs = Inr asset'"
    and period: "\<forall>(amount, now) \<in> set xs.
      from \<le> sint now \<and> sint now < from + sint (as_window_seconds asset)"
  shows "outflow_total xs \<le> 2 * unat (as_window_limit asset)"
proof -
  let ?old = "\<lambda>(amount, now :: i64). sint now < window_end asset"
  let ?xs = "takeWhile ?old xs" and ?ys = "dropWhile ?old xs"
  have "spend_all asset (?xs @ ?ys) = Inr asset'"
    using run by simp
  then obtain mid where mid: "spend_all asset ?xs = Inr mid" "spend_all mid ?ys = Inr asset'"
    unfolding spend_all_append_Inr_iff by blast
  have old: "\<forall>(amount, now) \<in> set ?xs. sint now < window_end asset"
    by (auto dest: set_takeWhileD)
  have first: "outflow_total ?xs \<le> unat (as_window_limit asset)"
    using total_in_window [OF W mid(1) old] .
  have "outflow_total ?ys \<le> unat (as_window_limit asset)"
  proof (cases ?ys)
    case (Cons y ys)
    obtain amount now where y: "y = (amount, now)" by fastforce
    have "\<not> ?old (hd ?ys)"
      using Cons by (intro hd_dropWhile [of ?old xs]) simp
    with Cons y have late: "window_end asset \<le> sint now"
      by simp
    have keep: "as_window_seconds mid = as_window_seconds asset" "as_window_limit mid = as_window_limit asset"
      using spend_all_keeps [OF mid(1)] by auto
    have "window_end mid = window_end asset"
      using spend_all_window_end [OF W mid(1) old] .
    moreover from Cons y have "set ((amount, now) # ys) \<subseteq> set xs"
      by (metis set_dropWhileD subsetI)
    with period have "from \<le> sint now" "\<forall>(a, later) \<in> set ys. sint later < from + sint (as_window_seconds asset)"
      by auto
    then have "\<forall>(a, later) \<in> set ys. sint later < sint now + sint (as_window_seconds mid)"
      using keep by fastforce
    ultimately show ?thesis
      using total_from_rollover [of mid amount now ys asset'] W mid(2) Cons y keep late by simp
  next
    case Nil
    then show ?thesis by (simp only: outflow_total_simps le0)
  qed
  with first have "outflow_total ?xs + outflow_total ?ys \<le> 2 * unat (as_window_limit asset)"
    by simp
  moreover have "outflow_total xs = outflow_total ?xs + outflow_total ?ys"
    using outflow_total_simps(3) [of ?xs ?ys] by simp
  ultimately show ?thesis by simp
qed

end
