(* ===== verification/Admin_Safety.thy ===== *)
theory Admin_Safety
  imports Limits
begin

text \<open>
  Administration: who may change what, and what a change means for later calls. Protocol
  pauses, vault creation and hand-over, roles and withdrawal limits.
\<close>

unbundle bit_operations_syntax

section \<open>Protocol pauses\<close>

lemma known_pause_flag_bits: "bit KNOWN_PAUSE_FLAGS n \<longleftrightarrow> n < 4"
proof -
  have "KNOWN_PAUSE_FLAGS = mask 4"
    by (simp add: KNOWN_PAUSE_FLAGS_def mask_eq_exp_minus_1)
  then show ?thesis
    unfolding \<open>KNOWN_PAUSE_FLAGS = mask 4\<close> bit_mask_iff by auto
qed

lemma is_paused_bits:
  "is_paused config flag \<longleftrightarrow> (\<exists>n. bit (pc_pause_flags config) n \<and> bit flag n)"
  by (simp add: is_paused_def mask_nonzero_iff_bits)

text \<open>
  C25. A pause update is made by the protocol admin or guardian, who signed; it sets the flags
  asked for, which are among the four known ones, and changes nothing else. The guardian
  can only add: every operation that was paused before still is.
\<close>

theorem guardian_only_adds_pauses:
  assumes "set_protocol_pause rt t a flags L = Inr (L', evs)"
  shows "\<exists>config. state_at L (sp_protocol_config a) (ConfigData config)
    \<and> sp_caller a \<in> tx_signers t \<and> sp_caller a \<in> {pc_admin config, pc_guardian config}
    \<and> L' = L(sp_protocol_config a \<mapsto>
        \<lparr>acc_program = ID, acc_data = ConfigData (config\<lparr>pc_pause_flags := flags\<rparr>)\<rparr>)
    \<and> (\<forall>n. bit flags n \<longrightarrow> n < 4)
    \<and> (sp_caller a \<noteq> pc_admin config \<longrightarrow>
        (\<forall>flag. is_paused config flag \<longrightarrow> is_paused (config\<lparr>pc_pause_flags := flags\<rparr>) flag))"
proof -
  have keep: "is_paused (config\<lparr>pc_pause_flags := flags\<rparr>) flag"
    if "is_paused config flag" "flags AND pc_pause_flags config = pc_pause_flags config" for config flag
    using that by (auto simp: is_paused_bits mask_covers_iff_bits)
  from assms show ?thesis
    by (fastforce simp: set_protocol_pause_Inr_iff store_def mask_zero_iff_bits known_pause_flag_bits
        intro: keep)
qed

theorem guardian_only_adds_pauses_witness:
  "\<exists>L' evs. set_protocol_pause sample_runtime (sample_tx {7} 0 [])
      \<lparr>sp_caller = 7, sp_protocol_config = 10\<rparr> 8 sample_ledger = Inr (L', evs)
     \<and> state_at L' 10 (ConfigData (sample_config\<lparr>pc_pause_flags := 8\<rparr>))"
proof -
  let ?a = "\<lparr>sp_caller = 7, sp_protocol_config = 10\<rparr>"
  have "\<exists>L' evs. set_protocol_pause sample_runtime (sample_tx {7} 0 []) ?a 8 sample_ledger = Inr (L', evs)"
    by (simp add: set_protocol_pause_def set_protocol_pause_validate_def set_pause_def
        KNOWN_PAUSE_FLAGS_def run_defs)
  then obtain L' evs where run:
    "set_protocol_pause sample_runtime (sample_tx {7} 0 []) ?a 8 sample_ledger = Inr (L', evs)"
    by blast
  from guardian_only_adds_pauses [OF this] have
    "state_at L' 10 (ConfigData (sample_config\<lparr>pc_pause_flags := 8\<rparr>))"
    by (auto simp: sample_ledger_def sample_state_def)
  with run show ?thesis by blast
qed

section \<open>Roles\<close>

lemma holds_permission_store:
  "holds_permission rt (store k (RoleData role) L) vault holder p \<longleftrightarrow>
     (if fst (rt_find_program_address rt (role_seeds vault holder)) = k
      then ra_vault role = vault \<and> ra_principal role = holder \<and> role_has role p
      else holds_permission rt L vault holder p)"
  by (auto simp: holds_permission_iff store_def)

text \<open>
  C23. Granting and looking up: after the vault authority granted a mask, the holder passes
  exactly the permission checks whose bits are all in that mask; the grant replaces what
  the holder had before, and no permission of a holder whose role account is another one
  changes.
\<close>

theorem grant_then_check:
  assumes "grant_role rt t a holder permissions L = Inr (L', evs)"
  shows "(\<forall>p. holds_permission rt L' (gr_vault a) holder p \<longleftrightarrow> permissions AND p = p)
    \<and> (\<forall>vault other p. fst (rt_find_program_address rt (role_seeds vault other)) \<noteq> gr_role_assignment a
        \<longrightarrow> holds_permission rt L' vault other p = holds_permission rt L vault other p)
    \<and> (\<exists>v. state_at L (gr_vault a) (VaultData v) \<and> va_authority v \<in> tx_signers t
        \<and> holder \<noteq> va_authority v \<and> holder \<noteq> va_guardian v)
    \<and> (\<forall>n. bit permissions n \<longrightarrow> bit KNOWN_PERMISSIONS n)"
proof -
  from assms obtain bump where k:
      "fst (rt_find_program_address rt (role_seeds (gr_vault a) holder)) = gr_role_assignment a"
    and L': "L' = store (gr_role_assignment a) (RoleData (granted_role a bump holder permissions)) L"
    by (auto simp: grant_role_Inr_iff)
  have "holds_permission rt L' (gr_vault a) holder p \<longleftrightarrow> permissions AND p = p" for p
    using k L' by (simp add: holds_permission_store granted_role_def role_has_def)
  moreover have "holds_permission rt L' vault other p = holds_permission rt L vault other p"
    if "fst (rt_find_program_address rt (role_seeds vault other)) \<noteq> gr_role_assignment a" for vault other p
    using that L' by (simp add: holds_permission_store)
  ultimately show ?thesis
    using assms by (auto simp: grant_role_Inr_iff mask_zero_iff_bits)
qed

definition sample_grant :: grant_role_accounts where
  "sample_grant =
     \<lparr>gr_authority = 3, gr_protocol_config = 10, gr_vault = 13, gr_role_assignment = 16,
      gr_system_program = 0\<rparr>"

lemma sample_grant_runs:
  "\<exists>L' evs. grant_role sample_runtime (sample_tx {3} 0 []) sample_grant 5 6 sample_ledger = Inr (L', evs)"
  by (simp add: grant_role_def grant_role_validate_def init_role_if_needed_def grant_def
      KNOWN_PERMISSIONS_def vault_address_def sample_grant_def run_defs)

theorem grant_then_check_witness:
  "\<exists>L' evs. grant_role sample_runtime (sample_tx {3} 0 []) sample_grant 5 6 sample_ledger = Inr (L', evs)
     \<and> holds_permission sample_runtime L' 13 5 PERMISSION_CANCEL_WITHDRAWAL
     \<and> \<not> holds_permission sample_runtime L' 13 5 PERMISSION_WITHDRAW"
proof -
  obtain L' evs where run:
    "grant_role sample_runtime (sample_tx {3} 0 []) sample_grant 5 6 sample_ledger = Inr (L', evs)"
    using sample_grant_runs by blast
  from grant_then_check [OF this] have "holds_permission sample_runtime L' 13 5 PERMISSION_CANCEL_WITHDRAWAL"
      "\<not> holds_permission sample_runtime L' 13 5 PERMISSION_WITHDRAW"
    by (simp_all add: sample_grant_def)
  with run show ?thesis by blast
qed

section \<open>Limits\<close>

text \<open>The policy stored in an asset, and what every policy an update writes satisfies.\<close>

definition asset_policy :: "vault_asset \<Rightarrow> policy" where
  "asset_policy asset =
     \<lparr>po_max_per_transaction = as_max_per_transaction asset, po_window_limit = as_window_limit asset,
      po_window_seconds = as_window_seconds asset, po_timelock_threshold = as_timelock_threshold asset,
      po_timelock_seconds = as_timelock_seconds asset,
      po_request_execution_window_seconds = as_request_execution_window_seconds asset\<rparr>"

lemma update_asset_simps:
  "asset_policy (update_asset asset q started spent) = q"
  "as_vault (update_asset asset q started spent) = as_vault asset"
  "as_mint (update_asset asset q started spent) = as_mint asset"
  "as_enabled (update_asset asset q started spent) = as_enabled asset"
  "as_window_started_at (update_asset asset q started spent) = started"
  "as_window_spent (update_asset asset q started spent) = spent"
  by (simp_all add: update_asset_def asset_policy_def)

text \<open>
  C21. Updating the limits writes the policy asked for, which satisfies the consistency rules,
  and never forgives spending of a running window: the window's start and spend are kept,
  unless the asset had no window or its window has ended by now, in which case a new empty
  window starts now.
\<close>

theorem limits_keep_live_window:
  assumes "update_limits rt t a q L = Inr (L', evs)"
  shows "\<exists>asset asset'. state_at L (ul_vault_asset a) (AssetData asset)
    \<and> L' = L(ul_vault_asset a \<mapsto> \<lparr>acc_program = ID, acc_data = AssetData asset'\<rparr>)
    \<and> asset_policy asset' = q \<and> valid_policy (asset_policy asset')
    \<and> as_vault asset' = as_vault asset \<and> as_mint asset' = as_mint asset
    \<and> as_enabled asset' = as_enabled asset
    \<and> (as_window_started_at asset' = as_window_started_at asset
         \<and> as_window_spent asset' = as_window_spent asset
       \<or> (as_window_seconds asset = 0 \<or> window_end asset \<le> sint (tx_now t))
         \<and> as_window_started_at asset' = tx_now t \<and> as_window_spent asset' = 0)"
proof -
  from assms obtain asset started spent where L: "state_at L (ul_vault_asset a) (AssetData asset)"
      "L' = store (ul_vault_asset a) (AssetData (update_asset asset q started spent)) L"
    and "valid_policy q" "updated_window asset (po_window_seconds q) (tx_now t) = Inr (started, spent)"
    by (auto simp: update_limits_Inr_iff)
  then show ?thesis
    by (intro exI [of _ "update_asset asset q started spent", THEN exI [of _ asset]])
      (auto simp: updated_window_Inr_iff store_def window_end_def update_asset_simps split: if_splits)
qed

definition sample_ul :: update_limits_accounts where
  "sample_ul =
     \<lparr>ul_caller = 3, ul_protocol_config = 10, ul_vault = 13, ul_mint = 20, ul_vault_asset = 14,
      ul_clock = CLOCK_ID\<rparr>"

definition sample_policy :: policy where
  "sample_policy =
     \<lparr>po_max_per_transaction = 50, po_window_limit = 70, po_window_seconds = 3600,
      po_timelock_threshold = 20, po_timelock_seconds = 30, po_request_execution_window_seconds = 60\<rparr>"

lemma sample_ul_runs:
  "\<exists>L' evs. update_limits sample_runtime (sample_tx {3} 500 []) sample_ul sample_policy sample_ledger
     = Inr (L', evs)"
  by (simp add: update_limits_def update_limits_validate_def update_handler_def valid_policy_def
      update_limits_authorize_def updated_window_def vault_address_def asset_address_def
      sample_ul_def sample_policy_def run_defs)

theorem limits_keep_live_window_witness:
  "\<exists>L' evs asset'. update_limits sample_runtime (sample_tx {3} 500 []) sample_ul sample_policy sample_ledger
       = Inr (L', evs)
     \<and> state_at L' 14 (AssetData asset') \<and> as_window_spent asset' = 60"
proof -
  obtain L' evs where run:
    "update_limits sample_runtime (sample_tx {3} 500 []) sample_ul sample_policy sample_ledger
       = Inr (L', evs)"
    using sample_ul_runs by blast
  from limits_keep_live_window [OF this] have
    "\<exists>asset'. state_at L' 14 (AssetData asset') \<and> as_window_spent asset' = 60"
    by (auto simp: sample_ul_def sample_ledger_def sample_state_def sample_asset_def window_end_def
        sample_tx_def)
  with run show ?thesis by blast
qed

end
