(* ===== verification/Program.thy ===== *)
theory Program
  imports Admin_Safety
begin

text \<open>
  The program as a whole: \<open>lib.rs\<close> dispatches the instructions to their handlers. The
  first fact about all of them: the expressions of the program that can panic are never
  evaluated out of range.
\<close>

section \<open>Dispatch\<close>

datatype (plugins only: size) instruction =
    Initialize
  | InitializeProtocol initialize_protocol_accounts pubkey pubkey
  | SetProtocolPause set_protocol_pause_accounts u32
  | CreateEscrow create_escrow_accounts u64 pubkey u64 i64
  | ReleaseEscrow release_escrow_accounts
  | RefundEscrow refund_escrow_accounts
  | CreateVault create_vault_accounts u64 pubkey
  | SetVaultAuthority set_vault_authority_accounts pubkey
  | PauseVault pause_vault_accounts
  | UnpauseVault unpause_vault_accounts
  | RegisterAsset register_asset_accounts
  | Deposit deposit_accounts u64
  | Withdraw withdraw_accounts u64
  | GrantRole grant_role_accounts pubkey u64
  | RevokeRole revoke_role_accounts pubkey
  | UpdateLimits update_limits_accounts policy
  | RequestWithdrawal request_withdrawal_accounts u64
  | ExecuteWithdrawal execute_withdrawal_accounts
  | CancelWithdrawal cancel_withdrawal_accounts

fun process :: "runtime \<Rightarrow> tx \<Rightarrow> instruction \<Rightarrow> ledger \<Rightarrow> outcome" where
  "process rt t Initialize L = dispatch L"
| "process rt t (InitializeProtocol a admin guardian) L = initialize_protocol rt t a admin guardian L"
| "process rt t (SetProtocolPause a flags) L = set_protocol_pause rt t a flags L"
| "process rt t (CreateEscrow a escrow_id recipient amount expires_at) L =
     create_escrow rt t a escrow_id recipient amount expires_at L"
| "process rt t (ReleaseEscrow a) L = release_escrow rt t a L"
| "process rt t (RefundEscrow a) L = refund_escrow rt t a L"
| "process rt t (CreateVault a vault_id guardian) L = create_vault rt t a vault_id guardian L"
| "process rt t (SetVaultAuthority a new_authority) L = set_vault_authority rt t a new_authority L"
| "process rt t (PauseVault a) L = pause_vault rt t a L"
| "process rt t (UnpauseVault a) L = unpause_vault rt t a L"
| "process rt t (RegisterAsset a) L = register_asset rt t a L"
| "process rt t (Deposit a amount) L = deposit rt t a amount L"
| "process rt t (Withdraw a amount) L = withdraw rt t a amount L"
| "process rt t (GrantRole a holder permissions) L = grant_role rt t a holder permissions L"
| "process rt t (RevokeRole a holder) L = revoke_role rt t a holder L"
| "process rt t (UpdateLimits a q) L = update_limits rt t a q L"
| "process rt t (RequestWithdrawal a amount) L = request_withdrawal rt t a amount L"
| "process rt t (ExecuteWithdrawal a) L = execute_withdrawal rt t a L"
| "process rt t (CancelWithdrawal a) L = cancel_withdrawal rt t a L"

section \<open>No panics\<close>

text \<open>A computation that never panics, and how the property composes.\<close>

definition calm :: "'a result \<Rightarrow> bool" where
  "calm m \<longleftrightarrow> m \<noteq> Inl Panic"

named_theorems calm_intros

lemma calm_and_then [calm_intros]:
  "calm m \<Longrightarrow> (\<And>x. m = Inr x \<Longrightarrow> calm (f x)) \<Longrightarrow> calm (and_then m f)"
  by (cases m) (auto simp: calm_def and_then_def)

lemma calm_Inr [calm_intros]: "calm (Inr x)"
  by (simp add: calm_def)

lemma calm_Inl [calm_intros]: "e \<noteq> Panic \<Longrightarrow> calm (Inl e)"
  by (simp add: calm_def)

lemma calm_if [calm_intros]: "(c \<Longrightarrow> calm m) \<Longrightarrow> (\<not> c \<Longrightarrow> calm m') \<Longrightarrow> calm (if c then m else m')"
  by simp

lemma calm_ensure [calm_intros]: "e \<noteq> Panic \<Longrightarrow> (c \<Longrightarrow> calm m) \<Longrightarrow> calm (ensure c e m)"
  by (simp add: calm_def ensure_def)

lemma calm_helpers [calm_intros]:
  "calm (signer t k)" "calm (system_program rt k)" "calm (sysvar_clock k)" "calm (token_interface rt k)"
  "calm (load view L k)" "calm (load_interface rt view L k)"
  "calm (seeds_with_bump rt k seeds b)" "calm (seeds_canonical rt k seeds)"
  "calm (has_one x y)" "calm (constraint_raw c)" "calm (constraint c e)" "calm (require c e)"
  "calm (init_account rt payer space k seeds L)"
  "calm (init_token_account rt payer k seeds p m authority L)"
  "calm (reload_amount L k)" "calm (add_u64_or u w e)" "calm (add_i64_or i j e)"
  "calm (transfer_checked rt tr L)"
  by (auto simp: calm_def signer_def system_program_def sysvar_clock_def token_interface_def load_def
      load_interface_def seeds_with_bump_def seeds_canonical_def has_one_def constraint_raw_def
      constraint_def require_def init_account_def init_token_account_def reload_amount_def
      add_u64_or_def add_i64_or_def transfer_checked_def failure_iff split: option.splits)

lemma calm_minus [calm_intros]: "b \<le> a \<Longrightarrow> calm (minus_u64 a b)"
  by (simp add: calm_def minus_u64_def checked_sub_u64_def)

lemma calm_index [calm_intros]: "i < length xs \<Longrightarrow> calm (index_or_panic xs i)"
  by (simp add: calm_def index_or_panic_def)

lemma calm_let [calm_intros]: "calm (f x) \<Longrightarrow> calm (let y = x in f y)"
  by simp

lemma calm_prod [calm_intros]: "(\<And>x y. p = (x, y) \<Longrightarrow> calm (f x y)) \<Longrightarrow> calm (case p of (x, y) \<Rightarrow> f x y)"
  by (cases p) simp

lemma calm_security [calm_intros]:
  "calm (require_protocol_active config flag)"
  "calm (mint_constraints rt p m q)"
  "calm (validate_role_permission rt L role_info vault caller permission)"
  "calm (vault_address rt k v)" "calm (asset_address rt k vk mk asset)"
  by (auto simp: calm_def require_protocol_active_def mint_constraints_def
      mint_extensions_supported_def validate_role_permission_def
      vault_address_def asset_address_def require_def constraint_def seeds_with_bump_def has_one_def
      Let_def failure_iff split: option.splits if_splits)

text \<open>The guards on the number of remaining accounts keep the index in bounds.\<close>

lemma calm_authorize [calm_intros]:
  "calm (authorize_operator rt t L intrinsic vault caller permission e e')"
  unfolding authorize_operator_def by (intro calm_intros) (simp add: success_iff)

lemma calm_windows [calm_intros]:
  "calm (next_window_state asset amount now)" "calm (updated_window asset w now)"
  by (auto simp: next_window_state_def updated_window_def Let_def intro!: calm_intros)

lemma calm_escrow_handlers [calm_intros]:
  "calm (create rt t ce config m maker_token bump escrow_id recipient amount expires_at L)"
  "calm (release rt t re config esc m custody dest L)"
  "calm (refund rt t rf esc m custody dest L)"
  unfolding create_def release_def refund_def Let_def
  by (intro calm_intros; simp add: success_iff)+

lemma calm_vault_handlers [calm_intros]:
  "calm (deposit_tokens rt t de m asset source custody amount L)"
  "calm (withdraw_tokens rt t wi config v m asset custody dest amount L)"
  "calm (request rt t rq config v asset recipient bump amount L)"
  "calm (execute rt t ex config v m asset w custody dest L)"
  "calm (cancel rt t ca v w L)"
  unfolding deposit_tokens_def withdraw_tokens_def request_def execute_def cancel_def Let_def
    withdraw_authorize_def request_authorize_def cancel_authorize_def
  by (intro calm_intros; simp add: success_iff)+

lemma calm_validation [calm_intros]:
  "calm (create_escrow_validate rt t ce escrow_id L)" "calm (release_escrow_validate rt t re L)"
  "calm (refund_escrow_validate rt t rf L)" "calm (deposit_validate rt t de L)"
  "calm (withdraw_validate rt t wi L)" "calm (request_withdrawal_validate rt t rq L)"
  "calm (execute_withdrawal_validate rt t ex L)" "calm (cancel_withdrawal_validate rt t ca L)"
  unfolding create_escrow_validate_def release_escrow_validate_def refund_escrow_validate_def
    deposit_validate_def withdraw_validate_def request_withdrawal_validate_def
    execute_withdrawal_validate_def cancel_withdrawal_validate_def
  by (intro calm_intros)+

text \<open>
  C27. The panicking expressions of the program's own code are never reached with a bad operand.
  There are two kinds of them: the plain subtractions of u64 values after a transfer
  (create_escrow.rs, release_escrow.rs, refund_escrow.rs, deposit.rs,
  withdraw.rs, execute_withdrawal.rs), which would panic on underflow since overflow checks are
  on, and the index ctx.remaining_accounts[0] (withdraw.rs, update_limits.rs,
  request_withdrawal.rs, cancel_withdrawal.rs), which would panic on an empty list. Whatever the
  accounts, arguments, signers and remaining accounts of a call, neither panics: the checks made before
  them suffice. All other arithmetic of the handlers is checked and fails with an error of the program.
  Panics inside the libraries the program calls are not modelled.
\<close>

theorem process_never_panics: "process rt t i L \<noteq> Inl Panic"
proof -
  have "calm (process rt t i L)"
    by (cases i; simp; unfold dispatch_def initialize_protocol_def initialize_protocol_validate_def
        initialize_protocol_account_def set_protocol_pause_def set_protocol_pause_validate_def
        set_pause_def create_escrow_def release_escrow_def refund_escrow_def create_vault_def
        create_vault_validate_def create_vault_account_def set_vault_authority_def
        set_vault_authority_validate_def set_authority_def pause_vault_def pause_vault_validate_def
        pause_def unpause_vault_def unpause_vault_validate_def unpause_def register_asset_def
        register_asset_validate_def register_vault_asset_def deposit_def withdraw_def
        grant_role_def grant_role_validate_def init_role_if_needed_def grant_def revoke_role_def
        revoke_role_validate_def revoke_def update_limits_def update_limits_validate_def
        update_handler_def update_limits_authorize_def request_withdrawal_def
        execute_withdrawal_def cancel_withdrawal_def Let_def; intro calm_intros; simp)
  then show ?thesis by (simp add: calm_def)
qed

end
