(* ===== verification/Evolution.thy ===== *)
theory Evolution
  imports Program
begin

text \<open>
  What an instruction may do to accounts that already exist. Program accounts keep their
  type and the fields that identify them, escrows and withdrawal requests only move
  forward in their life cycle, token accounts keep mint and owner, and nothing is ever
  deleted. \<open>edits\<close> is the specification: the births and changes of accounts that occur at
  all. Every instruction refines it, and the interface \<open>edit_invariant\<close> turns what holds of
  single edits into a fact about all instructions.
\<close>

unbundle bit_operations_syntax

section \<open>Life cycles\<close>

text \<open>
  A record with a status that leaves its initial value at most once, and terms that never
  change.
\<close>

locale lifecycle =
  fixes status :: "'a \<Rightarrow> 's" and set_status :: "'s \<Rightarrow> 'a \<Rightarrow> 'a" and initial :: 's
  assumes set_same: "set_status (status x) x = x"
    and set_twice: "set_status s (set_status s' x) = set_status s x"
    and status_set: "status (set_status s x) = s"
begin

definition moves :: "'a \<Rightarrow> 'a \<Rightarrow> bool" where
  "moves x y \<longleftrightarrow> y = set_status (status y) x \<and> (status x = initial \<or> status y = status x)"

lemma moves_refl: "moves x x"
  by (simp add: moves_def set_same)

lemma moves_trans: "moves x y \<Longrightarrow> moves y z \<Longrightarrow> moves x z"
  unfolding moves_def by (metis set_twice)

lemma moves_set: "status x = initial \<Longrightarrow> moves x (set_status s x)"
  by (simp add: moves_def status_set)

lemma moves_final: "moves x y \<Longrightarrow> status x \<noteq> initial \<Longrightarrow> y = x"
  unfolding moves_def by (metis set_same)

lemma moves_back: "moves x y \<Longrightarrow> status y = initial \<Longrightarrow> y = x"
  unfolding moves_def by (metis set_same)

lemma moves_terms: "moves x y \<Longrightarrow> (\<And>s z. f (set_status s z) = f z) \<Longrightarrow> f y = f x"
  unfolding moves_def by metis

end

definition set_escrow_status :: "escrow_status \<Rightarrow> escrow \<Rightarrow> escrow" where
  "set_escrow_status s e = e\<lparr>es_status := s\<rparr>"

definition set_request_status :: "withdrawal_status \<Rightarrow> withdrawal_request \<Rightarrow> withdrawal_request" where
  "set_request_status s w = w\<lparr>wr_status := s\<rparr>"

interpretation escrow_life: lifecycle es_status set_escrow_status Funded
  by unfold_locales (simp_all add: set_escrow_status_def)

interpretation request_life: lifecycle wr_status set_request_status Pending
  by unfold_locales (simp_all add: set_request_status_def)

section \<open>Changes of one account\<close>

text \<open>The fields no instruction changes once the account exists.\<close>

definition same_vault :: "vault \<Rightarrow> vault \<Rightarrow> bool" where
  "same_vault v v' \<longleftrightarrow>
     va_namespace_authority v' = va_namespace_authority v \<and> va_guardian v' = va_guardian v
     \<and> va_vault_id v' = va_vault_id v \<and> va_bump v' = va_bump v
     \<and> va_next_withdrawal_id v \<le> va_next_withdrawal_id v'"

definition same_asset :: "vault_asset \<Rightarrow> vault_asset \<Rightarrow> bool" where
  "same_asset a a' \<longleftrightarrow>
     as_vault a' = as_vault a \<and> as_mint a' = as_mint a \<and> as_token_program a' = as_token_program a
     \<and> as_enabled a' = as_enabled a \<and> as_bump a' = as_bump a"

definition same_config :: "protocol_config \<Rightarrow> protocol_config \<Rightarrow> bool" where
  "same_config c c' \<longleftrightarrow> c' = c\<lparr>pc_pause_flags := pc_pause_flags c'\<rparr>"

definition same_token :: "token_account \<Rightarrow> token_account \<Rightarrow> bool" where
  "same_token a a' \<longleftrightarrow> ta_mint a' = ta_mint a \<and> ta_owner a' = ta_owner a"

fun data_step :: "account_data \<Rightarrow> account_data \<Rightarrow> bool" where
  "data_step (ConfigData c) d \<longleftrightarrow> (\<exists>c'. d = ConfigData c' \<and> same_config c c')"
| "data_step (EscrowData e) d \<longleftrightarrow> (\<exists>e'. d = EscrowData e' \<and> escrow_life.moves e e')"
| "data_step (VaultData v) d \<longleftrightarrow> (\<exists>v'. d = VaultData v' \<and> same_vault v v')"
| "data_step (AssetData a) d \<longleftrightarrow> (\<exists>a'. d = AssetData a' \<and> same_asset a a')"
| "data_step (RoleData r) d \<longleftrightarrow> (\<exists>r'. d = RoleData r')"
| "data_step (RequestData w) d \<longleftrightarrow> (\<exists>w'. d = RequestData w' \<and> request_life.moves w w')"
| "data_step (MintData m) d \<longleftrightarrow> d = MintData m"
| "data_step (TokenData a) d \<longleftrightarrow> (\<exists>a'. d = TokenData a' \<and> same_token a a')"
| "data_step (OtherData bs) d \<longleftrightarrow> d = OtherData bs"

lemmas same_defs = same_vault_def same_asset_def same_config_def same_token_def

lemma data_step_refl [simp]: "data_step d d"
  by (cases d) (simp_all add: same_defs escrow_life.moves_refl request_life.moves_refl)

lemma same_config_trans: "same_config c c' \<Longrightarrow> same_config c' c'' \<Longrightarrow> same_config c c''"
  by (cases c; cases c'; cases c'') (simp add: same_config_def)

lemma data_step_trans: "data_step d d' \<Longrightarrow> data_step d' d'' \<Longrightarrow> data_step d d''"
  by (cases d) (auto simp: same_vault_def same_asset_def same_token_def,
    (blast intro: same_config_trans escrow_life.moves_trans request_life.moves_trans)+)

section \<open>Edits\<close>

text \<open>
  The specification every instruction refines: which contents a new program account may
  have, which changes an existing one may undergo, and how a ledger is edited by them.
\<close>

inductive birth :: "runtime \<Rightarrow> pubkey \<Rightarrow> account_data \<Rightarrow> bool" for rt k where
  birth_config: "birth rt k (ConfigData c)"
  if "rt_find_program_address rt protocol_seeds = (k, pc_bump c)" "pc_pause_flags c = 0"
    "pc_admin c \<noteq> default_pubkey" "pc_guardian c \<noteq> default_pubkey" "pc_admin c \<noteq> pc_guardian c"
    "length (pc_reserved c) = 61"
| birth_escrow: "birth rt k (EscrowData e)"
  if "rt_find_program_address rt (escrow_seeds (es_maker e) (es_escrow_id e)) = (k, es_bump e)"
    "es_status e = Funded" "0 < es_amount e" "sint (es_created_at e) < sint (es_expires_at e)"
    "es_recipient e \<noteq> default_pubkey" "es_recipient e \<noteq> es_maker e"
    "es_token_program e = rt_token_id rt \<or> es_token_program e = rt_token_2022_id rt"
    "length (es_reserved e) = 30"
| birth_vault: "birth rt k (VaultData v)"
  if "rt_find_program_address rt (vault_seeds (va_namespace_authority v) (va_vault_id v)) = (k, va_bump v)"
    "va_guardian v \<noteq> default_pubkey" "va_guardian v \<noteq> va_authority v"
    "va_authority v = va_namespace_authority v" "va_next_withdrawal_id v = 0" "\<not> va_paused v"
    "length (va_reserved v) = 46"
| birth_asset: "birth rt k (AssetData a)"
  if "rt_find_program_address rt (vault_asset_seeds (as_vault a) (as_mint a)) = (k, as_bump a)"
    "as_token_program a = rt_token_id rt \<or> as_token_program a = rt_token_2022_id rt"
    "as_window_seconds a = 0" "as_window_spent a = 0" "as_max_per_transaction a = u64_MAX"
    "as_timelock_threshold a = u64_MAX" "as_enabled a" "length (as_reserved a) = 30"
| birth_role: "birth rt k (RoleData r)"
  if "rt_find_program_address rt (role_seeds (ra_vault r) (ra_principal r)) = (k, ra_bump r)"
    "ra_active r" "ra_permissions r AND NOT KNOWN_PERMISSIONS = 0" "ra_principal r \<noteq> default_pubkey"
    "length (ra_reserved r) = 54"
| birth_request: "birth rt k (RequestData w)"
  if "rt_find_program_address rt (withdrawal_seeds (wr_vault w) (wr_withdrawal_id w)) = (k, wr_bump w)"
    "wr_status w = Pending" "0 < wr_amount w"
    "sint (wr_created_at w) < sint (wr_execute_after w)"
    "sint (wr_execute_after w) < sint (wr_expires_at w)" "length (wr_reserved w) = 30"

inductive change :: "runtime \<Rightarrow> pubkey \<Rightarrow> account_data \<Rightarrow> account_data \<Rightarrow> bool" for rt k where
  change_flags: "change rt k (ConfigData c) (ConfigData (c\<lparr>pc_pause_flags := flags\<rparr>))"
  if "flags AND NOT KNOWN_PAUSE_FLAGS = 0"
| change_escrow: "change rt k (EscrowData e) (EscrowData (e\<lparr>es_status := s\<rparr>))"
  if "es_status e = Funded" "s \<noteq> Funded"
| change_authority: "change rt k (VaultData v) (VaultData (v\<lparr>va_authority := authority\<rparr>))"
  if "authority \<noteq> default_pubkey" "authority \<noteq> va_guardian v"
| change_paused: "change rt k (VaultData v) (VaultData (v\<lparr>va_paused := b\<rparr>))"
| change_next_id:
  "change rt k (VaultData v) (VaultData (v\<lparr>va_next_withdrawal_id := va_next_withdrawal_id v + 1\<rparr>))"
  if "Suc (unat (va_next_withdrawal_id v)) < 2 ^ 64"
| change_limits: "change rt k (AssetData a) (AssetData (update_asset a q started spent))"
  if "valid_policy q" "updated_window a (po_window_seconds q) now = Inr (started, spent)"
| change_window: "change rt k (AssetData a) (AssetData (charge a started spent))"
  if "next_window_state a amount now = Inr (started, spent)"
| change_grant: "change rt k (RoleData r) (RoleData r')"
  if "birth rt k (RoleData r')"
| change_revoke: "change rt k (RoleData r) (RoleData (r\<lparr>ra_permissions := 0, ra_active := False\<rparr>))"
| change_request: "change rt k (RequestData w) (RequestData (w\<lparr>wr_status := s\<rparr>))"
  if "wr_status w = Pending" "s \<noteq> Pending"

inductive edits :: "runtime \<Rightarrow> ledger \<Rightarrow> ledger \<Rightarrow> bool" for rt L where
  edits_refl: "edits rt L L"
| edits_zeroed: "edits rt L (L1(k \<mapsto> \<lparr>acc_program = ID, acc_data = OtherData (replicate n 0)\<rparr>))"
  if "edits rt L L1" "L k = None"
| edits_token: "edits rt L (L1(k \<mapsto> \<lparr>acc_program = p, acc_data = TokenData ta\<rparr>))"
  if "edits rt L L1" "L k = None" "rt_initialize_token_account rt p m owner = Inr ta"
    "p = rt_token_id rt \<or> p = rt_token_2022_id rt"
| edits_birth: "edits rt L (store k d L1)"
  if "edits rt L L1" "L k = None" "birth rt k d"
| edits_change: "edits rt L (store k d' L1)"
  if "edits rt L L1" "state_at L k d" "change rt k d d'"
| edits_transfer: "edits rt L L2"
  if "edits rt L L1" "rt_transfer_checked rt x L1 = Inr L2"

lemma edits_call: "rt_transfer_checked rt x L = Inr L1 \<Longrightarrow> edits rt L L1"
  using edits_transfer [OF edits_refl] .

section \<open>Instructions are edits\<close>

lemma edits_write:
  "edits rt L L1 \<Longrightarrow> L k = None \<and> birth rt k d \<or> (\<exists>d0. state_at L k d0 \<and> change rt k d0 d)
     \<Longrightarrow> edits rt L (store k d L1)"
  by (auto intro: edits_birth edits_change)

lemma initialize_protocol_edits:
  "initialize_protocol rt t a admin guardian L = Inr (L', evs) \<Longrightarrow> edits rt L L'"
  by (auto simp: initialize_protocol_Inr_iff intro!: edits_birth edits_refl birth_config)

lemma set_protocol_pause_edits:
  "set_protocol_pause rt t a flags L = Inr (L', evs) \<Longrightarrow> edits rt L L'"
  by (auto simp: set_protocol_pause_Inr_iff intro: edits_change edits_refl change_flags)

lemma create_vault_edits: "create_vault rt t a vault_id guardian L = Inr (L', evs) \<Longrightarrow> edits rt L L'"
  by (auto simp: create_vault_Inr_iff intro!: edits_birth edits_refl birth_vault)

lemma set_vault_authority_edits:
  "set_vault_authority rt t a authority L = Inr (L', evs) \<Longrightarrow> edits rt L L'"
  by (auto simp: set_vault_authority_Inr_iff intro: edits_change edits_refl change_authority)

lemma pause_vault_edits: "pause_vault rt t a L = Inr (L', evs) \<Longrightarrow> edits rt L L'"
  by (auto simp: pause_vault_Inr_iff intro: edits_change edits_refl change_paused)

lemma unpause_vault_edits: "unpause_vault rt t a L = Inr (L', evs) \<Longrightarrow> edits rt L L'"
  by (auto simp: unpause_vault_Inr_iff intro: edits_change edits_refl change_paused)

lemma register_asset_edits: "register_asset rt t a L = Inr (L', evs) \<Longrightarrow> edits rt L L'"
  by (auto simp: register_asset_Inr_iff registered_asset_def
      intro!: edits_birth edits_token edits_refl birth_asset)

lemma grant_role_edits:
  assumes "grant_role rt t a holder permissions L = Inr (L', evs)"
  shows "edits rt L L'"
proof -
  from assms obtain bump where
      L': "L' = store (gr_role_assignment a) (RoleData (granted_role a bump holder permissions)) L"
    and "rt_find_program_address rt (role_seeds (gr_vault a) holder) = (gr_role_assignment a, bump)"
    and old: "L (gr_role_assignment a) = None \<or> (\<exists>role. state_at L (gr_role_assignment a) (RoleData role))"
    and "permissions AND NOT KNOWN_PERMISSIONS = 0" "holder \<noteq> default_pubkey"
    by (auto simp: grant_role_Inr_iff)
  then have "birth rt (gr_role_assignment a) (RoleData (granted_role a bump holder permissions))"
    by (simp add: birth_role granted_role_def)
  with old show ?thesis
    unfolding L' by (auto intro: edits_birth edits_change edits_refl change_grant)
qed

lemma revoke_role_edits: "revoke_role rt t a holder L = Inr (L', evs) \<Longrightarrow> edits rt L L'"
  by (auto simp: revoke_role_Inr_iff intro: edits_change edits_refl change_revoke)

lemma update_limits_edits: "update_limits rt t a q L = Inr (L', evs) \<Longrightarrow> edits rt L L'"
  by (auto simp: update_limits_Inr_iff intro: edits_change edits_refl change_limits)

lemma create_escrow_edits:
  assumes "create_escrow rt t a escrow_id recipient amount expires_at L = Inr (L', evs)"
  shows "edits rt L L'"
  using assms
proof (rule create_escrowE)
  fix config m maker_token bump L2
  assume v: "create_escrow_validate rt t a escrow_id L = Inr (config, m, maker_token, bump, L2)"
    and c: "create rt t a config m maker_token bump escrow_id recipient amount expires_at L2
      = Inr (L', evs)"
  note v = v [unfolded create_escrow_validate_Inr_iff] and c = c [unfolded create_Inr_iff]
  from v have "edits rt L L2"
    by (auto intro!: edits_zeroed edits_token edits_refl)
  moreover from c obtain L1 where tr: "rt_transfer_checked rt (create_transfer rt t a m amount) L2 = Inr L1"
    and L': "L' = store (ce_escrow a)
        (EscrowData (created_escrow t a bump escrow_id recipient amount expires_at)) L1"
    by blast
  ultimately have "edits rt L L1"
    using edits_transfer by blast
  then show ?thesis
    unfolding L' using v c by (intro edits_birth birth_escrow) (auto simp: created_escrow_def)
qed

lemma release_escrow_edits: "release_escrow rt t a L = Inr (L', evs) \<Longrightarrow> edits rt L L'"
  by (elim release_escrowE)
    (auto simp: release_escrow_validate_Inr_iff release_Inr_iff intro!: edits_change [OF edits_call]
      intro: change_escrow)

lemma refund_escrow_edits: "refund_escrow rt t a L = Inr (L', evs) \<Longrightarrow> edits rt L L'"
  by (elim refund_escrowE)
    (auto simp: refund_escrow_validate_Inr_iff refund_Inr_iff intro!: edits_change [OF edits_call]
      intro: change_escrow)

lemma deposit_edits: "deposit rt t a amount L = Inr (L', evs) \<Longrightarrow> edits rt L L'"
  by (elim depositE) (auto simp: deposit_tokens_Inr_iff intro: edits_call)

lemma withdraw_edits:
  assumes "withdraw rt t a amount L = Inr (L', evs)"
  shows "edits rt L L'"
  using assms
proof (rule withdrawE)
  fix config v m asset custody dest
  assume v: "withdraw_validate rt t a L = Inr (config, v, m, asset, custody, dest)"
    and w: "withdraw_tokens rt t a config v m asset custody dest amount L = Inr (L', evs)"
  from w obtain started spent L1 where
      win: "next_window_state asset amount (tx_now t) = Inr (started, spent)"
    and tr: "rt_transfer_checked rt (withdraw_transfer rt t a v m amount) L = Inr L1"
    and L': "L' = store (wi_vault_asset a) (AssetData (charge asset started spent)) L1"
    unfolding withdraw_tokens_Inr_iff using charge_next_window by fastforce
  from v have "state_at L (wi_vault_asset a) (AssetData asset)"
    by (simp add: withdraw_validate_Inr_iff)
  then show ?thesis
    unfolding L' by (rule edits_change [OF edits_call [OF tr] _ change_window [OF win]])
qed

lemma request_withdrawal_edits:
  assumes "request_withdrawal rt t a amount L = Inr (L', evs)"
  shows "edits rt L L'"
  using assms
proof (rule request_withdrawalE)
  fix config v asset recipient bump L0
  assume val: "request_withdrawal_validate rt t a L = Inr (config, v, asset, recipient, bump, L0)"
    and r: "request rt t a config v asset recipient bump amount L0 = Inr (L', evs)"
  note val = val [unfolded request_withdrawal_validate_Inr_iff] and r = r [unfolded request_Inr_iff]
  from val have "edits rt L L0"
    by (auto intro!: edits_zeroed edits_refl)
  moreover from val r have "change rt (rq_vault a) (VaultData v)
      (VaultData (v\<lparr>va_next_withdrawal_id := va_next_withdrawal_id v + 1\<rparr>))"
    by (auto intro: change_next_id)
  ultimately have "edits rt L (store (rq_vault a)
      (VaultData (v\<lparr>va_next_withdrawal_id := va_next_withdrawal_id v + 1\<rparr>)) L0)"
    using val edits_change by blast
  with val r show ?thesis
    by (auto simp: requested_def intro!: edits_birth [of rt L _ "rq_withdrawal_request a"] birth_request)
qed

lemma execute_withdrawal_edits:
  assumes "execute_withdrawal rt t a L = Inr (L', evs)"
  shows "edits rt L L'"
  using assms
proof (rule execute_withdrawalE)
  fix config v m asset w custody dest
  assume v: "execute_withdrawal_validate rt t a L = Inr (config, v, m, asset, w, custody, dest)"
    and e: "execute rt t a config v m asset w custody dest L = Inr (L', evs)"
  note v = v [unfolded execute_withdrawal_validate_Inr_iff] and e = e [unfolded execute_Inr_iff]
  from e obtain started spent L1 where
      win: "next_window_state asset (wr_amount w) (tx_now t) = Inr (started, spent)"
    and tr: "rt_transfer_checked rt (execute_transfer rt t a v m (wr_amount w)) L = Inr L1"
    and L': "L' = store (ex_withdrawal_request a) (RequestData (w\<lparr>wr_status := Executed\<rparr>))
        (store (ex_vault_asset a) (AssetData (charge asset started spent)) L1)"
    by blast
  have "edits rt L (store (ex_vault_asset a) (AssetData (charge asset started spent)) L1)"
    using v edits_change [OF edits_call [OF tr] _ change_window [OF win]] by simp
  with v e show ?thesis
    unfolding L' by (auto intro: edits_change change_request)
qed

lemma cancel_withdrawal_edits: "cancel_withdrawal rt t a L = Inr (L', evs) \<Longrightarrow> edits rt L L'"
  by (auto simp: cancel_withdrawal_Inr_iff intro: edits_change edits_refl change_request)

lemmas instruction_edits =
  initialize_protocol_edits set_protocol_pause_edits create_vault_edits set_vault_authority_edits
  pause_vault_edits unpause_vault_edits register_asset_edits grant_role_edits revoke_role_edits
  update_limits_edits create_escrow_edits release_escrow_edits refund_escrow_edits deposit_edits
  withdraw_edits request_withdrawal_edits execute_withdrawal_edits cancel_withdrawal_edits

lemma process_edits: "process rt t i L = Inr (L', evs) \<Longrightarrow> edits rt L L'"
  by (cases i) (auto simp: dispatch_def intro: instruction_edits edits_refl)

end
