(* ===== verification/Invariants.thy ===== *)
theory Invariants
  imports Evolution
begin

text \<open>
  Invariants of the program's accounts. The interface \<open>edit_invariant\<close> turns what holds of
  single edits into a fact about all instructions; it is provided twice, for the relation
  that accounts only change as their type allows, and for well-formedness of the stored
  records. Both rest on the laws of the token programs alone.
\<close>

unbundle bit_operations_syntax

section \<open>From edits to instructions\<close>

locale edit_invariant =
  fixes rt :: runtime and R :: "ledger \<Rightarrow> ledger \<Rightarrow> bool"
  assumes R_refl: "R L L"
    and R_zeroed: "R L L1 \<Longrightarrow> L k = None
      \<Longrightarrow> R L (L1(k \<mapsto> \<lparr>acc_program = ID, acc_data = OtherData (replicate n 0)\<rparr>))"
    and R_token: "R L L1 \<Longrightarrow> L k = None \<Longrightarrow> rt_initialize_token_account rt p m owner = Inr ta
      \<Longrightarrow> p = rt_token_id rt \<or> p = rt_token_2022_id rt
      \<Longrightarrow> R L (L1(k \<mapsto> \<lparr>acc_program = p, acc_data = TokenData ta\<rparr>))"
    and R_birth: "R L L1 \<Longrightarrow> L k = None \<Longrightarrow> birth rt k d \<Longrightarrow> R L (store k d L1)"
    and R_change: "R L L1 \<Longrightarrow> state_at L k d \<Longrightarrow> change rt k d d' \<Longrightarrow> R L (store k d' L1)"
    and R_transfer: "R L L1 \<Longrightarrow> rt_transfer_checked rt x L1 = Inr L2 \<Longrightarrow> R L L2"
begin

lemma edits_R: "edits rt L L' \<Longrightarrow> R L L'"
  by (induction rule: edits.induct)
    (blast intro: R_refl R_zeroed R_token R_birth R_change R_transfer)+

lemma process_R: "process rt t i L = Inr (L', evs) \<Longrightarrow> R L L'"
  using process_edits edits_R by blast

end

section \<open>Accounts keep their identity\<close>

definition account_step :: "ledger \<Rightarrow> ledger \<Rightarrow> bool" where
  "account_step L L' \<longleftrightarrow>
     (\<forall>k a. L k = Some a \<longrightarrow>
        (\<exists>a'. L' k = Some a' \<and> acc_program a' = acc_program a \<and> data_step (acc_data a) (acc_data a')))"

lemma account_step_refl: "account_step L L"
  by (simp add: account_step_def)

lemma account_step_trans: "account_step L L1 \<Longrightarrow> account_step L1 L2 \<Longrightarrow> account_step L L2"
  unfolding account_step_def using data_step_trans by fastforce

lemma account_step_fresh: "account_step L L1 \<Longrightarrow> L k = None \<Longrightarrow> account_step L (L1(k \<mapsto> a))"
  by (auto simp: account_step_def)

lemma account_step_state:
  assumes "account_step L L'" "state_at L k d"
  obtains d' where "state_at L' k d'" "data_step d d'"
proof -
  from assms obtain a' where "L' k = Some a'" "acc_program a' = ID" "data_step d (acc_data a')"
    unfolding account_step_def by force
  then show ?thesis
    using that by (cases a') auto
qed

lemma account_step_token:
  assumes "account_step L L'" "token_at L k p ta"
  obtains ta' where "token_at L' k p ta'" "ta_mint ta' = ta_mint ta" "ta_owner ta' = ta_owner ta"
proof -
  from assms obtain a' where "L' k = Some a'" "acc_program a' = p" "data_step (TokenData ta) (acc_data a')"
    unfolding account_step_def by force
  then show ?thesis
    using that by (cases a') (auto simp: same_token_def)
qed

lemma unat_le_succ: "Suc (unat (x :: u64)) < 2 ^ 64 \<Longrightarrow> x \<le> x + 1"
  using unat_succ_iff [of "x + 1" x] by (simp add: word_le_nat_alt)

lemma change_data_step: "change rt k d d' \<Longrightarrow> data_step d d'"
proof (induction rule: change.induct)
  case (change_escrow e s)
  then have "escrow_life.moves e (set_escrow_status s e)"
    by (intro escrow_life.moves_set)
  then show ?case by (simp add: set_escrow_status_def)
next
  case (change_request w s)
  then have "request_life.moves w (set_request_status s w)"
    by (intro request_life.moves_set)
  then show ?case by (simp add: set_request_status_def)
qed (auto simp: same_defs update_asset_def charge_def unat_le_succ)

context token_laws
begin

lemma transfer_account_step:
  assumes "rt_transfer_checked rt x L = Inr L'"
  shows "account_step L L'"
  unfolding account_step_def
proof (intro allI impI)
  fix k a
  assume k: "L k = Some a"
  show "\<exists>a'. L' k = Some a' \<and> acc_program a' = acc_program a \<and> data_step (acc_data a) (acc_data a')"
  proof (cases "token_of (acc_data a)")
    case None
    with transfer_non_token [OF assms k] show ?thesis by simp
  next
    case (Some ta)
    then have "token_at L k (acc_program a) ta"
      using k by (cases a) (simp add: success_iff)
    from transfer_token [OF assms this] obtain n b where
      "token_at L' k (acc_program a) (ta\<lparr>ta_amount := n, ta_tlv := b\<rparr>)" by blast
    with Some show ?thesis
      by (simp add: success_iff same_token_def)
  qed
qed

end

lemma account_step_change:
  assumes "account_step L L1" "state_at L k d" "change rt k d d'"
  shows "account_step L (store k d' L1)"
  using assms change_data_step [OF assms(3)] by (auto simp: account_step_def store_def)

sublocale token_laws \<subseteq> accounts: edit_invariant rt account_step
proof
  show "account_step L L" for L
    by (rule account_step_refl)
  show "account_step L (store k d' L1)"
    if "account_step L L1" "state_at L k d" "change rt k d d'" for L L1 k d d'
    using that by (rule account_step_change)
  show "account_step L L2" if "account_step L L1" "rt_transfer_checked rt x L1 = Inr L2" for L L1 x L2
    using that transfer_account_step account_step_trans by blast
qed (simp_all add: account_step_fresh store_def)

context token_laws
begin

lemmas process_account_step = accounts.process_R

end

section \<open>Well-formed records\<close>

text \<open>
  What every stored record satisfies: its address is the canonical one for its own fields,
  and the conditions the instructions check on their arguments hold of the stored values.
\<close>

fun data_ok :: "runtime \<Rightarrow> pubkey \<Rightarrow> account_data \<Rightarrow> bool" where
  "data_ok rt k (ConfigData c) \<longleftrightarrow>
     rt_find_program_address rt protocol_seeds = (k, pc_bump c)
     \<and> pc_pause_flags c AND NOT KNOWN_PAUSE_FLAGS = 0
     \<and> pc_admin c \<noteq> default_pubkey \<and> pc_guardian c \<noteq> default_pubkey \<and> pc_admin c \<noteq> pc_guardian c
     \<and> length (pc_reserved c) = 61"
| "data_ok rt k (EscrowData e) \<longleftrightarrow>
     rt_find_program_address rt (escrow_seeds (es_maker e) (es_escrow_id e)) = (k, es_bump e)
     \<and> 0 < es_amount e \<and> sint (es_created_at e) < sint (es_expires_at e)
     \<and> es_recipient e \<noteq> default_pubkey \<and> es_recipient e \<noteq> es_maker e
     \<and> (es_token_program e = rt_token_id rt \<or> es_token_program e = rt_token_2022_id rt)
     \<and> length (es_reserved e) = 30"
| "data_ok rt k (VaultData v) \<longleftrightarrow>
     rt_find_program_address rt (vault_seeds (va_namespace_authority v) (va_vault_id v)) = (k, va_bump v)
     \<and> va_guardian v \<noteq> default_pubkey \<and> va_guardian v \<noteq> va_authority v
     \<and> length (va_reserved v) = 46"
| "data_ok rt k (AssetData a) \<longleftrightarrow>
     rt_find_program_address rt (vault_asset_seeds (as_vault a) (as_mint a)) = (k, as_bump a)
     \<and> (as_token_program a = rt_token_id rt \<or> as_token_program a = rt_token_2022_id rt)
     \<and> as_enabled a
     \<and> (as_window_seconds a = 0 \<and> as_max_per_transaction a = u64_MAX \<and> as_timelock_threshold a = u64_MAX
        \<or> valid_policy (asset_policy a))
     \<and> length (as_reserved a) = 30"
| "data_ok rt k (RoleData r) \<longleftrightarrow>
     rt_find_program_address rt (role_seeds (ra_vault r) (ra_principal r)) = (k, ra_bump r)
     \<and> ra_permissions r AND NOT KNOWN_PERMISSIONS = 0 \<and> ra_principal r \<noteq> default_pubkey
     \<and> (\<not> ra_active r \<longrightarrow> ra_permissions r = 0)
     \<and> length (ra_reserved r) = 54"
| "data_ok rt k (RequestData w) \<longleftrightarrow>
     rt_find_program_address rt (withdrawal_seeds (wr_vault w) (wr_withdrawal_id w)) = (k, wr_bump w)
     \<and> 0 < wr_amount w
     \<and> sint (wr_created_at w) < sint (wr_execute_after w)
     \<and> sint (wr_execute_after w) < sint (wr_expires_at w)
     \<and> length (wr_reserved w) = 30"
| "data_ok rt k _ \<longleftrightarrow> True"

definition wf :: "runtime \<Rightarrow> ledger \<Rightarrow> bool" where
  "wf rt L \<longleftrightarrow> (\<forall>k d. state_at L k d \<longrightarrow> data_ok rt k d)"

lemma wfD: "wf rt L \<Longrightarrow> state_at L k d \<Longrightarrow> data_ok rt k d"
  by (simp add: wf_def)

lemma wf_store: "wf rt L \<Longrightarrow> data_ok rt k d \<Longrightarrow> wf rt (store k d L)"
  by (simp add: wf_def store_def)

lemma birth_ok: "birth rt k d \<Longrightarrow> data_ok rt k d"
  by (induction rule: birth.induct) auto

lemma change_ok: "change rt k d d' \<Longrightarrow> data_ok rt k d \<Longrightarrow> data_ok rt k d'"
proof (induction rule: change.induct)
  case (change_limits q a now started spent)
  then show ?case
    by (simp add: update_asset_simps) (simp add: update_asset_def)
next
  case (change_window a amount now started spent)
  have "asset_policy (charge a started spent) = asset_policy a"
    by (simp add: charge_def asset_policy_def)
  then show ?case
    using change_window by (simp add: charge_def)
next
  case (change_grant r r')
  then show ?case using birth_ok by blast
qed auto

definition keeps_wf :: "runtime \<Rightarrow> ledger \<Rightarrow> ledger \<Rightarrow> bool" where
  "keeps_wf rt L L' \<longleftrightarrow> (wf rt L \<longrightarrow> wf rt L')"

context token_laws
begin

lemma transfer_wf: "rt_transfer_checked rt x L = Inr L' \<Longrightarrow> wf rt L \<Longrightarrow> wf rt L'"
proof -
  assume tr: "rt_transfer_checked rt x L = Inr L'" and "wf rt L"
  have "data_ok rt k d" if "state_at L' k d" for k d
    using transfer_non_token_rev [OF tr that] \<open>wf rt L\<close>
    by (cases "token_of d") (auto simp: success_iff wf_def)
  then show ?thesis by (simp add: wf_def)
qed

end

sublocale token_laws \<subseteq> records: edit_invariant rt "keeps_wf rt"
proof
  show "keeps_wf rt L (store k d' L1)"
    if "keeps_wf rt L L1" "state_at L k d" "change rt k d d'" for L L1 k d d'
    using that change_ok wf_store unfolding keeps_wf_def wf_def by blast
  show "keeps_wf rt L (store k d L1)" if "keeps_wf rt L L1" "birth rt k d" for L L1 k d
    using that birth_ok wf_store unfolding keeps_wf_def by blast
  show "keeps_wf rt L L2" if "keeps_wf rt L L1" "rt_transfer_checked rt x L1 = Inr L2" for L L1 x L2
    using that transfer_wf unfolding keeps_wf_def by blast
qed (simp_all add: keeps_wf_def wf_def)

context token_laws
begin

lemma process_wf: "process rt t i L = Inr (L', evs) \<Longrightarrow> wf rt L \<Longrightarrow> wf rt L'"
  using records.process_R unfolding keeps_wf_def by blast

end

section \<open>Roles stay with their vault and holder\<close>

text \<open>
  \<open>grant_role\<close> takes an existing account at the canonical address of a vault and a holder and
  overwrites its vault and principal without comparing them (\<open>grant_role.rs\<close>). An address stands for one
  vault and holder, unless two different seed lists are hashed to the same address.
\<close>

definition collide :: "runtime \<Rightarrow> pda \<Rightarrow> pda \<Rightarrow> bool" where
  "collide rt p q \<longleftrightarrow> p \<noteq> q
     \<and> fst (rt_find_program_address rt (pda_seeds p)) = fst (rt_find_program_address rt (pda_seeds q))"

definition same_role :: "runtime \<Rightarrow> role_assignment \<Rightarrow> role_assignment \<Rightarrow> bool" where
  "same_role rt r r' \<longleftrightarrow>
     ra_vault r' = ra_vault r \<and> ra_principal r' = ra_principal r \<and> ra_bump r' = ra_bump r
     \<or> collide rt (RolePda (ra_vault r) (ra_principal r)) (RolePda (ra_vault r') (ra_principal r'))"

definition roles_kept :: "runtime \<Rightarrow> ledger \<Rightarrow> ledger \<Rightarrow> bool" where
  "roles_kept rt L L' \<longleftrightarrow>
     (\<forall>k r. state_at L k (RoleData r) \<longrightarrow> (\<exists>r'. state_at L' k (RoleData r') \<and> same_role rt r r'))"

lemma change_same_role:
  assumes "change rt k (RoleData r) d" "data_ok rt k (RoleData r)"
  obtains r' where "d = RoleData r'" "same_role rt r r'"
  using assms
proof cases
  case (change_grant r')
  then have "rt_find_program_address rt (role_seeds (ra_vault r') (ra_principal r')) = (k, ra_bump r')"
    by (auto elim: birth.cases)
  with assms(2) have "same_role rt r r'"
    by (cases "ra_vault r' = ra_vault r \<and> ra_principal r' = ra_principal r")
      (auto simp: same_role_def collide_def)
  with change_grant that show ?thesis by blast
next
  case change_revoke
  with that show ?thesis by (simp add: same_role_def)
qed

sublocale token_laws \<subseteq> roles: edit_invariant rt "\<lambda>L L'. wf rt L \<longrightarrow> roles_kept rt L L'"
proof
  show "wf rt L \<longrightarrow> roles_kept rt L L" for L
    by (auto simp: roles_kept_def same_role_def)
  show "wf rt L \<longrightarrow> roles_kept rt L (store k d' L1)"
    if "wf rt L \<longrightarrow> roles_kept rt L L1" "state_at L k d" "change rt k d d'" for L L1 k d d'
    using that by (auto simp: roles_kept_def store_def dest: wfD elim: change_same_role)
  show "wf rt L \<longrightarrow> roles_kept rt L L2"
    if "wf rt L \<longrightarrow> roles_kept rt L L1" "rt_transfer_checked rt x L1 = Inr L2" for L L1 x L2
    using that transfer_non_token [OF that(2)] by (fastforce simp: roles_kept_def)
qed (auto simp: roles_kept_def store_def)

context token_laws
begin

lemmas process_roles_kept = roles.process_R

end

text \<open>The sample world is a well-formed ledger with a vault.\<close>

lemma sample_wf: "wf sample_runtime sample_ledger"
  by (auto simp: wf_def sample_defs ID_def valid_policy_def asset_policy_def KNOWN_PERMISSIONS_def
      default_pubkey_def split: if_splits)

text \<open>
  C17. Every instruction respects the identity of every existing account: nothing is closed,
  no account changes its owning program or its type, the terms of an escrow and of a
  withdrawal request never change and their status leaves its initial value at most once,
  a vault keeps namespace, id, guardian and bump and never lowers its request counter, an
  asset stays with its vault, mint and token program, the protocol configuration changes its
  pause flags only, and a token account keeps its mint and its owner. Where the stored records are
  well formed, a role keeps its vault, its holder and its bump as well, unless the addresses of two
  different pairs of vault and holder collide.
\<close>

theorem accounts_keep_identity:
  assumes "token_laws rt" and "process rt t i L = Inr (L', evs)"
  shows "account_step L L' \<and> (wf rt L \<longrightarrow> roles_kept rt L L')"
  using token_laws.process_account_step [OF assms] token_laws.process_roles_kept [OF assms] by blast

theorem accounts_keep_identity_witness:
  "\<exists>L' evs. process sample_runtime (sample_tx {3} 0 []) (GrantRole sample_grant 5 6) sample_ledger
      = Inr (L', evs)
     \<and> account_step sample_ledger L' \<and> roles_kept sample_runtime sample_ledger L'"
  using accounts_keep_identity [OF sample_token_laws,
      of "sample_tx {3} 0 []" "GrantRole sample_grant 5 6" sample_ledger]
    sample_grant_runs sample_wf by auto

end
