(* ===== verification/Custody.thy ===== *)
theory Custody
  imports Invariants
begin

text \<open>
  Who can be debited, and why. A token balance falls in an instruction only if its owner
  signed, if it is the custody of an escrow that is settled by that instruction for
  exactly the escrowed amount, or if it is the custody of a vault and the outflow obeys
  the vault's rules.
\<close>

section \<open>Allowed debits\<close>

definition escrow_settles ::
    "runtime \<Rightarrow> ledger \<Rightarrow> ledger \<Rightarrow> pubkey \<Rightarrow> pubkey \<Rightarrow> nat \<Rightarrow> bool" where
  "escrow_settles rt L L' custody owner n \<longleftrightarrow>
     (\<exists>e e'. state_at L owner (EscrowData e) \<and> es_status e = Funded
        \<and> state_at L' owner (EscrowData e') \<and> es_status e' \<noteq> Funded
        \<and> custody = fst (rt_find_program_address rt (escrow_token_seeds owner))
        \<and> n = unat (es_amount e))"

text \<open>
  An outflow of \<open>n\<close> units from a vault: the vault and the protocol are not paused, the
  asset of the custody's mint admits it and is charged for it at the time of the transaction, and
  either an operator signed for an amount below the timelock threshold or a request for
  exactly this amount has matured and is executed.
\<close>

definition operator_withdraws :: "runtime \<Rightarrow> tx \<Rightarrow> ledger \<Rightarrow> pubkey \<Rightarrow> vault \<Rightarrow> vault_asset \<Rightarrow> nat \<Rightarrow> bool" where
  "operator_withdraws rt t L owner v asset n \<longleftrightarrow>
     n \<le> unat (as_timelock_threshold asset)
     \<and> (\<exists>caller \<in> tx_signers t. caller = va_authority v
          \<or> holds_permission rt L owner caller PERMISSION_WITHDRAW)"

definition request_matures :: "tx \<Rightarrow> ledger \<Rightarrow> ledger \<Rightarrow> pubkey \<Rightarrow> pubkey \<Rightarrow> nat \<Rightarrow> bool" where
  "request_matures t L L' owner asset_key n \<longleftrightarrow>
     (\<exists>wk w w'. state_at L wk (RequestData w) \<and> wr_status w = Pending
        \<and> wr_vault w = owner \<and> wr_vault_asset w = asset_key \<and> n = unat (wr_amount w)
        \<and> sint (wr_execute_after w) \<le> sint (tx_now t) \<and> sint (tx_now t) \<le> sint (wr_expires_at w)
        \<and> state_at L' wk (RequestData w') \<and> wr_status w' = Executed)"

definition window_charged :: "tx \<Rightarrow> ledger \<Rightarrow> pubkey \<Rightarrow> vault_asset \<Rightarrow> nat \<Rightarrow> bool" where
  "window_charged t L' asset_key asset n \<longleftrightarrow>
     (\<exists>amount started spent. n = unat amount
        \<and> next_window_state asset amount (tx_now t) = Inr (started, spent)
        \<and> state_at L' asset_key (AssetData (charge asset started spent)))"

definition vault_outflow ::
    "runtime \<Rightarrow> tx \<Rightarrow> ledger \<Rightarrow> ledger \<Rightarrow> pubkey \<Rightarrow> pubkey \<Rightarrow> nat \<Rightarrow> bool" where
  "vault_outflow rt t L L' custody owner n \<longleftrightarrow>
     (\<exists>v asset_key asset config_key config.
        state_at L owner (VaultData v) \<and> \<not> va_paused v
        \<and> state_at L config_key (ConfigData config) \<and> \<not> is_paused config PAUSE_VAULT_OUTFLOW
        \<and> state_at L asset_key (AssetData asset) \<and> as_vault asset = owner \<and> as_enabled asset
        \<and> custody = fst (rt_find_program_address rt (vault_token_seeds owner (as_mint asset)))
        \<and> (\<exists>p ta. token_at L custody p ta \<and> ta_mint ta = as_mint asset)
        \<and> n \<le> unat (as_max_per_transaction asset) \<and> window_charged t L' asset_key asset n
        \<and> (operator_withdraws rt t L owner v asset n \<or> request_matures t L L' owner asset_key n))"

definition debit_allowed ::
    "runtime \<Rightarrow> tx \<Rightarrow> ledger \<Rightarrow> ledger \<Rightarrow> pubkey \<Rightarrow> pubkey \<Rightarrow> nat \<Rightarrow> bool" where
  "debit_allowed rt t L L' k owner n \<longleftrightarrow>
     owner \<in> tx_signers t \<or> escrow_settles rt L L' k owner n \<or> vault_outflow rt t L L' k owner n"

definition debits_allowed :: "runtime \<Rightarrow> tx \<Rightarrow> ledger \<Rightarrow> ledger \<Rightarrow> bool" where
  "debits_allowed rt t L L' \<longleftrightarrow>
     (\<forall>k p ta. token_at L k p ta \<longrightarrow> token_balance L' k < token_balance L k
        \<longrightarrow> debit_allowed rt t L L' k (ta_owner ta) (token_balance L k - token_balance L' k))"

section \<open>Instructions without a token call\<close>

lemma debits_allowed_still:
  "(\<And>k p ta. token_at L k p ta \<Longrightarrow> L' k = L k) \<Longrightarrow> debits_allowed rt t L L'"
  by (fastforce simp: debits_allowed_def token_balance_def)

lemma still_debits:
  "initialize_protocol rt t ip admin guardian L = Inr (L', evs) \<Longrightarrow> debits_allowed rt t' L L'"
  "set_protocol_pause rt t sp flags L = Inr (L', evs) \<Longrightarrow> debits_allowed rt t' L L'"
  "create_vault rt t cv vault_id guardian L = Inr (L', evs) \<Longrightarrow> debits_allowed rt t' L L'"
  "set_vault_authority rt t sa authority L = Inr (L', evs) \<Longrightarrow> debits_allowed rt t' L L'"
  "pause_vault rt t pv L = Inr (L', evs) \<Longrightarrow> debits_allowed rt t' L L'"
  "unpause_vault rt t uv L = Inr (L', evs) \<Longrightarrow> debits_allowed rt t' L L'"
  "register_asset rt t rg L = Inr (L', evs) \<Longrightarrow> debits_allowed rt t' L L'"
  "grant_role rt t gr holder permissions L = Inr (L', evs) \<Longrightarrow> debits_allowed rt t' L L'"
  "revoke_role rt t rv holder L = Inr (L', evs) \<Longrightarrow> debits_allowed rt t' L L'"
  "update_limits rt t ul q L = Inr (L', evs) \<Longrightarrow> debits_allowed rt t' L L'"
  "cancel_withdrawal rt t ca L = Inr (L', evs) \<Longrightarrow> debits_allowed rt t' L L'"
  by (rule debits_allowed_still; auto simp: initialize_protocol_Inr_iff set_protocol_pause_Inr_iff
      create_vault_Inr_iff set_vault_authority_Inr_iff pause_vault_Inr_iff unpause_vault_Inr_iff
      register_asset_Inr_iff grant_role_Inr_iff revoke_role_Inr_iff update_limits_Inr_iff
      cancel_withdrawal_Inr_iff store_def)+

lemma request_debits:
  assumes "request_withdrawal rt t a amount L = Inr (L', evs)"
  shows "debits_allowed rt t' L L'"
  using assms
  by (elim request_withdrawalE)
    (rule debits_allowed_still; auto simp: request_withdrawal_validate_Inr_iff request_Inr_iff store_def)

section \<open>Instructions with a token call\<close>

text \<open>
  The shape shared by all token calls: the ledger before the call has the accounts of
  \<open>L\<close>, the call moves \<open>n\<close> units between two of them, and the writes that follow touch no
  token account.
\<close>

context token_laws
begin

lemma call_debits:
  assumes tr: "rt_transfer_checked rt x L0 = Inr L1"
    and L0: "\<And>k a. L k = Some a \<Longrightarrow> L0 k = Some a"
    and L': "\<And>k p ta. token_at L1 k p ta \<Longrightarrow> L' k = L1 k"
    and source: "token_at L (tr_from x) p src"
    and debited: "token_balance L1 (tr_from x) + n = token_balance L (tr_from x)"
    and credited: "token_balance L (tr_to x) \<le> token_balance L1 (tr_to x)"
    and owner: "debit_allowed rt t L L' (tr_from x) (ta_owner src) n"
  shows "debits_allowed rt t L L'"
  unfolding debits_allowed_def
proof (intro allI impI)
  fix k q ta
  assume k: "token_at L k q ta" and less: "token_balance L' k < token_balance L k"
  obtain m b where L1: "token_at L1 k q (ta\<lparr>ta_amount := m, ta_tlv := b\<rparr>)"
    using transfer_token [OF tr L0 [OF k]] by blast
  then have same: "token_balance L' k = token_balance L1 k"
    using L' [OF L1] by (simp add: token_balance_def)
  have "k = tr_from x"
  proof (rule ccontr)
    assume "k \<noteq> tr_from x"
    moreover have "k \<noteq> tr_to x"
      using credited less same by auto
    ultimately have "L1 k = L k"
      using transfer_frame [OF tr] L0 [OF k] k by metis
    with less same show False by (simp add: token_balance_def)
  qed
  moreover from this k source have "ta = src" by simp
  moreover have "token_balance L (tr_from x) - token_balance L' (tr_from x) = n"
    using debited same \<open>k = tr_from x\<close> by simp
  ultimately show "debit_allowed rt t L L' k (ta_owner ta) (token_balance L k - token_balance L' k)"
    using owner by simp
qed

lemma create_escrow_debits:
  assumes "create_escrow rt t a escrow_id recipient amount expires_at L = Inr (L', evs)"
  shows "debits_allowed rt t L L'"
  using assms
proof (rule create_escrowE)
  fix config m maker_token bump L2
  assume v: "create_escrow_validate rt t a escrow_id L = Inr (config, m, maker_token, bump, L2)"
    and c: "create rt t a config m maker_token bump escrow_id recipient amount expires_at L2
      = Inr (L', evs)"
  note exact = create_pays [OF v c]
  note v = v [unfolded create_escrow_validate_Inr_iff] and c = c [unfolded create_Inr_iff]
  let ?x = "create_transfer rt t a m amount"
  from c obtain L1 where tr: "rt_transfer_checked rt ?x L2 = Inr L1"
    and L': "L' = store (ce_escrow a)
        (EscrowData (created_escrow t a bump escrow_id recipient amount expires_at)) L1"
    by blast
  have x: "tr_from ?x = ce_maker_token a" "tr_to ?x = ce_escrow_token a"
    by (simp_all add: create_transfer_def)
  have keep: "token_balance L' k = token_balance L1 k" if "k \<noteq> ce_escrow a" for k
    using L' that by (simp add: token_balance_def store_def)
  from v have ne: "ce_maker_token a \<noteq> ce_escrow a" "ce_escrow_token a \<noteq> ce_escrow a"
    by auto
  show ?thesis
  proof (rule call_debits [OF tr, where src = maker_token and n = "unat amount" and p = "ce_token_program a"])
    show "L2 k = Some acc" if "L k = Some acc" for k acc
      using v that by auto
    show "L' k = L1 k" if "token_at L1 k p ta" for k p ta
      using L' that transfer_non_token [OF tr, of "ce_escrow a"] v by (auto simp: store_def)
    show "token_at L (tr_from ?x) (ce_token_program a) maker_token"
      using v x by simp
    show "token_balance L1 (tr_from ?x) + unat amount = token_balance L (tr_from ?x)"
      using exact x keep ne by simp
    show "token_balance L (tr_to ?x) \<le> token_balance L1 (tr_to ?x)"
      using v x by (simp add: token_balance_def)
    show "debit_allowed rt t L L' (tr_from ?x) (ta_owner maker_token) (unat amount)"
      using v by (simp add: debit_allowed_def)
  qed
qed

text \<open>The common case: the call runs on the ledger itself and the payment is known.\<close>

lemma pay_debits:
  assumes tr: "rt_transfer_checked rt x L = Inr L1"
    and L': "\<And>k. L' k \<noteq> L1 k \<Longrightarrow> \<exists>a. L k = Some a \<and> token_of (acc_data a) = None"
    and pays: "pays L L' (tr_from x) (tr_to x) n"
    and source: "token_at L (tr_from x) p src"
    and owner: "debit_allowed rt t L L' (tr_from x) (ta_owner src) n"
  shows "debits_allowed rt t L L'"
proof -
  have keep: "L' k = L1 k" if "token_at L1 k p ta" for k p ta
    using L' [of k] transfer_non_token [OF tr, of k] that by fastforce
  have same: "token_balance L1 k = token_balance L' k" if "k = tr_from x \<or> k = tr_to x" for k
    using transfer_shape [OF tr that] keep by (fastforce simp: token_balance_def)
  from pays same show ?thesis
    by (intro call_debits [OF tr _ keep source _ _ owner]) (simp_all add: pays_def)
qed

lemma release_escrow_debits:
  assumes "release_escrow rt t a L = Inr (L', evs)"
  shows "debits_allowed rt t L L'"
  using assms
proof (rule release_escrowE)
  fix config esc m custody dest
  assume v: "release_escrow_validate rt t a L = Inr (config, esc, m, custody, dest)"
    and r: "release rt t a config esc m custody dest L = Inr (L', evs)"
  note paid = release_pays [OF v r]
  note v = v [unfolded release_escrow_validate_Inr_iff] and r = r [unfolded release_Inr_iff]
  let ?x = "release_transfer rt t a esc m"
  from r obtain L1 where tr: "rt_transfer_checked rt ?x L = Inr L1"
    and L': "L' = store (re_escrow a) (EscrowData (esc\<lparr>es_status := Released\<rparr>)) L1"
    by blast
  have x: "tr_from ?x = re_escrow_token a" "tr_to ?x = re_recipient_token a"
    by (simp_all add: release_transfer_def)
  have settles: "escrow_settles rt L L' (re_escrow_token a) (re_escrow a) (unat (es_amount esc))"
    using v r L' by (auto simp: escrow_settles_def store_def)
  show ?thesis
  proof (rule pay_debits [OF tr, where src = custody])
    show "pays L L' (tr_from ?x) (tr_to ?x) (unat (es_amount esc))"
      using paid x by simp
    show "debit_allowed rt t L L' (tr_from ?x) (ta_owner custody) (unat (es_amount esc))"
      using settles v x by (simp add: debit_allowed_def)
  qed (use v L' x in \<open>auto simp: store_def split: if_splits\<close>)
qed

lemma refund_escrow_debits:
  assumes "refund_escrow rt t a L = Inr (L', evs)"
  shows "debits_allowed rt t L L'"
  using assms
proof (rule refund_escrowE)
  fix esc m custody dest
  assume v: "refund_escrow_validate rt t a L = Inr (esc, m, custody, dest)"
    and r: "refund rt t a esc m custody dest L = Inr (L', evs)"
  note paid = refund_pays [OF v r]
  note v = v [unfolded refund_escrow_validate_Inr_iff] and r = r [unfolded refund_Inr_iff]
  let ?x = "refund_transfer rt t a esc m"
  from r obtain L1 where tr: "rt_transfer_checked rt ?x L = Inr L1"
    and L': "L' = store (rf_escrow a) (EscrowData (esc\<lparr>es_status := Refunded\<rparr>)) L1"
    by blast
  have x: "tr_from ?x = rf_escrow_token a" "tr_to ?x = rf_maker_destination a"
    by (simp_all add: refund_transfer_def)
  have settles: "escrow_settles rt L L' (rf_escrow_token a) (rf_escrow a) (unat (es_amount esc))"
    using v r L' by (auto simp: escrow_settles_def store_def)
  show ?thesis
  proof (rule pay_debits [OF tr, where src = custody])
    show "pays L L' (tr_from ?x) (tr_to ?x) (unat (es_amount esc))"
      using paid x by simp
    show "debit_allowed rt t L L' (tr_from ?x) (ta_owner custody) (unat (es_amount esc))"
      using settles v x by (simp add: debit_allowed_def)
  qed (use v L' x in \<open>auto simp: store_def split: if_splits\<close>)
qed

lemma deposit_debits:
  assumes "deposit rt t a amount L = Inr (L', evs)"
  shows "debits_allowed rt t L L'"
  using assms
proof (rule depositE)
  fix m asset source custody
  assume v: "deposit_validate rt t a L = Inr (m, asset, source, custody)"
    and d: "deposit_tokens rt t a m asset source custody amount L = Inr (L', evs)"
  note paid = deposit_pays [OF v d]
  note v = v [unfolded deposit_validate_Inr_iff] and d = d [unfolded deposit_tokens_Inr_iff]
  let ?x = "deposit_transfer rt t a m amount"
  have x: "tr_from ?x = de_source_token a" "tr_to ?x = de_vault_token a"
    by (simp_all add: deposit_transfer_def)
  from d have tr: "rt_transfer_checked rt ?x L = Inr L'" by simp
  show ?thesis
  proof (rule pay_debits [OF tr, where src = source])
    show "pays L L' (tr_from ?x) (tr_to ?x) (unat amount)"
      using paid x by simp
    show "debit_allowed rt t L L' (tr_from ?x) (ta_owner source) (unat amount)"
      using v by (simp add: debit_allowed_def)
  qed (use v x in auto)
qed

lemma withdraw_debits:
  assumes "withdraw rt t a amount L = Inr (L', evs)"
  shows "debits_allowed rt t L L'"
  using assms
proof (rule withdrawE)
  fix config v m asset custody dest
  assume val: "withdraw_validate rt t a L = Inr (config, v, m, asset, custody, dest)"
    and w: "withdraw_tokens rt t a config v m asset custody dest amount L = Inr (L', evs)"
  note paid = withdraw_pays [OF val w]
  note val = val [unfolded withdraw_validate_Inr_iff] and w = w [unfolded withdraw_tokens_Inr_iff]
  let ?x = "withdraw_transfer rt t a v m amount"
  from w obtain started spent L1 where tr: "rt_transfer_checked rt ?x L = Inr L1"
    and win: "next_window_state asset amount (tx_now t) = Inr (started, spent)"
    and L': "L' = store (wi_vault_asset a) (AssetData (if 0 < sint (as_window_seconds asset)
        then charge asset started spent else asset)) L1"
    by blast
  have x: "tr_from ?x = wi_vault_token a" "tr_to ?x = wi_destination_token a"
    by (simp_all add: withdraw_transfer_def)
  have "operator_withdraws rt t L (wi_vault a) v asset (unat amount)"
    using val w by (auto simp: operator_withdraws_def withdraw_authorize_def success_iff word_le_nat_alt
        split: if_splits)
  moreover have "window_charged t L' (wi_vault_asset a) asset (unat amount)"
    using win L' [unfolded charge_idle [OF win]] unfolding window_charged_def
    by (intro exI [of _ amount] exI [of _ started] exI [of _ spent]) (simp add: store_def)
  ultimately have out: "vault_outflow rt t L L' (wi_vault_token a) (wi_vault a) (unat amount)"
    using val w unfolding vault_outflow_def
    by (intro exI [of _ v] exI [of _ "wi_vault_asset a"] exI [of _ asset]
        exI [of _ "wi_protocol_config a"] exI [of _ config]) (auto simp: word_le_nat_alt)
  show ?thesis
  proof (rule pay_debits [OF tr, where src = custody])
    show "pays L L' (tr_from ?x) (tr_to ?x) (unat amount)"
      using paid x by simp
    show "debit_allowed rt t L L' (tr_from ?x) (ta_owner custody) (unat amount)"
      using out val x by (simp add: debit_allowed_def)
  qed (use val L' x in \<open>auto simp: store_def split: if_splits\<close>)
qed

lemma execute_withdrawal_debits:
  assumes "execute_withdrawal rt t a L = Inr (L', evs)"
  shows "debits_allowed rt t L L'"
  using assms
proof (rule execute_withdrawalE)
  fix config v m asset w custody dest
  assume val: "execute_withdrawal_validate rt t a L = Inr (config, v, m, asset, w, custody, dest)"
    and e: "execute rt t a config v m asset w custody dest L = Inr (L', evs)"
  note paid = execute_pays [OF val e]
  note val = val [unfolded execute_withdrawal_validate_Inr_iff] and e = e [unfolded execute_Inr_iff]
  let ?x = "execute_transfer rt t a v m (wr_amount w)"
  from e obtain started spent L1 where tr: "rt_transfer_checked rt ?x L = Inr L1"
    and win: "next_window_state asset (wr_amount w) (tx_now t) = Inr (started, spent)"
    and L': "L' = store (ex_withdrawal_request a) (RequestData (w\<lparr>wr_status := Executed\<rparr>))
        (store (ex_vault_asset a) (AssetData (charge asset started spent)) L1)"
    by blast
  have x: "tr_from ?x = ex_vault_token a" "tr_to ?x = ex_recipient_token a"
    by (simp_all add: execute_transfer_def)
  have "request_matures t L L' (ex_vault a) (ex_vault_asset a) (unat (wr_amount w))"
    using val e L' unfolding request_matures_def
    by (intro exI [of _ "ex_withdrawal_request a"] exI [of _ w] exI [of _ "w\<lparr>wr_status := Executed\<rparr>"])
      (auto simp: store_def)
  moreover have "window_charged t L' (ex_vault_asset a) asset (unat (wr_amount w))"
    using win L' val unfolding window_charged_def
    by (intro exI [of _ "wr_amount w"] exI [of _ started] exI [of _ spent]) (auto simp: store_def)
  ultimately have out: "vault_outflow rt t L L' (ex_vault_token a) (ex_vault a) (unat (wr_amount w))"
    using val e unfolding vault_outflow_def
    by (intro exI [of _ v] exI [of _ "ex_vault_asset a"] exI [of _ asset]
        exI [of _ "ex_protocol_config a"] exI [of _ config]) (auto simp: word_le_nat_alt)
  show ?thesis
  proof (rule pay_debits [OF tr, where src = custody])
    show "pays L L' (tr_from ?x) (tr_to ?x) (unat (wr_amount w))"
      using paid x by simp
    show "debit_allowed rt t L L' (tr_from ?x) (ta_owner custody) (unat (wr_amount w))"
      using out val x by (simp add: debit_allowed_def)
  qed (use val L' x in \<open>auto simp: store_def split: if_splits\<close>)
qed

lemma process_debits:
  assumes "process rt t i L = Inr (L', evs)"
  shows "debits_allowed rt t L L'"
  using assms
  by (cases i)
    (auto simp: dispatch_def intro: debits_allowed_still still_debits request_debits create_escrow_debits
      release_escrow_debits refund_escrow_debits deposit_debits withdraw_debits
      execute_withdrawal_debits)

end

text \<open>
  C2. No instruction takes tokens from an account without authority: when a balance falls, its
  owner signed the transaction, or it is the custody of a funded escrow that the instruction
  settles, for exactly the escrowed amount, or it is the custody of a vault, neither the vault
  nor the protocol outflow is paused, the amount is within the per-transaction maximum and charged
  to the window of the asset at the time of the transaction, and either an operator with the right to withdraw signed for an amount up to the timelock
  threshold or a pending request over that very amount is executed inside its window.
\<close>

theorem no_unauthorized_debit:
  assumes "token_laws rt" and "process rt t i L = Inr (L', evs)"
    and "token_at L k p ta" and "token_balance L' k < token_balance L k"
  shows "ta_owner ta \<in> tx_signers t
    \<or> escrow_settles rt L L' k (ta_owner ta) (token_balance L k - token_balance L' k)
    \<or> vault_outflow rt t L L' k (ta_owner ta) (token_balance L k - token_balance L' k)"
  using token_laws.process_debits [OF assms(1,2)] assms(3,4)
  by (simp add: debits_allowed_def debit_allowed_def)

theorem no_unauthorized_debit_witness:
  "\<exists>L' evs. process sample_runtime (sample_tx {9} 100 []) (ExecuteWithdrawal sample_execute) sample_ledger
      = Inr (L', evs)
     \<and> vault_outflow sample_runtime (sample_tx {9} 100 []) sample_ledger L' 15 13 80"
proof -
  obtain L' evs where run:
    "process sample_runtime (sample_tx {9} 100 []) (ExecuteWithdrawal sample_execute) sample_ledger
       = Inr (L', evs)"
    using sample_execute_runs by auto
  then have run': "execute_withdrawal sample_runtime (sample_tx {9} 100 []) sample_execute sample_ledger
       = Inr (L', evs)" by simp
  have bal: "token_balance sample_ledger 15 = 500"
    by (simp add: sample_defs token_balance_def)
  obtain config v m asset w custody dest where
      val: "execute_withdrawal_validate sample_runtime (sample_tx {9} 100 []) sample_execute sample_ledger
        = Inr (config, v, m, asset, w, custody, dest)"
    and e: "execute sample_runtime (sample_tx {9} 100 []) sample_execute config v m asset w custody dest
        sample_ledger = Inr (L', evs)"
    using run' by (rule execute_withdrawalE)
  have "w = sample_request"
    using val by (simp add: execute_withdrawal_validate_Inr_iff sample_execute_def sample_ledger_def
        sample_state_def)
  with execute_pays [OF val e] have "pays sample_ledger L' 15 22 80"
    by (simp add: sample_execute_def sample_request_def)
  with bal have paid: "token_balance L' 15 + 80 = 500"
    by (simp add: pays_def)
  have "\<not> escrow_settles sample_runtime sample_ledger L' 15 13 80"
    by (simp add: escrow_settles_def sample_defs)
  moreover have "token_at sample_ledger 15 1001 \<lparr>ta_mint = 20, ta_owner = 13, ta_amount = 500, ta_frozen = False, ta_tlv = []\<rparr>"
    by (simp add: sample_defs)
  ultimately have "vault_outflow sample_runtime (sample_tx {9} 100 []) sample_ledger L' 15 13 80"
    using no_unauthorized_debit [OF sample_token_laws run, of 15 1001
        "\<lparr>ta_mint = 20, ta_owner = 13, ta_amount = 500, ta_frozen = False, ta_tlv = []\<rparr>"] bal paid
    by (auto simp: sample_tx_def)
  with run show ?thesis by blast
qed

end
