(* ===== verification/System.thy ===== *)
theory System
  imports Custody
begin

text \<open>
  The program over time: any sequence of its instructions, in any order and by any
  signers, interleaved with whatever other programs do. \<open>reachable\<close> collects the ledgers and
  the event logs such a history leads to; the invariants of the previous theories hold in
  all of them.
\<close>

section \<open>Histories\<close>

text \<open>
  Keys that hold program records are derived addresses: no private key exists for them and
  no other program can sign for them, so they do not occur among the signers.
\<close>

definition zeroed :: "account_data \<Rightarrow> bool" where
  "zeroed d \<longleftrightarrow> (\<exists>n. d = OtherData (replicate n 0))"

definition keyholders :: "tx \<Rightarrow> ledger \<Rightarrow> bool" where
  "keyholders t L \<longleftrightarrow> (\<forall>s \<in> tx_signers t. \<forall>d. state_at L s d \<longrightarrow> zeroed d)"

text \<open>
  What other programs, and token transactions without IronVault, may do: accounts of the
  program are theirs to read only; they may hand a zeroed account to the program; and a token
  account that sits at a derived address of the program and belongs to one of its records
  can only be credited, since nobody else can sign for its owner.
\<close>

definition external :: "runtime \<Rightarrow> ledger \<Rightarrow> ledger \<Rightarrow> bool" where
  "external rt L L' \<longleftrightarrow>
     (\<forall>k d. state_at L k d \<longrightarrow> state_at L' k d)
     \<and> (\<forall>k d. state_at L' k d \<longrightarrow> state_at L k d \<or> zeroed d)
     \<and> (\<forall>k p ta seeds d. token_at L k p ta \<and> k = fst (rt_find_program_address rt seeds)
          \<and> state_at L (ta_owner ta) d \<and> \<not> zeroed d
          \<longrightarrow> (\<exists>ta'. token_at L' k p ta' \<and> ta_mint ta' = ta_mint ta \<and> ta_owner ta' = ta_owner ta
                \<and> ta_amount ta \<le> ta_amount ta'))"

text \<open>Before the program was ever called, it owns no records.\<close>

definition genesis :: "ledger \<Rightarrow> bool" where
  "genesis L \<longleftrightarrow> (\<forall>k d. state_at L k d \<longrightarrow> zeroed d)"

inductive reachable :: "runtime \<Rightarrow> ledger \<Rightarrow> event list \<Rightarrow> bool" for rt where
  start: "reachable rt L []" if "genesis L"
| instruction: "reachable rt L' (log @ evs)"
  if "reachable rt L log" "keyholders t L" "process rt t i L = Inr (L', evs)"
| external: "reachable rt L' log" if "reachable rt L log" "external rt L L'"

inductive_cases reachable_initE: "reachable rt L []"

lemma zeroed_simps [simp]:
  "\<not> zeroed (ConfigData c)" "\<not> zeroed (EscrowData e)" "\<not> zeroed (VaultData v)"
  "\<not> zeroed (AssetData a)" "\<not> zeroed (RoleData r)" "\<not> zeroed (RequestData w)"
  by (simp_all add: zeroed_def)

lemma external_state: "external rt L L' \<Longrightarrow> \<not> zeroed d \<Longrightarrow> state_at L' k d \<longleftrightarrow> state_at L k d"
  unfolding external_def by blast

lemma zeroed_ok: "zeroed d \<Longrightarrow> data_ok rt k d"
  by (auto simp: zeroed_def)

section \<open>Well-formedness\<close>

lemma reachable_wf:
  assumes "token_laws rt" "reachable rt L log"
  shows "wf rt L"
  using assms(2)
proof (induction rule: reachable.induct)
  case (start L)
  then show ?case by (simp add: genesis_def wf_def zeroed_ok)
next
  case (instruction L log t i L' evs)
  then show ?case using token_laws.process_wf [OF assms(1)] by blast
next
  case (external L log L')
  show ?case
    unfolding wf_def
  proof (intro allI impI)
    fix k d
    assume "state_at L' k d"
    then have "state_at L k d \<or> zeroed d"
      using external.hyps(2) unfolding external_def by blast
    then show "data_ok rt k d"
      using external.IH wfD zeroed_ok by blast
  qed
qed

section \<open>Records of one kind\<close>

definition escrow_at :: "ledger \<Rightarrow> pubkey \<Rightarrow> escrow option" where
  "escrow_at L k =
     (case L k of None \<Rightarrow> None | Some a \<Rightarrow> if acc_program a = ID then escrow_of (acc_data a) else None)"

definition request_at :: "ledger \<Rightarrow> pubkey \<Rightarrow> withdrawal_request option" where
  "request_at L k =
     (case L k of None \<Rightarrow> None | Some a \<Rightarrow> if acc_program a = ID then request_of (acc_data a) else None)"

lemma escrow_at_Some [simp]: "escrow_at L k = Some e \<longleftrightarrow> state_at L k (EscrowData e)"
  by (auto simp: escrow_at_def success_iff split: option.splits)

lemma request_at_Some [simp]: "request_at L k = Some w \<longleftrightarrow> state_at L k (RequestData w)"
  by (auto simp: request_at_def success_iff split: option.splits)

lemma record_at_store [simp]:
  "escrow_at (store k d L) = (escrow_at L)(k := escrow_of d)"
  "request_at (store k d L) = (request_at L)(k := request_of d)"
  by (auto simp: escrow_at_def request_at_def store_def)

lemma record_at_upd [simp]:
  "escrow_at (L(k \<mapsto> \<lparr>acc_program = p, acc_data = d\<rparr>)) =
     (escrow_at L)(k := if p = ID then escrow_of d else None)"
  "request_at (L(k \<mapsto> \<lparr>acc_program = p, acc_data = d\<rparr>)) =
     (request_at L)(k := if p = ID then request_of d else None)"
  by (auto simp: escrow_at_def request_at_def)

lemma record_at_other [simp]:
  "state_at L k d \<Longrightarrow> escrow_at L k = escrow_of d" "state_at L k d \<Longrightarrow> request_at L k = request_of d"
  "L k = None \<Longrightarrow> escrow_at L k = None" "L k = None \<Longrightarrow> request_at L k = None"
  by (simp_all add: escrow_at_def request_at_def)

context token_laws
begin

lemma transfer_escrow_at:
  assumes "rt_transfer_checked rt x L = Inr L'"
  shows "escrow_at L' = escrow_at L"
proof
  fix k
  show "escrow_at L' k = escrow_at L k"
  proof (cases "escrow_at L' k")
    case (Some e)
    then show ?thesis using transfer_non_token_rev [OF assms, of k] by auto
  next
    case None
    then show ?thesis
      using transfer_non_token [OF assms, of k] by (cases "escrow_at L k") auto
  qed
qed

lemma transfer_request_at:
  assumes "rt_transfer_checked rt x L = Inr L'"
  shows "request_at L' = request_at L"
proof
  fix k
  show "request_at L' k = request_at L k"
  proof (cases "request_at L' k")
    case (Some e)
    then show ?thesis using transfer_non_token_rev [OF assms, of k] by auto
  next
    case None
    then show ?thesis
      using transfer_non_token [OF assms, of k] by (cases "request_at L k") auto
  qed
qed

section \<open>How instructions change escrows and requests\<close>

lemma untouched_records:
  "initialize_protocol rt t ip admin guardian L = Inr (L', evs)
     \<Longrightarrow> escrow_at L' = escrow_at L \<and> request_at L' = request_at L"
  "set_protocol_pause rt t sp flags L = Inr (L', evs)
     \<Longrightarrow> escrow_at L' = escrow_at L \<and> request_at L' = request_at L"
  "create_vault rt t cv vault_id vguardian L = Inr (L', evs)
     \<Longrightarrow> escrow_at L' = escrow_at L \<and> request_at L' = request_at L"
  "set_vault_authority rt t sa authority L = Inr (L', evs)
     \<Longrightarrow> escrow_at L' = escrow_at L \<and> request_at L' = request_at L"
  "pause_vault rt t pv L = Inr (L', evs)
     \<Longrightarrow> escrow_at L' = escrow_at L \<and> request_at L' = request_at L"
  "unpause_vault rt t uv L = Inr (L', evs)
     \<Longrightarrow> escrow_at L' = escrow_at L \<and> request_at L' = request_at L"
  "grant_role rt t gr holder permissions L = Inr (L', evs)
     \<Longrightarrow> escrow_at L' = escrow_at L \<and> request_at L' = request_at L"
  "revoke_role rt t rv holder L = Inr (L', evs)
     \<Longrightarrow> escrow_at L' = escrow_at L \<and> request_at L' = request_at L"
  "update_limits rt t ul q L = Inr (L', evs)
     \<Longrightarrow> escrow_at L' = escrow_at L \<and> request_at L' = request_at L"
  "register_asset rt t rg L = Inr (L', evs)
     \<Longrightarrow> escrow_at L' = escrow_at L \<and> request_at L' = request_at L"
  by (auto simp: initialize_protocol_Inr_iff set_protocol_pause_Inr_iff create_vault_Inr_iff
      set_vault_authority_Inr_iff pause_vault_Inr_iff unpause_vault_Inr_iff grant_role_Inr_iff
      revoke_role_Inr_iff update_limits_Inr_iff register_asset_Inr_iff fun_upd_idem)

lemma deposit_records:
  "deposit rt t a amount L = Inr (L', evs)
     \<Longrightarrow> escrow_at L' = escrow_at L \<and> request_at L' = request_at L"
  by (elim depositE) (auto simp: deposit_tokens_Inr_iff dest: transfer_escrow_at transfer_request_at)

lemma create_escrow_records:
  assumes "create_escrow rt t a escrow_id recipient amount expires_at L = Inr (L', evs)"
  shows "\<exists>bump. escrow_at L' = (escrow_at L)(ce_escrow a \<mapsto>
      created_escrow t a bump escrow_id recipient amount expires_at)"
    and "request_at L' = request_at L" and "escrow_at L (ce_escrow a) = None"
    and "\<exists>v et mk r m n c x id. evs = [EscrowCreated v (ce_escrow a) et mk r m n c x id]"
proof -
  from assms obtain config m maker_token bump L2 where
      v: "create_escrow_validate rt t a escrow_id L = Inr (config, m, maker_token, bump, L2)"
    and c: "create rt t a config m maker_token bump escrow_id recipient amount expires_at L2
      = Inr (L', evs)"
    by (rule create_escrowE)
  note v = v [unfolded create_escrow_validate_Inr_iff] and c = c [unfolded create_Inr_iff]
  from v have L2: "escrow_at L2 = escrow_at L" "request_at L2 = request_at L"
    by (auto simp: fun_upd_idem)
  from c obtain L1 where tr: "rt_transfer_checked rt (create_transfer rt t a m amount) L2 = Inr L1"
    and L': "L' = store (ce_escrow a)
        (EscrowData (created_escrow t a bump escrow_id recipient amount expires_at)) L1"
    by blast
  note same = transfer_escrow_at [OF tr] transfer_request_at [OF tr]
  show "\<exists>bump. escrow_at L' = (escrow_at L)(ce_escrow a \<mapsto>
      created_escrow t a bump escrow_id recipient amount expires_at)"
    using L' L2 same by auto
  show "request_at L' = request_at L"
    using L' L2 same v by (simp add: fun_upd_idem)
  show "escrow_at L (ce_escrow a) = None"
    using v by simp
  show "\<exists>v et mk r m n c x id. evs = [EscrowCreated v (ce_escrow a) et mk r m n c x id]"
    using c by blast
qed

lemma release_escrow_records:
  assumes "release_escrow rt t a L = Inr (L', evs)"
  shows "\<exists>e. escrow_at L (re_escrow a) = Some e \<and> es_status e = Funded
      \<and> escrow_at L' = (escrow_at L)(re_escrow a \<mapsto> e\<lparr>es_status := Released\<rparr>)
      \<and> request_at L' = request_at L
      \<and> (\<exists>v et mk r rt m n. evs = [EscrowReleased v (re_escrow a) et mk r rt m n])"
  using assms
  by (elim release_escrowE)
    (auto simp: release_escrow_validate_Inr_iff release_Inr_iff transfer_escrow_at transfer_request_at
      fun_upd_idem)

lemma refund_escrow_records:
  assumes "refund_escrow rt t a L = Inr (L', evs)"
  shows "\<exists>e. escrow_at L (rf_escrow a) = Some e \<and> es_status e = Funded
      \<and> escrow_at L' = (escrow_at L)(rf_escrow a \<mapsto> e\<lparr>es_status := Refunded\<rparr>)
      \<and> request_at L' = request_at L
      \<and> (\<exists>v et c mk d m n. evs = [EscrowRefunded v (rf_escrow a) et c mk d m n])"
  using assms
  by (elim refund_escrowE)
    (auto simp: refund_escrow_validate_Inr_iff refund_Inr_iff transfer_escrow_at transfer_request_at
      fun_upd_idem)

lemma withdraw_records:
  assumes "withdraw rt t a amount L = Inr (L', evs)"
  shows "escrow_at L' = escrow_at L \<and> request_at L' = request_at L"
  using assms
  by (elim withdrawE)
    (auto simp: withdraw_validate_Inr_iff withdraw_tokens_Inr_iff transfer_escrow_at transfer_request_at
      fun_upd_idem)

lemma request_withdrawal_records:
  assumes "request_withdrawal rt t a amount L = Inr (L', evs)"
  shows "escrow_at L' = escrow_at L \<and> request_at L (rq_withdrawal_request a) = None
    \<and> (\<exists>w. wr_status w = Pending \<and> request_at L' = (request_at L)(rq_withdrawal_request a \<mapsto> w))
    \<and> (\<exists>v va asset p ro rt m id n c x y.
         evs = [WithdrawalRequested v va asset (rq_withdrawal_request a) p ro rt m id n c x y])"
  using assms
  by (elim request_withdrawalE)
    (auto simp: request_withdrawal_validate_Inr_iff request_Inr_iff requested_def fun_upd_idem
      intro!: exI)

lemma execute_withdrawal_records:
  assumes "execute_withdrawal rt t a L = Inr (L', evs)"
  shows "escrow_at L' = escrow_at L
    \<and> (\<exists>w. request_at L (ex_withdrawal_request a) = Some w \<and> wr_status w = Pending
         \<and> request_at L' = (request_at L)(ex_withdrawal_request a \<mapsto> w\<lparr>wr_status := Executed\<rparr>))
    \<and> (\<exists>v va asset c r m id n.
         evs = [WithdrawalExecuted v va asset (ex_withdrawal_request a) c r m id n])"
  using assms
  by (elim execute_withdrawalE)
    (auto simp: execute_withdrawal_validate_Inr_iff execute_Inr_iff transfer_escrow_at
      transfer_request_at fun_upd_idem)

lemma cancel_withdrawal_records:
  assumes "cancel_withdrawal rt t a L = Inr (L', evs)"
  shows "escrow_at L' = escrow_at L
    \<and> (\<exists>w. request_at L (ca_withdrawal_request a) = Some w \<and> wr_status w = Pending
         \<and> request_at L' = (request_at L)(ca_withdrawal_request a \<mapsto> w\<lparr>wr_status := Cancelled\<rparr>))
    \<and> (\<exists>v va c p id. evs = [WithdrawalCancelled v va (ca_withdrawal_request a) c p id])"
  using assms by (auto simp: cancel_withdrawal_Inr_iff fun_upd_idem)

end

section \<open>Settlement\<close>

text \<open>The events that report the end of an escrow and of a withdrawal request.\<close>

fun settles_escrow :: "pubkey \<Rightarrow> event \<Rightarrow> bool" where
  "settles_escrow k (EscrowReleased _ escrow _ _ _ _ _ _) \<longleftrightarrow> escrow = k"
| "settles_escrow k (EscrowRefunded _ escrow _ _ _ _ _ _) \<longleftrightarrow> escrow = k"
| "settles_escrow k _ \<longleftrightarrow> False"

fun settles_request :: "pubkey \<Rightarrow> event \<Rightarrow> bool" where
  "settles_request k (WithdrawalExecuted _ _ _ w _ _ _ _ _) \<longleftrightarrow> w = k"
| "settles_request k (WithdrawalCancelled _ _ w _ _ _) \<longleftrightarrow> w = k"
| "settles_request k _ \<longleftrightarrow> False"

definition settlements :: "(pubkey \<Rightarrow> event \<Rightarrow> bool) \<Rightarrow> pubkey \<Rightarrow> event list \<Rightarrow> nat" where
  "settlements settles k log = length (filter (settles k) log)"

lemma settlements_simps [simp]:
  "settlements settles k [] = 0"
  "settlements settles k (ev # log) = of_bool (settles k ev) + settlements settles k log"
  "settlements settles k (log @ log') = settlements settles k log + settlements settles k log'"
  by (simp_all add: settlements_def)

text \<open>Whether the record at an address exists and has left its open state, as a number.\<close>

definition settled :: "(ledger \<Rightarrow> pubkey \<Rightarrow> 'a option) \<Rightarrow> ('a \<Rightarrow> bool) \<Rightarrow> ledger \<Rightarrow> pubkey \<Rightarrow> nat" where
  "settled record_at is_open L k = (case record_at L k of None \<Rightarrow> 0 | Some x \<Rightarrow> of_bool (\<not> is_open x))"

lemma settled_same: "record_at L' = record_at L \<Longrightarrow> settled record_at is_open L' k = settled record_at is_open L k"
  by (simp add: settled_def)

lemma settled_le: "settled record_at is_open L k \<le> 1"
  by (simp add: settled_def split: option.splits)

text \<open>
  The interface of a record that is settled at most once and whose settlement is logged: the
  number of settling events equals the number of times the record left its open state, in
  each instruction and hence over any history.
\<close>

locale settlement =
  fixes rt :: runtime and record_at :: "ledger \<Rightarrow> pubkey \<Rightarrow> 'a option" and is_open :: "'a \<Rightarrow> bool"
    and settles :: "pubkey \<Rightarrow> event \<Rightarrow> bool"
  assumes genesis_empty: "genesis L \<Longrightarrow> record_at L k = None"
    and external_same: "external rt L L' \<Longrightarrow> record_at L' = record_at L"
    and process_settles: "process rt t i L = Inr (L', evs) \<Longrightarrow>
      settled record_at is_open L k + settlements settles k evs = settled record_at is_open L' k"
begin

lemma log_counts: "reachable rt L log \<Longrightarrow> settlements settles k log = settled record_at is_open L k"
proof (induction rule: reachable.induct)
  case (start L)
  then show ?case by (simp add: settled_def genesis_empty)
next
  case (instruction L log t i L' evs)
  then show ?case using process_settles [of t i L L' evs k] by simp
next
  case (external L log L')
  then show ?case using external_same [of L L'] by (simp add: settled_def)
qed

lemma at_most_once: "reachable rt L log \<Longrightarrow> settlements settles k log \<le> 1"
  using settled_le [of record_at is_open L k] by (simp add: log_counts)

end

lemma quiet_events:
  "initialize_protocol rt t ip admin guardian L = Inr (L', evs) \<Longrightarrow>
     settlements settles_escrow k evs = 0 \<and> settlements settles_request k evs = 0"
  "set_protocol_pause rt t sp flags L = Inr (L', evs) \<Longrightarrow>
     settlements settles_escrow k evs = 0 \<and> settlements settles_request k evs = 0"
  "create_vault rt t cv vault_id vguardian L = Inr (L', evs) \<Longrightarrow>
     settlements settles_escrow k evs = 0 \<and> settlements settles_request k evs = 0"
  "set_vault_authority rt t sa authority L = Inr (L', evs) \<Longrightarrow>
     settlements settles_escrow k evs = 0 \<and> settlements settles_request k evs = 0"
  "pause_vault rt t pv L = Inr (L', evs) \<Longrightarrow>
     settlements settles_escrow k evs = 0 \<and> settlements settles_request k evs = 0"
  "unpause_vault rt t uv L = Inr (L', evs) \<Longrightarrow>
     settlements settles_escrow k evs = 0 \<and> settlements settles_request k evs = 0"
  "grant_role rt t gr holder permissions L = Inr (L', evs) \<Longrightarrow>
     settlements settles_escrow k evs = 0 \<and> settlements settles_request k evs = 0"
  "revoke_role rt t rv holder L = Inr (L', evs) \<Longrightarrow>
     settlements settles_escrow k evs = 0 \<and> settlements settles_request k evs = 0"
  "update_limits rt t ul q L = Inr (L', evs) \<Longrightarrow>
     settlements settles_escrow k evs = 0 \<and> settlements settles_request k evs = 0"
  "register_asset rt t rg L = Inr (L', evs) \<Longrightarrow>
     settlements settles_escrow k evs = 0 \<and> settlements settles_request k evs = 0"
  "deposit rt t de amount L = Inr (L', evs) \<Longrightarrow>
     settlements settles_escrow k evs = 0 \<and> settlements settles_request k evs = 0"
  "withdraw rt t wi amount L = Inr (L', evs) \<Longrightarrow>
     settlements settles_escrow k evs = 0 \<and> settlements settles_request k evs = 0"
  by (auto simp: initialize_protocol_Inr_iff set_protocol_pause_Inr_iff create_vault_Inr_iff
      set_vault_authority_Inr_iff pause_vault_Inr_iff unpause_vault_Inr_iff grant_role_Inr_iff
      revoke_role_Inr_iff update_limits_Inr_iff register_asset_Inr_iff deposit_tokens_Inr_iff
      withdraw_tokens_Inr_iff elim!: depositE withdrawE)

lemma record_at_same:
  assumes "external rt L L'"
  shows "escrow_at L' = escrow_at L" and "request_at L' = request_at L"
proof -
  have "escrow_at L' k = escrow_at L k" for k
    using external_state [OF assms, of "EscrowData _" k]
    by (metis escrow_at_Some not_None_eq zeroed_simps(2))
  then show "escrow_at L' = escrow_at L" by blast
  have "request_at L' k = request_at L k" for k
    using external_state [OF assms, of "RequestData _" k]
    by (metis request_at_Some not_None_eq zeroed_simps(6))
  then show "request_at L' = request_at L" by blast
qed

lemma genesis_records: "genesis L \<Longrightarrow> escrow_at L k = None" "genesis L \<Longrightarrow> request_at L k = None"
  unfolding genesis_def by (metis escrow_at_Some not_None_eq zeroed_simps(2))
    (metis request_at_Some not_None_eq zeroed_simps(6))

context token_laws
begin

lemma process_escrows:
  assumes "process rt t i L = Inr (L', evs)"
  shows "settled escrow_at (\<lambda>e. es_status e = Funded) L k + settlements settles_escrow k evs
      = settled escrow_at (\<lambda>e. es_status e = Funded) L' k"
proof (cases i)
  case (CreateEscrow a escrow_id recipient amount expires_at)
  then show ?thesis
    using assms create_escrow_records [of t a escrow_id recipient amount expires_at L L' evs]
    by (auto simp: settled_def created_escrow_def)
next
  case (ReleaseEscrow a)
  then show ?thesis
    using assms release_escrow_records [of t a L L' evs] by (auto simp: settled_def)
next
  case (RefundEscrow a)
  then show ?thesis
    using assms refund_escrow_records [of t a L L' evs] by (auto simp: settled_def)
next
  case (RequestWithdrawal a amount)
  then show ?thesis
    using assms request_withdrawal_records [of t a amount L L' evs] by (auto simp: settled_def)
next
  case (ExecuteWithdrawal a)
  then show ?thesis
    using assms execute_withdrawal_records [of t a L L' evs] by (auto simp: settled_def)
next
  case (CancelWithdrawal a)
  then show ?thesis
    using assms cancel_withdrawal_records [of t a L L' evs] by (auto simp: settled_def)
qed (use assms in \<open>auto simp: dispatch_def quiet_events settled_def dest: untouched_records deposit_records withdraw_records\<close>)

lemma process_requests:
  assumes "process rt t i L = Inr (L', evs)"
  shows "settled request_at (\<lambda>w. wr_status w = Pending) L k + settlements settles_request k evs
      = settled request_at (\<lambda>w. wr_status w = Pending) L' k"
proof (cases i)
  case (CreateEscrow a escrow_id recipient amount expires_at)
  then show ?thesis
    using assms create_escrow_records [of t a escrow_id recipient amount expires_at L L' evs]
    by (auto simp: settled_def)
next
  case (ReleaseEscrow a)
  then show ?thesis
    using assms release_escrow_records [of t a L L' evs] by (auto simp: settled_def)
next
  case (RefundEscrow a)
  then show ?thesis
    using assms refund_escrow_records [of t a L L' evs] by (auto simp: settled_def)
next
  case (RequestWithdrawal a amount)
  then show ?thesis
    using assms request_withdrawal_records [of t a amount L L' evs] by (auto simp: settled_def)
next
  case (ExecuteWithdrawal a)
  then show ?thesis
    using assms execute_withdrawal_records [of t a L L' evs] by (auto simp: settled_def)
next
  case (CancelWithdrawal a)
  then show ?thesis
    using assms cancel_withdrawal_records [of t a L L' evs] by (auto simp: settled_def)
qed (use assms in \<open>auto simp: dispatch_def quiet_events settled_def dest: untouched_records deposit_records withdraw_records\<close>)

end

sublocale token_laws \<subseteq> escrow_log: settlement rt escrow_at "\<lambda>e. es_status e = Funded" settles_escrow
  by unfold_locales (auto simp: genesis_records record_at_same process_escrows)

sublocale token_laws \<subseteq> request_log: settlement rt request_at "\<lambda>w. wr_status w = Pending" settles_request
  by unfold_locales (auto simp: genesis_records record_at_same process_requests)

context token_laws
begin

lemmas escrow_log_counts = escrow_log.log_counts
lemmas request_log_counts = request_log.log_counts

end

section \<open>Solvency\<close>

text \<open>
  A funded escrow is covered: its canonical custody account belongs to it, holds its mint and
  at least its amount.
\<close>

definition covered :: "runtime \<Rightarrow> ledger \<Rightarrow> pubkey \<Rightarrow> escrow \<Rightarrow> bool" where
  "covered rt L k e \<longleftrightarrow>
     (\<exists>ta. token_at L (fst (rt_find_program_address rt (escrow_token_seeds k))) (es_token_program e) ta
        \<and> ta_owner ta = k \<and> ta_mint ta = es_mint e \<and> es_amount e \<le> ta_amount ta)"

definition solvent :: "runtime \<Rightarrow> ledger \<Rightarrow> bool" where
  "solvent rt L \<longleftrightarrow>
     (\<forall>k e. state_at L k (EscrowData e) \<longrightarrow> es_status e = Funded \<longrightarrow> covered rt L k e)"

context token_laws
begin

lemma created_covered:
  assumes "create_escrow rt t a escrow_id recipient amount expires_at L = Inr (L', evs)"
    and "state_at L' (ce_escrow a) (EscrowData e)"
  shows "covered rt L' (ce_escrow a) e"
  using assms(1)
proof (rule create_escrowE)
  fix config m maker_token bump L2
  assume v: "create_escrow_validate rt t a escrow_id L = Inr (config, m, maker_token, bump, L2)"
    and c: "create rt t a config m maker_token bump escrow_id recipient amount expires_at L2
      = Inr (L', evs)"
  note paid = create_pays(1) [OF v c]
  note v = v [unfolded create_escrow_validate_Inr_iff] and c = c [unfolded create_Inr_iff]
  from c obtain L1 where tr: "rt_transfer_checked rt (create_transfer rt t a m amount) L2 = Inr L1"
    and L': "L' = store (ce_escrow a)
        (EscrowData (created_escrow t a bump escrow_id recipient amount expires_at)) L1"
    by blast
  from v obtain ta where
      init: "rt_initialize_token_account rt (ce_token_program a) (ce_mint a) (ce_escrow a) = Inr ta"
    and "token_at L2 (ce_escrow_token a) (ce_token_program a) ta"
    by auto
  then obtain n b where
      n: "token_at L1 (ce_escrow_token a) (ce_token_program a) (ta\<lparr>ta_amount := n, ta_tlv := b\<rparr>)"
    using transfer_token [OF tr] by blast
  from v have "ce_escrow a \<noteq> ce_escrow_token a" by simp
  with n L' have
    at: "token_at L' (ce_escrow_token a) (ce_token_program a) (ta\<lparr>ta_amount := n, ta_tlv := b\<rparr>)"
    by (simp add: store_def)
  from assms(2) L' have e: "e = created_escrow t a bump escrow_id recipient amount expires_at"
    by (simp add: store_def)
  from paid at have "n = amount"
    by (simp add: word_unat_eq_iff)
  with at e v initialize_contents [OF init] show ?thesis
    by (auto simp: covered_def created_escrow_def)
qed

lemma new_escrow:
  assumes "process rt t i L = Inr (L', evs)" "escrow_at L k = None" "escrow_at L' k = Some e"
  shows "\<exists>a escrow_id recipient amount expires_at.
    create_escrow rt t a escrow_id recipient amount expires_at L = Inr (L', evs) \<and> k = ce_escrow a"
proof (cases i)
  case (CreateEscrow a escrow_id recipient amount expires_at)
  with assms(1) have run: "create_escrow rt t a escrow_id recipient amount expires_at L = Inr (L', evs)"
    by simp
  from create_escrow_records(1) [OF run] assms(2,3) have "k = ce_escrow a"
    by (auto simp del: escrow_at_Some split: if_splits)
  with run show ?thesis by blast
next
  case (ReleaseEscrow a)
  then show ?thesis
    using assms release_escrow_records [of t a L L' evs]
    by (auto simp del: escrow_at_Some split: if_splits)
next
  case (RefundEscrow a)
  then show ?thesis
    using assms refund_escrow_records [of t a L L' evs]
    by (auto simp del: escrow_at_Some split: if_splits)
qed (use assms in \<open>auto simp: dispatch_def simp del: escrow_at_Some dest: untouched_records
      deposit_records withdraw_records request_withdrawal_records execute_withdrawal_records
      cancel_withdrawal_records\<close>)

lemma old_or_created:
  assumes "process rt t i L = Inr (L', evs)" "state_at L' k (EscrowData e)" "es_status e = Funded"
  obtains "state_at L k (EscrowData e)"
  | a escrow_id recipient amount expires_at where
      "create_escrow rt t a escrow_id recipient amount expires_at L = Inr (L', evs)" "k = ce_escrow a"
proof (cases "escrow_at L k")
  case (Some e0)
  then have "state_at L k (EscrowData e0)" by simp
  then obtain d where "state_at L' k d" "data_step (EscrowData e0) d"
    using account_step_state [OF process_account_step [OF assms(1)]] by blast
  with assms(2,3) have "e = e0"
    by (auto dest: escrow_life.moves_back)
  with Some that(1) show ?thesis by simp
next
  case None
  moreover have "escrow_at L' k = Some e"
    using assms(2) by simp
  ultimately show ?thesis
    using new_escrow [OF assms(1)] that(2) by blast
qed

lemma process_solvent:
  assumes run: "process rt t i L = Inr (L', evs)" and keys: "keyholders t L" and "solvent rt L"
  shows "solvent rt L'"
  unfolding solvent_def
proof (intro allI impI)
  fix k e
  assume k: "state_at L' k (EscrowData e)" and funded: "es_status e = Funded"
  from run k funded show "covered rt L' k e"
  proof (cases rule: old_or_created)
    case 1
    let ?c = "fst (rt_find_program_address rt (escrow_token_seeds k))"
    from 1 funded assms(3) obtain ta where ta: "token_at L ?c (es_token_program e) ta"
      "ta_owner ta = k" "ta_mint ta = es_mint e" "es_amount e \<le> ta_amount ta"
      by (auto simp: solvent_def covered_def)
    from account_step_token [OF process_account_step [OF run] ta(1)] obtain ta' where
      ta': "token_at L' ?c (es_token_program e) ta'" "ta_mint ta' = ta_mint ta" "ta_owner ta' = ta_owner ta"
      by blast
    have "\<not> debit_allowed rt t L L' ?c k n" for n
      using 1 k funded keys
      by (auto simp: debit_allowed_def escrow_settles_def vault_outflow_def keyholders_def)
    with process_debits [OF run] ta have "\<not> token_balance L' ?c < token_balance L ?c"
      unfolding debits_allowed_def by blast
    with ta ta' have "ta_amount ta \<le> ta_amount ta'"
      by (simp add: word_le_nat_alt)
    with ta ta' show ?thesis
      by (auto simp: covered_def)
  next
    case (2 a escrow_id recipient amount expires_at)
    with k created_covered show ?thesis by blast
  qed
qed

lemma reachable_solvent: "reachable rt L log \<Longrightarrow> solvent rt L"
proof (induction rule: reachable.induct)
  case (start L)
  then show ?case
    unfolding solvent_def genesis_def by (metis zeroed_simps(2))
next
  case (instruction L log t i L' evs)
  then show ?case using process_solvent by blast
next
  case (external L log L')
  show ?case
    unfolding solvent_def
  proof (intro allI impI)
    fix k e
    assume "state_at L' k (EscrowData e)" and funded: "es_status e = Funded"
    then have k: "state_at L k (EscrowData e)"
      using external_state [OF external.hyps(2), of "EscrowData e" k] by simp
    let ?c = "fst (rt_find_program_address rt (escrow_token_seeds k))"
    from k funded external.IH obtain ta where ta: "token_at L ?c (es_token_program e) ta"
      "ta_owner ta = k" "ta_mint ta = es_mint e" "es_amount e \<le> ta_amount ta"
      by (auto simp: solvent_def covered_def)
    have "state_at L (ta_owner ta) (EscrowData e)" "\<not> zeroed (EscrowData e)"
      using k ta by simp_all
    then obtain ta' where "token_at L' ?c (es_token_program e) ta'" "ta_mint ta' = ta_mint ta"
        "ta_owner ta' = ta_owner ta" "ta_amount ta \<le> ta_amount ta'"
      using external.hyps(2) ta(1) unfolding external_def by blast
    with ta show "covered rt L' k e"
      unfolding covered_def by (intro exI [of _ ta']) auto
  qed
qed

end

end
