(* ===== verification/Guarantees.thy ===== *)
theory Guarantees
  imports System
begin

text \<open>
  What holds in every history of the program: the guarantees that span its components.
\<close>

section \<open>A sample history\<close>

text \<open>
  From a ledger with a mint and two token accounts: the protocol is configured, wallet 1
  opens escrow 7 over 50 units that expires at time 1000, and later releases it.
\<close>

definition genesis_ledger :: ledger where
  "genesis_ledger =
     [20 \<mapsto> \<lparr>acc_program = 1001, acc_data = MintData \<lparr>mi_decimals = 6, mi_tlv = []\<rparr>\<rparr>,
      21 \<mapsto> sample_tokens 1 1000,
      22 \<mapsto> sample_tokens 2 5]"

definition configured_ledger :: ledger where
  "configured_ledger = genesis_ledger(10 \<mapsto> sample_state (ConfigData sample_config))"

definition funded_ledger :: ledger where
  "funded_ledger = configured_ledger
     (21 \<mapsto> sample_tokens 1 950, 12 \<mapsto> sample_tokens 11 50, 11 \<mapsto> sample_state (EscrowData sample_escrow))"

definition released_ledger :: ledger where
  "released_ledger = funded_ledger
     (12 \<mapsto> sample_tokens 11 0, 22 \<mapsto> sample_tokens 2 55,
      11 \<mapsto> sample_state (EscrowData (sample_escrow\<lparr>es_status := Released\<rparr>)))"

definition sample_open :: create_escrow_accounts where
  "sample_open =
     \<lparr>ce_maker = 1, ce_protocol_config = 10, ce_mint = 20, ce_maker_token = 21, ce_escrow = 11,
      ce_escrow_token = 12, ce_token_program = 1001, ce_system_program = 0\<rparr>"

lemmas history_defs = genesis_ledger_def configured_ledger_def funded_ledger_def released_ledger_def

lemma genesis_sample: "genesis genesis_ledger"
  by (auto simp: genesis_def genesis_ledger_def sample_tokens_def ID_def split: if_splits)

lemma run_configure:
  "process sample_runtime (sample_tx {9} 0 [])
     (InitializeProtocol \<lparr>ip_initializer = 9, ip_protocol_config = 10, ip_system_program = 0\<rparr> 6 7)
     genesis_ledger
   = Inr (configured_ledger, [ProtocolInitialized 1 10 6 7])"
  by (simp add: initialize_protocol_def initialize_protocol_validate_def initialize_protocol_account_def
      history_defs run_defs INITIAL_SCHEMA_VERSION_def)

lemma run_open:
  "process sample_runtime (sample_tx {1} 10 []) (CreateEscrow sample_open 7 2 50 1000) configured_ledger
   = Inr (funded_ledger, [EscrowCreated 1 11 12 1 2 20 50 10 1000 7])"
  by (simp add: create_escrow_def create_escrow_validate_def create_def sample_open_def history_defs
      run_defs INITIAL_SCHEMA_VERSION_def fun_upd_twist)

lemma run_release:
  "process sample_runtime (sample_tx {1} 500 []) (ReleaseEscrow sample_release) funded_ledger
   = Inr (released_ledger, [EscrowReleased 1 11 12 1 2 22 20 50])"
  by (simp add: release_escrow_def release_escrow_validate_def release_def sample_release_def history_defs
      run_defs INITIAL_SCHEMA_VERSION_def fun_upd_twist)

lemma sample_keyholders:
  "keyholders (sample_tx {9} 0 []) genesis_ledger"
  "keyholders (sample_tx {1} 10 []) configured_ledger"
  "keyholders (sample_tx {1} 500 []) funded_ledger"
  by (simp_all add: keyholders_def sample_tx_def history_defs sample_tokens_def)

lemma reachable_funded:
  "reachable sample_runtime funded_ledger
     [ProtocolInitialized 1 10 6 7, EscrowCreated 1 11 12 1 2 20 50 10 1000 7]"
proof -
  have "reachable sample_runtime configured_ledger ([] @ [ProtocolInitialized 1 10 6 7])"
    by (rule reachable.instruction [OF reachable.start [OF genesis_sample] sample_keyholders(1) run_configure])
  from reachable.instruction [OF this sample_keyholders(2) run_open] show ?thesis
    by simp
qed

lemma reachable_released:
  "reachable sample_runtime released_ledger
     [ProtocolInitialized 1 10 6 7, EscrowCreated 1 11 12 1 2 20 50 10 1000 7,
      EscrowReleased 1 11 12 1 2 22 20 50]"
  using reachable.instruction [OF reachable_funded sample_keyholders(3) run_release] by simp

text \<open>
  A vault from the configured ledger: wallet 3 creates it, registers the mint, sets limits with a
  timelock above 40 units; wallet 1 deposits 400; wallet 3 requests 80 for wallet 2, and
  wallet 9 executes the request after the timelock.
\<close>

definition history_vault :: vault where
  "history_vault =
     \<lparr>va_namespace_authority = 3, va_authority = 3, va_guardian = 4, va_vault_id = 0,
      va_next_withdrawal_id = 0, va_paused = False, va_bump = 255, va_reserved = replicate 46 0\<rparr>"

definition history_asset :: vault_asset where
  "history_asset =
     \<lparr>as_vault = 13, as_mint = 20, as_token_program = 1001, as_max_per_transaction = u64_MAX,
      as_window_limit = u64_MAX, as_window_seconds = 0, as_window_started_at = 5,
      as_window_spent = 0, as_timelock_threshold = u64_MAX, as_timelock_seconds = 0,
      as_request_execution_window_seconds = 0, as_enabled = True, as_bump = 255,
      as_reserved = replicate 30 0\<rparr>"

definition history_policy :: policy where
  "history_policy =
     \<lparr>po_max_per_transaction = 100, po_window_limit = 150, po_window_seconds = 3600,
      po_timelock_threshold = 40, po_timelock_seconds = 60, po_request_execution_window_seconds = 600\<rparr>"

definition history_request :: withdrawal_request where
  "history_request =
     \<lparr>wr_vault = 13, wr_vault_asset = 14, wr_mint = 20, wr_token_program = 1001, wr_proposer = 3,
      wr_recipient_owner = 2, wr_recipient_token_account = 22, wr_withdrawal_id = 0,
      wr_amount = 80, wr_created_at = 40, wr_execute_after = 100, wr_expires_at = 700,
      wr_status = Pending, wr_bump = 255, wr_reserved = replicate 30 0\<rparr>"

definition vault_ledger :: ledger where
  "vault_ledger = configured_ledger(13 \<mapsto> sample_state (VaultData history_vault))"

definition asset_ledger :: ledger where
  "asset_ledger = vault_ledger
     (15 \<mapsto> sample_tokens 13 0, 14 \<mapsto> sample_state (AssetData history_asset))"

definition limited_ledger :: ledger where
  "limited_ledger = asset_ledger
     (14 \<mapsto> sample_state (AssetData (update_asset history_asset history_policy 6 0)))"

definition deposited_ledger :: ledger where
  "deposited_ledger = limited_ledger(15 \<mapsto> sample_tokens 13 400, 21 \<mapsto> sample_tokens 1 600)"

definition requested_ledger :: ledger where
  "requested_ledger = deposited_ledger
     (13 \<mapsto> sample_state (VaultData (history_vault\<lparr>va_next_withdrawal_id := 1\<rparr>)),
      17 \<mapsto> sample_state (RequestData history_request))"

definition executed_ledger :: ledger where
  "executed_ledger = requested_ledger
     (15 \<mapsto> sample_tokens 13 320, 22 \<mapsto> sample_tokens 2 85,
      14 \<mapsto> sample_state (AssetData (charge (update_asset history_asset history_policy 6 0) 6 80)),
      17 \<mapsto> sample_state (RequestData (history_request\<lparr>wr_status := Executed\<rparr>)))"

lemmas vault_history_defs = vault_ledger_def asset_ledger_def limited_ledger_def deposited_ledger_def
  requested_ledger_def executed_ledger_def history_vault_def history_asset_def history_policy_def
  history_request_def

lemma run_create_vault:
  "process sample_runtime (sample_tx {3} 4 [])
     (CreateVault \<lparr>cv_authority = 3, cv_protocol_config = 10, cv_vault = 13, cv_system_program = 0\<rparr> 0 4)
     configured_ledger
   = Inr (vault_ledger, [VaultCreated 1 13 3 3 4 0])"
  by (simp add: create_vault_def create_vault_validate_def create_vault_account_def history_defs
      vault_history_defs run_defs INITIAL_SCHEMA_VERSION_def)

lemma run_register:
  "process sample_runtime (sample_tx {3} 5 [])
     (RegisterAsset \<lparr>rg_authority = 3, rg_protocol_config = 10, rg_vault = 13, rg_mint = 20, rg_vault_asset = 14,
        rg_vault_token = 15, rg_token_program = 1001, rg_system_program = 0\<rparr>)
     vault_ledger
   = Inr (asset_ledger, [VaultAssetRegistered 1 13 14 15 20 1001])"
  by (simp add: register_asset_def register_asset_validate_def register_vault_asset_def vault_address_def
      history_defs vault_history_defs run_defs INITIAL_SCHEMA_VERSION_def fun_upd_twist)

lemma run_limits:
  "process sample_runtime (sample_tx {3} 6 []) (UpdateLimits sample_ul history_policy) asset_ledger
   = Inr (limited_ledger, [VaultLimitsUpdated 1 13 14 20 3 100 150 3600 40 60 600 6 0])"
  by (simp add: update_limits_def update_limits_validate_def update_handler_def valid_policy_def
      update_limits_authorize_def updated_window_def vault_address_def asset_address_def sample_ul_def
      update_asset_def history_defs vault_history_defs run_defs INITIAL_SCHEMA_VERSION_def fun_upd_twist)

lemma run_deposit:
  "process sample_runtime (sample_tx {1} 7 []) (Deposit sample_deposit 400) limited_ledger
   = Inr (deposited_ledger, [VaultDeposit 1 13 14 15 1 21 20 400])"
  by (simp add: deposit_def deposit_validate_def deposit_tokens_def vault_address_def asset_address_def
      sample_deposit_def update_asset_def history_defs vault_history_defs run_defs INITIAL_SCHEMA_VERSION_def
      fun_upd_twist)

lemma run_request:
  "process sample_runtime (sample_tx {3} 40 [])
     (RequestWithdrawal (sample_rq\<lparr>rq_proposer := 3, rq_withdrawal_request := 17\<rparr>) 80) deposited_ledger
   = Inr (requested_ledger, [WithdrawalRequested 1 13 14 17 3 2 22 20 0 80 40 100 700])"
  by (simp add: request_withdrawal_def request_withdrawal_validate_def request_def request_authorize_def
      vault_address_def asset_address_def sample_rq_def update_asset_def history_defs vault_history_defs
      run_defs INITIAL_SCHEMA_VERSION_def fun_upd_twist)

lemma run_execute:
  "process sample_runtime (sample_tx {9} 100 []) (ExecuteWithdrawal sample_execute) requested_ledger
   = Inr (executed_ledger, [WithdrawalExecuted 1 13 14 17 9 22 20 0 80])"
  by (simp add: execute_withdrawal_def execute_withdrawal_validate_def execute_def next_window_state_def
      vault_address_def asset_address_def sample_execute_def update_asset_def charge_def history_defs
      vault_history_defs run_defs INITIAL_SCHEMA_VERSION_def fun_upd_twist)

lemma vault_keyholders:
  "keyholders (sample_tx {3} 4 []) configured_ledger" "keyholders (sample_tx {3} 5 []) vault_ledger"
  "keyholders (sample_tx {3} 6 []) asset_ledger" "keyholders (sample_tx {1} 7 []) limited_ledger"
  "keyholders (sample_tx {3} 40 []) deposited_ledger" "keyholders (sample_tx {9} 100 []) requested_ledger"
  by (simp_all add: keyholders_def sample_tx_def history_defs vault_history_defs sample_tokens_def)

definition requested_log :: "event list" where
  "requested_log =
     [ProtocolInitialized 1 10 6 7, VaultCreated 1 13 3 3 4 0, VaultAssetRegistered 1 13 14 15 20 1001,
      VaultLimitsUpdated 1 13 14 20 3 100 150 3600 40 60 600 6 0, VaultDeposit 1 13 14 15 1 21 20 400,
      WithdrawalRequested 1 13 14 17 3 2 22 20 0 80 40 100 700]"

lemma reachable_requested: "reachable sample_runtime requested_ledger requested_log"
proof -
  note step = reachable.instruction
  have "reachable sample_runtime configured_ledger ([] @ [ProtocolInitialized 1 10 6 7])"
    by (rule step [OF reachable.start [OF genesis_sample] sample_keyholders(1) run_configure])
  note step [OF this vault_keyholders(1) run_create_vault]
  note step [OF this vault_keyholders(2) run_register]
  note step [OF this vault_keyholders(3) run_limits]
  note step [OF this vault_keyholders(4) run_deposit]
  note step [OF this vault_keyholders(5) run_request]
  then show ?thesis
    by (simp add: requested_log_def)
qed

lemma reachable_executed:
  "reachable sample_runtime executed_ledger (requested_log @ [WithdrawalExecuted 1 13 14 17 9 22 20 0 80])"
  by (rule reachable.instruction [OF reachable_requested vault_keyholders(6) run_execute])

section \<open>Records\<close>

text \<open>
  C16. In every reachable state every record of the program is well-formed: it sits at the
  canonical address of its own fields with the canonical bump, so that there is one protocol
  configuration, one vault per namespace and id, one asset per vault and mint, one role per
  vault and holder and one request per vault and id; pause flags and permissions have no
  unknown bits, a revoked role carries no permission, an asset has either no policy or a
  consistent one, and amounts and times are ordered as the instructions check them.
\<close>

theorem reachable_records_wf:
  assumes "token_laws rt" "reachable rt L log" "state_at L k d"
  shows "data_ok rt k d"
  using reachable_wf [OF assms(1,2)] assms(3) by (rule wfD)

theorem reachable_records_wf_witness: "data_ok sample_runtime 11 (EscrowData sample_escrow)"
  by (rule reachable_records_wf [OF sample_token_laws reachable_funded])
    (simp add: funded_ledger_def sample_state_def)

section \<open>Escrows\<close>

text \<open>
  C1. Every funded escrow is covered, in every reachable state: its canonical custody account
  is owned by the escrow, is of the recorded mint and token program, and holds at least the
  recorded amount, whatever instructions and foreign transactions came before.
\<close>

theorem escrows_solvent:
  assumes "token_laws rt" "reachable rt L log"
    and "state_at L k (EscrowData e)" "es_status e = Funded"
  shows "\<exists>ta. token_at L (fst (rt_find_program_address rt (escrow_token_seeds k))) (es_token_program e) ta
    \<and> ta_owner ta = k \<and> ta_mint ta = es_mint e \<and> es_amount e \<le> ta_amount ta"
  using token_laws.reachable_solvent [OF assms(1,2)] assms(3,4) by (auto simp: solvent_def covered_def)

theorem escrows_solvent_witness:
  "\<exists>ta. token_at funded_ledger 12 1001 ta \<and> ta_owner ta = 11 \<and> 50 \<le> ta_amount ta"
  using escrows_solvent [OF sample_token_laws reachable_funded, of 11 sample_escrow]
  by (auto simp: funded_ledger_def sample_defs)

text \<open>
  C4. An escrow pays out at most once: over any history there is at most one event that
  reports its release or refund, and there is one exactly when the escrow is no longer
  funded.
\<close>

theorem escrow_settles_once:
  assumes "token_laws rt" "reachable rt L log"
  shows "settlements settles_escrow k log \<le> 1
    \<and> (settlements settles_escrow k log = 1 \<longleftrightarrow>
        (\<exists>e. state_at L k (EscrowData e) \<and> es_status e \<noteq> Funded))"
  using token_laws.escrow_log_counts [OF assms, of k] escrow_at_Some [of L k]
  by (cases "escrow_at L k") (auto simp: settled_def)

theorem escrow_settles_once_witness:
  "settlements settles_escrow 11
     [ProtocolInitialized 1 10 6 7, EscrowCreated 1 11 12 1 2 20 50 10 1000 7,
      EscrowReleased 1 11 12 1 2 22 20 50] = 1"
  using escrow_settles_once [OF sample_token_laws reachable_released, of 11]
  by (simp add: released_ledger_def sample_defs)

text \<open>
  Release and refund exclude each other: any successful release of an escrow happens
  strictly before any time at which a refund of it can succeed.
\<close>

theorem release_before_refund:
  assumes "release_escrow rt t a L = Inr (L1, evs)" "refund_escrow rt t' a' L = Inr (L2, evs')"
    and "rf_escrow a' = re_escrow a"
  shows "sint (tx_now t) < sint (tx_now t')"
proof -
  from assms(1) obtain e where e: "state_at L (re_escrow a) (EscrowData e)"
      "sint (tx_now t) < sint (es_expires_at e)"
    by (elim release_escrowE) (simp add: release_escrow_validate_Inr_iff release_Inr_iff)
  from assms(2) obtain e' where e': "state_at L (rf_escrow a') (EscrowData e')"
      "sint (es_expires_at e') \<le> sint (tx_now t')"
    by (elim refund_escrowE) (simp add: refund_escrow_validate_Inr_iff refund_Inr_iff)
  from e e' assms(3) show ?thesis by simp
qed

theorem release_before_refund_witness:
  "sint (tx_now (sample_tx {1} 500 [])) < sint (tx_now (sample_tx {9} 1000 []))"
proof -
  obtain L1 evs where rel:
    "release_escrow sample_runtime (sample_tx {1} 500 []) sample_release sample_ledger = Inr (L1, evs)"
    using sample_release_runs by blast
  obtain L2 evs' where ref:
    "refund_escrow sample_runtime (sample_tx {9} 1000 []) sample_refund sample_ledger = Inr (L2, evs')"
    using sample_refund_runs by blast
  show ?thesis
    by (rule release_before_refund [OF rel ref]) (simp add: sample_release_def sample_refund_def)
qed

section \<open>Vaults\<close>

lemma config_unique:
  assumes "wf rt L" "state_at L k (ConfigData c)" "state_at L k' (ConfigData c')"
  shows "k' = k" "c' = c"
proof -
  from wfD [OF assms(1,2)] wfD [OF assms(1,3)] show "k' = k"
    by simp
  with assms show "c' = c" by simp
qed

text \<open>
  C15. A pause holds: while the vault is paused or the protocol's outflow flag is set, no
  instruction lowers the balance of any token account the vault owns, whoever signs.
\<close>

theorem pause_protects_vault:
  assumes "token_laws rt" "wf rt L" "keyholders t L" "process rt t i L = Inr (L', evs)"
    and vault: "state_at L vk (VaultData v)" and config: "state_at L ck (ConfigData c)"
    and paused: "va_paused v \<or> is_paused c PAUSE_VAULT_OUTFLOW"
    and token: "token_at L k p ta" "ta_owner ta = vk"
  shows "token_balance L k \<le> token_balance L' k"
proof (rule ccontr)
  assume "\<not> token_balance L k \<le> token_balance L' k"
  then have "debit_allowed rt t L L' k vk (token_balance L k - token_balance L' k)"
    using token_laws.process_debits [OF assms(1,4)] token unfolding debits_allowed_def by auto
  moreover have "vk \<notin> tx_signers t"
    using assms(3) vault unfolding keyholders_def by (metis zeroed_simps(3))
  moreover have "\<not> vault_outflow rt t L L' k vk n" for n
    using vault paused config_unique [OF assms(2) config] by (auto simp: vault_outflow_def)
  ultimately show False
    using vault by (auto simp: debit_allowed_def escrow_settles_def)
qed

theorem pause_protects_vault_witness:
  "\<exists>L' evs. process sample_runtime (sample_tx {1} 500 []) (Deposit sample_deposit 400)
        (sample_ledger(13 \<mapsto> sample_state (VaultData (sample_vault\<lparr>va_paused := True\<rparr>)))) = Inr (L', evs)
     \<and> 500 \<le> token_balance L' 15"
proof -
  let ?L = "sample_ledger(13 \<mapsto> sample_state (VaultData (sample_vault\<lparr>va_paused := True\<rparr>)))"
  have "\<exists>L' evs. process sample_runtime (sample_tx {1} 500 []) (Deposit sample_deposit 400) ?L = Inr (L', evs)"
    by (simp add: deposit_def deposit_validate_def deposit_tokens_def vault_address_def
        asset_address_def sample_deposit_def run_defs)
  then obtain L' evs where run:
    "process sample_runtime (sample_tx {1} 500 []) (Deposit sample_deposit 400) ?L = Inr (L', evs)"
    by blast
  have "wf sample_runtime ?L"
    using wf_store [OF sample_wf, of 13 "VaultData (sample_vault\<lparr>va_paused := True\<rparr>)"]
    by (simp add: store_def sample_defs default_pubkey_def)
  moreover have "keyholders (sample_tx {1} 500 []) ?L"
    by (simp add: keyholders_def sample_defs)
  ultimately have "token_balance ?L 15 \<le> token_balance L' 15"
    by (rule pause_protects_vault [OF sample_token_laws _ _ run,
          of 13 "sample_vault\<lparr>va_paused := True\<rparr>" 10 sample_config 15 1001
            "\<lparr>ta_mint = 20, ta_owner = 13, ta_amount = 500, ta_frozen = False, ta_tlv = []\<rparr>"])
      (simp_all add: sample_defs)
  with run show ?thesis
    by (auto simp: token_balance_def sample_defs)
qed

text \<open>
  The instructions that act on an existing vault in somebody's name, with the vault and the actor; deposits
  and executions of requests are open to everybody. An actor who is not the vault authority may have a right
  of his own (the guardian pauses, guardian and proposer cancel), or the permission of a live role.
\<close>

fun acts_on :: "instruction \<Rightarrow> (pubkey \<times> pubkey) option" where
  "acts_on (SetVaultAuthority a _) = Some (sa_vault a, sa_current_authority a)"
| "acts_on (PauseVault a) = Some (pv_vault a, pv_caller a)"
| "acts_on (UnpauseVault a) = Some (uv_vault a, uv_authority a)"
| "acts_on (RegisterAsset a) = Some (rg_vault a, rg_authority a)"
| "acts_on (GrantRole a _ _) = Some (gr_vault a, gr_authority a)"
| "acts_on (RevokeRole a _) = Some (rv_vault a, rv_authority a)"
| "acts_on (UpdateLimits a _) = Some (ul_vault a, ul_caller a)"
| "acts_on (Withdraw a _) = Some (wi_vault a, wi_caller a)"
| "acts_on (RequestWithdrawal a _) = Some (rq_vault a, rq_proposer a)"
| "acts_on (CancelWithdrawal a) = Some (ca_vault a, ca_caller a)"
| "acts_on _ = None"

fun own_right :: "ledger \<Rightarrow> vault \<Rightarrow> instruction \<Rightarrow> bool" where
  "own_right L v (PauseVault a) \<longleftrightarrow> pv_caller a = va_guardian v"
| "own_right L v (CancelWithdrawal a) \<longleftrightarrow>
     ca_caller a = va_guardian v
     \<or> (\<exists>w. state_at L (ca_withdrawal_request a) (RequestData w) \<and> wr_proposer w = ca_caller a)"
| "own_right L v _ \<longleftrightarrow> False"

fun role_needed :: "instruction \<Rightarrow> u64 option" where
  "role_needed (Withdraw _ _) = Some PERMISSION_WITHDRAW"
| "role_needed (RequestWithdrawal _ _) = Some PERMISSION_REQUEST_WITHDRAWAL"
| "role_needed (CancelWithdrawal _) = Some PERMISSION_CANCEL_WITHDRAWAL"
| "role_needed (UpdateLimits _ _) = Some PERMISSION_MANAGE_LIMITS"
| "role_needed _ = None"

definition entitled :: "runtime \<Rightarrow> ledger \<Rightarrow> vault \<Rightarrow> pubkey \<Rightarrow> pubkey \<Rightarrow> instruction \<Rightarrow> bool" where
  "entitled rt L v vault actor i \<longleftrightarrow>
     va_authority v = actor \<or> own_right L v i
     \<or> (\<exists>p. role_needed i = Some p \<and> holds_permission rt L vault actor p)"

lemma withdraw_entitled:
  assumes "withdraw rt t a amount L = Inr r" "state_at L (wi_vault a) (VaultData v)"
  shows "entitled rt L v (wi_vault a) (wi_caller a) (Withdraw a amount)"
  using assms
  by (cases r) (auto elim!: withdrawE simp: entitled_def withdraw_validate_Inr_iff withdraw_tokens_Inr_iff
      withdraw_authorize_def success_iff simp del: permission_values split: if_splits)

lemma request_entitled:
  assumes "request_withdrawal rt t a amount L = Inr r" "state_at L (rq_vault a) (VaultData v)"
  shows "entitled rt L v (rq_vault a) (rq_proposer a) (RequestWithdrawal a amount)"
proof -
  from assms(1) obtain config v' asset recipient bump L0 where
      val: "request_withdrawal_validate rt t a L = Inr (config, v', asset, recipient, bump, L0)"
    and req: "request rt t a config v' asset recipient bump amount L0 = Inr r"
    by (auto simp: request_withdrawal_def success_iff)
  from val assms(2) have "v' = v" and L0: "L0 = L(rq_withdrawal_request a \<mapsto>
       \<lparr>acc_program = ID, acc_data = OtherData (replicate WITHDRAWAL_REQUEST_SPACE 0)\<rparr>)"
    by (auto simp: request_withdrawal_validate_Inr_iff)
  with req have "rq_proposer a = va_authority v
      \<or> holds_permission rt L0 (rq_vault a) (rq_proposer a) PERMISSION_REQUEST_WITHDRAWAL"
    by (cases r) (auto simp: request_Inr_iff request_authorize_def success_iff
        simp del: permission_values split: if_splits)
  moreover have "holds_permission rt L vault k p" if "holds_permission rt L0 vault k p" for vault k p
    using that L0 by (auto simp: holds_permission_iff split: if_splits)
  ultimately show ?thesis
    by (auto simp: entitled_def)
qed

text \<open>The gate of every instruction that acts on a vault.\<close>

lemma process_entitled:
  assumes "process rt t i L = Inr r" "acts_on i = Some (vault, actor)" "state_at L vault (VaultData v)"
  shows "entitled rt L v vault actor i"
proof (cases i)
  case (Withdraw a amount)
  with assms show ?thesis by (auto intro: withdraw_entitled)
next
  case (RequestWithdrawal a amount)
  with assms show ?thesis by (auto intro: request_entitled)
next
  case (UpdateLimits a q)
  with assms show ?thesis
    by (cases r) (auto simp: entitled_def update_limits_Inr_iff update_limits_authorize_def success_iff
        simp del: permission_values split: if_splits)
next
  case (CancelWithdrawal a)
  with assms show ?thesis
    by (cases r) (auto simp: entitled_def cancel_withdrawal_Inr_iff cancel_authorize_def success_iff
        simp del: permission_values split: if_splits)
qed (use assms in \<open>cases r; auto simp: entitled_def set_vault_authority_Inr_iff pause_vault_Inr_iff
      unpause_vault_Inr_iff register_asset_Inr_iff grant_role_Inr_iff revoke_role_Inr_iff\<close>)+

text \<open>
  C22. Revocation takes effect at once. After the vault authority revoked a role, its holder passes no
  permission check of the vault, and no instruction that acts on the vault in the holder's name succeeds:
  withdrawing, requesting, cancelling, updating limits, registering assets, granting, revoking, pausing, unpausing
  and handing over all fail. The exceptions are rights that do not come from the role: a holder
  who is the vault authority keeps the authority, and own_right leaves the guardian's pause, the
  guardian's cancellation and the cancellation of a request that the holder himself proposed.
\<close>

theorem revoked_holder_is_powerless:
  assumes "wf rt L" "revoke_role rt t a holder L = Inr (L', evs)"
  shows "(\<forall>p. \<not> holds_permission rt L' (rv_vault a) holder p)
    \<and> (\<forall>v t' i r. state_at L' (rv_vault a) (VaultData v) \<and> va_authority v \<noteq> holder
         \<and> acts_on i = Some (rv_vault a, holder) \<and> \<not> own_right L' v i
         \<longrightarrow> process rt t' i L' \<noteq> Inr r)"
proof -
  from assms(2) obtain role where role: "state_at L (rv_role_assignment a) (RoleData role)"
      "ra_vault role = rv_vault a" "ra_principal role = holder"
    and L': "L' = store (rv_role_assignment a) (RoleData (role\<lparr>ra_permissions := 0, ra_active := False\<rparr>)) L"
    by (auto simp: revoke_role_Inr_iff)
  from wfD [OF assms(1) role(1)] role have
    "fst (rt_find_program_address rt (role_seeds (rv_vault a) holder)) = rv_role_assignment a"
    by simp
  then have none: "\<not> holds_permission rt L' (rv_vault a) holder p" for p
    using L' by (simp add: holds_permission_store role_has_def)
  then show ?thesis
    using process_entitled [of rt _ _ L' _ "rv_vault a" holder] unfolding entitled_def by metis
qed

definition sample_revoke :: revoke_role_accounts where
  "sample_revoke =
     \<lparr>rv_authority = 3, rv_protocol_config = 10, rv_vault = 13, rv_role_assignment = 16\<rparr>"

theorem revoked_holder_is_powerless_witness:
  "\<exists>L' evs. revoke_role sample_runtime (sample_tx {3} 0 []) sample_revoke 5 sample_ledger = Inr (L', evs)
     \<and> \<not> holds_permission sample_runtime L' 13 5 PERMISSION_WITHDRAW
     \<and> (\<forall>r. process sample_runtime (sample_tx {5} 0 [16]) (Withdraw sample_withdraw 10) L' \<noteq> Inr r)"
proof -
  obtain L' evs where run:
    "revoke_role sample_runtime (sample_tx {3} 0 []) sample_revoke 5 sample_ledger = Inr (L', evs)"
    and vault: "state_at L' 13 (VaultData sample_vault)"
    by (simp add: revoke_role_def revoke_role_validate_def revoke_def vault_address_def sample_revoke_def
        run_defs)
  note powerless = revoked_holder_is_powerless [OF sample_wf run]
  from powerless have "\<not> holds_permission sample_runtime L' 13 5 PERMISSION_WITHDRAW"
    by (simp add: sample_revoke_def)
  moreover from powerless vault have
    fails: "\<And>t' i r. acts_on i = Some (13, 5) \<Longrightarrow> \<not> own_right L' sample_vault i
      \<Longrightarrow> process sample_runtime t' i L' \<noteq> Inr r"
    by (auto simp: sample_revoke_def sample_vault_def)
  have "process sample_runtime (sample_tx {5} 0 [16]) (Withdraw sample_withdraw 10) L' \<noteq> Inr r" for r
    by (rule fails) (simp_all add: sample_withdraw_def)
  ultimately show ?thesis using run by blast
qed

text \<open>
  C24. Handing a vault over is complete: the current authority signed, the new one is neither unset nor
  the guardian, and the vault keeps its address, its guardian and its records. From then on nobody but
  the new authority has the authority's rights, neither the previous authority nor the one the vault's
  address is named after: every instruction that acts on the vault in another name (handing over, pausing,
  unpausing, registering assets, granting, revoking, updating limits, withdrawing, requesting, cancelling)
  fails unless its actor has a right of his own (guardian, or proposer of the request that is cancelled)
  or a role that carried the needed permission before the handover.
\<close>

theorem handover_is_complete:
  assumes "set_vault_authority rt t a new_authority L = Inr (L', evs)"
  shows "\<exists>v. state_at L (sa_vault a) (VaultData v) \<and> va_authority v \<in> tx_signers t
    \<and> new_authority \<noteq> va_authority v \<and> new_authority \<noteq> va_guardian v \<and> new_authority \<noteq> default_pubkey
    \<and> L' = L(sa_vault a \<mapsto> \<lparr>acc_program = ID, acc_data = VaultData (v\<lparr>va_authority := new_authority\<rparr>)\<rparr>)
    \<and> (\<forall>t' i actor r. acts_on i = Some (sa_vault a, actor) \<and> actor \<noteq> new_authority
         \<and> \<not> own_right L' v i
         \<and> (\<forall>p. role_needed i = Some p \<longrightarrow> \<not> holds_permission rt L (sa_vault a) actor p)
         \<longrightarrow> process rt t' i L' \<noteq> Inr r)"
proof -
  from assms obtain v where v: "state_at L (sa_vault a) (VaultData v)" "va_authority v \<in> tx_signers t"
      "new_authority \<noteq> va_authority v" "new_authority \<noteq> va_guardian v" "new_authority \<noteq> default_pubkey"
    and L': "L' = store (sa_vault a) (VaultData (v\<lparr>va_authority := new_authority\<rparr>)) L"
    by (auto simp: set_vault_authority_Inr_iff)
  have roles: "holds_permission rt L vault actor p" if "holds_permission rt L' vault actor p" for vault actor p
    using that L' by (auto simp: holds_permission_iff store_def split: if_splits)
  have own: "own_right L' (v\<lparr>va_authority := new_authority\<rparr>) i \<longleftrightarrow> own_right L' v i" for i
    by (cases i) simp_all
  have "process rt t' i L' \<noteq> Inr r"
    if "acts_on i = Some (sa_vault a, actor)" "actor \<noteq> new_authority" "\<not> own_right L' v i"
      "\<forall>p. role_needed i = Some p \<longrightarrow> \<not> holds_permission rt L (sa_vault a) actor p" for t' i actor r
    using process_entitled [of rt t' i L' r "sa_vault a" actor "v\<lparr>va_authority := new_authority\<rparr>"]
      that roles own L' by (auto simp: entitled_def store_def)
  then show ?thesis
    using v L' by (intro exI [of _ v]) (simp add: store_def)
qed

definition sample_handover :: set_vault_authority_accounts where
  "sample_handover = \<lparr>sa_current_authority = 3, sa_protocol_config = 10, sa_vault = 13\<rparr>"

theorem handover_is_complete_witness:
  "\<exists>L' evs. set_vault_authority sample_runtime (sample_tx {3} 0 []) sample_handover 8 sample_ledger
       = Inr (L', evs)
     \<and> state_at L' 13 (VaultData (sample_vault\<lparr>va_authority := 8\<rparr>))
     \<and> (\<forall>r. process sample_runtime (sample_tx {3} 0 []) (GrantRole sample_grant 5 6) L' \<noteq> Inr r)"
proof -
  have "\<exists>L' evs. set_vault_authority sample_runtime (sample_tx {3} 0 []) sample_handover 8 sample_ledger
      = Inr (L', evs)"
    by (simp add: set_vault_authority_def set_vault_authority_validate_def set_authority_def
        vault_address_def sample_handover_def run_defs)
  then obtain L' evs where run:
    "set_vault_authority sample_runtime (sample_tx {3} 0 []) sample_handover 8 sample_ledger = Inr (L', evs)"
    by blast
  from handover_is_complete [OF this] obtain v where
      at: "state_at sample_ledger 13 (VaultData v)" "state_at L' 13 (VaultData (v\<lparr>va_authority := 8\<rparr>))"
    and fails: "\<And>t' i actor r. acts_on i = Some (13, actor) \<Longrightarrow> actor \<noteq> 8 \<Longrightarrow> \<not> own_right L' v i
      \<Longrightarrow> role_needed i = None \<Longrightarrow> process sample_runtime t' i L' \<noteq> Inr r"
    by (auto simp: sample_handover_def)
  from at have "state_at L' 13 (VaultData (sample_vault\<lparr>va_authority := 8\<rparr>))"
    by (simp add: sample_ledger_def sample_state_def)
  moreover have "process sample_runtime (sample_tx {3} 0 []) (GrantRole sample_grant 5 6) L' \<noteq> Inr r" for r
    by (rule fails [of _ 3]) (simp_all add: sample_grant_def)
  ultimately show ?thesis using run by blast
qed

text \<open>
  C7. A withdrawal request is executed or cancelled at most once: over any history at most one
  event reports either, and there is one exactly when the request is no longer pending.
\<close>

theorem request_settles_once:
  assumes "token_laws rt" "reachable rt L log"
  shows "settlements settles_request k log \<le> 1
    \<and> (settlements settles_request k log = 1 \<longleftrightarrow>
        (\<exists>w. state_at L k (RequestData w) \<and> wr_status w \<noteq> Pending))"
  using token_laws.request_log_counts [OF assms, of k] request_at_Some [of L k]
  by (cases "request_at L k") (auto simp: settled_def)

theorem request_settles_once_witness:
  "settlements settles_request 17 (requested_log @ [WithdrawalExecuted 1 13 14 17 9 22 20 0 80]) = 1"
  using request_settles_once [OF sample_token_laws reachable_executed, of 17]
  by (simp add: executed_ledger_def sample_state_def)

text \<open>The addresses of the records that an execution reads derive from their fields.\<close>

lemma execute_addresses:
  assumes "pda_laws rt" "wf rt L"
    and "state_at L (ex_protocol_config a) (ConfigData config)" "state_at L (ex_vault a) (VaultData v)"
    and "state_at L (ex_vault_asset a) (AssetData asset)"
      "as_vault asset = ex_vault a" "as_mint asset = ex_mint a" "as_token_program asset = ex_token_program a"
    and "state_at L (ex_withdrawal_request a) (RequestData w)" "wr_vault w = ex_vault a"
  shows "rt_create_program_address rt (protocol_seeds @ [[pc_bump config]]) = Some (ex_protocol_config a)"
    "rt_create_program_address rt (vault_signer_seeds v) = Some (ex_vault a)"
    "rt_create_program_address rt
       (vault_asset_seeds (ex_vault a) (ex_mint a) @ [[as_bump asset]]) = Some (ex_vault_asset a)"
    "rt_create_program_address rt (withdrawal_seeds (ex_vault a) (wr_withdrawal_id w) @ [[wr_bump w]])
       = Some (ex_withdrawal_request a)"
    "ex_token_program a = rt_token_id rt \<or> ex_token_program a = rt_token_2022_id rt"
    "as_enabled asset"
  using wfD [OF assms(2) assms(3)] wfD [OF assms(2) assms(4)] wfD [OF assms(2) assms(5)] wfD [OF assms(2) assms(9)]
    pda_laws.find_creates [OF assms(1)] assms
  by (auto simp: vault_signer_seeds_def)

text \<open>
  C14. Executing a matured request needs no role: any signer's call goes through and marks the request
  executed, provided that (1) the time is inside the request's execution window, (2) neither the
  vault nor the protocol's vault outflow is paused, (3) the amount is within the asset's current
  maximum and spending window, (4) the custody account is not frozen and covers the amount, (5) the
  recipient's account named in the request still belongs to the recorded owner, is not frozen and can take
  the amount without overflow, and (6) neither the mint nor one of the two token accounts has extensions.
  These are conditions at the time of the execution; the timelock does not guarantee any of them.
\<close>

theorem execute_live:
  assumes "live_token_laws rt" "pda_laws rt" "wf rt L" "ex_caller a \<in> tx_signers t"
    and clock: "ex_clock a = CLOCK_ID"
    and config: "state_at L (ex_protocol_config a) (ConfigData config)"
      "\<not> is_paused config PAUSE_VAULT_OUTFLOW"
    and vault: "state_at L (ex_vault a) (VaultData v)" "\<not> va_paused v"
    and asset: "state_at L (ex_vault_asset a) (AssetData asset)"
      "as_vault asset = ex_vault a" "as_mint asset = ex_mint a" "as_token_program asset = ex_token_program a"
    and request: "state_at L (ex_withdrawal_request a) (RequestData w)" "wr_status w = Pending"
      "wr_vault w = ex_vault a" "wr_vault_asset w = ex_vault_asset a" "wr_mint w = ex_mint a"
      "wr_token_program w = ex_token_program a" "wr_recipient_token_account w = ex_recipient_token a"
    and times: "sint (wr_execute_after w) \<le> sint (tx_now t)" "sint (tx_now t) \<le> sint (wr_expires_at w)"
    and limits: "wr_amount w \<le> as_max_per_transaction asset"
      "next_window_state asset (wr_amount w) (tx_now t) = Inr window"
    and mint: "mint_at L (ex_mint a) (ex_token_program a) m" "mi_tlv m = []" "rt_extension_types rt [] = Inr []"
    and custody: "ex_vault_token a = fst (rt_find_program_address rt (vault_token_seeds (ex_vault a) (ex_mint a)))"
      "token_at L (ex_vault_token a) (ex_token_program a) custody" "ta_owner custody = ex_vault a"
      "ta_mint custody = ex_mint a" "\<not> ta_frozen custody" "ta_tlv custody = []" "wr_amount w \<le> ta_amount custody"
    and recipient: "token_at L (ex_recipient_token a) (ex_token_program a) dest"
      "ta_owner dest = wr_recipient_owner w" "ta_mint dest = ex_mint a" "\<not> ta_frozen dest" "ta_tlv dest = []"
      "unat (ta_amount dest) + unat (wr_amount w) < 2 ^ 64" "ex_recipient_token a \<noteq> ex_vault_token a"
  shows "\<exists>L' evs. execute_withdrawal rt t a L = Inr (L', evs)
    \<and> state_at L' (ex_withdrawal_request a) (RequestData (w\<lparr>wr_status := Executed\<rparr>))"
proof -
  let ?x = "execute_transfer rt t a v m (wr_amount w)"
  note derived = execute_addresses [OF assms(2,3) config(1) vault(1) asset request(1,3)]
  note token = derived(5) and enabled = derived(6)
  have ready: "transfer_ready ?x L custody dest"
    using derived mint custody recipient
    by (simp add: transfer_ready_def execute_transfer_def cpi_signed_def vault_signer_seeds_def)
  have "tr_program ?x = rt_token_id rt \<or> tr_program ?x = rt_token_2022_id rt"
    using token by (simp add: execute_transfer_def)
  then obtain L1 where L1: "rt_transfer_checked rt ?x L = Inr L1"
      "token_at L1 (ex_vault_token a) (tr_program ?x) (custody\<lparr>ta_amount := ta_amount custody - wr_amount w\<rparr>)"
      "token_at L1 (ex_recipient_token a) (tr_program ?x) (dest\<lparr>ta_amount := ta_amount dest + wr_amount w\<rparr>)"
    using live_token_laws.transfer_completes [OF assms(1) _ ready] by (auto simp: execute_transfer_def)
  moreover have "unat (ta_amount dest + wr_amount w) = unat (ta_amount dest) + unat (wr_amount w)"
    using recipient by (simp add: unat_word_ariths)
  moreover obtain started spent where "window = (started, spent)" by fastforce
  ultimately have "execute rt t a config v m asset w custody dest L =
      Inr (store (ex_withdrawal_request a) (RequestData (w\<lparr>wr_status := Executed\<rparr>))
          (store (ex_vault_asset a) (AssetData (charge asset started spent)) L1),
        [WithdrawalExecuted INITIAL_SCHEMA_VERSION (ex_vault a) (ex_vault_asset a)
           (ex_withdrawal_request a) (ex_caller a) (ex_recipient_token a) (ex_mint a)
           (wr_withdrawal_id w) (wr_amount w)])"
    using config vault request times limits custody enabled unfolding execute_Inr_iff
    by (intro conjI exI [of _ started] exI [of _ spent] exI [of _ L1]
        exI [of _ "tr_program ?x"] exI [of _ "custody\<lparr>ta_amount := ta_amount custody - wr_amount w\<rparr>"]
        exI [of _ "dest\<lparr>ta_amount := ta_amount dest + wr_amount w\<rparr>"]) auto
  moreover have "execute_withdrawal_validate rt t a L = Inr (config, v, m, asset, w, custody, dest)"
    using assms(4) clock config vault asset request mint custody recipient derived token
    by (simp add: execute_withdrawal_validate_Inr_iff mint_supported_def)
  ultimately show ?thesis
    by (simp add: execute_withdrawal_def and_then_def store_def)
qed

theorem execute_live_witness:
  "\<exists>L' evs. execute_withdrawal sample_runtime (sample_tx {9} 100 []) sample_execute sample_ledger
      = Inr (L', evs)
     \<and> state_at L' 17 (RequestData (sample_request\<lparr>wr_status := Executed\<rparr>))"
  using execute_live [OF sample_live_token_laws sample_pda_laws sample_wf,
      of sample_execute "sample_tx {9} 100 []" sample_config sample_vault sample_asset sample_request
        "(0, 140)" "\<lparr>mi_decimals = 6, mi_tlv = []\<rparr>"
        "\<lparr>ta_mint = 20, ta_owner = 13, ta_amount = 500, ta_frozen = False, ta_tlv = []\<rparr>"
        "\<lparr>ta_mint = 20, ta_owner = 2, ta_amount = 5, ta_frozen = False, ta_tlv = []\<rparr>"]
  by (simp add: sample_execute_def next_window_state_def run_defs)

end
