(* ===== verification/Sourcing.thy ===== *)
theory Sourcing
  imports Guarantees
begin

text \<open>
  Event sourcing: the escrows, vaults and withdrawal requests of the ledger are a function of
  the events the program has emitted. This is what an off-chain read model relies on, and the
  specification the observer's projections are measured against.
\<close>

section \<open>Read models\<close>

record escrow_view =
  xv_escrow_token :: pubkey
  xv_maker :: pubkey
  xv_recipient :: pubkey
  xv_mint :: pubkey
  xv_amount :: u64
  xv_escrow_id :: u64
  xv_created_at :: i64
  xv_expires_at :: i64
  xv_status :: escrow_status

record vault_view =
  vv_namespace_authority :: pubkey
  vv_authority :: pubkey
  vv_guardian :: pubkey
  vv_vault_id :: u64
  vv_paused :: bool

record request_view =
  qv_vault :: pubkey
  qv_vault_asset :: pubkey
  qv_proposer :: pubkey
  qv_recipient_owner :: pubkey
  qv_recipient_token_account :: pubkey
  qv_mint :: pubkey
  qv_withdrawal_id :: u64
  qv_amount :: u64
  qv_created_at :: i64
  qv_execute_after :: i64
  qv_expires_at :: i64
  qv_status :: withdrawal_status

record views =
  vs_escrows :: "pubkey \<rightharpoonup> escrow_view"
  vs_vaults :: "pubkey \<rightharpoonup> vault_view"
  vs_requests :: "pubkey \<rightharpoonup> request_view"

definition no_views :: views where
  "no_views = \<lparr>vs_escrows = Map.empty, vs_vaults = Map.empty, vs_requests = Map.empty\<rparr>"

definition add_new :: "'k \<Rightarrow> 'v \<Rightarrow> ('k \<rightharpoonup> 'v) \<Rightarrow> ('k \<rightharpoonup> 'v)" where
  "add_new k v m = (if m k = None then m(k \<mapsto> v) else m)"

definition alter :: "'k \<Rightarrow> ('v \<Rightarrow> 'v) \<Rightarrow> ('k \<rightharpoonup> 'v) \<Rightarrow> ('k \<rightharpoonup> 'v)" where
  "alter k f m = m(k := map_option f (m k))"

text \<open>The effect of one event on the read models.\<close>

fun replay_event :: "event \<Rightarrow> views \<Rightarrow> views" where
  "replay_event (EscrowCreated _ escrow token maker recipient mint amount created expires i) V =
     V\<lparr>vs_escrows := add_new escrow
       \<lparr>xv_escrow_token = token, xv_maker = maker, xv_recipient = recipient, xv_mint = mint,
        xv_amount = amount, xv_escrow_id = i, xv_created_at = created, xv_expires_at = expires,
        xv_status = Funded\<rparr> (vs_escrows V)\<rparr>"
| "replay_event (EscrowReleased _ escrow _ _ _ _ _ _) V =
     V\<lparr>vs_escrows := alter escrow (\<lambda>x. x\<lparr>xv_status := Released\<rparr>) (vs_escrows V)\<rparr>"
| "replay_event (EscrowRefunded _ escrow _ _ _ _ _ _) V =
     V\<lparr>vs_escrows := alter escrow (\<lambda>x. x\<lparr>xv_status := Refunded\<rparr>) (vs_escrows V)\<rparr>"
| "replay_event (VaultCreated _ vault namespace authority guardian i) V =
     V\<lparr>vs_vaults := add_new vault
       \<lparr>vv_namespace_authority = namespace, vv_authority = authority, vv_guardian = guardian,
        vv_vault_id = i, vv_paused = False\<rparr> (vs_vaults V)\<rparr>"
| "replay_event (VaultAuthorityUpdated _ vault _ authority) V =
     V\<lparr>vs_vaults := alter vault (\<lambda>x. x\<lparr>vv_authority := authority\<rparr>) (vs_vaults V)\<rparr>"
| "replay_event (VaultPauseUpdated _ vault _ paused) V =
     V\<lparr>vs_vaults := alter vault (\<lambda>x. x\<lparr>vv_paused := paused\<rparr>) (vs_vaults V)\<rparr>"
| "replay_event (WithdrawalRequested _ vault asset request_key proposer owner token mint i amount
     created execute_after expires) V =
     V\<lparr>vs_requests := add_new request_key
       \<lparr>qv_vault = vault, qv_vault_asset = asset, qv_proposer = proposer, qv_recipient_owner = owner,
        qv_recipient_token_account = token, qv_mint = mint, qv_withdrawal_id = i, qv_amount = amount,
        qv_created_at = created, qv_execute_after = execute_after, qv_expires_at = expires,
        qv_status = Pending\<rparr> (vs_requests V)\<rparr>"
| "replay_event (WithdrawalExecuted _ _ _ request_key _ _ _ _ _) V =
     V\<lparr>vs_requests := alter request_key (\<lambda>x. x\<lparr>qv_status := Executed\<rparr>) (vs_requests V)\<rparr>"
| "replay_event (WithdrawalCancelled _ _ request_key _ _ _) V =
     V\<lparr>vs_requests := alter request_key (\<lambda>x. x\<lparr>qv_status := Cancelled\<rparr>) (vs_requests V)\<rparr>"
| "replay_event _ V = V"

section \<open>What the ledger shows\<close>

definition vault_at :: "ledger \<Rightarrow> pubkey \<Rightarrow> vault option" where
  "vault_at L k =
     (case L k of None \<Rightarrow> None | Some a \<Rightarrow> if acc_program a = ID then vault_of (acc_data a) else None)"

definition escrow_view_of :: "runtime \<Rightarrow> pubkey \<Rightarrow> escrow \<Rightarrow> escrow_view" where
  "escrow_view_of rt k e =
     \<lparr>xv_escrow_token = fst (rt_find_program_address rt (escrow_token_seeds k)), xv_maker = es_maker e,
      xv_recipient = es_recipient e, xv_mint = es_mint e, xv_amount = es_amount e,
      xv_escrow_id = es_escrow_id e, xv_created_at = es_created_at e, xv_expires_at = es_expires_at e,
      xv_status = es_status e\<rparr>"

definition vault_view_of :: "vault \<Rightarrow> vault_view" where
  "vault_view_of v =
     \<lparr>vv_namespace_authority = va_namespace_authority v, vv_authority = va_authority v,
      vv_guardian = va_guardian v, vv_vault_id = va_vault_id v, vv_paused = va_paused v\<rparr>"

definition request_view_of :: "withdrawal_request \<Rightarrow> request_view" where
  "request_view_of w =
     \<lparr>qv_vault = wr_vault w, qv_vault_asset = wr_vault_asset w, qv_proposer = wr_proposer w,
      qv_recipient_owner = wr_recipient_owner w,
      qv_recipient_token_account = wr_recipient_token_account w, qv_mint = wr_mint w,
      qv_withdrawal_id = wr_withdrawal_id w, qv_amount = wr_amount w, qv_created_at = wr_created_at w,
      qv_execute_after = wr_execute_after w, qv_expires_at = wr_expires_at w, qv_status = wr_status w\<rparr>"

definition views_of :: "runtime \<Rightarrow> ledger \<Rightarrow> views" where
  "views_of rt L =
     \<lparr>vs_escrows = (\<lambda>k. map_option (escrow_view_of rt k) (escrow_at L k)),
      vs_vaults = (\<lambda>k. map_option vault_view_of (vault_at L k)),
      vs_requests = (\<lambda>k. map_option request_view_of (request_at L k))\<rparr>"

lemma vault_at_Some [simp]: "vault_at L k = Some v \<longleftrightarrow> state_at L k (VaultData v)"
  by (auto simp: vault_at_def success_iff split: option.splits)

lemma vault_at_store [simp]: "vault_at (store k d L) = (vault_at L)(k := vault_of d)"
  by (auto simp: vault_at_def store_def)

lemma vault_at_upd [simp]:
  "vault_at (L(k \<mapsto> \<lparr>acc_program = p, acc_data = d\<rparr>)) = (vault_at L)(k := if p = ID then vault_of d else None)"
  by (auto simp: vault_at_def)

lemma vault_at_other [simp]:
  "state_at L k d \<Longrightarrow> vault_at L k = vault_of d" "L k = None \<Longrightarrow> vault_at L k = None"
  by (simp_all add: vault_at_def)

lemma views_of_sel [simp]:
  "vs_escrows (views_of rt L) = (\<lambda>k. map_option (escrow_view_of rt k) (escrow_at L k))"
  "vs_vaults (views_of rt L) = (\<lambda>k. map_option vault_view_of (vault_at L k))"
  "vs_requests (views_of rt L) = (\<lambda>k. map_option request_view_of (request_at L k))"
  by (simp_all add: views_of_def)

lemma views_eqI:
  fixes V W :: views
  shows "vs_escrows V = vs_escrows W \<Longrightarrow> vs_vaults V = vs_vaults W \<Longrightarrow> vs_requests V = vs_requests W \<Longrightarrow> V = W"
  by (cases V; cases W) simp

lemma same_views:
  "escrow_at L' = escrow_at L \<Longrightarrow> vault_at L' = vault_at L \<Longrightarrow> request_at L' = request_at L \<Longrightarrow>
     views_of rt L' = views_of rt L"
  by (simp add: views_of_def)

lemma vault_at_same:
  assumes "external rt L L'"
  shows "vault_at L' = vault_at L"
proof
  fix k
  show "vault_at L' k = vault_at L k"
    using external_state [OF assms, of "VaultData _" k] by (metis vault_at_Some not_None_eq zeroed_simps(3))
qed

lemma genesis_views: "genesis L \<Longrightarrow> views_of rt L = no_views"
proof -
  assume g: "genesis L"
  have "vault_at L k = None" for k
    using g unfolding genesis_def by (metis vault_at_Some not_None_eq zeroed_simps(3))
  with g show ?thesis
    by (intro views_eqI) (simp_all add: no_views_def genesis_records)
qed

section \<open>Every instruction reports what it changes\<close>

lemma admin_views:
  "initialize_protocol rt t ip admin guardian L = Inr (L', evs)
     \<Longrightarrow> views_of rt L' = fold replay_event evs (views_of rt L)"
  "set_protocol_pause rt t sp flags L = Inr (L', evs)
     \<Longrightarrow> views_of rt L' = fold replay_event evs (views_of rt L)"
  "grant_role rt t gr holder permissions L = Inr (L', evs)
     \<Longrightarrow> views_of rt L' = fold replay_event evs (views_of rt L)"
  "revoke_role rt t rv holder L = Inr (L', evs)
     \<Longrightarrow> views_of rt L' = fold replay_event evs (views_of rt L)"
  "update_limits rt t ul q L = Inr (L', evs)
     \<Longrightarrow> views_of rt L' = fold replay_event evs (views_of rt L)"
  "register_asset rt t rg L = Inr (L', evs)
     \<Longrightarrow> views_of rt L' = fold replay_event evs (views_of rt L)"
  by (auto simp: initialize_protocol_Inr_iff set_protocol_pause_Inr_iff grant_role_Inr_iff
      revoke_role_Inr_iff update_limits_Inr_iff register_asset_Inr_iff fun_upd_idem intro!: same_views)

lemma vault_views:
  "create_vault rt t cv vault_id vguardian L = Inr (L', evs)
     \<Longrightarrow> views_of rt L' = fold replay_event evs (views_of rt L)"
  "set_vault_authority rt t sa authority L = Inr (L', evs)
     \<Longrightarrow> views_of rt L' = fold replay_event evs (views_of rt L)"
  "pause_vault rt t pv L = Inr (L', evs)
     \<Longrightarrow> views_of rt L' = fold replay_event evs (views_of rt L)"
  "unpause_vault rt t uv L = Inr (L', evs)
     \<Longrightarrow> views_of rt L' = fold replay_event evs (views_of rt L)"
  by (auto simp: create_vault_Inr_iff set_vault_authority_Inr_iff pause_vault_Inr_iff unpause_vault_Inr_iff
      fun_upd_idem add_new_def alter_def vault_view_of_def intro!: views_eqI ext)

lemma escrow_status_views:
  assumes "escrow_at L k = Some e" "escrow_at L' = (escrow_at L)(k \<mapsto> e\<lparr>es_status := s\<rparr>)"
    and "vault_at L' = vault_at L" "request_at L' = request_at L"
  shows "views_of rt L' = views_of rt L
    \<lparr>vs_escrows := alter k (\<lambda>x. x\<lparr>xv_status := s\<rparr>) (\<lambda>k. map_option (escrow_view_of rt k) (escrow_at L k))\<rparr>"
  using assms by (intro views_eqI) (auto simp: alter_def escrow_view_of_def simp del: escrow_at_Some)

lemma request_status_views:
  assumes "request_at L k = Some w" "request_at L' = (request_at L)(k \<mapsto> w\<lparr>wr_status := s\<rparr>)"
    and "escrow_at L' = escrow_at L" "vault_at L' = vault_at L"
  shows "views_of rt L' = views_of rt L
    \<lparr>vs_requests := alter k (\<lambda>x. x\<lparr>qv_status := s\<rparr>) (\<lambda>k. map_option request_view_of (request_at L k))\<rparr>"
  using assms by (intro views_eqI) (auto simp: alter_def request_view_of_def simp del: request_at_Some)

context token_laws
begin

lemma transfer_vault_at:
  assumes "rt_transfer_checked rt x L = Inr L'"
  shows "vault_at L' = vault_at L"
proof
  fix k
  show "vault_at L' k = vault_at L k"
  proof (cases "vault_at L' k")
    case (Some v)
    then show ?thesis
      using transfer_non_token_rev [OF assms, of k] by auto
  next
    case None
    then show ?thesis
      using transfer_non_token [OF assms, of k] by (cases "vault_at L k") auto
  qed
qed

lemmas transfer_records = transfer_escrow_at transfer_request_at transfer_vault_at

lemma deposit_views:
  "deposit rt t a amount L = Inr (L', evs) \<Longrightarrow> views_of rt L' = fold replay_event evs (views_of rt L)"
  by (elim depositE) (auto simp: deposit_tokens_Inr_iff transfer_records intro!: same_views)

lemma withdraw_views:
  "withdraw rt t a amount L = Inr (L', evs) \<Longrightarrow> views_of rt L' = fold replay_event evs (views_of rt L)"
  by (elim withdrawE)
    (auto simp: withdraw_validate_Inr_iff withdraw_tokens_Inr_iff transfer_records fun_upd_idem
      intro!: same_views)

lemma create_escrow_views:
  assumes "create_escrow rt t a escrow_id recipient amount expires_at L = Inr (L', evs)"
  shows "views_of rt L' = fold replay_event evs (views_of rt L)"
proof -
  from assms obtain config m maker_token bump L2 where
      v: "create_escrow_validate rt t a escrow_id L = Inr (config, m, maker_token, bump, L2)"
    and c: "create rt t a config m maker_token bump escrow_id recipient amount expires_at L2
      = Inr (L', evs)"
    by (rule create_escrowE)
  note v = v [unfolded create_escrow_validate_Inr_iff] and c = c [unfolded create_Inr_iff]
  from v have L2: "escrow_at L2 = escrow_at L" "request_at L2 = request_at L" "vault_at L2 = vault_at L"
    by (auto simp: fun_upd_idem)
  from v have new: "escrow_at L (ce_escrow a) = None" "vault_at L (ce_escrow a) = None"
      "request_at L (ce_escrow a) = None"
    by simp_all
  from c obtain L1 where tr: "rt_transfer_checked rt (create_transfer rt t a m amount) L2 = Inr L1"
    and L': "L' = store (ce_escrow a)
        (EscrowData (created_escrow t a bump escrow_id recipient amount expires_at)) L1"
    by blast
  from L' have "escrow_at L' = (escrow_at L)(ce_escrow a \<mapsto> created_escrow t a bump escrow_id recipient amount expires_at)"
      "vault_at L' = vault_at L" "request_at L' = request_at L"
    by (simp_all add: transfer_records [OF tr] L2 new fun_upd_idem)
  with v c new show ?thesis
    by (auto simp: add_new_def escrow_view_of_def created_escrow_def intro!: views_eqI ext)
qed

lemma settle_vault_at:
  "release_escrow rt t re L = Inr (L', evs) \<Longrightarrow> vault_at L' = vault_at L"
  "refund_escrow rt t rf L = Inr (L', evs) \<Longrightarrow> vault_at L' = vault_at L"
  "execute_withdrawal rt t ex L = Inr (L', evs) \<Longrightarrow> vault_at L' = vault_at L"
  "cancel_withdrawal rt t ca L = Inr (L', evs) \<Longrightarrow> vault_at L' = vault_at L"
  by (auto simp: release_escrow_validate_Inr_iff release_Inr_iff refund_escrow_validate_Inr_iff refund_Inr_iff
      execute_withdrawal_validate_Inr_iff execute_Inr_iff cancel_withdrawal_Inr_iff transfer_records
      fun_upd_idem elim!: release_escrowE refund_escrowE execute_withdrawalE)

lemma settle_escrow_views:
  "release_escrow rt t re L = Inr (L', evs) \<Longrightarrow> views_of rt L' = fold replay_event evs (views_of rt L)"
  "refund_escrow rt t rf L = Inr (L', evs) \<Longrightarrow> views_of rt L' = fold replay_event evs (views_of rt L)"
  using release_escrow_records [of t re L L' evs] refund_escrow_records [of t rf L L' evs]
    settle_vault_at(1,2) [of t _ L L' evs]
  by (auto simp del: escrow_at_Some intro!: escrow_status_views)

lemma request_withdrawal_views:
  "request_withdrawal rt t a amount L = Inr (L', evs) \<Longrightarrow> views_of rt L' = fold replay_event evs (views_of rt L)"
  by (elim request_withdrawalE)
    (auto simp: request_withdrawal_validate_Inr_iff request_Inr_iff requested_def fun_upd_idem add_new_def
      request_view_of_def vault_view_of_def intro!: views_eqI ext)

lemma settle_request_views:
  "execute_withdrawal rt t ex L = Inr (L', evs) \<Longrightarrow> views_of rt L' = fold replay_event evs (views_of rt L)"
  "cancel_withdrawal rt t ca L = Inr (L', evs) \<Longrightarrow> views_of rt L' = fold replay_event evs (views_of rt L)"
  using execute_withdrawal_records [of t ex L L' evs] cancel_withdrawal_records [of t ca L L' evs]
    settle_vault_at(3,4) [of t _ L L' evs]
  by (auto simp del: request_at_Some intro!: request_status_views)

lemma process_views:
  assumes "process rt t i L = Inr (L', evs)"
  shows "views_of rt L' = fold replay_event evs (views_of rt L)"
  using assms
  by (cases i) (auto simp: dispatch_def admin_views vault_views deposit_views withdraw_views
      create_escrow_views settle_escrow_views request_withdrawal_views settle_request_views)

end

section \<open>Histories\<close>

text \<open>
  The interface of a view that is rebuilt from the log: nothing is shown before the first
  instruction, foreign transactions do not change it, and every instruction changes it as its
  events say.
\<close>

locale event_sourced =
  fixes rt :: runtime and view :: "ledger \<Rightarrow> 'v" and nothing :: 'v and step :: "event \<Rightarrow> 'v \<Rightarrow> 'v"
  assumes genesis_view: "genesis L \<Longrightarrow> view L = nothing"
    and external_view: "external rt L L' \<Longrightarrow> view L' = view L"
    and process_view: "process rt t i L = Inr (L', evs) \<Longrightarrow> view L' = fold step evs (view L)"
begin

lemma rebuilt: "reachable rt L log \<Longrightarrow> view L = fold step log nothing"
  by (induction rule: reachable.induct) (simp_all add: genesis_view external_view process_view)

end

sublocale token_laws \<subseteq> sourced: event_sourced rt "views_of rt" no_views replay_event
  by unfold_locales (auto simp: genesis_views process_views dest: record_at_same vault_at_same intro!: same_views)

context token_laws
begin

lemmas views_rebuilt = sourced.rebuilt

end

text \<open>Events carry the schema version, and the amounts of new escrows and requests are positive.\<close>

fun sound_event :: "event \<Rightarrow> bool" where
  "sound_event (EscrowCreated v _ _ _ _ _ amount _ _ _) \<longleftrightarrow> v = INITIAL_SCHEMA_VERSION \<and> 0 < amount"
| "sound_event (WithdrawalRequested v _ _ _ _ _ _ _ _ amount _ _ _) \<longleftrightarrow> v = INITIAL_SCHEMA_VERSION \<and> 0 < amount"
| "sound_event event \<longleftrightarrow> ev_version event = INITIAL_SCHEMA_VERSION"

lemma process_sound:
  assumes "process rt t i L = Inr (L', evs)" "event \<in> set evs"
  shows "sound_event event"
  using assms
  by (cases i) (auto simp: dispatch_def initialize_protocol_Inr_iff set_protocol_pause_Inr_iff create_vault_Inr_iff
      set_vault_authority_Inr_iff pause_vault_Inr_iff unpause_vault_Inr_iff grant_role_Inr_iff
      revoke_role_Inr_iff update_limits_Inr_iff register_asset_Inr_iff deposit_tokens_Inr_iff
      withdraw_tokens_Inr_iff create_Inr_iff release_Inr_iff refund_Inr_iff request_Inr_iff execute_Inr_iff
      cancel_withdrawal_Inr_iff
      elim!: depositE withdrawE create_escrowE release_escrowE refund_escrowE request_withdrawalE execute_withdrawalE)

lemma reachable_sound: "reachable rt L log \<Longrightarrow> event \<in> set log \<Longrightarrow> sound_event event"
  by (induction rule: reachable.induct) (auto dest: process_sound)

lemma sound_version: "sound_event event \<Longrightarrow> ev_version event = INITIAL_SCHEMA_VERSION"
  by (cases event) simp_all

text \<open>
  C5. The log is complete: in every reachable state the escrows, vaults and withdrawal requests
  on the ledger, with their terms, owners, pause state and status, are exactly what replaying
  the emitted events from nothing yields. No instruction changes such a record without
  reporting it, and none reports a change that did not happen.
\<close>

theorem records_follow_log:
  assumes "token_laws rt" "reachable rt L log"
  shows "views_of rt L = fold replay_event log no_views"
  by (rule token_laws.views_rebuilt [OF assms])

theorem records_follow_log_witness:
  "map_option xv_status (vs_escrows (fold replay_event
     [ProtocolInitialized 1 10 6 7, EscrowCreated 1 11 12 1 2 20 50 10 1000 7,
      EscrowReleased 1 11 12 1 2 22 20 50] no_views) 11) = Some Released
   \<and> map_option es_status (escrow_at released_ledger 11) = Some Released"
  using records_follow_log [OF sample_token_laws reachable_released]
  by (auto simp: add_new_def alter_def no_views_def released_ledger_def sample_defs views_of_def)

end
