(* ===== verification/Mirror.thy ===== *)
theory Mirror
  imports Store Sourcing
begin

text \<open>
  The database against the chain: what the observer's projections show when it has stored the
  events of a history, and the order of positions this needs.
\<close>

section \<open>Rows and read models\<close>

definition unseen :: last_seen where
  "unseen = seen_at (0, 0, 0) ''''"

fun escrow_status_text :: "escrow_status \<Rightarrow> string" where
  "escrow_status_text Funded = ''funded''"
| "escrow_status_text Released = ''released''"
| "escrow_status_text Refunded = ''refunded''"

fun request_status_text :: "withdrawal_status \<Rightarrow> string" where
  "request_status_text Pending = ''pending''"
| "request_status_text Executed = ''executed''"
| "request_status_text Cancelled = ''cancelled''"

text \<open>The row that shows a record, up to the columns that say where it was last seen.\<close>

definition escrow_row_of :: "(pubkey \<Rightarrow> string) \<Rightarrow> escrow_view \<Rightarrow> escrow_row" where
  "escrow_row_of base58 x =
     \<lparr>ew_escrow_token = base58 (xv_escrow_token x), ew_maker = base58 (xv_maker x),
      ew_recipient = base58 (xv_recipient x), ew_mint = base58 (xv_mint x), ew_amount = xv_amount x,
      ew_escrow_id = xv_escrow_id x, ew_created_at = xv_created_at x, ew_expires_at = xv_expires_at x,
      ew_status = escrow_status_text (xv_status x), ew_last = unseen\<rparr>"

definition vault_row_of :: "(pubkey \<Rightarrow> string) \<Rightarrow> vault_view \<Rightarrow> vault_row" where
  "vault_row_of base58 x =
     \<lparr>vw_namespace_authority = base58 (vv_namespace_authority x), vw_authority = base58 (vv_authority x),
      vw_guardian = base58 (vv_guardian x), vw_vault_id = vv_vault_id x, vw_paused = vv_paused x,
      vw_last = unseen\<rparr>"

definition request_row_of :: "(pubkey \<Rightarrow> string) \<Rightarrow> request_view \<Rightarrow> request_row" where
  "request_row_of base58 x =
     \<lparr>rw_vault = base58 (qv_vault x), rw_vault_asset = base58 (qv_vault_asset x),
      rw_proposer = base58 (qv_proposer x), rw_recipient_owner = base58 (qv_recipient_owner x),
      rw_recipient_token_account = base58 (qv_recipient_token_account x), rw_mint = base58 (qv_mint x),
      rw_withdrawal_id = qv_withdrawal_id x, rw_amount = qv_amount x, rw_created_at = qv_created_at x,
      rw_execute_after = qv_execute_after x, rw_expires_at = qv_expires_at x,
      rw_status = request_status_text (qv_status x), rw_last = unseen\<rparr>"

text \<open>A table shows a read model: the same keys, and the same rows up to the last position.\<close>

definition shows_table ::
    "(pubkey \<Rightarrow> string) \<Rightarrow> ('r \<Rightarrow> 'r) \<Rightarrow> ('v \<Rightarrow> 'r) \<Rightarrow> (string \<rightharpoonup> 'r) \<Rightarrow> (pubkey \<rightharpoonup> 'v) \<Rightarrow> bool" where
  "shows_table base58 strip row t m \<longleftrightarrow>
     dom t \<subseteq> range base58 \<and> (\<forall>k. map_option strip (t (base58 k)) = map_option row (m k))"

definition mirrors :: "(pubkey \<Rightarrow> string) \<Rightarrow> 'j database \<Rightarrow> views \<Rightarrow> bool" where
  "mirrors base58 db V \<longleftrightarrow>
     shows_table base58 (ew_last_update (\<lambda>_. unseen)) (escrow_row_of base58) (escrows db) (vs_escrows V)
     \<and> shows_table base58 (vw_last_update (\<lambda>_. unseen)) (vault_row_of base58) (vaults db) (vs_vaults V)
     \<and> shows_table base58 (rw_last_update (\<lambda>_. unseen)) (request_row_of base58) (withdrawal_requests db) (vs_requests V)"

lemma shows_insert:
  assumes "shows_table base58 strip row t m" "inj base58" "strip r = row v"
  shows "shows_table base58 strip row (insert_ignore (base58 k) r t) (add_new k v m)"
  using assms unfolding shows_table_def insert_ignore_def add_new_def
  by (auto simp: inj_eq dom_def split: option.splits) (metis option.map_disc_iff option.distinct(1))+

lemma shows_update:
  assumes "shows_table base58 strip row t m" "inj base58"
    and "\<And>r. t (base58 k) = Some r \<Longrightarrow> c r" and "\<And>r v. strip r = row v \<Longrightarrow> strip (f r) = row (g v)"
  shows "shows_table base58 strip row (update_where (base58 k) c f t) (alter k g m)"
proof -
  have shown: "map_option strip (t (base58 j)) = map_option row (m j)" for j
    using assms(1) by (simp add: shows_table_def)
  have "map_option strip (update_where (base58 k) c f t (base58 j)) = map_option row (alter k g m j)" for j
  proof (cases "j = k")
    case True
    then show ?thesis
      using shown [of k] assms(3,4)
      by (cases "t (base58 k)"; cases "m k") (simp_all add: update_where_apply alter_def)
  next
    case False
    then show ?thesis
      using shown [of j] assms(2) by (simp add: update_where_apply alter_def inj_eq)
  qed
  moreover have "dom (update_where (base58 k) c f t) = dom t"
    by (auto simp: dom_def update_where_apply split: option.splits if_splits)
  ultimately show ?thesis
    using assms(1) by (simp add: shows_table_def)
qed

section \<open>One event\<close>

text \<open>The record an event is about, and where its row was last seen.\<close>

datatype (plugins only: size) subject = EscrowOf pubkey | VaultOf pubkey | RequestOf pubkey

fun subject_of :: "event \<Rightarrow> subject option" where
  "subject_of (EscrowCreated _ escrow _ _ _ _ _ _ _ _) = Some (EscrowOf escrow)"
| "subject_of (EscrowReleased _ escrow _ _ _ _ _ _) = Some (EscrowOf escrow)"
| "subject_of (EscrowRefunded _ escrow _ _ _ _ _ _) = Some (EscrowOf escrow)"
| "subject_of (VaultCreated _ vault _ _ _ _) = Some (VaultOf vault)"
| "subject_of (VaultAuthorityUpdated _ vault _ _) = Some (VaultOf vault)"
| "subject_of (VaultPauseUpdated _ vault _ _) = Some (VaultOf vault)"
| "subject_of (WithdrawalRequested _ _ _ request_key _ _ _ _ _ _ _ _ _) = Some (RequestOf request_key)"
| "subject_of (WithdrawalExecuted _ _ _ request_key _ _ _ _ _) = Some (RequestOf request_key)"
| "subject_of (WithdrawalCancelled _ _ request_key _ _ _) = Some (RequestOf request_key)"
| "subject_of _ = None"

fun last_of :: "(pubkey \<Rightarrow> string) \<Rightarrow> 'j database \<Rightarrow> subject \<Rightarrow> position option" where
  "last_of base58 db (EscrowOf k) = map_option (\<lambda>r. last_position (ew_last r)) (escrows db (base58 k))"
| "last_of base58 db (VaultOf k) = map_option (\<lambda>r. last_position (vw_last r)) (vaults db (base58 k))"
| "last_of base58 db (RequestOf k) = map_option (\<lambda>r. last_position (rw_last r)) (withdrawal_requests db (base58 k))"

definition newer :: "(pubkey \<Rightarrow> string) \<Rightarrow> 'j database \<Rightarrow> event \<Rightarrow> position \<Rightarrow> bool" where
  "newer base58 db event p \<longleftrightarrow>
     (case subject_of event of None \<Rightarrow> True
      | Some s \<Rightarrow> (case last_of base58 db s of None \<Rightarrow> True | Some q \<Rightarrow> q < p))"

lemma projection_runs:
  "sound_event event \<Longrightarrow> \<exists>db'. apply_projection base58 event p signature db = Inr db'"
  by (cases event) (auto simp: update_escrow_status_def update_withdrawal_status_def Let_def split: option.splits)

lemma row_updates:
  "r\<lparr>ew_last := unseen\<rparr> = escrow_row_of b x \<Longrightarrow>
     r\<lparr>ew_status := ''released'', ew_last := unseen\<rparr> = escrow_row_of b (x\<lparr>xv_status := Released\<rparr>)"
  "r\<lparr>ew_last := unseen\<rparr> = escrow_row_of b x \<Longrightarrow>
     r\<lparr>ew_status := ''refunded'', ew_last := unseen\<rparr> = escrow_row_of b (x\<lparr>xv_status := Refunded\<rparr>)"
  "q\<lparr>rw_last := unseen\<rparr> = request_row_of b y \<Longrightarrow>
     q\<lparr>rw_status := ''executed'', rw_last := unseen\<rparr> = request_row_of b (y\<lparr>qv_status := Executed\<rparr>)"
  "q\<lparr>rw_last := unseen\<rparr> = request_row_of b y \<Longrightarrow>
     q\<lparr>rw_status := ''cancelled'', rw_last := unseen\<rparr> = request_row_of b (y\<lparr>qv_status := Cancelled\<rparr>)"
  "v\<lparr>vw_last := unseen\<rparr> = vault_row_of b z \<Longrightarrow>
     v\<lparr>vw_authority := b k, vw_last := unseen\<rparr> = vault_row_of b (z\<lparr>vv_authority := k\<rparr>)"
  "v\<lparr>vw_last := unseen\<rparr> = vault_row_of b z \<Longrightarrow>
     v\<lparr>vw_paused := paused, vw_last := unseen\<rparr> = vault_row_of b (z\<lparr>vv_paused := paused\<rparr>)"
  by (cases r; cases q; cases v; simp add: escrow_row_of_def request_row_of_def vault_row_of_def)+

lemma new_rows:
  "\<lparr>ew_escrow_token = b token, ew_maker = b maker, ew_recipient = b recipient, ew_mint = b mint,
    ew_amount = amount, ew_escrow_id = i, ew_created_at = created, ew_expires_at = expires,
    ew_status = ''funded'', ew_last = unseen\<rparr> = escrow_row_of b
     \<lparr>xv_escrow_token = token, xv_maker = maker, xv_recipient = recipient, xv_mint = mint,
      xv_amount = amount, xv_escrow_id = i, xv_created_at = created, xv_expires_at = expires,
      xv_status = Funded\<rparr>"
  "\<lparr>vw_namespace_authority = b namespace, vw_authority = b authority, vw_guardian = b guardian,
    vw_vault_id = i, vw_paused = False, vw_last = unseen\<rparr> = vault_row_of b
     \<lparr>vv_namespace_authority = namespace, vv_authority = authority, vv_guardian = guardian,
      vv_vault_id = i, vv_paused = False\<rparr>"
  "\<lparr>rw_vault = b vault, rw_vault_asset = b asset, rw_proposer = b proposer, rw_recipient_owner = b owner,
    rw_recipient_token_account = b token, rw_mint = b mint, rw_withdrawal_id = i, rw_amount = amount,
    rw_created_at = created, rw_execute_after = execute_after, rw_expires_at = expires,
    rw_status = ''pending'', rw_last = unseen\<rparr> = request_row_of b
     \<lparr>qv_vault = vault, qv_vault_asset = asset, qv_proposer = proposer, qv_recipient_owner = owner,
      qv_recipient_token_account = token, qv_mint = mint, qv_withdrawal_id = i, qv_amount = amount,
      qv_created_at = created, qv_execute_after = execute_after, qv_expires_at = expires,
      qv_status = Pending\<rparr>"
  by (simp_all add: escrow_row_of_def request_row_of_def vault_row_of_def)

lemma projection_shows:
  assumes "apply_projection base58 event p signature db = Inr db'"
    and "mirrors base58 db V" "inj base58" "newer base58 db event p"
  shows "mirrors base58 db' (replay_event event V)"
  using assms
  by (cases event)
     (auto simp: mirrors_def newer_def success_iff update_escrow_status_def update_withdrawal_status_def Let_def
       intro!: shows_insert shows_update row_updates new_rows)

lemma insert_last:
  assumes "k = j \<longrightarrow> map_option f (insert_ignore (b j) r t (b j)) \<noteq> Some p" "f r = p" "inj b"
  shows "map_option f (insert_ignore (b k) r t (b j)) = map_option f (t (b j))"
  using assms by (cases "t (b j)") (auto simp: insert_ignore_apply inj_eq)

lemma update_last:
  assumes "k = j \<longrightarrow> map_option f (update_where (b j) c g t (b j)) \<noteq> Some p" "\<And>r. f (g r) = p" "inj b"
  shows "map_option f (update_where (b k) c g t (b j)) = map_option f (t (b j))"
  using assms by (cases "t (b j)") (auto simp: update_where_apply inj_eq)

lemma projection_last:
  assumes "apply_projection base58 event p signature db = Inr db'" "inj base58"
  shows "last_of base58 db' s = last_of base58 db s \<or> subject_of event = Some s \<and> last_of base58 db' s = Some p"
  using assms
  by (cases event; cases s; clarsimp simp: success_iff update_escrow_status_def update_withdrawal_status_def
      Let_def simp del: map_option_eq_Some)
    ((erule insert_last [where b = base58] | erule update_last [where b = base58]), simp, simp)+

lemma mirrors_frame [simp]:
  "mirrors base58 (with_event payload x db) V = mirrors base58 db V"
  "mirrors base58 (update_checkpoint p signature db) V = mirrors base58 db V"
  by (simp_all add: mirrors_def)

lemma last_of_frame [simp]:
  "last_of base58 (with_event payload x db) s = last_of base58 db s"
  "last_of base58 (update_checkpoint p signature db) s = last_of base58 db s"
  by (cases s; simp)+

lemma persist_mirrors:
  assumes "mirrors base58 db V" "inj base58" "newer base58 db (ob_event x) (position_of x)"
    and "storable x" "sound_event (ob_event x)" "protocol_events db (key_of x) = None"
  shows "\<exists>db'. persist base58 payload x db = Inr (True, db') \<and> mirrors base58 db' (replay_event (ob_event x) V)
    \<and> (\<forall>s. last_of base58 db' s = last_of base58 db s \<or>
         subject_of (ob_event x) = Some s \<and> last_of base58 db' s = Some (position_of x))"
proof -
  let ?db = "with_event payload x db"
  obtain db' where run: "apply_projection base58 (ob_event x) (position_of x) (fst (key_of x)) ?db = Inr db'"
    using projection_runs [OF assms(5)] by blast
  have "newer base58 ?db (ob_event x) (position_of x)"
    using assms(3) by (auto simp: newer_def split: option.splits)
  with projection_shows [OF run _ assms(2)] assms(1)
  have "mirrors base58 db' (replay_event (ob_event x) V)"
    by simp
  moreover have "last_of base58 db' s = last_of base58 db s \<or>
      subject_of (ob_event x) = Some s \<and> last_of base58 db' s = Some (position_of x)" for s
    using projection_last [OF run assms(2), of s] by simp
  ultimately show ?thesis
    using run assms(4,6) by (simp add: persist_storable)
qed

section \<open>Histories\<close>

text \<open>
  Events that concern the same record must come with increasing positions, and no two events
  share an identity.
\<close>

definition precedes :: "observed_event \<Rightarrow> observed_event \<Rightarrow> bool" where
  "precedes x y \<longleftrightarrow>
     (subject_of (ob_event x) \<noteq> None \<and> subject_of (ob_event x) = subject_of (ob_event y)
      \<longrightarrow> position_of x < position_of y)"

definition in_order :: "observed_event list \<Rightarrow> bool" where
  "in_order xs \<longleftrightarrow> sorted_wrt precedes xs \<and> distinct (map ob_id xs)"

lemma newer_after:
  assumes "newer base58 db (ob_event y) (position_of y)" "precedes x y"
    and "\<And>s. last_of base58 db' s = last_of base58 db s \<or>
      subject_of (ob_event x) = Some s \<and> last_of base58 db' s = Some (position_of x)"
  shows "newer base58 db' (ob_event y) (position_of y)"
proof (cases "subject_of (ob_event y)")
  case (Some s)
  then show ?thesis
    using assms(1,2) assms(3) [of s] by (auto simp: newer_def precedes_def)
qed (simp add: newer_def)

lemma store_mirrors:
  assumes "mirrors base58 db V" "inj base58" "in_order xs"
    and "\<And>x. x \<in> set xs \<Longrightarrow> storable x \<and> sound_event (ob_event x) \<and> protocol_events db (key_of x) = None
      \<and> newer base58 db (ob_event x) (position_of x)"
  shows "\<exists>db'. put_all (persist base58 payload) xs db = Inr db'
    \<and> mirrors base58 db' (fold replay_event (map ob_event xs) V)"
  using assms(1,3,4)
proof (induction xs arbitrary: db V)
  case (Cons x xs)
  obtain db1 where p: "persist base58 payload x db = Inr (True, db1)"
    and m: "mirrors base58 db1 (replay_event (ob_event x) V)"
    and l: "\<And>s. last_of base58 db1 s = last_of base58 db s \<or>
      subject_of (ob_event x) = Some s \<and> last_of base58 db1 s = Some (position_of x)"
    using persist_mirrors [OF Cons.prems(1) assms(2), of x payload] Cons.prems(3) [of x] by auto
  have "storable y \<and> sound_event (ob_event y) \<and> protocol_events db1 (key_of y) = None
      \<and> newer base58 db1 (ob_event y) (position_of y)" if "y \<in> set xs" for y
  proof -
    have "key_of y \<noteq> key_of x" "precedes x y"
      using Cons.prems(2) that unfolding key_of_inject
      by (simp_all add: in_order_def) (metis imageI)
    then show ?thesis
      using Cons.prems(3) [of y] that persist_Inr(3) [OF p] newer_after [OF _ _ l]
      by (simp add: with_event_def insert_ignore_apply)
  qed
  moreover have "in_order xs"
    using Cons.prems(2) by (simp add: in_order_def)
  ultimately show ?case
    using Cons.IH [OF m] p by simp
qed simp

text \<open>
  When the events of any history of the program are stored, each in range of the columns and those
  about one record in increasing positions, every insertion succeeds, and afterwards the tables of
  escrows, vaults and withdrawal requests hold exactly the records of the ledger, with their current
  status, authority and pause state.
\<close>

lemma database_shows_chain:
  assumes "token_laws rt" "reachable rt L log" "inj base58"
    and "map ob_event xs = log" "in_order xs"
    and range: "\<And>x. x \<in> set xs \<Longrightarrow> uint (ob_slot x) < 2 ^ 63 \<and> uint (id_instruction_index (ob_id x)) < 2 ^ 31
      \<and> uint (id_event_index (ob_id x)) < 2 ^ 31"
  shows "\<exists>db. put_all (persist base58 payload) xs empty_database = Inr db
    \<and> mirrors base58 db (views_of rt L)"
proof -
  have sound: "sound_event (ob_event x)" if "x \<in> set xs" for x
    using reachable_sound [OF assms(2)] that assms(4) by auto
  have "storable x \<and> sound_event (ob_event x) \<and> protocol_events empty_database (key_of x) = None
      \<and> newer base58 (empty_database :: 'a database) (ob_event x) (position_of x)" if "x \<in> set xs" for x
    using range [OF that] sound [OF that] sound_version [OF sound [OF that]]
    by (auto simp: storable_def INITIAL_SCHEMA_VERSION_def empty_database_def newer_def
        split: option.splits elim: last_of.elims)
  moreover have "mirrors base58 (empty_database :: 'a database) no_views"
    by (simp add: mirrors_def shows_table_def empty_database_def no_views_def)
  ultimately show ?thesis
    using store_mirrors [OF _ assms(3,5)] token_laws.views_rebuilt [OF assms(1,2)] assms(4) by fastforce
qed

text \<open>A stand-in for base58.\<close>

definition sample_base58 :: "pubkey \<Rightarrow> string" where
  "sample_base58 k = replicate (unat k) (CHR ''1'')"

lemma sample_base58_inj: "inj sample_base58"
  by (rule injI) (metis length_replicate sample_base58_def word_unat_eq_iff)

section \<open>Two transactions in one slot\<close>

text \<open>
  A position does not say which transaction of a slot came first. An escrow that is created by
  one transaction and released by a later transaction of the same slot, both in their first
  instruction, stays \<open>funded\<close> in the database for good: the order that the lemma above assumes
  is not one that the chain guarantees.
\<close>

definition same_slot_observed :: "observed_event list" where
  "same_slot_observed =
     [observed ''a'' 1 None 0 0 (ProtocolInitialized 1 10 6 7),
      observed ''b'' 2 None 0 0 (EscrowCreated 1 11 12 1 2 20 50 10 1000 7),
      observed ''c'' 2 None 0 0 (EscrowReleased 1 11 12 1 2 22 20 50)]"

lemma same_slot_release_lost:
  "reachable sample_runtime released_ledger (map ob_event same_slot_observed)
   \<and> (\<exists>db. put_all (persist base58 payload) same_slot_observed empty_database = Inr db
        \<and> map_option ew_status (escrows db (base58 11)) = Some ''funded'')"
proof
  show "reachable sample_runtime released_ledger (map ob_event same_slot_observed)"
    using reachable_released by (simp add: same_slot_observed_def observed_def)
  show "\<exists>db. put_all (persist base58 payload) same_slot_observed empty_database = Inr db
      \<and> map_option ew_status (escrows db (base58 11)) = Some ''funded''"
    by (simp add: same_slot_observed_def observed_def persist_storable storable_def key_of_def position_of_def
        with_event_def empty_database_def insert_ignore_def update_escrow_status_def update_where_def
        update_checkpoint_def Let_def)
qed

end
