(* ===== verification/Reporting.thy ===== *)
theory Reporting
  imports Store
begin

text \<open>
  What the observer reports: alerts (\<open>observer/src/alerts.rs\<close>), counters and their Prometheus
  rendering (\<open>observer/src/metrics.rs\<close>), readiness (\<open>observer/src/health.rs\<close>), and the counting
  of events (\<open>record_event\<close> of \<open>observer/src/rpc.rs\<close>).
\<close>

section \<open>Alerts\<close>

datatype alert =
    ProtocolPaused u32
  | VaultPaused string
  | LargeWithdrawalRequested string u64
  | VaultAuthorityChanged string string
  | GuardianChanged string string
  | ProgramUpgradeObserved
  | ObserverFallingBehind u64

fun classify_event :: "(pubkey \<Rightarrow> string) \<Rightarrow> u64 \<Rightarrow> event \<Rightarrow> alert option" where
  "classify_event base58 threshold (ProtocolPauseUpdated _ _ _ _ new_flags) =
     (if new_flags \<noteq> 0 then Some (ProtocolPaused new_flags) else None)"
| "classify_event base58 threshold (VaultPauseUpdated _ vault _ paused) =
     (if paused then Some (VaultPaused (base58 vault)) else None)"
| "classify_event base58 threshold (WithdrawalRequested _ _ _ request_key _ _ _ _ _ amount _ _ _) =
     (if amount \<ge> threshold then Some (LargeWithdrawalRequested (base58 request_key) amount) else None)"
| "classify_event base58 threshold (VaultAuthorityUpdated _ vault _ new_authority) =
     Some (VaultAuthorityChanged (base58 vault) (base58 new_authority))"
| "classify_event base58 threshold _ = None"

section \<open>Metrics\<close>

text \<open>Atomic counters wrap around; the slot lag is a signed gauge.\<close>

record metrics =
  events_total :: u64
  rpc_errors_total :: u64
  rpc_reconnects_total :: u64
  observer_slot_lag :: i64
  decode_errors_total :: u64
  escrows_created_total :: u64
  withdrawals_requested_total :: u64
  withdrawals_executed_total :: u64
  pauses_total :: u64

definition metrics_default :: metrics where
  "metrics_default =
     \<lparr>events_total = 0, rpc_errors_total = 0, rpc_reconnects_total = 0, observer_slot_lag = 0,
      decode_errors_total = 0, escrows_created_total = 0, withdrawals_requested_total = 0,
      withdrawals_executed_total = 0, pauses_total = 0\<rparr>"

fun record_kind :: "event \<Rightarrow> metrics \<Rightarrow> metrics" where
  "record_kind (EscrowCreated _ _ _ _ _ _ _ _ _ _) m =
     m\<lparr>escrows_created_total := escrows_created_total m + 1\<rparr>"
| "record_kind (WithdrawalRequested _ _ _ _ _ _ _ _ _ _ _ _ _) m =
     m\<lparr>withdrawals_requested_total := withdrawals_requested_total m + 1\<rparr>"
| "record_kind (WithdrawalExecuted _ _ _ _ _ _ _ _ _) m =
     m\<lparr>withdrawals_executed_total := withdrawals_executed_total m + 1\<rparr>"
| "record_kind (ProtocolPauseUpdated _ _ _ _ new_flags) m =
     (if new_flags \<noteq> 0 then m\<lparr>pauses_total := pauses_total m + 1\<rparr> else m)"
| "record_kind (VaultPauseUpdated _ _ _ paused) m =
     (if paused then m\<lparr>pauses_total := pauses_total m + 1\<rparr> else m)"
| "record_kind _ m = m"

definition record_event :: "event \<Rightarrow> metrics \<Rightarrow> metrics" where
  "record_event event m = record_kind event (m\<lparr>events_total := events_total m + 1\<rparr>)"

definition newline :: string where
  "newline = [CHR 0x0A]"

definition counter :: "string \<Rightarrow> string \<Rightarrow> u64 \<Rightarrow> string" where
  "counter name help value =
     ''# HELP '' @ name @ '' '' @ help @ newline @ ''# TYPE '' @ name @ '' counter'' @ newline
     @ name @ '' '' @ decimal (unat value) @ newline"

definition decimal_i64 :: "i64 \<Rightarrow> string" where
  "decimal_i64 value =
     (if sint value < 0 then ''-'' @ decimal (nat (- sint value)) else decimal (nat (sint value)))"

definition gauge :: "string \<Rightarrow> string \<Rightarrow> i64 \<Rightarrow> string" where
  "gauge name help value =
     ''# HELP '' @ name @ '' '' @ help @ newline @ ''# TYPE '' @ name @ '' gauge'' @ newline
     @ name @ '' '' @ decimal_i64 value @ newline"

definition metrics_render :: "metrics \<Rightarrow> string" where
  "metrics_render m =
     counter ''ironvault_events_total'' ''Persisted protocol events'' (events_total m)
     @ counter ''ironvault_rpc_errors_total'' ''Solana RPC and WebSocket errors'' (rpc_errors_total m)
     @ counter ''ironvault_rpc_reconnects_total'' ''WebSocket reconnections'' (rpc_reconnects_total m)
     @ gauge ''ironvault_observer_slot_lag'' ''Latest RPC slot minus latest observed slot'' (observer_slot_lag m)
     @ counter ''ironvault_decode_errors_total'' ''IronVault event decode errors'' (decode_errors_total m)
     @ counter ''ironvault_escrows_created_total'' ''Created escrows'' (escrows_created_total m)
     @ counter ''ironvault_withdrawals_requested_total'' ''Requested timelocked withdrawals''
         (withdrawals_requested_total m)
     @ counter ''ironvault_withdrawals_executed_total'' ''Executed timelocked withdrawals''
         (withdrawals_executed_total m)
     @ counter ''ironvault_pauses_total'' ''Protocol and vault pause activations'' (pauses_total m)"

section \<open>Readiness\<close>

record sync_status =
  connected :: bool
  reconciled :: bool
  observed_slot :: u64
  rpc_slot :: u64

definition sync_status_default :: sync_status where
  "sync_status_default = \<lparr>connected = False, reconciled = False, observed_slot = 0, rpc_slot = 0\<rparr>"

definition saturating_sub :: "u64 \<Rightarrow> u64 \<Rightarrow> u64" where
  "saturating_sub a b = (if b \<le> a then a - b else 0)"

text \<open>The JSON body of the readiness response, and the status code.\<close>

record ready_body =
  rb_status :: string
  rb_database :: bool
  rb_websocket :: bool
  rb_reconciled :: bool
  rb_observed_slot :: u64
  rb_rpc_slot :: u64
  rb_slot_lag :: u64

definition readyz :: "u64 \<Rightarrow> bool \<Rightarrow> sync_status \<Rightarrow> nat \<times> ready_body" where
  "readyz max_ready_slot_lag database_ready sync =
     (let lag = saturating_sub (rpc_slot sync) (observed_slot sync);
          ready = (database_ready \<and> connected sync \<and> reconciled sync \<and> lag \<le> max_ready_slot_lag)
      in (if ready then 200 else 503,
          \<lparr>rb_status = (if ready then ''ready'' else ''not_ready''), rb_database = database_ready,
           rb_websocket = connected sync, rb_reconciled = reconciled sync,
           rb_observed_slot = observed_slot sync, rb_rpc_slot = rpc_slot sync, rb_slot_lag = lag\<rparr>))"

lemma lag_within:
  "saturating_sub slot seen \<le> limit \<longleftrightarrow> unat slot \<le> unat seen + unat limit"
  by (auto simp: saturating_sub_def word_le_nat_alt unat_sub_le)

lemma readyz_200:
  "fst (readyz limit database_ready sync) = 200 \<longleftrightarrow>
     database_ready \<and> connected sync \<and> reconciled sync
     \<and> unat (rpc_slot sync) \<le> unat (observed_slot sync) + unat limit"
  by (simp add: readyz_def Let_def lag_within)

section \<open>Rendering\<close>

text \<open>A scraper: the text after the name on the first line that starts with the name and a space.\<close>

fun text_lines :: "string \<Rightarrow> string \<Rightarrow> string list" where
  "text_lines acc [] = (if acc = [] then [] else [acc])"
| "text_lines acc (c # s) = (if c = CHR 0x0A then acc # text_lines [] s else text_lines (acc @ [c]) s)"

definition scrape :: "string \<Rightarrow> string \<Rightarrow> string option" where
  "scrape name s = map_option (drop (length name + 1)) (find (\<lambda>l. starts_with l (name @ '' '')) (text_lines [] s))"

lemma text_lines_line: "CHR 0x0A \<notin> set a \<Longrightarrow> text_lines acc (a @ newline @ s) = (acc @ a) # text_lines [] s"
  by (induction a arbitrary: acc) (auto simp: newline_def)

lemma decimal_no_newline [simp]: "CHR 0x0A \<notin> set (decimal n)"
  using decimal_digits [of "CHR 0x0A" n] by auto

lemma decimal_i64_no_newline [simp]: "CHR 0x0A \<notin> set (decimal_i64 v)"
  by (simp add: decimal_i64_def)

definition sample_lines :: "string \<Rightarrow> string \<Rightarrow> string \<Rightarrow> string \<Rightarrow> string list" where
  "sample_lines kind name help value =
     [''# HELP '' @ name @ '' '' @ help, ''# TYPE '' @ name @ '' '' @ kind, name @ '' '' @ value]"

lemma sample_text_lines:
  assumes "CHR 0x0A \<notin> set name" "CHR 0x0A \<notin> set help"
  shows "text_lines [] (counter name help c @ s) = sample_lines ''counter'' name help (decimal (unat c)) @ text_lines [] s"
    and "text_lines [] (gauge name help g @ s) = sample_lines ''gauge'' name help (decimal_i64 g) @ text_lines [] s"
proof -
  have eq: "counter name help c @ s = (''# HELP '' @ name @ '' '' @ help) @ newline
      @ (''# TYPE '' @ name @ '' counter'') @ newline @ (name @ '' '' @ decimal (unat c)) @ newline @ s"
    "gauge name help g @ s = (''# HELP '' @ name @ '' '' @ help) @ newline
      @ (''# TYPE '' @ name @ '' gauge'') @ newline @ (name @ '' '' @ decimal_i64 g) @ newline @ s"
    by (simp_all add: counter_def gauge_def)
  show "text_lines [] (counter name help c @ s) = sample_lines ''counter'' name help (decimal (unat c)) @ text_lines [] s"
    unfolding eq by (subst text_lines_line, use assms in simp)+
      (simp add: sample_lines_def)
  show "text_lines [] (gauge name help g @ s) = sample_lines ''gauge'' name help (decimal_i64 g) @ text_lines [] s"
    unfolding eq by (subst text_lines_line, use assms in simp)+
      (simp add: sample_lines_def)
qed

text \<open>What is exposed: kind, name, help text and value of each metric.\<close>

definition samples :: "metrics \<Rightarrow> (string \<times> string \<times> string \<times> string) list" where
  "samples m =
     [(''counter'', ''ironvault_events_total'', ''Persisted protocol events'', decimal (unat (events_total m))),
      (''counter'', ''ironvault_rpc_errors_total'', ''Solana RPC and WebSocket errors'',
         decimal (unat (rpc_errors_total m))),
      (''counter'', ''ironvault_rpc_reconnects_total'', ''WebSocket reconnections'',
         decimal (unat (rpc_reconnects_total m))),
      (''gauge'', ''ironvault_observer_slot_lag'', ''Latest RPC slot minus latest observed slot'',
         decimal_i64 (observer_slot_lag m)),
      (''counter'', ''ironvault_decode_errors_total'', ''IronVault event decode errors'',
         decimal (unat (decode_errors_total m))),
      (''counter'', ''ironvault_escrows_created_total'', ''Created escrows'',
         decimal (unat (escrows_created_total m))),
      (''counter'', ''ironvault_withdrawals_requested_total'', ''Requested timelocked withdrawals'',
         decimal (unat (withdrawals_requested_total m))),
      (''counter'', ''ironvault_withdrawals_executed_total'', ''Executed timelocked withdrawals'',
         decimal (unat (withdrawals_executed_total m))),
      (''counter'', ''ironvault_pauses_total'', ''Protocol and vault pause activations'',
         decimal (unat (pauses_total m)))]"

lemma metrics_lines:
  "text_lines [] (metrics_render m) = concat (map (\<lambda>(k, n, h, v). sample_lines k n h v) (samples m))"
  using sample_text_lines [of _ _ _ "[]"] by (simp add: metrics_render_def samples_def sample_text_lines)

lemma metrics_scraped:
  assumes "(kind, name, help, value) \<in> set (samples m)"
  shows "scrape name (metrics_render m) = Some value"
proof -
  have "\<forall>(k, n, h, v) \<in> set (samples m). scrape n (metrics_render m) = Some v"
    by (simp add: scrape_def metrics_lines samples_def sample_lines_def starts_with_def)
  with assms show ?thesis
    by fastforce
qed

end
