(* ===== verification/Sync.thy ===== *)
theory Sync
  imports Reporting
begin

text \<open>
  The observer's synchronisation (\<open>observer/src/rpc.rs\<close>, \<open>Observer\<close>): processing the logs of a
  transaction, reconciling with the finalized history, the connection loop and the slot monitor.
  The RPC node, the database link and the libraries are parameters; the node's answers are
  values, so every failure of a call is a branch.
\<close>

section \<open>State\<close>

text \<open>The libraries and settings of an \<open>Observer\<close>, and what it changes.\<close>

record 'j observer =
  op_sha256 :: "u8 list \<Rightarrow> u8 list"
  op_base64 :: "string \<Rightarrow> u8 list option"
  op_base58 :: "pubkey \<Rightarrow> string"
  op_payload :: "event \<Rightarrow> 'j"
  op_program_id :: string
  op_large_withdrawal_threshold :: u64

record 'j world =
  wo_database :: "'j database"
  wo_metrics :: metrics
  wo_alerts :: "alert list"
  wo_status :: sync_status

datatype observer_error =
    StoreFailed store_error
  | DatabaseUnreachable
  | RpcFailed
  | ConnectionFailed

text \<open>
  One use of the database: it answers, it cannot be reached, or the answer is lost after the
  transaction was committed.
\<close>

datatype link = Answers | Unavailable | LostAfterCommit

definition persist_over ::
    "'j observer \<Rightarrow> link \<Rightarrow> observed_event \<Rightarrow> 'j database \<Rightarrow> (observer_error + bool) \<times> 'j database" where
  "persist_over ob l x db =
     (if l = Unavailable then (Inl DatabaseUnreachable, db)
      else case persist (op_base58 ob) (op_payload ob) x db of
             Inl e \<Rightarrow> (Inl (StoreFailed e), db)
           | Inr (inserted, db') \<Rightarrow> (if l = Answers then Inr inserted else Inl DatabaseUnreachable, db'))"

section \<open>Processing logs\<close>

text \<open>Counting and alerting after an insertion.\<close>

definition announce :: "'j observer \<Rightarrow> observed_event \<Rightarrow> 'j world \<Rightarrow> 'j world" where
  "announce ob x w =
     w\<lparr>wo_metrics := record_event (ob_event x) (wo_metrics w),
       wo_alerts := wo_alerts w @
         (case classify_event (op_base58 ob) (op_large_withdrawal_threshold ob) (ob_event x) of
            None \<Rightarrow> [] | Some a \<Rightarrow> [a])\<rparr>"

definition count_decode_error :: "'j world \<Rightarrow> 'j world" where
  "count_decode_error w =
     w\<lparr>wo_metrics := (wo_metrics w)\<lparr>decode_errors_total := decode_errors_total (wo_metrics w) + 1\<rparr>\<rparr>"

fun handle_items ::
    "'j observer \<Rightarrow> (observed_event \<Rightarrow> link) \<Rightarrow> (decode_error + observed_event) list \<Rightarrow> 'j world
     \<Rightarrow> observer_error option \<times> 'j world" where
  "handle_items ob link [] w = (None, w)"
| "handle_items ob link (Inl e # items) w = handle_items ob link items (count_decode_error w)"
| "handle_items ob link (Inr x # items) w =
     (case persist_over ob (link x) x (wo_database w) of
        (Inl e, db) \<Rightarrow> (Some e, w\<lparr>wo_database := db\<rparr>)
      | (Inr inserted, db) \<Rightarrow>
          handle_items ob link items
            (if inserted then announce ob x (w\<lparr>wo_database := db\<rparr>) else w\<lparr>wo_database := db\<rparr>))"

definition process_logs ::
    "'j observer \<Rightarrow> (observed_event \<Rightarrow> link) \<Rightarrow> string \<Rightarrow> u64 \<Rightarrow> i64 option \<Rightarrow> string list \<Rightarrow> 'j world
     \<Rightarrow> observer_error option \<times> 'j world" where
  "process_logs ob link signature slot block_time logs w =
     handle_items ob link
       (extract_events (op_sha256 ob) (op_base64 ob) signature slot block_time logs (op_program_id ob)) w"

section \<open>Reconciliation\<close>

record signature_info =
  si_signature :: string
  si_err :: bool

record transaction_meta =
  tm_err :: bool
  tm_log_messages :: "string list option"

record transaction_result =
  tr_slot :: u64
  tr_block_time :: "i64 option"
  tr_meta :: "transaction_meta option"

text \<open>
  A response as it is deserialized: a \<open>null\<close> or absent field is \<open>None\<close>. A request that got no
  response, a failure status or a body that does not parse is \<open>None\<close> as a whole.
\<close>

record 'a rpc_envelope =
  en_result :: "'a option"
  en_error :: "string option"

definition rpc :: "'a rpc_envelope option \<Rightarrow> 'a option" where
  "rpc response =
     (case response of
        None \<Rightarrow> None
      | Some envelope \<Rightarrow> if en_error envelope \<noteq> None then None else en_result envelope)"

text \<open>
  A response read with an optional type: deserializing \<open>null\<close> into nested options gives the outer
  \<open>None\<close>, never \<open>Some None\<close>.
\<close>

definition nullable :: "'a rpc_envelope option \<Rightarrow> 'a option rpc_envelope option" where
  "nullable = map_option (\<lambda>e. \<lparr>en_result = map_option Some (en_result e), en_error = en_error e\<rparr>)"

text \<open>
  The node: \<open>getSignaturesForAddress\<close> with an optional \<open>before\<close> and limit 1000, \<open>getTransaction\<close>
  and \<open>getSlot\<close>, each with its response.
\<close>

record node =
  nd_signatures :: "string option \<Rightarrow> signature_info list rpc_envelope option"
  nd_transaction :: "string \<Rightarrow> transaction_result rpc_envelope option"
  nd_slot :: "u64 rpc_envelope option"

definition page_limit :: nat where
  "page_limit = 1000"

text \<open>The paging loop; \<open>None\<close> is a loop that never ends, \<open>Some None\<close> a failed call.\<close>

partial_function (option) collect_signatures ::
    "node \<Rightarrow> string option \<Rightarrow> string option \<Rightarrow> signature_info list \<Rightarrow> signature_info list option option" where
  "collect_signatures nd checkpoint before signatures =
     (case rpc (nd_signatures nd before) of
        None \<Rightarrow> Some None
      | Some page \<Rightarrow>
          if (case checkpoint of None \<Rightarrow> False | Some s \<Rightarrow> s \<in> si_signature ` set page) \<or> length page < page_limit
          then Some (Some (signatures @ filter (\<lambda>i. \<not> si_err i) page))
          else collect_signatures nd checkpoint
                 (if page = [] then None else Some (si_signature (last page)))
                 (signatures @ filter (\<lambda>i. \<not> si_err i) page))"

fun replay_signatures ::
    "'j observer \<Rightarrow> (observed_event \<Rightarrow> link) \<Rightarrow> node \<Rightarrow> signature_info list \<Rightarrow> 'j world
     \<Rightarrow> observer_error option \<times> 'j world" where
  "replay_signatures ob link nd [] w = (None, w)"
| "replay_signatures ob link nd (info # infos) w =
     (case rpc (nullable (nd_transaction nd (si_signature info))) of
        None \<Rightarrow> (Some RpcFailed, w)
      | Some None \<Rightarrow> replay_signatures ob link nd infos w
      | Some (Some t) \<Rightarrow>
          (case tr_meta t of
             None \<Rightarrow> replay_signatures ob link nd infos w
           | Some meta \<Rightarrow>
               if tm_err meta then replay_signatures ob link nd infos w
               else case tm_log_messages meta of
                      None \<Rightarrow> replay_signatures ob link nd infos w
                    | Some logs \<Rightarrow>
                        (case process_logs ob link (si_signature info) (tr_slot t) (tr_block_time t) logs w of
                           (Some e, w') \<Rightarrow> (Some e, w')
                         | (None, w') \<Rightarrow> replay_signatures ob link nd infos w')))"

definition reconcile ::
    "'j observer \<Rightarrow> (observed_event \<Rightarrow> link) \<Rightarrow> bool \<Rightarrow> node \<Rightarrow> 'j world
     \<Rightarrow> (observer_error option \<times> 'j world) option" where
  "reconcile ob link readable nd w =
     (if \<not> readable then Some (Some DatabaseUnreachable, w)
      else case collect_signatures nd (checkpoint_signature (wo_database w)) None [] of
             None \<Rightarrow> None
           | Some None \<Rightarrow> Some (Some RpcFailed, w)
           | Some (Some signatures) \<Rightarrow> Some (replay_signatures ob link nd (rev signatures) w))"

definition reconcile_to_finalized_slot ::
    "'j observer \<Rightarrow> (observed_event \<Rightarrow> link) \<Rightarrow> bool \<Rightarrow> node \<Rightarrow> 'j world
     \<Rightarrow> (observer_error option \<times> 'j world) option" where
  "reconcile_to_finalized_slot ob link readable nd w =
     (case reconcile ob link readable nd w of
        None \<Rightarrow> None
      | Some (Some e, w') \<Rightarrow> Some (Some e, w')
      | Some (None, w') \<Rightarrow>
          (case rpc (nd_slot nd) of
             None \<Rightarrow> Some (Some RpcFailed, w')
           | Some slot \<Rightarrow> Some (None, w'\<lparr>wo_status := (wo_status w')
               \<lparr>reconciled := True, rpc_slot := slot,
                observed_slot := max (observed_slot (wo_status w')) slot\<rparr>\<rparr>)))"

section \<open>Responses\<close>

definition answered :: "'a \<Rightarrow> 'a rpc_envelope option" where
  "answered x = Some \<lparr>en_result = Some x, en_error = None\<rparr>"

lemma rpc_nullable: "rpc (nullable response) = map_option Some (rpc response)"
  by (auto simp: rpc_def nullable_def split: option.splits)

lemma rpc_answered [simp]: "rpc (answered x) = Some x" "rpc (nullable (answered x)) = Some (Some x)"
  by (simp_all add: rpc_nullable) (simp_all add: rpc_def answered_def)

text \<open>
  A transaction the node does not have is answered with \<open>null\<close>. The code has a branch that
  skips it, but the response counts as one without a result, so the replay fails: a replay that
  completes has fetched every transaction.
\<close>

lemma replay_needs_every_transaction:
  assumes "replay_signatures ob link nd infos w = (None, w')" "info \<in> set infos"
  shows "rpc (nd_transaction nd (si_signature info)) \<noteq> None"
  using assms
  by (induction infos arbitrary: w) (auto simp: rpc_nullable split: option.splits if_splits prod.splits)

section \<open>Processing is crash-safe\<close>

text \<open>
  However a run over a list of items ends, the database is as if a prefix of its events had
  been stored; an undisturbed run stores them all.
\<close>

lemma frame_simps [simp]:
  "wo_database (announce ob x w) = wo_database w"
  "wo_database (count_decode_error w) = wo_database w"
  by (simp_all add: announce_def count_decode_error_def)

abbreviation stores :: "'j observer \<Rightarrow> observed_event list \<Rightarrow> 'j database \<Rightarrow> store_error + 'j database" where
  "stores ob \<equiv> put_all (persist (op_base58 ob) (op_payload ob))"

lemma persist_over_Inr:
  "persist_over ob l x db = (Inr b, db') \<Longrightarrow> persist (op_base58 ob) (op_payload ob) x db = Inr (b, db')"
  by (auto simp: persist_over_def split: if_splits sum.splits)

lemma persist_over_Inl:
  "persist_over ob l x db = (Inl e, db') \<Longrightarrow>
     db' = db \<or> (\<exists>b. persist (op_base58 ob) (op_payload ob) x db = Inr (b, db'))"
  by (auto simp: persist_over_def split: if_splits sum.splits)

lemma handle_items_prefix:
  assumes "handle_items ob link items w = (e, w')"
  shows "\<exists>xs ys. oks items = xs @ ys \<and> stores ob xs (wo_database w) = Inr (wo_database w')
    \<and> (e = None \<longrightarrow> ys = [])"
  using assms
proof (induction items arbitrary: w)
  case (Cons item items)
  show ?case
  proof (cases item)
    case (Inl d)
    then show ?thesis
      using Cons.IH [of "count_decode_error w"] Cons.prems by simp
  next
    case (Inr x)
    obtain r db where po: "persist_over ob (link x) x (wo_database w) = (r, db)"
      by fastforce
    show ?thesis
    proof (cases r)
      case (Inl d)
      with Cons.prems Inr po have w': "w' = w\<lparr>wo_database := db\<rparr>" "e = Some d"
        by simp_all
      from persist_over_Inl [of ob "link x" x "wo_database w"] po Inl
      have "stores ob [] (wo_database w) = Inr db \<or> stores ob [x] (wo_database w) = Inr db"
        by auto
      then have "\<exists>xs ys. x # oks items = xs @ ys \<and> stores ob xs (wo_database w) = Inr db"
      proof (elim disjE)
        assume "stores ob [] (wo_database w) = Inr db"
        then show ?thesis
          by (intro exI [of _ "[]"] exI [of _ "x # oks items"]) simp
      next
        assume "stores ob [x] (wo_database w) = Inr db"
        then show ?thesis
          by (intro exI [of _ "[x]"] exI [of _ "oks items"]) simp
      qed
      with w' \<open>item = Inr x\<close> show ?thesis
        by simp
    next
      case (Inr b)
      let ?w = "if b then announce ob x (w\<lparr>wo_database := db\<rparr>) else w\<lparr>wo_database := db\<rparr>"
      have run: "handle_items ob link items ?w = (e, w')" and same: "wo_database ?w = db"
        using Cons.prems \<open>item = Inr x\<close> po Inr by simp_all
      from Cons.IH [OF run, unfolded same] obtain xs ys where "oks items = xs @ ys"
          "stores ob xs db = Inr (wo_database w')" "e = None \<longrightarrow> ys = []"
        by blast
      moreover have "persist (op_base58 ob) (op_payload ob) x (wo_database w) = Inr (b, db)"
        using po Inr persist_over_Inr by blast
      ultimately show ?thesis
        using \<open>item = Inr x\<close> by (intro exI [of _ "x # xs"] exI [of _ ys]) simp
    qed
  qed
qed simp

lemma handle_items_answers:
  assumes "stores ob (oks items) (wo_database w) = Inr db"
  shows "\<exists>w'. handle_items ob (\<lambda>_. Answers) items w = (None, w') \<and> wo_database w' = db"
  using assms
proof (induction items arbitrary: w)
  case (Cons item items)
  show ?case
  proof (cases item)
    case (Inl d)
    then show ?thesis
      using Cons.IH [of "count_decode_error w"] Cons.prems by simp
  next
    case (Inr x)
    with Cons.prems obtain b db1 where
        p: "persist (op_base58 ob) (op_payload ob) x (wo_database w) = Inr (b, db1)"
      and "stores ob (oks items) db1 = Inr db"
      by (auto simp: success_iff)
    then show ?thesis
      using Cons.IH [of "if b then announce ob x (w\<lparr>wo_database := db1\<rparr>) else w\<lparr>wo_database := db1\<rparr>"] Inr
      by (simp add: persist_over_def split: if_splits)
  qed
qed simp

lemma interrupted_runs:
  assumes "w' = fold (\<lambda>link w. snd (handle_items ob link items w)) links w"
  shows "\<exists>xs ys. oks items = xs @ ys \<and> stores ob xs (wo_database w) = Inr (wo_database w')"
  using assms
proof (induction links arbitrary: w' rule: rev_induct)
  case (snoc link links)
  define w0 where "w0 = fold (\<lambda>link w. snd (handle_items ob link items w)) links w"
  obtain e where last: "handle_items ob link items w0 = (e, w')"
    using snoc.prems by (cases "handle_items ob link items w0") (simp add: w0_def)
  from snoc.IH [OF w0_def] obtain xs ys where
    1: "oks items = xs @ ys" "stores ob xs (wo_database w) = Inr (wo_database w0)"
    by blast
  from handle_items_prefix [OF last] obtain us vs where
    2: "oks items = us @ vs" "stores ob us (wo_database w0) = Inr (wo_database w')"
    by blast
  from db.interrupted [OF 1(2) 2(2) trans [OF 1(1) [symmetric] 2(1)]] obtain ws rest where
    "ws @ rest = us @ vs" "stores ob ws (wo_database w) = Inr (wo_database w')"
    by blast
  with 2(1) show ?case
    by (intro exI [of _ ws] exI [of _ rest]) simp
next
  case Nil
  then show ?case
    by (intro exI [of _ "[]"] exI [of _ "oks items"]) simp
qed

text \<open>
  C30. A crash or an outage loses nothing and duplicates nothing: however often the processing of
  a transaction's logs is cut short, before, between or after the commits of its events, as soon
  as one run over the same logs completes, the database is the one a single undisturbed run
  produces.
\<close>

theorem processing_is_crash_safe:
  assumes "w' = fold (\<lambda>link w. snd (process_logs ob link signature slot block_time logs w)) links w"
    and "process_logs ob link signature slot block_time logs w' = (None, w1)"
  shows "\<exists>w2. process_logs ob (\<lambda>_. Answers) signature slot block_time logs w = (None, w2)
    \<and> wo_database w2 = wo_database w1"
proof -
  let ?items = "extract_events (op_sha256 ob) (op_base64 ob) signature slot block_time logs (op_program_id ob)"
  from interrupted_runs [of w' ob ?items links w] assms(1) obtain xs ys where
    xs: "oks ?items = xs @ ys" "stores ob xs (wo_database w) = Inr (wo_database w')"
    by (auto simp: process_logs_def)
  from handle_items_prefix [of ob link ?items w' None w1] assms(2)
  have "stores ob (oks ?items) (wo_database w') = Inr (wo_database w1)"
    by (auto simp: process_logs_def)
  then have "stores ob (oks ?items) (wo_database w) = Inr (wo_database w1)"
    using db.run_twice [OF xs(2), of ys] xs(1) by simp
  from handle_items_answers [OF this] show ?thesis
    by (simp add: process_logs_def)
qed

definition sample_observer :: "unit observer" where
  "sample_observer =
     \<lparr>op_sha256 = sample_hash, op_base64 = sample_base64, op_base58 = (\<lambda>k. decimal (unat k)),
      op_payload = (\<lambda>_. ()), op_program_id = ''Iron'', op_large_withdrawal_threshold = 1000\<rparr>"

definition start_world :: "'j world" where
  "start_world =
     \<lparr>wo_database = empty_database, wo_metrics = metrics_default, wo_alerts = [],
      wo_status = sync_status_default\<rparr>"

definition sample_logs :: "string list" where
  "sample_logs = transaction_logs (sample_transaction (VaultPauseUpdated 1 13 4 True))"

lemma sample_run:
  "fst (process_logs sample_observer (\<lambda>_. Answers) ''sig'' 42 None sample_logs w) = None"
proof -
  let ?xs = "[observed ''sig'' 42 None 1 0 (VaultPauseUpdated 1 13 4 True),
    observed ''sig'' 42 None 1 1 (VaultPauseUpdated 1 13 4 True)]"
  have "\<exists>db. stores sample_observer ?xs (wo_database w) = Inr db"
    by (rule stores_succeed) (auto simp: storable_def observed_def)
  then obtain db where "stores sample_observer (oks (map Inr ?xs :: (decode_error + observed_event) list)) (wo_database w) = Inr db"
    by auto
  from handle_items_answers [OF this] show ?thesis
    by (auto simp: process_logs_def sample_observer_def sample_logs_def sample_scan)
qed

theorem processing_is_crash_safe_witness:
  "\<exists>w2. process_logs sample_observer (\<lambda>_. Answers) ''sig'' 42 None sample_logs start_world = (None, w2)
     \<and> wo_database w2 = wo_database (snd (process_logs sample_observer (\<lambda>_. Answers) ''sig'' 42 None sample_logs
         (snd (process_logs sample_observer (\<lambda>_. LostAfterCommit) ''sig'' 42 None sample_logs start_world))))"
  by (rule processing_is_crash_safe [where links = "[\<lambda>_. LostAfterCommit]" and link = "\<lambda>_. Answers"])
     (simp_all add: sample_run prod_eq_iff)

section \<open>Reporting is exact\<close>

definition new_events :: "'j database \<Rightarrow> observed_event list \<Rightarrow> event list" where
  "new_events db xs = map ob_event (filter (\<lambda>x. protocol_events db (key_of x) = None) xs)"

definition alerts_for :: "'j observer \<Rightarrow> event list \<Rightarrow> alert list" where
  "alerts_for ob events =
     List.map_filter (classify_event (op_base58 ob) (op_large_withdrawal_threshold ob)) events"

definition count_decode_errors :: "nat \<Rightarrow> metrics \<Rightarrow> metrics" where
  "count_decode_errors n m = m\<lparr>decode_errors_total := decode_errors_total m + of_nat n\<rparr>"

lemma count_decode_errors_simps [simp]:
  "wo_metrics (count_decode_error w) = count_decode_errors 1 (wo_metrics w)"
  "wo_alerts (count_decode_error w) = wo_alerts w"
  "wo_status (count_decode_error w) = wo_status w"
  "count_decode_errors 0 m = m"
  "count_decode_errors a (count_decode_errors b m) = count_decode_errors (a + b) m"
  by (simp_all add: count_decode_error_def count_decode_errors_def algebra_simps)

lemma record_event_count:
  "record_event event (count_decode_errors n m) = count_decode_errors n (record_event event m)"
  by (cases event) (simp_all add: record_event_def count_decode_errors_def)

lemma record_events_count:
  "fold record_event events (count_decode_errors n m) = count_decode_errors n (fold record_event events m)"
  by (induction events arbitrary: m) (simp_all add: record_event_count)

lemma new_events_after:
  assumes "persist base58 payload x db = Inr (b, db')" "key_of x \<notin> key_of ` set xs"
  shows "new_events db' xs = new_events db xs"
proof -
  have "protocol_events db' (key_of y) = protocol_events db (key_of y)" if "y \<in> set xs" for y
  proof -
    have "key_of y \<noteq> key_of x"
      using assms(2) that by (metis imageI)
    then show ?thesis
      by (simp add: persist_Inr(3) [OF assms(1)] with_event_def insert_ignore_apply)
  qed
  then show ?thesis
    unfolding new_events_def by (intro arg_cong [where f = "map ob_event"] filter_cong) auto
qed

lemma length_oks: "length (oks items) \<le> length items"
proof (induction items)
  case (Cons item items)
  then show ?case
    by (cases item) simp_all
qed simp

lemma handle_items_reports:
  assumes "handle_items ob link items w = (None, w')" "distinct (map key_of (oks items))"
  shows "wo_alerts w' = wo_alerts w @ alerts_for ob (new_events (wo_database w) (oks items))
    \<and> wo_metrics w' = count_decode_errors (length items - length (oks items))
        (fold record_event (new_events (wo_database w) (oks items)) (wo_metrics w))
    \<and> wo_status w' = wo_status w"
  using assms
proof (induction items arbitrary: w)
  case Nil
  then show ?case
    by (simp add: new_events_def alerts_for_def map_filter_simps)
next
  case (Cons item items)
  show ?case
  proof (cases item)
    case (Inl e)
    then show ?thesis
      using Cons.IH [of "count_decode_error w"] Cons.prems length_oks [of items]
      by (simp add: record_events_count Suc_diff_le)
  next
    case (Inr x)
    with Cons.prems(1) obtain b db where po: "persist_over ob (link x) x (wo_database w) = (Inr b, db)"
      by (auto split: prod.splits sum.splits)
    let ?w = "if b then announce ob x (w\<lparr>wo_database := db\<rparr>) else w\<lparr>wo_database := db\<rparr>"
    note p = persist_over_Inr [OF po]
    have "new_events db (oks items) = new_events (wo_database w) (oks items)"
      using new_events_after [OF p] Cons.prems(2) Inr by simp
    moreover have "wo_database ?w = db"
      by simp
    ultimately show ?thesis
      using Cons.IH [of ?w] Cons.prems Inr po persist_Inr(2) [OF p]
      by (auto simp: announce_def new_events_def alerts_for_def map_filter_simps split: option.splits)
  qed
qed

lemma extract_keys_distinct:
  assumes "length logs < 2 ^ 31"
  shows "distinct (map key_of (oks (extract_events sha256 base64 signature slot block_time logs me)))"
proof -
  obtain s :: scan where "extract_events sha256 base64 signature slot block_time logs me = sc_output s"
      "sorted_wrt earlier (oks (sc_output s))"
    using extract_inv [OF assms, of signature sha256 base64 slot block_time me] unfolding scan_inv_def by blast
  then show ?thesis
    using earlier_distinct [of "oks (sc_output s)"] by (simp add: distinct_map inj_on_def key_of_inject)
qed

text \<open>
  C37. The observer counts and alerts exactly once: a completed run over a transaction's logs
  counts each event that was not stored before, raises the alerts of exactly these events, in
  order, and counts each undecodable line; a run that finds all events stored raises no alert
  and counts no event.
\<close>

theorem reports_exactly_new:
  assumes "length logs < 2 ^ 31"
    and "process_logs ob link signature slot block_time logs w = (None, w')"
    and "items = extract_events (op_sha256 ob) (op_base64 ob) signature slot block_time logs (op_program_id ob)"
    and "new = new_events (wo_database w) (oks items)"
  shows "wo_alerts w' = wo_alerts w @ alerts_for ob new
    \<and> wo_metrics w' = count_decode_errors (length items - length (oks items)) (fold record_event new (wo_metrics w))
    \<and> events_total (wo_metrics w') = events_total (wo_metrics w) + of_nat (length new)"
proof -
  have total: "events_total (fold record_event events m) = events_total m + of_nat (length events)" for events m
  proof (induction events arbitrary: m)
    case (Cons event events)
    have "events_total (record_event event m) = events_total m + 1"
      by (cases event) (simp_all add: record_event_def)
    with Cons show ?case
      by (simp add: algebra_simps)
  qed simp
  show ?thesis
    using handle_items_reports [of ob link items w w'] extract_keys_distinct [OF assms(1)] assms(2-4) total
    by (simp add: process_logs_def count_decode_errors_def)
qed

theorem reports_exactly_new_witness:
  "wo_alerts (snd (process_logs sample_observer (\<lambda>_. Answers) ''sig'' 42 None sample_logs start_world)) =
     [VaultPaused (decimal 13), VaultPaused (decimal 13)]"
proof -
  let ?w = "snd (process_logs sample_observer (\<lambda>_. Answers) ''sig'' 42 None sample_logs (start_world :: unit world))"
  have "process_logs sample_observer (\<lambda>_. Answers) ''sig'' 42 None sample_logs (start_world :: unit world) = (None, ?w)"
    using sample_run [of start_world] by (simp add: prod_eq_iff)
  moreover have "length sample_logs < 2 ^ 31"
    by (simp add: sample_logs_def transaction_logs_def sample_transaction_def)
  ultimately show ?thesis
    using reports_exactly_new [of sample_logs sample_observer "\<lambda>_. Answers" "''sig''" 42 None start_world ?w]
    by (simp add: sample_observer_def sample_logs_def sample_scan start_world_def empty_database_def new_events_def
        alerts_for_def map_filter_simps observed_def)
qed

section \<open>Reconciliation catches up\<close>

text \<open>
  What the node documents: with the finalized signatures of the program, newest first, a page
  holds up to a thousand of them, from the newest or from the one after \<open>before\<close>.
\<close>

definition serves :: "node \<Rightarrow> signature_info list \<Rightarrow> bool" where
  "serves nd history \<longleftrightarrow>
     distinct (map si_signature history)
     \<and> rpc (nd_signatures nd None) = Some (take page_limit history)
     \<and> (\<forall>i < length history. rpc (nd_signatures nd (Some (si_signature (history ! i))))
          = Some (take page_limit (drop (Suc i) history)))"

definition covers :: "string option \<Rightarrow> signature_info list \<Rightarrow> nat \<Rightarrow> bool" where
  "covers checkpoint history m \<longleftrightarrow>
     m = length history \<or> (\<exists>s. checkpoint = Some s \<and> s \<in> si_signature ` set (take m history))"

lemma serves_from:
  assumes "serves nd history" "i \<le> length history"
  shows "rpc (nd_signatures nd (if i = 0 then None else Some (si_signature (history ! (i - 1)))))
    = Some (take page_limit (drop i history))"
  using assms by (cases i) (simp_all add: serves_def)

lemma drop_take_split:
  assumes "i + p \<le> n"
  shows "drop i (take n xs) = take p (drop i xs) @ drop (i + p) (take n xs)"
proof -
  have "take p (drop i (take n xs)) = take p (drop i xs)"
    using assms by (simp add: drop_take min_def)
  moreover have "drop (i + p) (take n xs) = drop p (drop i (take n xs))"
    by (simp add: add.commute)
  ultimately show ?thesis
    by (metis append_take_drop_id)
qed

text \<open>The loop stops at a page that reaches the checkpoint or is not full; a full page is followed by the next.\<close>

lemma last_page_covers:
  assumes "(case checkpoint of None \<Rightarrow> False | Some s \<Rightarrow> s \<in> si_signature ` set (take page_limit (drop i history)))
    \<or> length (take page_limit (drop i history)) < page_limit"
  shows "covers checkpoint history (min (i + page_limit) (length history))"
  using assms
proof
  assume "case checkpoint of None \<Rightarrow> False | Some s \<Rightarrow> s \<in> si_signature ` set (take page_limit (drop i history))"
  moreover have "take page_limit (drop i history) = drop i (take (min (i + page_limit) (length history)) history)"
    by (simp add: drop_take min_def)
  ultimately show ?thesis
    using set_drop_subset by (fastforce simp: covers_def split: option.splits)
next
  assume "length (take page_limit (drop i history)) < page_limit"
  then have "length history < i + page_limit"
    by auto
  then show ?thesis
    by (simp add: covers_def)
qed

lemma full_page:
  assumes "\<not> length (take page_limit (drop i history)) < page_limit" "i \<le> length history"
  shows "i + page_limit \<le> length history" "take page_limit (drop i history) \<noteq> []"
    "last (take page_limit (drop i history)) = history ! (i + page_limit - 1)"
proof -
  show "i + page_limit \<le> length history"
    using assms by (auto simp: not_less min_def split: if_splits)
  then show "take page_limit (drop i history) \<noteq> []"
      "last (take page_limit (drop i history)) = history ! (i + page_limit - 1)"
    by (auto simp: page_limit_def last_conv_nth add.commute)
qed

lemma collect_from:
  assumes "serves nd history" "i \<le> length history"
    and "before = (if i = 0 then None else Some (si_signature (history ! (i - 1))))"
  shows "\<exists>m. i \<le> m \<and> m \<le> length history \<and> covers checkpoint history m
    \<and> collect_signatures nd checkpoint before acc
        = Some (Some (acc @ filter (\<lambda>x. \<not> si_err x) (drop i (take m history))))"
  using assms(2,3)
proof (induction "length history - i" arbitrary: i before acc rule: less_induct)
  case less
  let ?page = "take page_limit (drop i history)"
  let ?reached = "case checkpoint of None \<Rightarrow> False | Some s \<Rightarrow> s \<in> si_signature ` set ?page"
  have served: "rpc (nd_signatures nd before) = Some ?page"
    using serves_from [OF assms(1) less.prems(1)] less.prems(2) by simp
  define m where "m = min (i + page_limit) (length history)"
  have page: "?page = drop i (take m history)"
    by (simp add: m_def drop_take min_def)
  show ?case
  proof (cases "?reached \<or> length ?page < page_limit")
    case True
    have "covers checkpoint history m"
      unfolding m_def using True by (rule last_page_covers)
    moreover have "i \<le> m" "m \<le> length history"
      using less.prems(1) by (simp_all add: m_def)
    moreover have "collect_signatures nd checkpoint before acc
        = Some (Some (acc @ filter (\<lambda>x. \<not> si_err x) (drop i (take m history))))"
      unfolding page [symmetric] using True by (subst collect_signatures.simps) (simp only: served option.case if_True)
    ultimately show ?thesis
      by blast
  next
    case False
    then have "\<not> length ?page < page_limit"
      by blast
    note next_i = full_page(1) [OF this less.prems(1)] and last = full_page(2,3) [OF this less.prems(1)]
    have "0 < page_limit" and smaller: "length history - (i + page_limit) < length history - i"
      using next_i by (simp_all add: page_limit_def)
    from less.hyps [OF smaller next_i refl, of "acc @ filter (\<lambda>x. \<not> si_err x) ?page"] obtain n where
      n: "i + page_limit \<le> n" "n \<le> length history" "covers checkpoint history n"
      and run: "collect_signatures nd checkpoint (if i + page_limit = 0 then None
          else Some (si_signature (history ! (i + page_limit - 1)))) (acc @ filter (\<lambda>x. \<not> si_err x) ?page)
        = Some (Some ((acc @ filter (\<lambda>x. \<not> si_err x) ?page)
            @ filter (\<lambda>x. \<not> si_err x) (drop (i + page_limit) (take n history))))"
      by blast
    have "drop i (take n history) = ?page @ drop (i + page_limit) (take n history)"
      using n(1) by (rule drop_take_split)
    then have "collect_signatures nd checkpoint before acc
        = Some (Some (acc @ filter (\<lambda>x. \<not> si_err x) (drop i (take n history))))"
      using run False last \<open>0 < page_limit\<close> by (subst collect_signatures.simps) (simp add: served)
    with n show ?thesis
      by (intro exI [of _ n]) simp
  qed
qed

lemma collect_all:
  assumes "serves nd history"
  shows "\<exists>m \<le> length history. covers checkpoint history m
    \<and> collect_signatures nd checkpoint None [] = Some (Some (filter (\<lambda>x. \<not> si_err x) (take m history)))"
  using collect_from [OF assms, of 0 None checkpoint "[]"] by auto

text \<open>The events the observer finds in a finalized transaction.\<close>

definition finalized_events :: "'j observer \<Rightarrow> node \<Rightarrow> signature_info \<Rightarrow> observed_event list" where
  "finalized_events ob nd info =
     (case rpc (nullable (nd_transaction nd (si_signature info))) of
        Some (Some t) \<Rightarrow>
          (case tr_meta t of
             Some meta \<Rightarrow>
               (case tm_log_messages meta of
                  Some logs \<Rightarrow>
                    if tm_err meta then []
                    else oks (extract_events (op_sha256 ob) (op_base64 ob) (si_signature info) (tr_slot t)
                           (tr_block_time t) logs (op_program_id ob))
                | None \<Rightarrow> [])
           | None \<Rightarrow> [])
      | _ \<Rightarrow> [])"

lemma replay_signatures_stores:
  assumes "replay_signatures ob link nd infos w = (None, w')"
  shows "stores ob (concat (map (finalized_events ob nd) infos)) (wo_database w) = Inr (wo_database w')"
  using assms
proof (induction infos arbitrary: w)
  case (Cons info infos)
  then obtain w1 where rest: "replay_signatures ob link nd infos w1 = (None, w')"
    and first: "stores ob (finalized_events ob nd info) (wo_database w) = Inr (wo_database w1)"
    by (fastforce simp: finalized_events_def process_logs_def dest: handle_items_prefix
        split: option.splits if_splits prod.splits)
  then show ?case
    using Cons.IH [OF rest] by (simp add: put_all_append)
qed simp

text \<open>The history that is older than the checkpoint transaction.\<close>

definition older :: "string option \<Rightarrow> signature_info list \<Rightarrow> signature_info list" where
  "older checkpoint history =
     (case checkpoint of None \<Rightarrow> [] | Some s \<Rightarrow> tl (dropWhile (\<lambda>i. si_signature i \<noteq> s) history))"

lemma uncovered_is_older:
  assumes "covers checkpoint history m" "x \<in> set (drop m history)"
  shows "x \<in> set (older checkpoint history)"
proof -
  from assms obtain s where s: "checkpoint = Some s" "s \<in> si_signature ` set (take m history)"
    by (auto simp: covers_def)
  let ?P = "\<lambda>i. si_signature i \<noteq> s"
  have "dropWhile ?P history = dropWhile ?P (take m history) @ drop m history"
    using s(2) dropWhile_append1 [of _ "take m history" ?P "drop m history"] by auto
  moreover have "dropWhile ?P (take m history) \<noteq> []"
    using s(2) by auto
  ultimately show ?thesis
    using assms(2) s(1) by (auto simp: older_def tl_append split: list.splits)
qed

text \<open>
  C32. Reconciliation ends: however long the finalized history and wherever the checkpoint is,
  paging through the signatures stops, so a reconciliation always returns, with an error or
  without.
\<close>

theorem reconcile_terminates:
  assumes "serves nd history"
  shows "\<exists>e w'. reconcile ob link readable nd w = Some (e, w')"
proof (cases readable)
  case True
  from collect_all [OF assms] obtain sigs where
    "collect_signatures nd (checkpoint_signature (wo_database w)) None [] = Some (Some sigs)"
    by blast
  with True show ?thesis
    by (cases "replay_signatures ob link nd (rev sigs) w") (simp add: reconcile_def)
qed (simp add: reconcile_def)

text \<open>A node with one finalized transaction, for concrete runs.\<close>

definition sample_history :: "signature_info list" where
  "sample_history = [\<lparr>si_signature = ''sig'', si_err = False\<rparr>]"

definition sample_node :: node where
  "sample_node =
     \<lparr>nd_signatures = (\<lambda>before. answered (if before = None then sample_history else [])),
      nd_transaction = (\<lambda>_. answered \<lparr>tr_slot = 42, tr_block_time = None,
        tr_meta = Some \<lparr>tm_err = False, tm_log_messages = Some sample_logs\<rparr>\<rparr>),
      nd_slot = answered 50\<rparr>"

lemma sample_serves: "serves sample_node sample_history"
  by (simp add: serves_def sample_node_def sample_history_def page_limit_def)

lemma sample_reconcile:
  "\<exists>w'. reconcile sample_observer (\<lambda>_. Answers) True sample_node w = Some (None, w')"
proof -
  have "collect_signatures sample_node checkpoint None [] = Some (Some sample_history)" for checkpoint
    by (subst collect_signatures.simps) (simp add: sample_node_def sample_history_def page_limit_def)
  moreover obtain w' where
    "process_logs sample_observer (\<lambda>_. Answers) ''sig'' 42 None sample_logs w = (None, w')"
    using sample_run [of w] by (metis prod.collapse)
  ultimately show ?thesis
    by (simp add: reconcile_def sample_history_def sample_node_def)
qed

theorem reconcile_terminates_witness:
  "\<exists>e w'. reconcile sample_observer (\<lambda>_. Answers) True sample_node start_world = Some (e, w')"
  by (rule reconcile_terminates [OF sample_serves])

lemma reconcile_stores:
  assumes "serves nd history" "reconcile ob link readable nd w = Some (None, w')"
  shows "\<exists>m \<le> length history. covers (checkpoint_signature (wo_database w)) history m
    \<and> stores ob (concat (map (finalized_events ob nd) (rev (filter (\<lambda>x. \<not> si_err x) (take m history)))))
        (wo_database w) = Inr (wo_database w')"
proof -
  from collect_all [OF assms(1)] obtain m where m: "m \<le> length history"
      "covers (checkpoint_signature (wo_database w)) history m"
    and c: "collect_signatures nd (checkpoint_signature (wo_database w)) None []
      = Some (Some (filter (\<lambda>x. \<not> si_err x) (take m history)))"
    by blast
  with assms(2) have "replay_signatures ob link nd (rev (filter (\<lambda>x. \<not> si_err x) (take m history))) w = (None, w')"
    by (simp add: reconcile_def split: if_splits)
  from replay_signatures_stores [OF this] m show ?thesis
    by blast
qed

text \<open>
  C31. Reconciliation catches up from its checkpoint: provided that every event of the successful
  transactions older than the checkpoint transaction was already recorded when it started, and that the
  node pages through its history as documented (serves), then after a reconciliation without error
  every event of every successful transaction in the whole finalized history is recorded, whatever
  was missed since the checkpoint. The first condition is needed: paging stops at the page of the
  checkpoint, so an event missed further back is not looked for again.
\<close>

theorem reconcile_catches_up:
  assumes "serves nd history" "reconcile ob link readable nd w = Some (None, w')"
    and old: "\<And>info x. info \<in> set (older (checkpoint_signature (wo_database w)) history) \<Longrightarrow> \<not> si_err info \<Longrightarrow>
      x \<in> set (finalized_events ob nd info) \<Longrightarrow> recorded x (wo_database w)"
    and "info \<in> set history" "\<not> si_err info" "x \<in> set (finalized_events ob nd info)"
  shows "recorded x (wo_database w')"
proof -
  from reconcile_stores [OF assms(1,2)] obtain m where
      m: "covers (checkpoint_signature (wo_database w)) history m"
    and run: "stores ob (concat (map (finalized_events ob nd) (rev (filter (\<lambda>x. \<not> si_err x) (take m history)))))
      (wo_database w) = Inr (wo_database w')"
    by blast
  from assms(4) have "info \<in> set (take m history) \<or> info \<in> set (drop m history)"
    by (metis append_take_drop_id set_append Un_iff)
  then show ?thesis
  proof
    assume "info \<in> set (take m history)"
    with assms(5,6) show ?thesis
      by (intro db.put_all_records [OF run]) auto
  next
    assume "info \<in> set (drop m history)"
    then have "recorded x (wo_database w)"
      using old [OF uncovered_is_older [OF m] assms(5,6)] by simp
    then show ?thesis
      by (rule db.put_all_keeps [OF run])
  qed
qed

theorem reconcile_catches_up_witness:
  "\<exists>w'. reconcile sample_observer (\<lambda>_. Answers) True sample_node start_world = Some (None, w')
     \<and> recorded (observed ''sig'' 42 None 1 1 (VaultPauseUpdated 1 13 4 True)) (wo_database w')"
proof -
  obtain w' where run: "reconcile sample_observer (\<lambda>_. Answers) True sample_node start_world = Some (None, w')"
    using sample_reconcile by blast
  have "observed ''sig'' 42 None 1 1 (VaultPauseUpdated 1 13 4 True)
      \<in> set (finalized_events sample_observer sample_node \<lparr>si_signature = ''sig'', si_err = False\<rparr>)"
    by (simp add: finalized_events_def sample_node_def sample_observer_def sample_logs_def sample_scan)
  then have "recorded (observed ''sig'' 42 None 1 1 (VaultPauseUpdated 1 13 4 True)) (wo_database w')"
    by (intro reconcile_catches_up [OF sample_serves run])
       (auto simp: older_def checkpoint_signature_def start_world_def empty_database_def sample_history_def)
  with run show ?thesis
    by blast
qed

end
