(* ===== verification/Service.thy ===== *)
theory Service
  imports Sync
begin

text \<open>
  The running observer (\<open>observer/src/rpc.rs\<close>: \<open>run\<close>, \<open>run_connection\<close>, \<open>monitor_rpc_slot\<close>,
  \<open>fetch_deployment_slot\<close>): connecting, reconciling, notifications, periodic reconciliation and
  the slot monitor that runs beside them, as a step relation, and what readiness means in it.
\<close>

section \<open>The connection\<close>

text \<open>One message of the WebSocket.\<close>

datatype message =
    Notification u64 string bool "string list"
  | NotText
  | Malformed
  | Closed

definition set_status :: "(sync_status \<Rightarrow> sync_status) \<Rightarrow> 'j world \<Rightarrow> 'j world" where
  "set_status f w = w\<lparr>wo_status := f (wo_status w)\<rparr>"

fun on_message ::
    "'j observer \<Rightarrow> (observed_event \<Rightarrow> link) \<Rightarrow> message \<Rightarrow> 'j world \<Rightarrow> observer_error option \<times> 'j world" where
  "on_message ob link (Notification slot signature err logs) w =
     (let w1 = set_status (\<lambda>s. s\<lparr>observed_slot := max (observed_slot s) slot\<rparr>) w
      in if err then (None, w1) else process_logs ob link signature slot None logs w1)"
| "on_message ob link NotText w = (None, w)"
| "on_message ob link Malformed w = (Some ConnectionFailed, w)"
| "on_message ob link Closed w = (Some ConnectionFailed, w)"

text \<open>
  \<open>run\<close> counts reconnections from the second attempt on; an accepted subscription marks the
  connection as up and not reconciled; the end of a connection is counted and marked.
\<close>

definition count_attempt :: "bool \<Rightarrow> 'j world \<Rightarrow> 'j world" where
  "count_attempt connected_once w =
     (if connected_once
      then w\<lparr>wo_metrics := (wo_metrics w)\<lparr>rpc_reconnects_total := rpc_reconnects_total (wo_metrics w) + 1\<rparr>\<rparr>
      else w)"

definition subscribed :: "'j world \<Rightarrow> 'j world" where
  "subscribed = set_status (\<lambda>s. s\<lparr>connected := True, reconciled := False\<rparr>)"

definition connection_ended :: "'j world \<Rightarrow> 'j world" where
  "connection_ended w =
     set_status (\<lambda>s. s\<lparr>connected := False\<rparr>)
       (w\<lparr>wo_metrics := (wo_metrics w)\<lparr>rpc_errors_total := rpc_errors_total (wo_metrics w) + 1\<rparr>\<rparr>)"

section \<open>The slot monitor\<close>

text \<open>
  The account data in a response to \<open>getAccountInfo\<close>, with its encoding; and the deployment slot
  from the two loader accounts. \<open>get\<close> stands for the node's responses, \<open>encode\<close> for base58.
\<close>

record account_info_result =
  ai_value :: "(string \<times> string) option"

definition fetch_account_data ::
    "(string \<Rightarrow> u8 list option) \<Rightarrow> (string \<Rightarrow> account_info_result rpc_envelope option) \<Rightarrow> string \<Rightarrow> u8 list option" where
  "fetch_account_data base64 get address =
     Option.bind (rpc (get address)) (\<lambda>result.
     Option.bind (ai_value result) (\<lambda>(data, encoding).
     if encoding \<noteq> ''base64'' then None else base64 data))"

definition fetch_deployment_slot ::
    "(u8 list \<Rightarrow> string) \<Rightarrow> (string \<Rightarrow> u8 list option) \<Rightarrow> (string \<Rightarrow> account_info_result rpc_envelope option)
     \<Rightarrow> string \<Rightarrow> u64 option" where
  "fetch_deployment_slot encode base64 get program_id =
     Option.bind (fetch_account_data base64 get program_id) (\<lambda>program.
     if length program < 36 \<or> le_nat (take 4 program) \<noteq> 2 then None
     else Option.bind (fetch_account_data base64 get (encode (take 32 (drop 4 program)))) (\<lambda>program_data.
     if length program_data < 12 \<or> le_nat (take 4 program_data) \<noteq> 3 then None
     else Some (of_nat (le_nat (take 8 (drop 4 program_data))))))"

definition count_rpc_error :: "'j world \<Rightarrow> 'j world" where
  "count_rpc_error w = w\<lparr>wo_metrics := (wo_metrics w)\<lparr>rpc_errors_total := rpc_errors_total (wo_metrics w) + 1\<rparr>\<rparr>"

definition raise_alert :: "alert \<Rightarrow> 'j world \<Rightarrow> 'j world" where
  "raise_alert a w = w\<lparr>wo_alerts := wo_alerts w @ [a]\<rparr>"

text \<open>
  One round of \<open>monitor_rpc_slot\<close>, given the response to \<open>getSlot\<close>, the deployment slot it would
  fetch, and the last one known.
\<close>

definition monitor_round ::
    "u64 \<Rightarrow> u64 rpc_envelope option \<Rightarrow> u64 option \<Rightarrow> u64 option \<Rightarrow> 'j world \<Rightarrow> u64 option \<times> 'j world" where
  "monitor_round max_ready_slot_lag response deployment deployment_slot w =
     (case rpc response of
        None \<Rightarrow> (deployment_slot, count_rpc_error w)
      | Some slot \<Rightarrow>
          let w1 = set_status (\<lambda>s. s\<lparr>rpc_slot := slot\<rparr>) w;
              lag = saturating_sub slot (observed_slot (wo_status w1));
              w2 = w1\<lparr>wo_metrics := (wo_metrics w1)\<lparr>observer_slot_lag := lag\<rparr>\<rparr>;
              w3 = (if lag > max_ready_slot_lag then raise_alert (ObserverFallingBehind lag) w2 else w2)
          in (case deployment of
                None \<Rightarrow> (deployment_slot, count_rpc_error w3)
              | Some current \<Rightarrow>
                  (Some current,
                   if (case deployment_slot of None \<Rightarrow> False | Some previous \<Rightarrow> previous \<noteq> current)
                   then raise_alert ProgramUpgradeObserved w3 else w3)))"

section \<open>The service as a whole\<close>

text \<open>
  The main task is waiting to connect, reconciling after a subscription, or live; the monitor
  runs in any phase. The last argument is what the monitor remembers. A connection that cannot be
  made counts as one without an acknowledgement.
\<close>

datatype phase = Waiting | Syncing | Live

inductive service :: "'j observer \<Rightarrow> u64 \<Rightarrow> phase \<Rightarrow> bool \<Rightarrow> 'j world \<Rightarrow> u64 option \<Rightarrow> bool"
  for ob max_lag where
  start: "service ob max_lag Waiting False w None"
    if "wo_status w = sync_status_default"
| refused: "service ob max_lag Waiting True (connection_ended (count_attempt once w)) d"
    if "service ob max_lag Waiting once w d" "rpc (ack :: u64 rpc_envelope option) = None"
| accepted: "service ob max_lag Syncing True (subscribed (count_attempt once w)) d"
    if "service ob max_lag Waiting once w d" "rpc (ack :: u64 rpc_envelope option) = Some subscription"
| synced: "service ob max_lag Live once w' d"
    if "service ob max_lag Syncing once w d" "reconcile_to_finalized_slot ob link readable nd w = Some (None, w')"
| sync_failed: "service ob max_lag Waiting once (connection_ended w') d"
    if "service ob max_lag Syncing once w d" "reconcile_to_finalized_slot ob link readable nd w = Some (Some e, w')"
| handled: "service ob max_lag Live once w' d"
    if "service ob max_lag Live once w d" "on_message ob link msg w = (None, w')"
| message_failed: "service ob max_lag Waiting once (connection_ended w') d"
    if "service ob max_lag Live once w d" "on_message ob link msg w = (Some e, w')"
| ticked: "service ob max_lag Live once w' d"
    if "service ob max_lag Live once w d" "reconcile_to_finalized_slot ob link readable nd w = Some (None, w')"
| tick_failed: "service ob max_lag Waiting once (connection_ended w') d"
    if "service ob max_lag Live once w d" "reconcile_to_finalized_slot ob link readable nd w = Some (Some e, w')"
| monitored: "service ob max_lag ph once w' d'"
    if "service ob max_lag ph once w d"
      "monitor_round max_lag response (fetch_deployment_slot encode (op_base64 ob) get (op_program_id ob)) d w = (d', w')"

section \<open>Status\<close>

lemma status_simps [simp]:
  "wo_status (announce ob x w) = wo_status w"
  "wo_status (count_decode_error w) = wo_status w"
  "wo_status (count_attempt once w) = wo_status w"
  "wo_status (count_rpc_error w) = wo_status w"
  "wo_status (raise_alert a w) = wo_status w"
  "wo_status (set_status f w) = f (wo_status w)"
  "wo_status (subscribed w) = (wo_status w)\<lparr>connected := True, reconciled := False\<rparr>"
  "wo_status (connection_ended w) = (wo_status w)\<lparr>connected := False\<rparr>"
  by (simp_all add: announce_def count_decode_error_def count_attempt_def count_rpc_error_def raise_alert_def
      set_status_def subscribed_def connection_ended_def)

lemma handle_items_status: "wo_status (snd (handle_items ob link items w)) = wo_status w"
proof (induction ob link items w rule: handle_items.induct)
  case (3 ob link x items w)
  then show ?case
    by (simp split: prod.splits sum.splits)
qed simp_all

lemma process_logs_status:
  "process_logs ob link signature slot block_time logs w = (e, w') \<Longrightarrow> wo_status w' = wo_status w"
  using handle_items_status by (metis process_logs_def snd_conv)

lemma replay_signatures_status:
  "replay_signatures ob link nd infos w = (e, w') \<Longrightarrow> wo_status w' = wo_status w"
proof (induction infos arbitrary: w)
  case (Cons info infos)
  then show ?case
    by (auto split: option.splits if_splits prod.splits dest: process_logs_status)
qed simp

lemma reconcile_status: "reconcile ob link readable nd w = Some (e, w') \<Longrightarrow> wo_status w' = wo_status w"
  by (auto simp: reconcile_def split: if_splits option.splits dest: replay_signatures_status)

lemma reconcile_to_status:
  "reconcile_to_finalized_slot ob link readable nd w = Some (None, w') \<Longrightarrow>
     connected (wo_status w') = connected (wo_status w) \<and> reconciled (wo_status w')"
  "reconcile_to_finalized_slot ob link readable nd w = Some (Some e, w') \<Longrightarrow> wo_status w' = wo_status w"
  by (auto simp: reconcile_to_finalized_slot_def split: option.splits prod.splits dest: reconcile_status)

lemma on_message_status:
  "on_message ob link msg w = (e, w') \<Longrightarrow>
     connected (wo_status w') = connected (wo_status w) \<and> reconciled (wo_status w') = reconciled (wo_status w)"
  by (cases msg) (auto simp: Let_def split: if_splits dest!: process_logs_status)

lemma monitor_status:
  "monitor_round max_lag response deployment d w = (d', w') \<Longrightarrow>
     connected (wo_status w') = connected (wo_status w) \<and> reconciled (wo_status w') = reconciled (wo_status w)"
  by (auto simp: monitor_round_def Let_def split: option.splits if_splits)

lemma service_status:
  assumes "service ob max_lag ph once w d"
  shows "connected (wo_status w) \<longleftrightarrow> ph \<noteq> Waiting"
    and "ph = Syncing \<Longrightarrow> \<not> reconciled (wo_status w)" and "ph = Live \<Longrightarrow> reconciled (wo_status w)"
  using assms
  by (induction rule: service.induct)
    (auto simp: sync_status_default_def dest: reconcile_to_status on_message_status monitor_status)

lemma ready_iff_live:
  assumes "service ob max_lag ph once w d"
  shows "fst (readyz limit database_ready (wo_status w)) = 200 \<longleftrightarrow>
    database_ready \<and> ph = Live
    \<and> unat (rpc_slot (wo_status w)) \<le> unat (observed_slot (wo_status w)) + unat limit"
  using service_status [OF assms] by (cases ph) (auto simp: readyz_200)

text \<open>The alert about falling behind is raised exactly when the slot that was read is beyond the limit.\<close>

lemma falling_behind_iff:
  assumes "monitor_round max_lag response deployment previous w = (known, w')" "rpc response = Some slot"
  shows "wo_status w' = (wo_status w)\<lparr>rpc_slot := slot\<rparr>"
    and "(\<exists>lag. ObserverFallingBehind lag \<in> set (drop (length (wo_alerts w)) (wo_alerts w'))) \<longleftrightarrow>
      unat (observed_slot (wo_status w)) + unat max_lag < unat slot"
proof -
  have "unat (observed_slot (wo_status w)) + unat max_lag < unat slot \<longleftrightarrow>
      saturating_sub slot (observed_slot (wo_status w)) > max_lag"
    by (simp add: not_le [symmetric] lag_within)
  then show "wo_status w' = (wo_status w)\<lparr>rpc_slot := slot\<rparr>"
    and "(\<exists>lag. ObserverFallingBehind lag \<in> set (drop (length (wo_alerts w)) (wo_alerts w'))) \<longleftrightarrow>
      unat (observed_slot (wo_status w)) + unat max_lag < unat slot"
    using assms by (auto simp: monitor_round_def Let_def raise_alert_def set_status_def count_rpc_error_def
        split: option.splits if_splits)
qed

text \<open>An upgrade is reported exactly when the deployment slot differs from the last one seen.\<close>

lemma upgrade_reported_iff:
  assumes "monitor_round max_lag response deployment previous w = (known, w')"
    and "ProgramUpgradeObserved \<notin> set (wo_alerts w)"
  shows "ProgramUpgradeObserved \<in> set (wo_alerts w') \<longleftrightarrow>
    rpc response \<noteq> None \<and> previous \<noteq> None \<and> deployment \<noteq> None \<and> deployment \<noteq> previous"
  using assms by (auto simp: monitor_round_def Let_def raise_alert_def set_status_def count_rpc_error_def
      split: option.splits if_splits)

end
