(* ===== verification/Pipeline.thy ===== *)
theory Pipeline
  imports Mirror Service
begin

text \<open>
  The program's transactions as a node publishes them, the events as the observer identifies them,
  and what the tables show when any first part of these events has been stored. The theories of the
  single stages (scanning, decoding, fetching, storing) are composed here.
\<close>

section \<open>Published transactions\<close>

text \<open>
  A finalized transaction that mentions the program: what the node reports of it, the calls it
  consists of, and the events IronVault emitted under each top-level instruction.
\<close>

record published =
  pb_signature :: string
  pb_slot :: u64
  pb_block_time :: "i64 option"
  pb_failed :: bool
  pb_calls :: transaction
  pb_events :: "event list list"

definition info_of :: "published \<Rightarrow> signature_info" where
  "info_of t = \<lparr>si_signature = pb_signature t, si_err = pb_failed t\<rparr>"

text \<open>The log lines are those of the calls, with the events where the program emitted them.\<close>

definition wf_published :: "'j observer \<Rightarrow> (u8 list \<Rightarrow> string) \<Rightarrow> published \<Rightarrow> bool" where
  "wf_published ob encode t \<longleftrightarrow>
     wf_transaction (pb_calls t) \<and> list_all (\<lambda>es. length es < 2 ^ 31) (pb_events t) \<and> uint (pb_slot t) < 2 ^ 63
     \<and> map (\<lambda>(p, es). logged (op_program_id ob) p (Call p es)) (pb_calls t)
         = map (map (event_line (op_sha256 ob) encode)) (pb_events t)"

definition reports :: "node \<Rightarrow> published \<Rightarrow> bool" where
  "reports nd t \<longleftrightarrow>
     rpc (nd_transaction nd (pb_signature t)) = Some \<lparr>tr_slot = pb_slot t, tr_block_time = pb_block_time t,
       tr_meta = Some \<lparr>tm_err = False, tm_log_messages = Some (transaction_logs (pb_calls t))\<rparr>\<rparr>"

text \<open>The chain, oldest transaction first; the events of its successful transactions.\<close>

abbreviation succeeded :: "published list \<Rightarrow> published list" where
  "succeeded \<equiv> filter (\<lambda>t. \<not> pb_failed t)"

definition genuine :: "'j observer \<Rightarrow> (u8 list \<Rightarrow> string) \<Rightarrow> published list \<Rightarrow> bool" where
  "genuine ob encode chain \<longleftrightarrow>
     distinct (map pb_signature chain) \<and> list_all (wf_published ob encode) (succeeded chain)"

definition served :: "node \<Rightarrow> published list \<Rightarrow> bool" where
  "served nd chain \<longleftrightarrow> serves nd (rev (map info_of chain)) \<and> list_all (reports nd) (succeeded chain)"

definition emitted :: "published list \<Rightarrow> event list" where
  "emitted chain = concat (map (\<lambda>t. concat (pb_events t)) (succeeded chain))"

text \<open>
  The order of slots that the projections rely on: of two transactions about one record, the later
  one is in a later slot.
\<close>

definition subjects :: "published \<Rightarrow> subject set" where
  "subjects t = {s. \<exists>event \<in> set (concat (pb_events t)). subject_of event = Some s}"

definition slot_ordered :: "published list \<Rightarrow> bool" where
  "slot_ordered chain \<longleftrightarrow>
     sorted_wrt (\<lambda>t u. pb_slot t < pb_slot u \<or> subjects t \<inter> subjects u = {}) (succeeded chain)"

text \<open>The events as the observer identifies them.\<close>

definition sighting :: "published \<Rightarrow> observed_event list" where
  "sighting t = numbered (observed (pb_signature t) (pb_slot t) (pb_block_time t)) 0 (pb_events t)"

definition sightings :: "published list \<Rightarrow> observed_event list" where
  "sightings chain = concat (map sighting (succeeded chain))"

section \<open>Numbering\<close>

lemma uint_below: "unat w < 2 ^ k \<Longrightarrow> uint w < 2 ^ k"
  by (metis of_nat_less_iff of_nat_numeral of_nat_power uint_nat)

lemmas uint_below_31 = uint_below [where k = 31, simplified]

lemma numbered_Inr: "numbered (\<lambda>i j l. Inr (f i j l)) n lss = map Inr (numbered f n lss)"
  by (induction lss arbitrary: n) (auto simp: case_prod_unfold)

lemma oks_Inr [simp]: "oks (map Inr xs) = xs"
  by (induction xs) simp_all

lemma numbered_event: "map ob_event (numbered (observed signature slot time) n ess) = concat ess"
  by (induction ess arbitrary: n) (simp_all add: observed_def case_prod_unfold comp_def)

lemma numbered_range:
  assumes "x \<in> set (numbered (observed signature slot time) n ess)"
    and "n + length ess < 2 ^ 31" "list_all (\<lambda>es. length es < 2 ^ 31) ess"
  shows "id_transaction_signature (ob_id x) = signature \<and> ob_slot x = slot
    \<and> n \<le> unat (id_instruction_index (ob_id x)) \<and> unat (id_instruction_index (ob_id x)) < 2 ^ 31
    \<and> unat (id_event_index (ob_id x)) < 2 ^ 31"
  using assms
proof (induction ess arbitrary: n)
  case (Cons es ess)
  from Cons.prems(1) consider j e where "(j, e) \<in> set (enumerate 0 es)" "x = observed signature slot time (of_nat n) (of_nat j) e"
    | "x \<in> set (numbered (observed signature slot time) (Suc n) ess)"
    by auto
  then show ?case
  proof cases
    case 1
    then show ?thesis
      using Cons.prems by (simp add: observed_def in_set_enumerate_eq unat_of_nat take_bit_nat_eq_self)
  next
    case 2
    from Cons.IH [OF this] Cons.prems show ?thesis
      by simp
  qed
qed simp

lemma sorted_enumerate:
  assumes "length es < 2 ^ 31"
  shows "sorted_wrt earlier (map (\<lambda>(j, e). observed signature slot time i (of_nat j) e) (enumerate 0 es))"
  using assms
  by (auto simp: sorted_wrt_iff_nth_less earlier_def observed_def nth_enumerate_eq
      intro!: of_nat_u32_mono)

lemma numbered_sorted:
  assumes "n + length ess < 2 ^ 31" "list_all (\<lambda>es. length es < 2 ^ 31) ess"
  shows "sorted_wrt earlier (numbered (observed signature slot time) n ess)"
  using assms
proof (induction ess arbitrary: n)
  case (Cons es ess)
  have "earlier x y" if "x \<in> set (map (\<lambda>(j, e). observed signature slot time (of_nat n) (of_nat j) e) (enumerate 0 es))"
      and "y \<in> set (numbered (observed signature slot time) (Suc n) ess)" for x y
    using that numbered_range [OF that(2)] Cons.prems
    by (auto simp: earlier_def observed_def word_less_nat_alt unat_of_nat take_bit_nat_eq_self)
  then show ?case
    using Cons.IH [of "Suc n"] Cons.prems sorted_enumerate [of es]
    by (auto simp: sorted_wrt_append)
qed simp

section \<open>What the observer sees\<close>

lemma extract_sighting:
  assumes "wf_published ob encode t"
    and "\<And>x. length (op_sha256 ob x) = 32" "inj (discriminator (op_sha256 ob))"
    and "\<And>x. op_base64 ob (encode x) = Some x"
  shows "extract_events (op_sha256 ob) (op_base64 ob) (pb_signature t) (pb_slot t) time
      (transaction_logs (pb_calls t)) (op_program_id ob)
    = map Inr (numbered (observed (pb_signature t) (pb_slot t) time) 0 (pb_events t))"
  using assms(1) by (simp add: wf_published_def extract_transaction numbered_map
      observe_event_line [OF assms(2-4)] flip: numbered_Inr)

lemma finalized_sighting:
  assumes "wf_published ob encode t" "reports nd t"
    and "\<And>x. length (op_sha256 ob x) = 32" "inj (discriminator (op_sha256 ob))"
    and "\<And>x. op_base64 ob (encode x) = Some x"
  shows "finalized_events ob nd (info_of t) = sighting t"
proof -
  have "extract_events (op_sha256 ob) (op_base64 ob) (pb_signature t) (pb_slot t) (pb_block_time t)
      (transaction_logs (pb_calls t)) (op_program_id ob) = map Inr (sighting t)"
    unfolding sighting_def by (rule extract_sighting [OF assms(1,3-5)])
  then show ?thesis
    using assms(2) by (simp add: finalized_events_def reports_def info_of_def rpc_nullable)
qed

lemma sighting_facts:
  assumes "wf_published ob encode t"
  shows "map ob_event (sighting t) = concat (pb_events t)" "sorted_wrt earlier (sighting t)"
    and "x \<in> set (sighting t) \<Longrightarrow> id_transaction_signature (ob_id x) = pb_signature t \<and> ob_slot x = pb_slot t
      \<and> unat (id_instruction_index (ob_id x)) < 2 ^ 31 \<and> unat (id_event_index (ob_id x)) < 2 ^ 31"
proof -
  have "length (pb_events t) = length (pb_calls t)"
    using assms unfolding wf_published_def by (metis length_map)
  then have "0 + length (pb_events t) < 2 ^ 31" "list_all (\<lambda>es. length es < 2 ^ 31) (pb_events t)"
    using assms by (simp_all add: wf_published_def wf_transaction_def)
  then show "map ob_event (sighting t) = concat (pb_events t)" "sorted_wrt earlier (sighting t)"
    and "x \<in> set (sighting t) \<Longrightarrow> id_transaction_signature (ob_id x) = pb_signature t \<and> ob_slot x = pb_slot t
      \<and> unat (id_instruction_index (ob_id x)) < 2 ^ 31 \<and> unat (id_event_index (ob_id x)) < 2 ^ 31"
    using numbered_event numbered_sorted numbered_range unfolding sighting_def by blast+
qed

lemma sightings_events:
  assumes "list_all (wf_published ob encode) (succeeded chain)"
  shows "map ob_event (sightings chain) = emitted chain"
  using assms by (induction chain) (auto simp: sightings_def emitted_def dest: sighting_facts(1))

lemma earlier_precedes: "earlier x y \<Longrightarrow> ob_slot x = ob_slot y \<Longrightarrow> precedes x y"
  by (auto simp: earlier_def precedes_def position_of_def word_less_def)

lemma subjects_seen:
  assumes "wf_published ob encode t" "x \<in> set (sighting t)" "subject_of (ob_event x) = Some s"
  shows "s \<in> subjects t"
  using assms sighting_facts(1) [OF assms(1)] unfolding subjects_def by (metis (mono_tags) image_eqI list.set_map mem_Collect_eq)

lemma sightings_in_order:
  assumes "list_all (wf_published ob encode) (succeeded chain)" "slot_ordered chain"
    and "distinct (map pb_signature chain)"
  shows "in_order (sightings chain)"
  using assms
proof (induction chain)
  case (Cons t chain)
  have IH: "in_order (sightings chain)"
    using Cons by (auto simp: slot_ordered_def split: if_splits)
  show ?case
  proof (cases "pb_failed t")
    case False
    with Cons.prems have t: "wf_published ob encode t"
      by simp
    have "precedes x y \<and> ob_id x \<noteq> ob_id y" if x: "x \<in> set (sighting t)" and "y \<in> set (sightings chain)" for x y
    proof -
      from that obtain u where u: "u \<in> set (succeeded chain)" "y \<in> set (sighting u)" "wf_published ob encode u"
        using Cons.prems(1) by (auto simp: sightings_def list_all_iff)
      with Cons.prems False have slots: "pb_slot t < pb_slot u \<or> subjects t \<inter> subjects u = {}"
        and "pb_signature t \<noteq> pb_signature u"
        by (auto simp: slot_ordered_def)
      then have "ob_id x \<noteq> ob_id y"
        using sighting_facts(3) [OF t x] sighting_facts(3) [OF u(3,2)] by auto
      moreover from slots have "precedes x y"
      proof
        assume "pb_slot t < pb_slot u"
        then show ?thesis
          using sighting_facts(3) [OF t x] sighting_facts(3) [OF u(3,2)]
          by (simp add: precedes_def position_of_def word_less_def)
      next
        assume "subjects t \<inter> subjects u = {}"
        then show ?thesis
          using subjects_seen [OF t x] subjects_seen [OF u(3,2)] by (fastforce simp: precedes_def)
      qed
      ultimately show ?thesis
        by blast
    qed
    moreover have "sorted_wrt precedes (sighting t)"
      by (rule sorted_wrt_mono_rel [OF _ sighting_facts(2) [OF t]])
         (simp add: earlier_precedes sighting_facts(3) [OF t])
    ultimately show ?thesis
      using IH False earlier_distinct [OF sighting_facts(2) [OF t]]
      by (force simp: sightings_def in_order_def sorted_wrt_append)
  qed (use IH in \<open>simp add: sightings_def\<close>)
qed (simp add: sightings_def in_order_def)

section \<open>Replaying without a fault\<close>

lemma replay_answers:
  assumes "\<And>info. info \<in> set infos \<Longrightarrow> rpc (nd_transaction nd (si_signature info)) \<noteq> None"
    and "stores ob (concat (map (finalized_events ob nd) infos)) (wo_database w) = Inr db"
  shows "\<exists>w'. replay_signatures ob (\<lambda>_. Answers) nd infos w = (None, w') \<and> wo_database w' = db"
  using assms
proof (induction infos arbitrary: w)
  case (Cons info infos)
  from Cons.prems(2) obtain db1 where
      first: "stores ob (finalized_events ob nd info) (wo_database w) = Inr db1"
    and rest: "stores ob (concat (map (finalized_events ob nd) infos)) db1 = Inr db"
    by (auto simp: put_all_append success_iff)
  obtain t where t: "rpc (nd_transaction nd (si_signature info)) = Some t"
    using Cons.prems(1) [of info] by auto
  show ?case
  proof (cases "\<exists>meta logs. tr_meta t = Some meta \<and> tm_log_messages meta = Some logs \<and> \<not> tm_err meta")
    case True
    then obtain meta logs where m: "tr_meta t = Some meta" "tm_log_messages meta = Some logs" "\<not> tm_err meta"
      by blast
    with first t obtain w1 where "process_logs ob (\<lambda>_. Answers) (si_signature info) (tr_slot t) (tr_block_time t) logs w = (None, w1)"
        "wo_database w1 = db1"
      using handle_items_answers by (fastforce simp: finalized_events_def process_logs_def rpc_nullable)
    with m t show ?thesis
      using Cons.IH [of w1] Cons.prems(1) rest by (simp add: rpc_nullable)
  next
    case False
    with first t have "db1 = wo_database w"
      by (auto simp: finalized_events_def rpc_nullable split: option.splits if_splits)
    with False t show ?thesis
      using Cons.IH [of w] Cons.prems(1) rest by (auto simp: rpc_nullable split: option.splits)
  qed
qed simp


section \<open>A first part of the events\<close>

text \<open>
  A subscription reports no block time, so an event that is seen live differs in this field from the
  same event when it is fetched. The database keeps whichever came first.
\<close>

definition similar :: "observed_event \<Rightarrow> observed_event \<Rightarrow> bool" where
  "similar x y \<longleftrightarrow> ob_id x = ob_id y \<and> ob_slot x = ob_slot y \<and> ob_event x = ob_event y"

lemma similar_refl [simp]: "similar x x"
  by (simp add: similar_def)

lemma similar_same:
  assumes "similar x y"
  shows "recorded x db \<longleftrightarrow> recorded y db" "position_of x = position_of y" "precedes x z \<longleftrightarrow> precedes y z" "precedes z x \<longleftrightarrow> precedes z y"
  using assms by (simp_all add: similar_def recorded_def storable_def key_of_def position_of_def precedes_def)

lemma similar_lists:
  assumes "list_all2 similar xs ys"
  shows "map ob_event xs = map ob_event ys" "map ob_id xs = map ob_id ys" "map ob_slot xs = map ob_slot ys"
  using assms by (induction rule: list_all2_induct) (simp_all add: similar_def)

lemma similar_in_order:
  assumes "list_all2 similar xs ys" "in_order ys"
  shows "in_order xs"
proof -
  have "sorted_wrt precedes xs"
    using assms list_all2_nthD [OF assms(1)] list_all2_lengthD [OF assms(1)] unfolding in_order_def sorted_wrt_iff_nth_less
    by (metis order_less_trans similar_same(3,4))
  then show ?thesis
    using assms(2) similar_lists(2) [OF assms(1)] by (simp add: in_order_def)
qed

text \<open>The database holds exactly the first \<open>k\<close> events of the chain.\<close>

definition caught_up :: "'j observer \<Rightarrow> published list \<Rightarrow> nat \<Rightarrow> 'j database \<Rightarrow> bool" where
  "caught_up ob chain k db \<longleftrightarrow> k \<le> length (sightings chain) \<and>
     (\<exists>zs. list_all2 similar zs (take k (sightings chain)) \<and> stores ob zs empty_database = Inr db)"

lemma caught_up_records:
  assumes "caught_up ob chain k db" "x \<in> set (take k (sightings chain))"
  shows "recorded x db"
proof -
  from assms(1) obtain zs where zs: "list_all2 similar zs (take k (sightings chain))"
      "stores ob zs empty_database = Inr db"
    by (auto simp: caught_up_def)
  with assms(2) obtain z where "z \<in> set zs" "similar z x"
    by (metis (full_types) in_set_conv_nth list_all2_conv_all_nth)
  then show ?thesis
    using db.put_all_records [OF zs(2)] similar_same(1) by blast
qed

lemma caught_up_extends:
  assumes "caught_up ob chain k db" "sightings chain = early @ Y @ rest" "length early \<le> k"
    and "list_all2 similar X Y" "stores ob X db = Inr db'"
  shows "caught_up ob chain (max k (length early + length X)) db'"
proof -
  define j where "j = k - length early"
  have len: "length X = length Y"
    using assms(4) by (rule list_all2_lengthD)
  from assms(2,3) have k: "take k (sightings chain) = early @ take j (Y @ rest)" "k = length early + j"
    by (simp_all add: j_def)
  have "recorded x db" if x: "x \<in> set (take j X)" for x
  proof -
    from x obtain i where i: "i < length X" "i < j" "x = X ! i"
      by (auto simp: in_set_conv_nth)
    then have "Y ! i \<in> set (take j (Y @ rest))"
      using len by (auto simp: in_set_conv_nth nth_append intro!: exI [of _ i])
    then show ?thesis
      using caught_up_records [OF assms(1), of "Y ! i"] k(1) list_all2_nthD [OF assms(4)] i similar_same(1) by auto
  qed
  then have run: "stores ob (drop j X) db = Inr db'"
    using db.put_all_again [of "take j X" db _ _ "drop j X"] assms(5) by simp
  from assms(1) obtain zs where zs: "list_all2 similar zs (take k (sightings chain))"
      "stores ob zs empty_database = Inr db"
    by (auto simp: caught_up_def)
  have "take (max k (length early + length X)) (sightings chain) = take k (sightings chain) @ drop j Y"
    using assms(2) k by (cases "j \<le> length Y") (simp_all add: len max_def)
  moreover have "list_all2 similar (zs @ drop j X) (take k (sightings chain) @ drop j Y)"
    using zs(1) assms(4) by (simp add: list_all2_appendI list_all2_dropI)
  moreover have "stores ob (zs @ drop j X) empty_database = Inr db'"
    using zs(2) run by (simp add: put_all_append)
  moreover have "max k (length early + length X) \<le> length (sightings chain)"
    using assms(1,2) len by (simp add: caught_up_def)
  ultimately show ?thesis
    unfolding caught_up_def by metis
qed

lemma sightings_append: "sightings (xs @ ys) = sightings xs @ sightings ys"
  by (simp add: sightings_def)

lemma caught_up_grows: "caught_up ob chain k db \<Longrightarrow> caught_up ob (chain @ later) k db"
  by (simp add: caught_up_def sightings_append)

lemma sightings_range:
  assumes "genuine ob encode chain" "x \<in> set (sightings chain)"
  shows "uint (ob_slot x) < 2 ^ 63 \<and> uint (id_instruction_index (ob_id x)) < 2 ^ 31
    \<and> uint (id_event_index (ob_id x)) < 2 ^ 31 \<and> id_transaction_signature (ob_id x) \<in> pb_signature ` set (succeeded chain)"
proof -
  from assms obtain t where t: "wf_published ob encode t" "x \<in> set (sighting t)" "t \<in> set (succeeded chain)"
    by (auto simp: sightings_def genuine_def list_all_iff)
  then show ?thesis
    using sighting_facts(3) [OF t(1,2)] by (simp add: wf_published_def uint_below_31)
qed

text \<open>Then the tables show the ledger as it was after these events.\<close>

lemma caught_up_mirrors:
  assumes "token_laws rt" "reachable rt L (take k (emitted chain))" "inj (op_base58 ob)"
    and "genuine ob encode chain" "slot_ordered chain" "caught_up ob chain k db"
  shows "mirrors (op_base58 ob) db (views_of rt L)"
proof -
  from assms(6) obtain zs where zs: "list_all2 similar zs (take k (sightings chain))"
      "stores ob zs empty_database = Inr db"
    by (auto simp: caught_up_def)
  have "in_order (sightings chain)"
    using assms(4,5) sightings_in_order by (auto simp: genuine_def)
  then have "in_order (take k (sightings chain))"
    by (simp add: in_order_def sorted_wrt_take flip: take_map)
  moreover have "map ob_event zs = take k (emitted chain)"
    using similar_lists(1) [OF zs(1)] sightings_events assms(4) by (metis genuine_def take_map)
  moreover have "uint (ob_slot x) < 2 ^ 63 \<and> uint (id_instruction_index (ob_id x)) < 2 ^ 31
      \<and> uint (id_event_index (ob_id x)) < 2 ^ 31" if "x \<in> set zs" for x
  proof -
    from that zs(1) obtain y where "y \<in> set (take k (sightings chain))" "similar x y"
      by (metis (full_types) in_set_conv_nth list_all2_conv_all_nth)
    then show ?thesis
      using sightings_range [OF assms(4)] by (auto simp: similar_def dest: in_set_takeD)
  qed
  ultimately show ?thesis
    using database_shows_chain [OF assms(1-3), of zs "op_payload ob"] similar_in_order [OF zs(1)] zs(2) by auto
qed

end
