(* ===== verification/Delivery.thy ===== *)
theory Delivery
  imports Pipeline
begin

text \<open>
  A long-running observer against a growing chain: transactions become final, the subscription
  delivers them, connections break, the node and the database fail at any point, the process is
  restarted, reconciliations run to any point. The tables show the ledger of some moment of its
  history throughout, and an undisturbed reconciliation brings them to the present. What the
  subscription may not do is skip a transaction and deliver a later one: the last section shows
  that the reconciliation then leaves a wrong table behind.
\<close>

section \<open>Prefixes of a history\<close>

lemma process_one_event:
  assumes "process rt t i L = Inr (L', evs)"
  shows "length evs \<le> 1"
  using assms
  by (cases i) (auto simp: dispatch_def initialize_protocol_Inr_iff set_protocol_pause_Inr_iff create_vault_Inr_iff
      set_vault_authority_Inr_iff pause_vault_Inr_iff unpause_vault_Inr_iff grant_role_Inr_iff
      revoke_role_Inr_iff update_limits_Inr_iff register_asset_Inr_iff deposit_tokens_Inr_iff
      withdraw_tokens_Inr_iff create_Inr_iff release_Inr_iff refund_Inr_iff request_Inr_iff execute_Inr_iff
      cancel_withdrawal_Inr_iff
      elim!: depositE withdrawE create_escrowE release_escrowE refund_escrowE request_withdrawalE execute_withdrawalE)

lemma reachable_prefix: "reachable rt L log \<Longrightarrow> \<exists>L'. reachable rt L' (take n log)"
proof (induction rule: reachable.induct)
  case (instruction L log t i L' evs)
  show ?case
  proof (cases "n \<le> length log")
    case False
    then have "take n (log @ evs) = log @ evs"
      using process_one_event [OF instruction.hyps(3)] by simp
    then show ?thesis
      using reachable.instruction [OF instruction.hyps] by metis
  qed (use instruction.IH in simp)
qed (auto intro: reachable.start)

section \<open>Faulty nodes\<close>

text \<open>A node that answers like another one or not at all.\<close>

definition answers_like :: "node \<Rightarrow> node \<Rightarrow> bool" where
  "answers_like nd nd' \<longleftrightarrow>
     (\<forall>before. rpc (nd_signatures nd before) \<in> {None, rpc (nd_signatures nd' before)})
     \<and> (\<forall>s. rpc (nd_transaction nd s) \<in> {None, rpc (nd_transaction nd' s)})"

lemma answers_like_refl [simp]: "answers_like nd nd"
  by (simp add: answers_like_def)

lemma answers_likeD:
  assumes "answers_like nd nd'"
  shows "rpc (nd_signatures nd before) = None \<or> rpc (nd_signatures nd before) = rpc (nd_signatures nd' before)"
    and "rpc (nd_transaction nd s) = None \<or> rpc (nd_transaction nd s) = rpc (nd_transaction nd' s)"
  using assms by (auto simp: answers_like_def)

lemma collect_like_from:
  assumes "answers_like nd nd'" "serves nd' history" "i \<le> length history"
    and "before = (if i = 0 then None else Some (si_signature (history ! (i - 1))))"
  shows "collect_signatures nd checkpoint before acc \<in> {Some None, collect_signatures nd' checkpoint before acc}"
  using assms(3,4)
proof (induction "length history - i" arbitrary: i before acc rule: less_induct)
  case less
  let ?page = "take page_limit (drop i history)"
  let ?done = "(case checkpoint of None \<Rightarrow> False | Some s \<Rightarrow> s \<in> si_signature ` set ?page) \<or> length ?page < page_limit"
  have page': "rpc (nd_signatures nd' before) = Some ?page"
    using serves_from [OF assms(2) less.prems(1)] less.prems(2) by simp
  from assms(1) consider "rpc (nd_signatures nd before) = None" | "rpc (nd_signatures nd before) = Some ?page"
    using page' answers_likeD(1) by metis
  then show ?case
  proof cases
    case 1
    then show ?thesis
      by (subst collect_signatures.simps) simp
  next
    case 2
    show ?thesis
    proof (cases ?done)
      case True
      then show ?thesis
        by (subst (1 2) collect_signatures.simps) (simp only: 2 page' option.case if_True, simp)
    next
      case False
      then have "\<not> length ?page < page_limit"
        by blast
      note page = full_page [OF this less.prems(1)]
      have "0 < page_limit" "length history - (i + page_limit) < length history - i"
        using page(1) by (simp_all add: page_limit_def)
      with page False show ?thesis
        using less.hyps [of "i + page_limit"]
        by (subst (1 2) collect_signatures.simps) (simp add: 2 page')
    qed
  qed
qed

lemma collect_like:
  assumes "answers_like nd nd'" "serves nd' history"
  shows "collect_signatures nd checkpoint None [] \<in> {Some None, collect_signatures nd' checkpoint None []}"
  using collect_like_from [OF assms, of 0] by simp

text \<open>The first transaction of a replay: its events are stored up to some point, and the rest follows unless it failed.\<close>

lemma replay_one:
  assumes "replay_signatures ob link nd (info # infos) w = (e, w')"
    and "rpc (nd_transaction nd (si_signature info)) = Some t" "rpc (nd_transaction nd' (si_signature info)) = Some t"
  shows "\<exists>e1 w1 xs ys. finalized_events ob nd' info = xs @ ys \<and> stores ob xs (wo_database w) = Inr (wo_database w1)
    \<and> (e1 = None \<longrightarrow> ys = [] \<and> replay_signatures ob link nd infos w1 = (e, w'))
    \<and> (e1 \<noteq> None \<longrightarrow> e = e1 \<and> w' = w1)"
proof (cases "\<exists>meta logs. tr_meta t = Some meta \<and> tm_log_messages meta = Some logs \<and> \<not> tm_err meta")
  case True
  then obtain meta logs where m: "tr_meta t = Some meta" "tm_log_messages meta = Some logs" "\<not> tm_err meta"
    by blast
  obtain e1 w1 where run: "process_logs ob link (si_signature info) (tr_slot t) (tr_block_time t) logs w = (e1, w1)"
    by fastforce
  from handle_items_prefix [OF run [unfolded process_logs_def]] obtain xs ys where "finalized_events ob nd' info = xs @ ys"
      "stores ob xs (wo_database w) = Inr (wo_database w1)" "e1 = None \<longrightarrow> ys = []"
    using m assms(3) by (auto simp: finalized_events_def rpc_nullable)
  then show ?thesis
    using assms(1,2) m run
    by - (rule exI [of _ e1], rule exI [of _ w1], rule exI [of _ xs], rule exI [of _ ys],
      cases e1; auto simp: rpc_nullable)
next
  case False
  then have "finalized_events ob nd' info = []" "replay_signatures ob link nd infos w = (e, w')"
    using assms by (auto simp: finalized_events_def rpc_nullable split: option.splits)
  then show ?thesis
    by (intro exI [of _ None] exI [of _ w] exI [of _ "[]"]) simp
qed

text \<open>However a replay ends, the database is as if a first part of the events had been stored.\<close>

lemma replay_prefix:
  assumes "answers_like nd nd'" "replay_signatures ob link nd infos w = (e, w')"
  shows "\<exists>xs ys. concat (map (finalized_events ob nd') infos) = xs @ ys
    \<and> stores ob xs (wo_database w) = Inr (wo_database w') \<and> (e = None \<longrightarrow> ys = [])"
  using assms(2)
proof (induction infos arbitrary: w)
  case (Cons info infos)
  let ?events = "finalized_events ob nd' info"
  show ?case
  proof (cases "rpc (nd_transaction nd (si_signature info))")
    case None
    with Cons.prems have "w' = w" "e = Some RpcFailed"
      by (simp_all add: rpc_nullable)
    then show ?thesis
      by - (rule exI [of _ "[]"], rule exI [of _ "concat (map (finalized_events ob nd') (info # infos))"], simp)
  next
    case (Some t)
    with assms(1) have t: "rpc (nd_transaction nd' (si_signature info)) = Some t"
      using answers_likeD(2) by (metis option.distinct(1))
    from replay_one [OF Cons.prems Some t]
    obtain e1 w1 xs ys where first: "?events = xs @ ys" "stores ob xs (wo_database w) = Inr (wo_database w1)"
        "e1 = None \<Longrightarrow> ys = [] \<and> replay_signatures ob link nd infos w1 = (e, w')" "e1 \<noteq> None \<Longrightarrow> e = e1 \<and> w' = w1"
      by blast
    show ?thesis
    proof (cases e1)
      case None
      with first(3) Cons.IH [of w1] obtain us vs where "concat (map (finalized_events ob nd') infos) = us @ vs"
          "stores ob us (wo_database w1) = Inr (wo_database w')" "e = None \<longrightarrow> vs = []"
        by blast
      then show ?thesis
        using None first by - (rule exI [of _ "xs @ us"], rule exI [of _ vs], simp add: put_all_append)
    next
      case (Some d)
      then show ?thesis
        using first by - (rule exI [of _ xs], rule exI [of _ "ys @ concat (map (finalized_events ob nd') infos)"], simp)
    qed
  qed
qed simp

section \<open>Where a run resumes\<close>

lemma genuine_append: "genuine ob encode (xs @ ys) \<Longrightarrow> genuine ob encode xs \<and> genuine ob encode ys"
  by (simp add: genuine_def)

lemma sightings_distinct: "genuine ob encode chain \<Longrightarrow> distinct (map ob_id (sightings chain))"
proof (induction chain rule: rev_induct)
  case (snoc t chain)
  have parts: "genuine ob encode chain" "genuine ob encode [t]"
    using snoc.prems genuine_append by blast+
  have "distinct (map ob_id (sightings [t]))"
    using parts(2) earlier_distinct [OF sighting_facts(2)] by (auto simp: sightings_def genuine_def)
  moreover have "ob_id x \<noteq> ob_id y" if "x \<in> set (sightings chain)" "y \<in> set (sightings [t])" for x y
    using sightings_range [OF parts(1) that(1)] sightings_range [OF parts(2) that(2)] snoc.prems
    by (auto simp: genuine_def split: if_splits)
  ultimately show ?case
    using snoc.IH [OF parts(1)] by (auto simp: sightings_append)
qed (simp add: sightings_def)

lemma stored_keys:
  "stores ob xs db = Inr db' \<Longrightarrow>
     protocol_events db' key \<noteq> None \<longleftrightarrow> protocol_events db key \<noteq> None \<or> key \<in> key_of ` set xs"
proof (induction xs arbitrary: db)
  case (Cons x xs)
  then obtain b db1 where run: "persist (op_base58 ob) (op_payload ob) x db = Inr (b, db1)" "stores ob xs db1 = Inr db'"
    by (auto simp: success_iff)
  have "protocol_events db1 key \<noteq> None \<longleftrightarrow> protocol_events db key \<noteq> None \<or> key = key_of x"
    using persist_Inr(3) [OF run(1)] by (auto simp: with_event_def insert_ignore_apply)
  then show ?case
    using Cons.IH [OF run(2)] by auto
qed simp

text \<open>Transactions whose events are all recorded lie inside the stored part.\<close>

lemma recorded_inside:
  assumes "caught_up ob (early @ later) k db" "genuine ob encode (early @ later)"
    and "\<And>x. x \<in> set (sightings early) \<Longrightarrow> recorded x db"
  shows "length (sightings early) \<le> k"
proof (rule ccontr)
  assume less: "\<not> length (sightings early) \<le> k"
  define S where "S = sightings (early @ later)"
  from less have S: "k < length S" "S ! k \<in> set (sightings early)"
    by (simp_all add: S_def sightings_append nth_append)
  from assms(1) obtain zs where zs: "list_all2 similar zs (take k S)" "stores ob zs empty_database = Inr db"
    by (auto simp: caught_up_def S_def)
  have "protocol_events db (key_of (S ! k)) \<noteq> None"
    using assms(3) [OF S(2)] by (simp add: recorded_def)
  then have "key_of (S ! k) \<in> key_of ` set zs"
    using stored_keys [OF zs(2)] by (simp add: empty_database_def)
  then have "ob_id (S ! k) \<in> set (map ob_id zs)"
    by (auto simp: key_of_inject)
  then have "ob_id (S ! k) \<in> set (map ob_id (take k S))"
    using similar_lists(2) [OF zs(1)] by simp
  moreover have "distinct (map ob_id (take (Suc k) S))"
    using sightings_distinct [OF assms(2)] by (simp add: S_def flip: take_map)
  ultimately show False
    using S(1) by (simp add: take_Suc_conv_app_nth)
qed

lemma signatures_of: "si_signature ` set (map info_of chain) = pb_signature ` set chain"
  by (force simp: info_of_def)

text \<open>The transactions that a reconciliation leaves out lie inside the stored part.\<close>

lemma collected_inside:
  assumes "caught_up ob (early @ recent @ later) k db" "genuine ob encode (early @ recent @ later)"
    and "covers (checkpoint_signature db) (rev (map info_of (early @ recent))) (length recent)"
  shows "length (sightings early) \<le> k"
proof (rule ccontr)
  assume less: "\<not> length (sightings early) \<le> k"
  then have "early \<noteq> []"
    by (auto simp: sightings_def)
  with assms(3) obtain s where s: "checkpoint_signature db = Some s"
      "s \<in> si_signature ` set (take (length recent) (rev (map info_of (early @ recent))))"
    by (auto simp: covers_def)
  then have recent: "s \<in> pb_signature ` set recent"
    using signatures_of [of recent] by simp
  have "take k (sightings (early @ recent @ later)) = take k (sightings early)"
    using less by (simp add: sightings_append)
  with assms(1) obtain zs where zs: "list_all2 similar zs (take k (sightings early))"
      "stores ob zs empty_database = Inr db"
    by (auto simp: caught_up_def)
  have "zs \<noteq> []"
    using zs(2) s(1) by (intro notI) (auto simp: checkpoint_signature_def empty_database_def)
  from checkpoint_is_greatest [OF zs(2) this] s(1) obtain z where "z \<in> set zs" "id_transaction_signature (ob_id z) = s"
    by auto
  then have "s \<in> id_transaction_signature ` ob_id ` set (take k (sightings early))"
    using similar_lists(2) [OF zs(1)] by (metis image_eqI list.set_map)
  then have "s \<in> pb_signature ` set early"
    using sightings_range assms(2) genuine_append by (fastforce dest!: in_set_takeD)
  with recent assms(2) show False
    by (auto simp: genuine_def)
qed

section \<open>Deliveries\<close>

text \<open>The laws of hash and encoding for an observer.\<close>

definition sound_libraries :: "'j observer \<Rightarrow> (u8 list \<Rightarrow> string) \<Rightarrow> bool" where
  "sound_libraries ob encode \<longleftrightarrow> (\<forall>x. length (op_sha256 ob x) = 32) \<and> inj (discriminator (op_sha256 ob))
     \<and> (\<forall>x. op_base64 ob (encode x) = Some x) \<and> inj (op_base58 ob)"

lemma sound_librariesD:
  assumes "sound_libraries ob encode"
  shows "length (op_sha256 ob x) = 32" "inj (discriminator (op_sha256 ob))" "op_base64 ob (encode x) = Some x"
    "inj (op_base58 ob)"
  using assms by (simp_all add: sound_libraries_def)

lemma served_stream:
  assumes "sound_libraries ob encode" "genuine ob encode chain" "served nd chain" "set recent \<subseteq> set chain"
  shows "concat (map (finalized_events ob nd) (map info_of (succeeded recent))) = sightings recent"
    and "info \<in> set (map info_of (succeeded recent)) \<Longrightarrow> rpc (nd_transaction nd (si_signature info)) \<noteq> None"
proof -
  have pub: "wf_published ob encode t" "reports nd t" if "t \<in> set (succeeded recent)" for t
    using assms(2-4) that by (auto simp: genuine_def served_def list_all_iff)
  show "concat (map (finalized_events ob nd) (map info_of (succeeded recent))) = sightings recent"
    using finalized_sighting [OF pub sound_librariesD(1-3) [OF assms(1)]]
    by (auto simp: sightings_def intro!: arg_cong [where f = concat] map_cong)
  show "rpc (nd_transaction nd (si_signature info)) \<noteq> None" if "info \<in> set (map info_of (succeeded recent))"
    using that pub by (auto simp: reports_def info_of_def)
qed

lemma recent_infos:
  "rev (filter (\<lambda>x. \<not> si_err x) (rev (map info_of recent))) = map info_of (succeeded recent)"
  by (simp add: rev_filter filter_map comp_def info_of_def)

text \<open>What a reconciliation collects, as a split of the served chain.\<close>

lemma collect_split:
  assumes "served nd served_part"
  shows "\<exists>early recent. served_part = early @ recent
    \<and> covers checkpoint (rev (map info_of (early @ recent))) (length recent)
    \<and> collect_signatures nd checkpoint None [] = Some (Some (rev (map info_of (succeeded recent))))"
proof -
  let ?history = "rev (map info_of served_part)"
  from collect_all [of nd ?history checkpoint] assms obtain m where m: "m \<le> length served_part"
      "covers checkpoint ?history m"
      "collect_signatures nd checkpoint None [] = Some (Some (filter (\<lambda>x. \<not> si_err x) (take m ?history)))"
    unfolding served_def by auto
  let ?early = "take (length served_part - m) served_part" and ?recent = "drop (length served_part - m) served_part"
  have "take m ?history = rev (map info_of ?recent)"
    using m(1) by (simp add: take_rev drop_map)
  then have "filter (\<lambda>x. \<not> si_err x) (take m ?history) = rev (map info_of (succeeded ?recent))"
    using recent_infos [of ?recent] by (metis rev_rev_ident)
  then show ?thesis
    using m by (intro exI [of _ ?early] exI [of _ ?recent]) simp
qed

lemma reconcile_delivers:
  assumes "sound_libraries ob encode" "genuine ob encode (part @ later)" "served nd' part" "answers_like nd nd'"
    and "caught_up ob (part @ later) k (wo_database w)" "reconcile ob link readable nd w = Some (e, w')"
  shows "\<exists>k' \<ge> k. caught_up ob (part @ later) k' (wo_database w') \<and> (e = None \<longrightarrow> length (sightings part) \<le> k')"
proof -
  obtain early recent where part: "part = early @ recent"
    and cov: "covers (checkpoint_signature (wo_database w)) (rev (map info_of (early @ recent))) (length recent)"
    and all: "collect_signatures nd' (checkpoint_signature (wo_database w)) None []
      = Some (Some (rev (map info_of (succeeded recent))))"
    using collect_split [OF assms(3)] by blast
  consider "e \<noteq> None" "w' = w" | "replay_signatures ob link nd (map info_of (succeeded recent)) w = (e, w')"
    using assms(6) collect_like [OF assms(4), of "rev (map info_of part)" "checkpoint_signature (wo_database w)"]
      assms(3) all by (auto simp: reconcile_def served_def split: if_splits)
  then show ?thesis
  proof cases
    case 2
    have "genuine ob encode part"
      using assms(2) genuine_append by blast
    from served_stream(1) [OF assms(1) this assms(3), of recent] part
    have "concat (map (finalized_events ob nd') (map info_of (succeeded recent))) = sightings recent"
      by auto
    with replay_prefix [OF assms(4) 2] obtain xs ys where
        xs: "sightings recent = xs @ ys" "stores ob xs (wo_database w) = Inr (wo_database w')" "e = None \<longrightarrow> ys = []"
      by auto
    have "length (sightings early) \<le> k"
      using collected_inside [of ob early recent later k] assms(2,5) cov part by simp
    with caught_up_extends [OF assms(5), of "sightings early" xs "ys @ sightings later" xs] xs part
    have "caught_up ob (part @ later) (max k (length (sightings early) + length xs)) (wo_database w')"
      by (simp add: sightings_append list_all2_same)
    then show ?thesis
      using xs(1,3) part by (intro exI [of _ "max k (length (sightings early) + length xs)"]) (auto simp: sightings_append)
  qed (use assms(5) in auto)
qed

lemma numbered_similar:
  "list_all2 similar (numbered (observed signature slot time) n ess) (numbered (observed signature slot time') n ess)"
proof (induction ess arbitrary: n)
  case (Cons es ess)
  then show ?case
    by (auto simp: list.rel_map similar_def observed_def intro!: list_all2_appendI list.rel_refl_strong)
qed simp

lemma notify_delivers:
  assumes "sound_libraries ob encode" "genuine ob encode (before @ t # later)" "\<not> pb_failed t"
    and "caught_up ob (before @ t # later) k (wo_database w)"
    and "\<And>x. x \<in> set (sightings before) \<Longrightarrow> recorded x (wo_database w)"
    and "on_message ob link (Notification (pb_slot t) (pb_signature t) False (transaction_logs (pb_calls t))) w = (e, w')"
  shows "\<exists>k' \<ge> k. caught_up ob (before @ t # later) k' (wo_database w')"
proof -
  let ?live = "numbered (observed (pb_signature t) (pb_slot t) None) 0 (pb_events t)"
  have "wf_published ob encode t"
    using assms(2,3) by (simp add: genuine_def)
  note scanned = extract_sighting [OF this sound_librariesD(1-3) [OF assms(1)], where time = None]
  have "handle_items ob link (map Inr ?live) (set_status (\<lambda>s. s\<lparr>observed_slot := max (observed_slot s) (pb_slot t)\<rparr>) w)
      = (e, w')"
    using assms(6) by (simp add: process_logs_def scanned Let_def)
  from handle_items_prefix [OF this] obtain xs ys where
      xs: "?live = xs @ ys" "stores ob xs (wo_database w) = Inr (wo_database w')"
    by (auto simp: set_status_def)
  have "list_all2 similar ?live (sighting t)"
    unfolding sighting_def by (rule numbered_similar)
  then have "list_all2 similar xs (take (length xs) (sighting t))"
    unfolding xs(1) by (metis append_eq_conv_conj list_all2_takeI)
  moreover have "sightings (before @ t # later)
      = sightings before @ take (length xs) (sighting t) @ drop (length xs) (sighting t) @ sightings later"
    using assms(3) by (simp add: sightings_def)
  moreover have "length (sightings before) \<le> k"
    using recorded_inside [OF assms(4,2,5)] .
  ultimately show ?thesis
    using caught_up_extends [OF assms(4), of "sightings before" "take (length xs) (sighting t)"] xs(2)
    by (intro exI [of _ "max k (length (sightings before) + length xs)"]) simp
qed

section \<open>A running observer\<close>

text \<open>
  A message that skips no transaction: one that is not processed, or a successful transaction with its
  slot and its logs, all of whose predecessors are recorded, for the first time or again. The node does
  not promise this of its subscription; \<open>skipped_delivery_not_repaired\<close> below is what happens otherwise.
\<close>

definition in_sequence :: "published list \<Rightarrow> 'j world \<Rightarrow> message \<Rightarrow> bool" where
  "in_sequence chain w msg \<longleftrightarrow>
     (case msg of
        Notification slot signature err logs \<Rightarrow> err \<or>
          (\<exists>before t later. chain = before @ t # later \<and> \<not> pb_failed t
             \<and> slot = pb_slot t \<and> signature = pb_signature t \<and> logs = transaction_logs (pb_calls t)
             \<and> list_all (\<lambda>x. recorded x (wo_database w)) (sightings before))
      | _ \<Rightarrow> True)"

text \<open>
  The service of \<open>rpc.rs\<close> with its database, against the finalized chain. A transaction becomes final;
  the process is restarted; and each step of \<open>service\<close> happens, a reconciliation against a node that
  knows some first part of the chain and may fail to answer at any point, with a database link that
  may fail at any point. The number counts the transactions which the node knew in the last
  reconciliation that was completed. Two things are required of the outside: a transaction that becomes
  final is well formed in the sense of \<open>Logs\<close> (\<open>wf_published\<close>), and a message of the subscription is
  \<open>in_sequence\<close>; runs with other messages are not runs of this relation.
\<close>

inductive observes ::
    "'j observer \<Rightarrow> (u8 list \<Rightarrow> string) \<Rightarrow> u64 \<Rightarrow> phase \<Rightarrow> bool \<Rightarrow> u64 option \<Rightarrow> published list \<Rightarrow> nat \<Rightarrow> 'j world \<Rightarrow> bool"
  for ob encode max_lag where
  start: "observes ob encode max_lag Waiting False None [] 0 w"
    if "wo_status w = sync_status_default" "wo_database w = empty_database"
| finalized: "observes ob encode max_lag ph once d (chain @ [t]) n w"
    if "observes ob encode max_lag ph once d chain n w" "pb_signature t \<notin> pb_signature ` set chain"
      "pb_failed t \<or> wf_published ob encode t"
| restarted: "observes ob encode max_lag Waiting False None chain n w'"
    if "observes ob encode max_lag ph once d chain n w"
      "wo_database w' = wo_database w" "wo_status w' = sync_status_default"
| refused: "observes ob encode max_lag Waiting True d chain n (connection_ended (count_attempt once w))"
    if "observes ob encode max_lag Waiting once d chain n w" "rpc (ack :: u64 rpc_envelope option) = None"
| accepted: "observes ob encode max_lag Syncing True d chain n (subscribed (count_attempt once w))"
    if "observes ob encode max_lag Waiting once d chain n w" "rpc (ack :: u64 rpc_envelope option) = Some subscription"
| synced: "observes ob encode max_lag Live once d (part @ later) (length part) w'"
    if "observes ob encode max_lag ph once d (part @ later) n w" "ph = Syncing \<or> ph = Live"
      "served nd' part" "answers_like nd nd'"
      "reconcile_to_finalized_slot ob link readable nd w = Some (None, w')"
| sync_failed: "observes ob encode max_lag Waiting once d (part @ later) n (connection_ended w')"
    if "observes ob encode max_lag ph once d (part @ later) n w" "ph = Syncing \<or> ph = Live"
      "served nd' part" "answers_like nd nd'"
      "reconcile_to_finalized_slot ob link readable nd w = Some (Some e, w')"
| handled: "observes ob encode max_lag Live once d chain n w'"
    if "observes ob encode max_lag Live once d chain n w" "in_sequence chain w msg"
      "on_message ob link msg w = (None, w')"
| message_failed: "observes ob encode max_lag Waiting once d chain n (connection_ended w')"
    if "observes ob encode max_lag Live once d chain n w" "in_sequence chain w msg"
      "on_message ob link msg w = (Some e, w')"
| monitored: "observes ob encode max_lag ph once d' chain n w'"
    if "observes ob encode max_lag ph once d chain n w"
      "monitor_round max_lag response (fetch_deployment_slot base58 (op_base64 ob) get (op_program_id ob)) d w = (d', w')"

lemma observes_service: "observes ob encode max_lag ph once d chain n w \<Longrightarrow> service ob max_lag ph once w d"
proof (induction rule: observes.induct)
  case (synced ph once d part later n w nd' nd link readable w')
  then show ?case
    by (auto intro: service.synced service.ticked)
next
  case (sync_failed ph once d part later n w nd' nd link readable e w')
  then show ?case
    by (auto intro: service.sync_failed service.tick_failed)
qed (auto intro: service.intros)

text \<open>What the steps do to the database.\<close>

lemma database_simps [simp]:
  "wo_database (count_attempt once w) = wo_database w" "wo_database (count_rpc_error w) = wo_database w"
  "wo_database (raise_alert a w) = wo_database w" "wo_database (set_status f w) = wo_database w"
  "wo_database (subscribed w) = wo_database w" "wo_database (connection_ended w) = wo_database w"
  by (simp_all add: count_attempt_def count_rpc_error_def raise_alert_def set_status_def subscribed_def connection_ended_def)

lemma monitor_database:
  "monitor_round max_lag response deployment d w = (d', w') \<Longrightarrow> wo_database w' = wo_database w"
  by (auto simp: monitor_round_def Let_def split: option.splits if_splits)

lemma reconcile_to_database:
  assumes "reconcile_to_finalized_slot ob link readable nd w = Some (e, w')"
  shows "\<exists>e1 w1. reconcile ob link readable nd w = Some (e1, w1) \<and> wo_database w' = wo_database w1 \<and> (e = None \<longrightarrow> e1 = None)"
  using assms by (auto simp: reconcile_to_finalized_slot_def split: option.splits prod.splits)

lemma message_delivers:
  assumes "sound_libraries ob encode" "genuine ob encode chain" "caught_up ob chain k (wo_database w)"
    and "in_sequence chain w msg" "on_message ob link msg w = (e, w')"
  shows "\<exists>k' \<ge> k. caught_up ob chain k' (wo_database w')"
proof (cases "wo_database w' = wo_database w")
  case False
  then obtain slot signature logs where msg: "msg = Notification slot signature False logs"
    using assms(5) by (cases msg) (auto simp: Let_def split: if_splits)
  with assms(4) obtain before t later where "chain = before @ t # later" "\<not> pb_failed t"
      "slot = pb_slot t" "signature = pb_signature t" "logs = transaction_logs (pb_calls t)"
      "\<And>x. x \<in> set (sightings before) \<Longrightarrow> recorded x (wo_database w)"
    by (auto simp: in_sequence_def list_all_iff)
  then show ?thesis
    using notify_delivers [OF assms(1), of before t later k w link e w'] assms(2,3,5) msg by blast
qed (use assms(3) in auto)

lemma message_keeps:
  assumes "sound_libraries ob encode" "in_sequence chain w msg" "on_message ob link msg w = (e, w')"
    and "genuine ob encode chain \<and> n \<le> length chain \<and> (\<exists>k \<ge> m. caught_up ob chain k (wo_database w))"
  shows "genuine ob encode chain \<and> n \<le> length chain \<and> (\<exists>k \<ge> m. caught_up ob chain k (wo_database w'))"
  using assms(4) message_delivers [OF assms(1) _ _ assms(2,3)] by (meson order_trans)

lemma observes_caught_up:
  assumes "observes ob encode max_lag ph once d chain n w" "sound_libraries ob encode"
  shows "genuine ob encode chain \<and> n \<le> length chain
    \<and> (\<exists>k \<ge> length (sightings (take n chain)). caught_up ob chain k (wo_database w))"
  using assms(1)
proof (induction rule: observes.induct)
  case (start w)
  then show ?case
    by (simp add: genuine_def caught_up_def sightings_def)
next
  case (finalized ph once d chain n w t)
  then show ?case
    by (auto simp: genuine_def intro: caught_up_grows)
next
  case (synced ph once d part later n w nd' nd link readable w')
  then obtain w1 where w1: "reconcile ob link readable nd w = Some (None, w1)" "wo_database w' = wo_database w1"
    using reconcile_to_database by blast
  from synced.IH obtain k where k: "genuine ob encode (part @ later)" "caught_up ob (part @ later) k (wo_database w)"
    by blast
  from reconcile_delivers [OF assms(2) k(1) synced.hyps(3,4) k(2) w1(1)] w1(2) k(1) show ?case
    by auto
next
  case (sync_failed ph once d part later n w nd' nd link readable e w')
  then obtain e1 w1 where w1: "reconcile ob link readable nd w = Some (e1, w1)" "wo_database w' = wo_database w1"
    using reconcile_to_database by blast
  from sync_failed.IH obtain k where k: "genuine ob encode (part @ later)" "n \<le> length (part @ later)"
      "length (sightings (take n (part @ later))) \<le> k" "caught_up ob (part @ later) k (wo_database w)"
    by blast
  from reconcile_delivers [OF assms(2) k(1) sync_failed.hyps(3,4) k(4) w1(1)] obtain k' where
      "k \<le> k'" "caught_up ob (part @ later) k' (wo_database w1)"
    by blast
  with k w1(2) show ?case
    by (intro conjI exI [of _ k']) simp_all
next
  case (handled once d chain n w msg link w')
  with message_keeps [OF assms(2)] show ?case
    by blast
next
  case (message_failed once d chain n w msg link e w')
  with message_keeps [OF assms(2)] show ?case
    by fastforce
next
  case (monitored ph once d chain n w response base58 get d' w')
  with monitor_database [OF monitored.hyps(2)] show ?case
    by simp
qed simp_all

lemma sound_nonzero: "sound_event event \<Longrightarrow> \<not> zero_amount event"
  by (cases event) auto

lemma sightings_storable:
  assumes "genuine ob encode chain" "reachable rt L (emitted chain)" "x \<in> set (sightings chain)"
  shows "storable x \<and> \<not> zero_amount (ob_event x)"
proof -
  have "ob_event x \<in> set (emitted chain)"
    using sightings_events assms(1,3) unfolding genuine_def by (metis image_eqI list.set_map)
  then have sound: "sound_event (ob_event x)"
    using reachable_sound [OF assms(2)] by blast
  then show ?thesis
    using sightings_range [OF assms(1,3)] sound_version [OF sound] sound_nonzero
    by (simp add: storable_def INITIAL_SCHEMA_VERSION_def)
qed

lemma reconcile_completes:
  assumes "sound_libraries ob encode" "genuine ob encode chain" "reachable rt L (emitted chain)" "served nd chain"
  shows "\<exists>w'. reconcile ob (\<lambda>_. Answers) True nd w = Some (None, w')"
proof -
  obtain early recent where chain: "chain = early @ recent"
    and all: "collect_signatures nd (checkpoint_signature (wo_database w)) None []
      = Some (Some (rev (map info_of (succeeded recent))))"
    using collect_split [OF assms(4)] by blast
  have "\<exists>db. stores ob (sightings recent) (wo_database w) = Inr db"
    using sightings_storable [OF assms(2,3)] chain by (intro stores_succeed) (simp add: sightings_append)
  then obtain db where
    "stores ob (concat (map (finalized_events ob nd) (map info_of (succeeded recent)))) (wo_database w) = Inr db"
    using served_stream(1) [OF assms(1,2,4), of recent] chain by auto
  from replay_answers [OF _ this] served_stream(2) [OF assms(1,2,4), of recent] chain obtain w' where
    "replay_signatures ob (\<lambda>_. Answers) nd (map info_of (succeeded recent)) w = (None, w')"
    by auto
  with all show ?thesis
    by (simp add: reconcile_def)
qed

text \<open>
  C6. From the chain to the tables, under three conditions on what happens outside the observer.
  The chain holds a history of the program whose events were emitted by its finalized transactions, at
  whatever call depth, and (1) transactions about one record are in increasing slots (slot_ordered);
  (2) no other log line of a transaction looks like a line of the runtime, such as a message ending in
  success (wf_transaction in wf_published); (3) the subscription delivers no transaction
  before the events of all earlier ones are recorded (in_sequence, part of observes): it may repeat
  deliveries and may stop at any time, but it does not skip one and go on. Then, in every run of the
  observer under these conditions, with failing nodes and databases, lost answers, lost connections and
  restarts: at every moment the tables of escrows, vaults and withdrawal requests hold exactly the records
  of the ledger as it was at some point of this history, with their status, authority and pause state,
  and not at an earlier point than the node knew in the last completed reconciliation. And from any such
  moment one reconciliation with an undisturbed database and node ends without error and makes the
  tables show the current ledger. The code needs the conditions:
  same_slot_release_lost, log_text_hides_event and skipped_delivery_not_repaired each give a case
  outside one of them where an event has no lasting effect on the tables.
\<close>

theorem observer_follows_chain:
  assumes "token_laws rt" "reachable rt L (emitted chain)" "sound_libraries ob encode" "slot_ordered chain"
    and "observes ob encode max_lag ph once d chain n w"
  shows "(\<exists>m L'. length (emitted (take n chain)) \<le> m \<and> reachable rt L' (take m (emitted chain))
      \<and> mirrors (op_base58 ob) (wo_database w) (views_of rt L'))
    \<and> (served nd chain \<longrightarrow> (\<exists>w'. reconcile ob (\<lambda>_. Answers) True nd w = Some (None, w')
         \<and> mirrors (op_base58 ob) (wo_database w') (views_of rt L)))"
proof (intro conjI impI)
  from observes_caught_up [OF assms(5,3)] obtain k where gen: "genuine ob encode chain"
    and k: "caught_up ob chain k (wo_database w)" and fresh: "length (sightings (take n chain)) \<le> k"
    by blast
  note shows_ledger = caught_up_mirrors [OF assms(1) _ sound_librariesD(4) [OF assms(3)] gen assms(4)]
  have events: "length (emitted chain') = length (sightings chain')" if "genuine ob encode chain'" for chain'
    using sightings_events that unfolding genuine_def by (metis length_map)
  have "genuine ob encode (take n chain)"
    using gen genuine_append by (metis append_take_drop_id)
  with fresh events have "length (emitted (take n chain)) \<le> k"
    by simp
  with reachable_prefix [OF assms(2)] shows_ledger [OF _ k]
  show "\<exists>m L'. length (emitted (take n chain)) \<le> m \<and> reachable rt L' (take m (emitted chain))
      \<and> mirrors (op_base58 ob) (wo_database w) (views_of rt L')"
    by blast
  assume nd: "served nd chain"
  from reconcile_completes [OF assms(3) gen assms(2) nd] obtain w' where
    run: "reconcile ob (\<lambda>_. Answers) True nd w = Some (None, w')"
    by blast
  from reconcile_delivers [OF assms(3) _ nd answers_like_refl, of "[]"] gen k run obtain k' where
      k': "caught_up ob chain k' (wo_database w')" "length (sightings chain) \<le> k'"
    by fastforce
  then have "take k' (emitted chain) = emitted chain"
    using events [OF gen] by simp
  then have "mirrors (op_base58 ob) (wo_database w') (views_of rt L)"
    using shows_ledger [OF _ k'(1)] assms(2) by simp
  with run show "\<exists>w'. reconcile ob (\<lambda>_. Answers) True nd w = Some (None, w')
      \<and> mirrors (op_base58 ob) (wo_database w') (views_of rt L)"
    by blast
qed

text \<open>The sample history, published with a failed transaction in between, and a node that serves it.\<close>

definition sample_published :: "string \<Rightarrow> u64 \<Rightarrow> event \<Rightarrow> published" where
  "sample_published signature slot event =
     \<lparr>pb_signature = signature, pb_slot = slot, pb_block_time = None, pb_failed = False,
      pb_calls = [(''Iron'', [Data (sample_encode (emit sample_hash event))])], pb_events = [[event]]\<rparr>"

definition sample_chain :: "published list" where
  "sample_chain =
     [sample_published ''a'' 1 (ProtocolInitialized 1 10 6 7),
      sample_published ''b'' 2 (EscrowCreated 1 11 12 1 2 20 50 10 1000 7),
      \<lparr>pb_signature = ''x'', pb_slot = 2, pb_block_time = None, pb_failed = True, pb_calls = [], pb_events = []\<rparr>,
      sample_published ''c'' 3 (EscrowReleased 1 11 12 1 2 22 20 50)]"

definition chain_observer :: "unit observer" where
  "chain_observer = sample_observer\<lparr>op_base58 := sample_base58\<rparr>"

definition chain_node :: "published list \<Rightarrow> node" where
  "chain_node chain =
     \<lparr>nd_signatures = (\<lambda>before. answered (case before of None \<Rightarrow> rev (map info_of chain)
        | Some s \<Rightarrow> tl (dropWhile (\<lambda>i. si_signature i \<noteq> s) (rev (map info_of chain))))),
      nd_transaction = (\<lambda>s. Option.bind (find (\<lambda>t. pb_signature t = s) chain) (\<lambda>t. answered
        \<lparr>tr_slot = pb_slot t, tr_block_time = pb_block_time t,
         tr_meta = Some \<lparr>tm_err = pb_failed t, tm_log_messages = Some (transaction_logs (pb_calls t))\<rparr>\<rparr>)),
      nd_slot = answered 9\<rparr>"

lemma sample_sound: "sound_libraries chain_observer sample_encode"
  by (simp add: sound_libraries_def chain_observer_def sample_observer_def sample_base58_inj sample_hash_length
      sample_hash_inj sample_base64_encode)

lemma sample_wf_published:
  "uint slot < 2 ^ 63 \<Longrightarrow> wf_published chain_observer sample_encode (sample_published signature slot event)"
  by (simp add: wf_published_def sample_published_def wf_transaction_def base64_text_sample
      key_text_def chain_observer_def sample_observer_def event_line_def)

lemma sample_genuine: "genuine chain_observer sample_encode sample_chain"
  by (simp add: genuine_def sample_chain_def sample_wf_published)
    (simp add: sample_published_def)

lemma sample_served: "served (chain_node sample_chain) sample_chain"
proof -
  have "serves (chain_node sample_chain) (rev (map info_of sample_chain))"
    by (simp add: serves_def chain_node_def sample_chain_def info_of_def sample_published_def page_limit_def
        less_Suc_eq)
  moreover have "list_all (reports (chain_node sample_chain)) (succeeded sample_chain)"
    by (simp add: reports_def chain_node_def sample_chain_def sample_published_def)
  ultimately show ?thesis
    by (simp add: served_def)
qed

lemma sample_history:
  "emitted sample_chain =
     [ProtocolInitialized 1 10 6 7, EscrowCreated 1 11 12 1 2 20 50 10 1000 7, EscrowReleased 1 11 12 1 2 22 20 50]"
  "sightings sample_chain =
     [observed ''a'' 1 None 0 0 (ProtocolInitialized 1 10 6 7),
      observed ''b'' 2 None 0 0 (EscrowCreated 1 11 12 1 2 20 50 10 1000 7),
      observed ''c'' 3 None 0 0 (EscrowReleased 1 11 12 1 2 22 20 50)]"
  by (simp_all add: emitted_def sightings_def sighting_def sample_chain_def sample_published_def)

text \<open>The observer connects and reconciles when one transaction is final; then three more become final.\<close>

lemma observes_grows:
  assumes "observes ob encode max_lag ph once d chain n w" "genuine ob encode (chain @ later)"
  shows "observes ob encode max_lag ph once d (chain @ later) n w"
  using assms(2)
proof (induction later rule: rev_induct)
  case (snoc t later)
  then have "observes ob encode max_lag ph once d ((chain @ later) @ [t]) n w"
    by (intro observes.finalized) (auto simp: genuine_def split: if_splits)
  then show ?case
    by simp
qed (simp add: assms(1))

lemma sample_first_served: "served (chain_node [hd sample_chain]) [hd sample_chain]"
  by (simp add: served_def serves_def reports_def chain_node_def sample_chain_def sample_published_def info_of_def
      page_limit_def)

lemma sample_observes: "\<exists>w. observes chain_observer sample_encode 10 Live True None sample_chain 1 w"
proof -
  let ?a = "hd sample_chain" and ?w = "subscribed (count_attempt False start_world) :: unit world"
  have chain: "sample_chain = [?a] @ tl sample_chain" and "emitted [?a] = take 1 (emitted sample_chain)"
    by (simp_all add: sample_chain_def sample_published_def emitted_def)
  with reachable_prefix [OF reachable_released, of 1] obtain L where "reachable sample_runtime L (emitted [?a])"
    by (auto simp: sample_history)
  from reconcile_completes [OF sample_sound _ this sample_first_served, of ?w] obtain w1 where
      "reconcile chain_observer (\<lambda>_. Answers) True (chain_node [?a]) ?w = Some (None, w1)"
    using genuine_append [of chain_observer sample_encode "[?a]" "tl sample_chain"] sample_genuine chain by auto
  then obtain w where w: "reconcile_to_finalized_slot chain_observer (\<lambda>_. Answers) True (chain_node [?a]) ?w = Some (None, w)"
    by (simp add: reconcile_to_finalized_slot_def chain_node_def)
  have "observes chain_observer sample_encode 10 Waiting False None [] 0 start_world"
    by (rule observes.start) (simp_all add: start_world_def)
  then have "observes chain_observer sample_encode 10 Waiting False None ([] @ [?a]) 0 start_world"
    by (rule observes_grows) (use sample_genuine genuine_append chain in \<open>metis append_Nil\<close>)
  then have "observes chain_observer sample_encode 10 Syncing True None ([?a] @ []) 0 ?w"
    using observes.accepted [OF _ rpc_answered(1)] by fastforce
  from observes.synced [OF this _ sample_first_served answers_like_refl w]
  have "observes chain_observer sample_encode 10 Live True None [?a] 1 w"
    by simp
  then show ?thesis
    using observes_grows [of chain_observer sample_encode 10 Live True None "[?a]" 1 w "tl sample_chain"] sample_genuine chain
    by auto
qed

theorem observer_follows_chain_witness:
  "\<exists>w w'. observes chain_observer sample_encode 10 Live True None sample_chain 1 w
     \<and> reconcile chain_observer (\<lambda>_. Answers) True (chain_node sample_chain) w = Some (None, w')
     \<and> map_option ew_status (escrows (wo_database w') (sample_base58 11)) = Some ''released''"
proof -
  obtain w where w: "observes chain_observer sample_encode 10 Live True None sample_chain 1 w"
    using sample_observes by blast
  have history: "reachable sample_runtime released_ledger (emitted sample_chain)"
    using reachable_released by (simp add: sample_history)
  have "slot_ordered sample_chain"
    by (simp add: slot_ordered_def sample_chain_def sample_published_def)
  from observer_follows_chain [OF sample_token_laws history sample_sound this w, of "chain_node sample_chain"] sample_served
  obtain w' where w': "reconcile chain_observer (\<lambda>_. Answers) True (chain_node sample_chain) w = Some (None, w')"
      "mirrors sample_base58 (wo_database w') (views_of sample_runtime released_ledger)"
    by (auto simp: chain_observer_def)
  then have "map_option (ew_last_update (\<lambda>_. unseen)) (escrows (wo_database w') (sample_base58 11)) =
      Some (escrow_row_of sample_base58 (escrow_view_of sample_runtime 11 (sample_escrow\<lparr>es_status := Released\<rparr>)))"
    by (simp add: mirrors_def shows_table_def released_ledger_def sample_state_def)
  then have "map_option ew_status (escrows (wo_database w') (sample_base58 11)) = Some ''released''"
    by (auto simp: escrow_row_of_def escrow_view_of_def dest!: arg_cong [where f = ew_status])
  with w w'(1) show ?thesis
    by blast
qed

section \<open>A skipped delivery\<close>

text \<open>
  The condition on deliveries is needed. When the subscription drops the transaction that creates an
  escrow and delivers the one that releases it, the update finds no row and the event counts as
  stored. The next reconciliation inserts the creation as \<open>funded\<close> and skips the release as already
  stored; it ends without error, and the table is wrong for good: a further reconciliation changes
  nothing.
\<close>

lemma sample_stores_late:
  "\<exists>db1 db2. stores chain_observer [observed ''c'' 3 None 0 0 (EscrowReleased 1 11 12 1 2 22 20 50)] empty_database = Inr db1
     \<and> stores chain_observer (sightings sample_chain) db1 = Inr db2
     \<and> map_option ew_status (escrows db2 (sample_base58 11)) = Some ''funded''"
  by (simp add: sample_history observed_def persist_storable storable_def key_of_def position_of_def
      with_event_def empty_database_def insert_ignore_def update_escrow_status_def update_where_def
      update_checkpoint_def Let_def checkpoint_position_def checkpoint_at_def chain_observer_def)

lemma sample_collected:
  "collect_signatures (chain_node sample_chain) checkpoint None [] = Some (Some (rev (map info_of (succeeded sample_chain))))"
  by (subst collect_signatures.simps)
     (simp add: chain_node_def sample_chain_def sample_published_def info_of_def page_limit_def)

lemma skipped_delivery_not_repaired:
  "\<exists>w1 w2. on_message chain_observer (\<lambda>_. Answers) (Notification 3 ''c'' False
       (transaction_logs (pb_calls (last sample_chain)))) start_world = (None, w1)
     \<and> reconcile chain_observer (\<lambda>_. Answers) True (chain_node sample_chain) w1 = Some (None, w2)
     \<and> map_option ew_status (escrows (wo_database w2) (sample_base58 11)) = Some ''funded''
     \<and> (\<exists>w3. reconcile chain_observer (\<lambda>_. Answers) True (chain_node sample_chain) w2 = Some (None, w3)
          \<and> wo_database w3 = wo_database w2)"
proof -
  let ?t = "last sample_chain" and ?infos = "map info_of (succeeded sample_chain)"
  obtain db1 db2 where db1: "stores chain_observer [observed ''c'' 3 None 0 0 (EscrowReleased 1 11 12 1 2 22 20 50)] empty_database = Inr db1"
    and db2: "stores chain_observer (sightings sample_chain) db1 = Inr db2"
    and funded: "map_option ew_status (escrows db2 (sample_base58 11)) = Some ''funded''"
    using sample_stores_late by blast
  have t: "wf_published chain_observer sample_encode ?t" "pb_signature ?t = ''c''" "pb_slot ?t = 3"
      "pb_events ?t = [[EscrowReleased 1 11 12 1 2 22 20 50]]"
    using sample_wf_published [of 3 "''c''" "EscrowReleased 1 11 12 1 2 22 20 50"]
    by (simp_all add: sample_chain_def sample_published_def)
  note scanned = extract_sighting [OF t(1) sound_librariesD(1-3) [OF sample_sound], where time = None, unfolded t(2-4)]
  obtain w1 where w1: "on_message chain_observer (\<lambda>_. Answers) (Notification 3 ''c'' False
      (transaction_logs (pb_calls ?t))) start_world = (None, w1)" "wo_database w1 = db1"
    using handle_items_answers [of chain_observer "map Inr [observed ''c'' 3 None 0 0 (EscrowReleased 1 11 12 1 2 22 20 50)]"
        "set_status (\<lambda>s. s\<lparr>observed_slot := max (observed_slot s) 3\<rparr>) start_world" db1] db1
    by (auto simp: process_logs_def scanned set_status_def start_world_def Let_def)
  have again: "\<exists>w'. reconcile chain_observer (\<lambda>_. Answers) True (chain_node sample_chain) w = Some (None, w') \<and> wo_database w' = db2"
    if "stores chain_observer (sightings sample_chain) (wo_database w) = Inr db2" for w
    using replay_answers [of ?infos "chain_node sample_chain" chain_observer w db2] that
      served_stream [OF sample_sound sample_genuine sample_served order_refl]
    by (simp add: reconcile_def sample_collected)
  have "stores chain_observer (sightings sample_chain) db2 = Inr db2"
    using db.run_twice [OF db2, of "[]"] db2 by simp
  then show ?thesis
    using again [of w1] again w1 db2 funded by metis
qed

end
