(* ===== verification/Payload.thy ===== *)
theory Payload
  imports Store
begin

text \<open>
  The JSON payload of a stored event (\<open>observer/src/events.rs\<close>: \<open>Serialize\<close> of \<open>Pubkey\<close>, of the event
  structs and of the tagged enum, \<open>payload\<close>), and that the table of events loses nothing: a row
  determines the event it was made from.
\<close>

section \<open>Rendering\<close>

text \<open>JSON values; a number keeps its full range, as in \<open>serde_json\<close> and in a \<open>JSONB\<close> column.\<close>

datatype json =
    JObject "(string \<times> json) list"
  | JString string
  | JNumber int
  | JBool bool

definition pubkey_json :: "(pubkey \<Rightarrow> string) \<Rightarrow> pubkey \<Rightarrow> json" where
  "pubkey_json base58 k = JString (base58 k)"

text \<open>The fields of a struct in the order of its declaration, keys by their base58 text.\<close>

fun payload_fields :: "(pubkey \<Rightarrow> string) \<Rightarrow> event \<Rightarrow> (string \<times> json) list" where
  "payload_fields base58 (ProtocolInitialized version protocol_config admin guardian) =
     [(''version'', JNumber (uint version)), (''protocol_config'', pubkey_json base58 protocol_config),
      (''admin'', pubkey_json base58 admin), (''guardian'', pubkey_json base58 guardian)]"
| "payload_fields base58 (ProtocolPauseUpdated version protocol_config caller previous_flags new_flags) =
     [(''version'', JNumber (uint version)), (''protocol_config'', pubkey_json base58 protocol_config),
      (''caller'', pubkey_json base58 caller), (''previous_flags'', JNumber (uint previous_flags)),
      (''new_flags'', JNumber (uint new_flags))]"
| "payload_fields base58 (EscrowCreated version escrow escrow_token maker recipient mint amount created_at expires_at escrow_id) =
     [(''version'', JNumber (uint version)), (''escrow'', pubkey_json base58 escrow),
      (''escrow_token'', pubkey_json base58 escrow_token), (''maker'', pubkey_json base58 maker),
      (''recipient'', pubkey_json base58 recipient), (''mint'', pubkey_json base58 mint),
      (''amount'', JNumber (uint amount)), (''created_at'', JNumber (sint created_at)),
      (''expires_at'', JNumber (sint expires_at)), (''escrow_id'', JNumber (uint escrow_id))]"
| "payload_fields base58 (EscrowReleased version escrow escrow_token maker recipient recipient_token mint amount) =
     [(''version'', JNumber (uint version)), (''escrow'', pubkey_json base58 escrow),
      (''escrow_token'', pubkey_json base58 escrow_token), (''maker'', pubkey_json base58 maker),
      (''recipient'', pubkey_json base58 recipient),
      (''recipient_token'', pubkey_json base58 recipient_token), (''mint'', pubkey_json base58 mint),
      (''amount'', JNumber (uint amount))]"
| "payload_fields base58 (EscrowRefunded version escrow escrow_token caller maker maker_destination mint amount) =
     [(''version'', JNumber (uint version)), (''escrow'', pubkey_json base58 escrow),
      (''escrow_token'', pubkey_json base58 escrow_token), (''caller'', pubkey_json base58 caller),
      (''maker'', pubkey_json base58 maker),
      (''maker_destination'', pubkey_json base58 maker_destination), (''mint'', pubkey_json base58 mint),
      (''amount'', JNumber (uint amount))]"
| "payload_fields base58 (VaultCreated version vault namespace_authority authority guardian vault_id) =
     [(''version'', JNumber (uint version)), (''vault'', pubkey_json base58 vault),
      (''namespace_authority'', pubkey_json base58 namespace_authority),
      (''authority'', pubkey_json base58 authority), (''guardian'', pubkey_json base58 guardian),
      (''vault_id'', JNumber (uint vault_id))]"
| "payload_fields base58 (VaultAuthorityUpdated version vault previous_authority new_authority) =
     [(''version'', JNumber (uint version)), (''vault'', pubkey_json base58 vault),
      (''previous_authority'', pubkey_json base58 previous_authority),
      (''new_authority'', pubkey_json base58 new_authority)]"
| "payload_fields base58 (VaultPauseUpdated version vault caller paused) =
     [(''version'', JNumber (uint version)), (''vault'', pubkey_json base58 vault),
      (''caller'', pubkey_json base58 caller), (''paused'', JBool paused)]"
| "payload_fields base58 (VaultAssetRegistered version vault vault_asset vault_token mint token_program) =
     [(''version'', JNumber (uint version)), (''vault'', pubkey_json base58 vault),
      (''vault_asset'', pubkey_json base58 vault_asset),
      (''vault_token'', pubkey_json base58 vault_token), (''mint'', pubkey_json base58 mint),
      (''token_program'', pubkey_json base58 token_program)]"
| "payload_fields base58 (VaultDeposit version vault vault_asset vault_token depositor source_token mint amount) =
     [(''version'', JNumber (uint version)), (''vault'', pubkey_json base58 vault),
      (''vault_asset'', pubkey_json base58 vault_asset),
      (''vault_token'', pubkey_json base58 vault_token), (''depositor'', pubkey_json base58 depositor),
      (''source_token'', pubkey_json base58 source_token), (''mint'', pubkey_json base58 mint),
      (''amount'', JNumber (uint amount))]"
| "payload_fields base58 (VaultWithdrawal version vault vault_asset vault_token caller destination_token mint amount) =
     [(''version'', JNumber (uint version)), (''vault'', pubkey_json base58 vault),
      (''vault_asset'', pubkey_json base58 vault_asset),
      (''vault_token'', pubkey_json base58 vault_token), (''caller'', pubkey_json base58 caller),
      (''destination_token'', pubkey_json base58 destination_token), (''mint'', pubkey_json base58 mint),
      (''amount'', JNumber (uint amount))]"
| "payload_fields base58 (RoleGranted version vault holder permissions) =
     [(''version'', JNumber (uint version)), (''vault'', pubkey_json base58 vault),
      (''principal'', pubkey_json base58 holder), (''permissions'', JNumber (uint permissions))]"
| "payload_fields base58 (RoleRevoked version vault holder previous_permissions) =
     [(''version'', JNumber (uint version)), (''vault'', pubkey_json base58 vault),
      (''principal'', pubkey_json base58 holder),
      (''previous_permissions'', JNumber (uint previous_permissions))]"
| "payload_fields base58 (VaultLimitsUpdated version vault vault_asset mint caller max_per_transaction window_limit window_seconds timelock_threshold timelock_seconds request_execution_window_seconds window_started_at window_spent) =
     [(''version'', JNumber (uint version)), (''vault'', pubkey_json base58 vault),
      (''vault_asset'', pubkey_json base58 vault_asset), (''mint'', pubkey_json base58 mint),
      (''caller'', pubkey_json base58 caller),
      (''max_per_transaction'', JNumber (uint max_per_transaction)),
      (''window_limit'', JNumber (uint window_limit)),
      (''window_seconds'', JNumber (sint window_seconds)),
      (''timelock_threshold'', JNumber (uint timelock_threshold)),
      (''timelock_seconds'', JNumber (sint timelock_seconds)),
      (''request_execution_window_seconds'', JNumber (sint request_execution_window_seconds)),
      (''window_started_at'', JNumber (sint window_started_at)),
      (''window_spent'', JNumber (uint window_spent))]"
| "payload_fields base58 (WithdrawalRequested version vault vault_asset request_key proposer recipient_owner recipient_token_account mint withdrawal_id amount created_at execute_after expires_at) =
     [(''version'', JNumber (uint version)), (''vault'', pubkey_json base58 vault),
      (''vault_asset'', pubkey_json base58 vault_asset),
      (''withdrawal_request'', pubkey_json base58 request_key),
      (''proposer'', pubkey_json base58 proposer),
      (''recipient_owner'', pubkey_json base58 recipient_owner),
      (''recipient_token_account'', pubkey_json base58 recipient_token_account),
      (''mint'', pubkey_json base58 mint), (''withdrawal_id'', JNumber (uint withdrawal_id)),
      (''amount'', JNumber (uint amount)), (''created_at'', JNumber (sint created_at)),
      (''execute_after'', JNumber (sint execute_after)), (''expires_at'', JNumber (sint expires_at))]"
| "payload_fields base58 (WithdrawalExecuted version vault vault_asset request_key caller recipient_token_account mint withdrawal_id amount) =
     [(''version'', JNumber (uint version)), (''vault'', pubkey_json base58 vault),
      (''vault_asset'', pubkey_json base58 vault_asset),
      (''withdrawal_request'', pubkey_json base58 request_key), (''caller'', pubkey_json base58 caller),
      (''recipient_token_account'', pubkey_json base58 recipient_token_account),
      (''mint'', pubkey_json base58 mint), (''withdrawal_id'', JNumber (uint withdrawal_id)),
      (''amount'', JNumber (uint amount))]"
| "payload_fields base58 (WithdrawalCancelled version vault request_key caller proposer withdrawal_id) =
     [(''version'', JNumber (uint version)), (''vault'', pubkey_json base58 vault),
      (''withdrawal_request'', pubkey_json base58 request_key), (''caller'', pubkey_json base58 caller),
      (''proposer'', pubkey_json base58 proposer), (''withdrawal_id'', JNumber (uint withdrawal_id))]"

text \<open>The enum is tagged by the name of the event, with the struct under \<open>data\<close>.\<close>

definition payload :: "(pubkey \<Rightarrow> string) \<Rightarrow> event \<Rightarrow> json" where
  "payload base58 event =
     JObject [(''type'', JString (stringify (name_of event))), (''data'', JObject (payload_fields base58 event))]"

section \<open>Nothing is lost\<close>

lemma stringify_inj: "stringify m = stringify n \<longleftrightarrow> m = n"
  by (cases m; cases n) simp_all

lemma number_inj: "uint a = uint b \<longleftrightarrow> a = b" "sint c = sint d \<longleftrightarrow> c = d"
  by (auto intro: unsigned_word_eqI signed_word_eqI)

lemma payload_fields_inj:
  assumes "inj base58" "name_of a = name_of b" "payload_fields base58 a = payload_fields base58 b"
  shows "a = b"
  using assms(2,3) by (cases a; cases b) (simp_all add: inj_eq [OF assms(1)] number_inj pubkey_json_def)

lemma payload_inj: "inj base58 \<Longrightarrow> payload base58 a = payload base58 b \<longleftrightarrow> a = b"
  by (auto simp: payload_def stringify_inj dest: payload_fields_inj)

text \<open>
  The audit trail is complete: in any database that stored an observed event as new, the row under its
  identity determines slot, block time and event in full; two different sightings never leave the same row.
\<close>

lemma row_determines_event:
  assumes "inj base58"
    and "persist base58 (payload base58) x db = Inr (True, db')" "persist base58 (payload base58) y db2 = Inr (True, db2')"
    and "ob_id x = ob_id y" "protocol_events db' (key_of x) = protocol_events db2' (key_of y)"
  shows "x = y"
proof -
  have "protocol_events db (key_of x) = None" "protocol_events db2 (key_of y) = None"
    using persist_Inr(2) assms(2,3) by blast+
  with assms(5) have "uint (ob_slot x) = uint (ob_slot y)" "ob_block_time x = ob_block_time y"
      "payload base58 (ob_event x) = payload base58 (ob_event y)"
    unfolding persist_Inr(3) [OF assms(2)] persist_Inr(3) [OF assms(3)]
    by (auto simp: with_event_def insert_ignore_apply position_of_def)
  with assms(1,4) show ?thesis
    by (simp add: payload_inj number_inj)
qed

end
