(* ===== verification/Startup.thy ===== *)
theory Startup
  imports Payload Service
begin

text \<open>
  The observer process: its configuration (\<open>observer/src/config.rs\<close>), the HTTP routes
  (\<open>observer/src/health.rs\<close>), the construction of the observer (\<open>Observer::new\<close> of
  \<open>observer/src/rpc.rs\<close>) and \<open>main\<close>, which connects them; and what the readiness route of the
  process as a whole reports.
\<close>

section \<open>Configuration\<close>

text \<open>\<open>DEFAULT_PROGRAM_ID\<close> of \<open>lib.rs\<close>.\<close>

definition DEFAULT_PROGRAM_ID :: string where
  "DEFAULT_PROGRAM_ID = ''2UWmTuefm4gqbfuZP36NSJMMSKLM4Rbop25jf1uBZAu1''"

record 'a config =
  cf_rpc_http_url :: string
  cf_rpc_ws_url :: string
  cf_program_id :: string
  cf_database_url :: string
  cf_listen_addr :: 'a
  cf_large_withdrawal_threshold :: u64
  cf_max_ready_slot_lag :: u64
  cf_reconnect_delay_ms :: u64

text \<open>
  The argument parser is a parameter: the text given for an option, by its flag or else by its
  environment variable, and the parsers of numbers and socket addresses.
\<close>

record 'a cli =
  cl_given :: "string \<Rightarrow> string \<Rightarrow> string option"
  cl_u64 :: "string \<Rightarrow> u64 option"
  cl_addr :: "string \<Rightarrow> 'a option"

definition text_option :: "'a cli \<Rightarrow> string \<Rightarrow> string \<Rightarrow> string \<Rightarrow> string" where
  "text_option cli flag variable default_value =
     (case cl_given cli flag variable of None \<Rightarrow> default_value | Some s \<Rightarrow> s)"

definition u64_option :: "'a cli \<Rightarrow> string \<Rightarrow> string \<Rightarrow> u64 \<Rightarrow> u64 option" where
  "u64_option cli flag variable default_value =
     (case cl_given cli flag variable of None \<Rightarrow> Some default_value | Some s \<Rightarrow> cl_u64 cli s)"

text \<open>A missing or malformed value ends the process with a message; which one is named is the parser's choice.\<close>

definition config_parse :: "'a cli \<Rightarrow> 'a config option" where
  "config_parse cli =
     Option.bind (cl_given cli ''database-url'' ''DATABASE_URL'') (\<lambda>database_url.
     Option.bind (cl_addr cli (text_option cli ''listen-addr'' ''IRONVAULT_LISTEN_ADDR'' ''0.0.0.0:8080'')) (\<lambda>listen_addr.
     Option.bind (u64_option cli ''large-withdrawal-threshold'' ''IRONVAULT_LARGE_WITHDRAWAL_THRESHOLD'' 50000) (\<lambda>threshold.
     Option.bind (u64_option cli ''max-ready-slot-lag'' ''IRONVAULT_MAX_READY_SLOT_LAG'' 150) (\<lambda>max_lag.
     Option.bind (u64_option cli ''reconnect-delay-ms'' ''IRONVAULT_RECONNECT_DELAY_MS'' 1000) (\<lambda>reconnect_delay.
     Some \<lparr>cf_rpc_http_url = text_option cli ''rpc-http-url'' ''IRONVAULT_RPC_HTTP_URL'' ''http://127.0.0.1:8899'',
           cf_rpc_ws_url = text_option cli ''rpc-ws-url'' ''IRONVAULT_RPC_WS_URL'' ''ws://127.0.0.1:8900'',
           cf_program_id = text_option cli ''program-id'' ''IRONVAULT_PROGRAM_ID'' DEFAULT_PROGRAM_ID,
           cf_database_url = database_url, cf_listen_addr = listen_addr,
           cf_large_withdrawal_threshold = threshold, cf_max_ready_slot_lag = max_lag,
           cf_reconnect_delay_ms = reconnect_delay\<rparr>)))))"

section \<open>Routes\<close>

text \<open>What the handlers read: whether the database answers, the counters and the shared status.\<close>

record health_state =
  hs_database_ready :: bool
  hs_metrics :: metrics
  hs_sync_status :: sync_status
  hs_max_ready_slot_lag :: u64

datatype body =
    Alive string
  | Readiness ready_body
  | Exposition string string

definition healthz :: "nat \<times> body" where
  "healthz = (200, Alive ''alive'')"

definition readyz_route :: "health_state \<Rightarrow> nat \<times> body" where
  "readyz_route state =
     map_prod id Readiness
       (readyz (hs_max_ready_slot_lag state) (hs_database_ready state) (hs_sync_status state))"

definition metrics_route :: "health_state \<Rightarrow> nat \<times> body" where
  "metrics_route state =
     (200, Exposition ''text/plain; version=0.0.4; charset=utf-8'' (metrics_render (hs_metrics state)))"

definition router :: "health_state \<Rightarrow> string \<rightharpoonup> nat \<times> body" where
  "router state = map_of
     [(''/healthz'', healthz), (''/readyz'', readyz_route state), (''/metrics'', metrics_route state)]"

section \<open>The process\<close>

record observer_settings =
  st_rpc_http_url :: string
  st_rpc_ws_url :: string
  st_program_id :: string
  st_reconnect_delay_ms :: u64
  st_large_withdrawal_threshold :: u64

text \<open>
  \<open>Observer::new\<close>: the addresses and the delay are used by the transport only. The hash and the two
  encodings are the libraries.
\<close>

record libraries =
  lb_sha256 :: "u8 list \<Rightarrow> u8 list"
  lb_base64 :: "string \<Rightarrow> u8 list option"
  lb_base58 :: "pubkey \<Rightarrow> string"

definition observer_new :: "libraries \<Rightarrow> observer_settings \<Rightarrow> json observer" where
  "observer_new libs settings =
     \<lparr>op_sha256 = lb_sha256 libs, op_base64 = lb_base64 libs, op_base58 = lb_base58 libs,
      op_payload = payload (lb_base58 libs), op_program_id = st_program_id settings,
      op_large_withdrawal_threshold = st_large_withdrawal_threshold settings\<rparr>"

datatype startup_error =
    BadConfig
  | DatabaseFailed
  | BindFailed
  | ServeFailed
  | ObserverFailed

text \<open>
  \<open>main\<close> up to the point where the three tasks run: the configuration, the database (connected and
  migrated), the shared counters and status, the listener, the observer and the monitor's limit. The
  address of the node is given to observer and monitor alike.
\<close>

record running =
  rn_observer :: "json observer"
  rn_world :: "json world"
  rn_health_limit :: u64
  rn_monitor_limit :: u64

definition observer_main ::
    "libraries \<Rightarrow> 'a cli \<Rightarrow> (string \<Rightarrow> json database option) \<Rightarrow> ('a \<Rightarrow> bool) \<Rightarrow> startup_error + running" where
  "observer_main libs cli connect bind =
     and_then (ok_or (config_parse cli) BadConfig) (\<lambda>config.
     and_then (ok_or (connect (cf_database_url config)) DatabaseFailed) (\<lambda>database.
     ensure (bind (cf_listen_addr config)) BindFailed
     (Inr \<lparr>rn_observer = observer_new libs
             \<lparr>st_rpc_http_url = cf_rpc_http_url config, st_rpc_ws_url = cf_rpc_ws_url config,
              st_program_id = cf_program_id config, st_reconnect_delay_ms = cf_reconnect_delay_ms config,
              st_large_withdrawal_threshold = cf_large_withdrawal_threshold config\<rparr>,
           rn_world = \<lparr>wo_database = database, wo_metrics = metrics_default, wo_alerts = [],
                       wo_status = sync_status_default\<rparr>,
           rn_health_limit = cf_max_ready_slot_lag config,
           rn_monitor_limit = cf_max_ready_slot_lag config\<rparr>)))"

text \<open>
  \<open>main\<close> ends with the first of its tasks: the server (by an error, or without one after an interrupt),
  the observer or the monitor. The latter two are endless loops.
\<close>

datatype task_end =
    ServerEnded bool
  | ObserverEnded bool
  | MonitorEnded

fun main_exit :: "task_end \<Rightarrow> startup_error + unit" where
  "main_exit (ServerEnded ok) = ensure ok ServeFailed (Inr ())"
| "main_exit (ObserverEnded ok) = ensure ok ObserverFailed (Inr ())"
| "main_exit MonitorEnded = Inr ()"

text \<open>A request to the running process.\<close>

definition respond :: "running \<Rightarrow> bool \<Rightarrow> 'j world \<Rightarrow> string \<Rightarrow> (nat \<times> body) option" where
  "respond app database_ready w path =
     router \<lparr>hs_database_ready = database_ready, hs_metrics = wo_metrics w, hs_sync_status = wo_status w,
             hs_max_ready_slot_lag = rn_health_limit app\<rparr> path"


section \<open>Readiness of the process\<close>

lemma observer_main_Inr:
  assumes "observer_main libs cli connect bind = Inr app"
  shows "\<exists>config. config_parse cli = Some config \<and> rn_health_limit app = cf_max_ready_slot_lag config
    \<and> rn_monitor_limit app = cf_max_ready_slot_lag config \<and> wo_status (rn_world app) = sync_status_default"
  using assms by (auto simp: observer_main_def success_iff)

lemma process_starts:
  "observer_main libs cli connect bind = Inr app \<Longrightarrow>
     service (rn_observer app) (rn_monitor_limit app) Waiting False (rn_world app) None"
  by (rule service.start) (auto dest: observer_main_Inr)

lemma respond_ready:
  "(\<exists>body. respond app database_ready w ''/readyz'' = Some (200, body)) \<longleftrightarrow>
     fst (readyz (rn_health_limit app) database_ready (wo_status w)) = 200"
  by (cases "readyz (rn_health_limit app) database_ready (wo_status w)")
    (simp add: respond_def router_def readyz_route_def)

text \<open>
  C36. Readiness is honest: in any run of a process that started with some configuration, through
  refused or lost connections, failed reconciliations, messages of any kind and the monitor's
  rounds in any interleaving, the readiness route answers 200 exactly when the database answers, the
  connection is up and has been reconciled since it was made, and the node's slot is at most the
  configured lag ahead of the observed one, computed without wrap-around. And probe and alert agree:
  when the monitor has read the node's slot, a live process with a working database is unready
  exactly when that round raised the alert about falling behind.
\<close>

theorem ready_means_synced:
  assumes "observer_main libs cli connect bind = Inr app" "config_parse cli = Some config"
    and "service (rn_observer app) (rn_monitor_limit app) ph once w d"
  shows "((\<exists>body. respond app database_ready w ''/readyz'' = Some (200, body)) \<longleftrightarrow>
      database_ready \<and> ph = Live \<and> unat (rpc_slot (wo_status w))
        \<le> unat (observed_slot (wo_status w)) + unat (cf_max_ready_slot_lag config))
    \<and> (ph = Live \<longrightarrow> rpc response \<noteq> None \<longrightarrow>
        monitor_round (rn_monitor_limit app) response deployment d w = (d', w') \<longrightarrow>
        ((\<exists>body. respond app True w' ''/readyz'' = Some (200, body)) \<longleftrightarrow>
         (\<forall>lag. ObserverFallingBehind lag \<notin> set (drop (length (wo_alerts w)) (wo_alerts w')))))"
proof -
  have limits: "rn_health_limit app = cf_max_ready_slot_lag config" "rn_monitor_limit app = cf_max_ready_slot_lag config"
    using observer_main_Inr [OF assms(1)] assms(2) by auto
  have "(\<exists>body. respond app True w' ''/readyz'' = Some (200, body)) \<longleftrightarrow>
      (\<forall>lag. ObserverFallingBehind lag \<notin> set (drop (length (wo_alerts w)) (wo_alerts w')))"
    if "ph = Live" "rpc response = Some slot" "monitor_round (rn_monitor_limit app) response deployment d w = (d', w')" for slot
  proof -
    note after = falling_behind_iff [OF that(3,2)]
    have "fst (readyz (rn_health_limit app) True (wo_status w')) = 200 \<longleftrightarrow>
        unat slot \<le> unat (observed_slot (wo_status w)) + unat (rn_monitor_limit app)"
      using service_status [OF assms(3)] that(1) by (simp add: readyz_200 after(1) limits)
    then show ?thesis
      using after(2) unfolding respond_ready by (meson not_le)
  qed
  then show ?thesis
    using ready_iff_live [OF assms(3)] unfolding respond_ready by (auto simp: limits)
qed

text \<open>A process with defaults, on a node without transactions.\<close>

definition sample_cli :: "string cli" where
  "sample_cli = \<lparr>cl_given = (\<lambda>flag _. if flag = ''database-url'' then Some ''db'' else None),
     cl_u64 = (\<lambda>_. None), cl_addr = Some\<rparr>"

definition sample_libraries :: libraries where
  "sample_libraries = \<lparr>lb_sha256 = sample_hash, lb_base64 = sample_base64, lb_base58 = (\<lambda>k. decimal (unat k))\<rparr>"

definition quiet_node :: node where
  "quiet_node = \<lparr>nd_signatures = (\<lambda>_. answered []), nd_transaction = (\<lambda>_. None), nd_slot = answered 50\<rparr>"

lemma quiet_node_syncs:
  "reconcile_to_finalized_slot ob link True quiet_node w = Some (None, w\<lparr>wo_status := (wo_status w)
     \<lparr>reconciled := True, rpc_slot := 50, observed_slot := max (observed_slot (wo_status w)) 50\<rparr>\<rparr>)"
proof -
  have "collect_signatures quiet_node checkpoint None [] = Some (Some [])" for checkpoint
    by (subst collect_signatures.simps) (simp add: quiet_node_def page_limit_def split: option.split)
  then show ?thesis
    by (simp add: reconcile_to_finalized_slot_def reconcile_def) (simp add: quiet_node_def)
qed

theorem ready_means_synced_witness:
  "\<exists>app w body w'. observer_main sample_libraries sample_cli (\<lambda>_. Some empty_database) (\<lambda>_. True) = Inr app
     \<and> service (rn_observer app) (rn_monitor_limit app) Live True w None
     \<and> respond app True w ''/readyz'' = Some (200, body)
     \<and> monitor_round (rn_monitor_limit app) (answered 300) None None w = (None, w')
     \<and> \<not> (\<exists>body. respond app True w' ''/readyz'' = Some (200, body))"
proof -
  define config where "config = the (config_parse sample_cli)"
  have config: "config_parse sample_cli = Some config" "cf_max_ready_slot_lag config = 150"
    by (simp_all add: config_def config_parse_def sample_cli_def u64_option_def)
  obtain app where app: "observer_main sample_libraries sample_cli (\<lambda>_. Some empty_database) (\<lambda>_. True) = Inr app"
    by (simp add: observer_main_def config(1))
  let ?w = "subscribed (count_attempt False (rn_world app))"
  define w where "w = ?w\<lparr>wo_status := (wo_status ?w)\<lparr>reconciled := True, rpc_slot := 50,
    observed_slot := max (observed_slot (wo_status ?w)) 50\<rparr>\<rparr>"
  have live: "service (rn_observer app) (rn_monitor_limit app) Live True w None"
    unfolding w_def
    by (rule service.synced [OF service.accepted [OF process_starts [OF app] rpc_answered(1)] quiet_node_syncs])
  note ready = ready_means_synced [OF app config(1) live]
  have "rpc_slot (wo_status w) = 50" "observed_slot (wo_status w) = 50" "wo_alerts w = []"
    using observer_main_Inr [OF app] app
    by (auto simp: w_def sync_status_default_def observer_main_def config(1) subscribed_def set_status_def count_attempt_def)
  moreover obtain w' where w': "monitor_round (rn_monitor_limit app) (answered 300) None None w = (None, w')"
    by (simp add: monitor_round_def Let_def)
  moreover have "rn_monitor_limit app = 150"
    using observer_main_Inr [OF app] config by auto
  ultimately have "\<exists>body. respond app True w ''/readyz'' = Some (200, body)"
      "\<not> (\<exists>body. respond app True w' ''/readyz'' = Some (200, body))"
    using ready [of True] ready [of _ "answered 300" None None w'] falling_behind_iff(2) [OF w' rpc_answered(1)]
    by auto
  with app live w' show ?thesis
    by blast
qed

end
