(* ===== verification/Multisig.thy ===== *)
theory Multisig
  imports Sourcing Codec
begin

text \<open>
  The 2-of-3 multisig program of \<open>test-programs/mock_multisig\<close>, with which the repository
  shows that a vault authority may be an address another program signs for. Its account is a
  byte string on the same ledger. What the Solana runtime does for it is a \<open>platform\<close> value:
  address derivation for its own program id, rent, executability, and cross-program invocation;
  the laws of invocation are the locale \<open>cpi_laws\<close> of \<open>Governance\<close>.
\<close>

section \<open>Data\<close>

text \<open>The key of the program, \<open>declare_id!\<close>, and the namespace of its addresses.\<close>

definition MULTISIG_ID :: pubkey where
  "MULTISIG_ID = 58825106746370240947124664737938844571790148348108690069301467984768162227872"

definition MULTISIG_SEED :: "u8 list" where
  "MULTISIG_SEED = ascii ''multisig''"

definition multisig_seeds :: "pubkey \<Rightarrow> u8 list list" where
  "multisig_seeds creator = [MULTISIG_SEED, pubkey_bytes creator]"

type_synonym owners = "pubkey \<times> pubkey \<times> pubkey"

record mock_multisig =
  ms_creator :: pubkey
  ms_owners :: owners
  ms_threshold :: u8
  ms_bump :: u8

definition owner_list :: "owners \<Rightarrow> pubkey list" where
  "owner_list os = (case os of (a, b, c) \<Rightarrow> [a, b, c])"

text \<open>\<open>InitSpace\<close> and \<open>SPACE\<close>.\<close>

definition MOCK_MULTISIG_INIT_SPACE :: nat where
  "MOCK_MULTISIG_INIT_SPACE = 32 + 3 * 32 + 1 + 1"

definition MOCK_MULTISIG_SPACE :: nat where
  "MOCK_MULTISIG_SPACE = 8 + MOCK_MULTISIG_INIT_SPACE"

datatype mock_multisig_error = InvalidOwners | DuplicateApproval | NotMember | InvalidThreshold

text \<open>Errors of the program, of Anchor's checks, and of the invoked program.\<close>

datatype multisig_error =
    Multisig mock_multisig_error
  | Framework anchor_error
  | AccountDiscriminatorNotFound
  | AccountDidNotDeserialize
  | ConstraintExecutable
  | Unfunded
  | Invoked nat

text \<open>An account handed to the program, and the parts of an instruction it builds.\<close>

record account_info =
  ai_key :: pubkey
  ai_is_signer :: bool
  ai_is_writable :: bool

record account_meta =
  am_pubkey :: pubkey
  am_is_signer :: bool
  am_is_writable :: bool

record solana_instruction =
  ix_program_id :: pubkey
  ix_accounts :: "account_meta list"
  ix_data :: "u8 list"

text \<open>
  \<open>pf_invoke_signed\<close> gets the clock, the instruction, the accounts passed along and the signer
  seeds. \<open>pf_instruction\<close> is the generated entry point of IronVault, which reads the
  instruction and the keys left over from the data and the accounts.
\<close>

record platform =
  pf_system_id :: pubkey
  pf_sha256 :: "u8 list \<Rightarrow> u8 list"
  pf_find_program_address :: "u8 list list \<Rightarrow> pubkey \<times> u8"
  pf_create_program_address :: "u8 list list \<Rightarrow> pubkey option"
  pf_pays_rent :: "pubkey \<Rightarrow> nat \<Rightarrow> bool"
  pf_executable :: "pubkey \<Rightarrow> bool"
  pf_instruction :: "u8 list \<Rightarrow> account_meta list \<Rightarrow> (instruction \<times> pubkey list) option"
  pf_invoke_signed ::
    "i64 \<Rightarrow> solana_instruction \<Rightarrow> account_info list \<Rightarrow> u8 list list \<Rightarrow> ledger \<Rightarrow> nat + ledger \<times> event list"

section \<open>The account as bytes\<close>

definition multisig_discriminator :: "platform \<Rightarrow> u8 list" where
  "multisig_discriminator pf = take 8 (pf_sha256 pf (ascii ''account:MockMultisig''))"

definition multisig_fields :: "mock_multisig \<Rightarrow> u8 list" where
  "multisig_fields m =
     pubkey_bytes (ms_creator m) @ concat (map pubkey_bytes (owner_list (ms_owners m)))
     @ [ms_threshold m] @ [ms_bump m]"

definition multisig_bytes :: "platform \<Rightarrow> mock_multisig \<Rightarrow> u8 list" where
  "multisig_bytes pf m = multisig_discriminator pf @ multisig_fields m"

definition read_multisig :: "mock_multisig reader" where
  "read_multisig =
     reads get_pubkey (\<lambda>creator.
     reads get_pubkey (\<lambda>a. reads get_pubkey (\<lambda>b. reads get_pubkey (\<lambda>c.
     reads get_u8 (\<lambda>threshold. reads get_u8 (\<lambda>bump.
     done_with \<lparr>ms_creator = creator, ms_owners = (a, b, c), ms_threshold = threshold, ms_bump = bump\<rparr>))))))"

text \<open>\<open>Account<'info, MockMultisig>\<close>: owner, discriminator, fields; trailing bytes are ignored.\<close>

definition load_multisig :: "platform \<Rightarrow> ledger \<Rightarrow> pubkey \<Rightarrow> multisig_error + mock_multisig" where
  "load_multisig pf L k =
     (case L k of
        None \<Rightarrow> Inl (Framework AccountNotInitialized)
      | Some a \<Rightarrow>
          ensure (acc_program a = MULTISIG_ID) (Framework AccountOwnedByWrongProgram)
          (case acc_data a of
             OtherData bytes \<Rightarrow>
               ensure (8 \<le> length bytes) AccountDiscriminatorNotFound
               (ensure (take 8 bytes = multisig_discriminator pf) (Framework AccountDiscriminatorMismatch)
               (and_then (ok_or (read_multisig (drop 8 bytes)) AccountDidNotDeserialize) (\<lambda>(m, _). Inr m)))
           | _ \<Rightarrow> Inl (Framework AccountDiscriminatorMismatch)))"

section \<open>initialize\<close>

record initialize_accounts =
  mz_creator :: pubkey
  mz_multisig :: pubkey
  mz_system_program :: pubkey

definition multisig_signer :: "tx \<Rightarrow> pubkey \<Rightarrow> multisig_error + unit" where
  "multisig_signer t k = ensure (k \<in> tx_signers t) (Framework AccountNotSigner) (Inr ())"

definition initialize_validate ::
    "platform \<Rightarrow> tx \<Rightarrow> initialize_accounts \<Rightarrow> ledger \<Rightarrow> multisig_error + (u8 \<times> ledger)" where
  "initialize_validate pf t a L =
     and_then (multisig_signer t (mz_creator a)) (\<lambda>_.
     ensure (mz_system_program a = pf_system_id pf) (Framework InvalidProgramId)
     (let (k, bump) = pf_find_program_address pf (multisig_seeds (mz_creator a)) in
      ensure (mz_multisig a = k) (Framework ConstraintSeeds)
      (ensure (L (mz_multisig a) = None) (Framework AccountAlreadyInUse)
      (ensure (pf_pays_rent pf (mz_creator a) MOCK_MULTISIG_SPACE) Unfunded
      (Inr (bump, L(mz_multisig a \<mapsto>
        \<lparr>acc_program = MULTISIG_ID, acc_data = OtherData (replicate MOCK_MULTISIG_SPACE 0)\<rparr>)))))))"

definition valid_owners :: "owners \<Rightarrow> bool" where
  "valid_owners os \<longleftrightarrow>
     (case os of (a, b, c) \<Rightarrow>
        (\<forall>x \<in> set (owner_list os). x \<noteq> default_pubkey) \<and> a \<noteq> b \<and> a \<noteq> c \<and> b \<noteq> c)"

definition initialize_multisig ::
    "platform \<Rightarrow> initialize_accounts \<Rightarrow> u8 \<Rightarrow> owners \<Rightarrow> ledger \<Rightarrow> multisig_error + ledger" where
  "initialize_multisig pf a bump os L =
     ensure (valid_owners os) (Multisig InvalidOwners)
     (let m = \<lparr>ms_creator = mz_creator a, ms_owners = os, ms_threshold = 2, ms_bump = bump\<rparr> in
      Inr (L(mz_multisig a \<mapsto> \<lparr>acc_program = MULTISIG_ID, acc_data = OtherData (multisig_bytes pf m)\<rparr>)))"

definition multisig_initialize ::
    "platform \<Rightarrow> tx \<Rightarrow> initialize_accounts \<Rightarrow> owners \<Rightarrow> ledger \<Rightarrow> multisig_error + ledger" where
  "multisig_initialize pf t a os L =
     and_then (initialize_validate pf t a L) (\<lambda>(bump, L'). initialize_multisig pf a bump os L')"

section \<open>execute\<close>

record execute_accounts =
  me_multisig :: pubkey
  me_signer_a :: pubkey
  me_signer_b :: pubkey
  me_target_program :: account_info
  me_remaining_accounts :: "account_info list"

definition execute_validate ::
    "platform \<Rightarrow> tx \<Rightarrow> execute_accounts \<Rightarrow> ledger \<Rightarrow> multisig_error + mock_multisig" where
  "execute_validate pf t a L =
     and_then (load_multisig pf L (me_multisig a)) (\<lambda>m.
     and_then (multisig_signer t (me_signer_a a)) (\<lambda>_.
     and_then (multisig_signer t (me_signer_b a)) (\<lambda>_.
     ensure (pf_create_program_address pf (multisig_seeds (ms_creator m) @ [[ms_bump m]])
         = Some (me_multisig a)) (Framework ConstraintSeeds)
     (ensure (pf_executable pf (ai_key (me_target_program a))) ConstraintExecutable
     (Inr m)))))"

text \<open>The instruction that is forwarded: no account signs it but the multisig itself.\<close>

definition forwarded_meta :: "pubkey \<Rightarrow> account_info \<Rightarrow> account_meta" where
  "forwarded_meta multisig_key info =
     \<lparr>am_pubkey = ai_key info, am_is_signer = (ai_key info = multisig_key),
      am_is_writable = ai_is_writable info\<rparr>"

definition forwarded :: "execute_accounts \<Rightarrow> u8 list \<Rightarrow> solana_instruction" where
  "forwarded a instruction_data =
     \<lparr>ix_program_id = ai_key (me_target_program a),
      ix_accounts = map (forwarded_meta (me_multisig a)) (me_remaining_accounts a),
      ix_data = instruction_data\<rparr>"

definition execute_multisig ::
    "platform \<Rightarrow> tx \<Rightarrow> execute_accounts \<Rightarrow> mock_multisig \<Rightarrow> u8 list \<Rightarrow> ledger
      \<Rightarrow> multisig_error + ledger \<times> event list" where
  "execute_multisig pf t a m instruction_data L =
     ensure (me_signer_a a \<noteq> me_signer_b a) (Multisig DuplicateApproval)
     (ensure (me_signer_a a \<in> set (owner_list (ms_owners m)) \<and> me_signer_b a \<in> set (owner_list (ms_owners m)))
        (Multisig NotMember)
     (ensure (ms_threshold m = 2) (Multisig InvalidThreshold)
     (map_err Invoked
        (pf_invoke_signed pf (tx_now t) (forwarded a instruction_data)
           (me_remaining_accounts a @ [me_target_program a])
           (multisig_seeds (ms_creator m) @ [[ms_bump m]]) L))))"

definition multisig_execute ::
    "platform \<Rightarrow> tx \<Rightarrow> execute_accounts \<Rightarrow> u8 list \<Rightarrow> ledger \<Rightarrow> multisig_error + ledger \<times> event list" where
  "multisig_execute pf t a instruction_data L =
     and_then (execute_validate pf t a L) (\<lambda>m. execute_multisig pf t a m instruction_data L)"

section \<open>Round trip\<close>

interpretation multisig: codec multisig_fields read_multisig
proof
  show "read_multisig (multisig_fields m @ rest) = Some (m, rest)" for m rest
    by (cases m) (auto simp: read_multisig_def multisig_fields_def owner_list_def reads_Some_iff
        done_with_def pubkey.get_iff u8.get_iff split: prod.splits)
  show "bs = multisig_fields m @ rest" if "read_multisig bs = Some (m, rest)" for bs m rest
    using that by (auto simp: read_multisig_def multisig_fields_def owner_list_def reads_Some_iff
        done_with_def pubkey.get_iff u8.get_iff)
qed

lemma multisig_fields_length: "length (multisig_fields m) = MOCK_MULTISIG_INIT_SPACE"
  by (auto simp: multisig_fields_def owner_list_def MOCK_MULTISIG_INIT_SPACE_def split: prod.splits)

lemma multisig_bytes_length:
  "length (multisig_discriminator pf) = 8 \<Longrightarrow> length (multisig_bytes pf m) = MOCK_MULTISIG_SPACE"
  by (simp add: multisig_bytes_def multisig_fields_length MOCK_MULTISIG_SPACE_def)

text \<open>
  A multisig on the ledger: an account of the program with its bytes, at an address derived
  from its own fields.
\<close>

definition multisig_at :: "platform \<Rightarrow> ledger \<Rightarrow> pubkey \<Rightarrow> mock_multisig \<Rightarrow> bool" where
  "multisig_at pf L k m \<longleftrightarrow>
     (\<exists>rest. L k = Some \<lparr>acc_program = MULTISIG_ID, acc_data = OtherData (multisig_bytes pf m @ rest)\<rparr>)
     \<and> pf_create_program_address pf (multisig_seeds (ms_creator m) @ [[ms_bump m]]) = Some k"

lemma load_multisig_Inr_iff [success_iff]:
  assumes len: "length (multisig_discriminator pf) = 8"
  shows "load_multisig pf L k = Inr m \<longleftrightarrow>
     (\<exists>rest. L k = Some \<lparr>acc_program = MULTISIG_ID, acc_data = OtherData (multisig_bytes pf m @ rest)\<rparr>)"
    (is "_ \<longleftrightarrow> ?at")
proof
  assume "load_multisig pf L k = Inr m"
  then obtain a bytes rest where k: "L k = Some a" "acc_program a = MULTISIG_ID" "acc_data a = OtherData bytes"
    and bytes: "take 8 bytes = multisig_discriminator pf" "read_multisig (drop 8 bytes) = Some (m, rest)"
    by (auto simp: load_multisig_def success_iff split: option.splits account_data.splits)
  from bytes have "bytes = multisig_bytes pf m @ rest"
    using append_take_drop_id [of 8 bytes] by (simp add: multisig_bytes_def multisig.get_iff)
  with k show ?at
    by (intro exI [of _ rest]) (cases a; simp)
next
  assume ?at
  then show "load_multisig pf L k = Inr m"
    using len by (auto simp: load_multisig_def multisig_bytes_def multisig.get_put)
qed

lemma multisig_at_iff:
  "length (multisig_discriminator pf) = 8 \<Longrightarrow> multisig_at pf L k m \<longleftrightarrow> load_multisig pf L k = Inr m
     \<and> pf_create_program_address pf (multisig_seeds (ms_creator m) @ [[ms_bump m]]) = Some k"
  by (simp add: multisig_at_def load_multisig_Inr_iff)

lemma multisig_at_unique:
  "length (multisig_discriminator pf) = 8 \<Longrightarrow> multisig_at pf L k m \<Longrightarrow> multisig_at pf L k m' \<Longrightarrow> m' = m"
  by (simp add: multisig_at_iff)

section \<open>When the operations succeed\<close>

definition approves :: "mock_multisig \<Rightarrow> pubkey set \<Rightarrow> bool" where
  "approves m S \<longleftrightarrow>
     (\<exists>a \<in> set (owner_list (ms_owners m)). \<exists>b \<in> set (owner_list (ms_owners m)). a \<noteq> b \<and> a \<in> S \<and> b \<in> S)"

lemma approves_mono: "approves m S \<Longrightarrow> S \<subseteq> S' \<Longrightarrow> approves m S'"
  by (auto simp: approves_def)

lemma approves_single: "\<not> approves m {k}" "\<not> approves m {}"
  by (auto simp: approves_def)

lemma multisig_initialize_Inr_iff:
  "multisig_initialize pf t a os L = Inr L' \<longleftrightarrow>
     mz_creator a \<in> tx_signers t \<and> mz_system_program a = pf_system_id pf
     \<and> mz_multisig a = fst (pf_find_program_address pf (multisig_seeds (mz_creator a)))
     \<and> L (mz_multisig a) = None \<and> pf_pays_rent pf (mz_creator a) MOCK_MULTISIG_SPACE \<and> valid_owners os
     \<and> L' = L(mz_multisig a \<mapsto> \<lparr>acc_program = MULTISIG_ID, acc_data = OtherData (multisig_bytes pf
          \<lparr>ms_creator = mz_creator a, ms_owners = os, ms_threshold = 2,
           ms_bump = snd (pf_find_program_address pf (multisig_seeds (mz_creator a)))\<rparr>)\<rparr>)"
  by (auto simp: multisig_initialize_def initialize_validate_def initialize_multisig_def multisig_signer_def
      success_iff Let_def split: prod.splits)

lemma multisig_execute_Inr_iff:
  assumes "length (multisig_discriminator pf) = 8"
  shows "multisig_execute pf t a instruction_data L = Inr r \<longleftrightarrow>
     (\<exists>m. multisig_at pf L (me_multisig a) m
        \<and> {me_signer_a a, me_signer_b a} \<subseteq> tx_signers t \<inter> set (owner_list (ms_owners m))
        \<and> me_signer_a a \<noteq> me_signer_b a \<and> ms_threshold m = 2
        \<and> pf_executable pf (ai_key (me_target_program a))
        \<and> pf_invoke_signed pf (tx_now t) (forwarded a instruction_data)
             (me_remaining_accounts a @ [me_target_program a])
             (multisig_seeds (ms_creator m) @ [[ms_bump m]]) L = Inr r)"
  using assms
  by (auto simp: multisig_execute_def execute_validate_def execute_multisig_def multisig_signer_def
      multisig_at_iff success_iff)

lemma execute_approved:
  "length (multisig_discriminator pf) = 8 \<Longrightarrow> multisig_execute pf t a instruction_data L = Inr r
     \<Longrightarrow> multisig_at pf L (me_multisig a) m \<Longrightarrow> approves m (tx_signers t)"
  by (auto simp: multisig_execute_Inr_iff approves_def dest: multisig_at_unique)

end
