(* ===== verification/Governance.thy ===== *)
theory Governance
  imports Multisig
begin

text \<open>
  A vault governed by a multisig. The laws of cross-program invocation say what a call of the
  multisig may lead to; with them, a vault whose authority is a multisig address stays under the
  control of its owners in every history in which no two of them sign together.
\<close>

section \<open>Calls and their signers\<close>

definition signer_keys :: "solana_instruction \<Rightarrow> pubkey set" where
  "signer_keys ix = am_pubkey ` {m \<in> set (ix_accounts ix). am_is_signer m}"

lemma signer_keys_forwarded:
  "signer_keys (forwarded a instruction_data) =
     (if me_multisig a \<in> ai_key ` set (me_remaining_accounts a) then {me_multisig a} else {})"
  by (force simp: signer_keys_def forwarded_def forwarded_meta_def)

lemma signer_keys_forwarded_subset: "signer_keys (forwarded a instruction_data) \<subseteq> {me_multisig a}"
  by (simp add: signer_keys_forwarded)

text \<open>
  The privileges the runtime checks on an invocation: every signer of the instruction signed
  the calling instruction or is the address that the signer seeds derive.
\<close>

definition privileged ::
    "(u8 list list \<Rightarrow> pubkey option) \<Rightarrow> solana_instruction \<Rightarrow> account_info list \<Rightarrow> u8 list list \<Rightarrow> bool" where
  "privileged create_program_address ix infos seeds \<longleftrightarrow>
     (\<forall>k \<in> signer_keys ix. (\<exists>info \<in> set infos. ai_key info = k \<and> ai_is_signer info)
        \<or> create_program_address seeds = Some k)
     \<and> (\<forall>m \<in> set (ix_accounts ix). am_is_writable m
          \<longrightarrow> (\<exists>info \<in> set infos. ai_key info = am_pubkey m \<and> ai_is_writable info))"

lemma forwarded_privileged:
  assumes "create_program_address seeds = Some (me_multisig a)"
  shows "privileged create_program_address (forwarded a instruction_data)
    (me_remaining_accounts a @ [me_target_program a]) seeds"
proof -
  have "k = me_multisig a" if "k \<in> signer_keys (forwarded a instruction_data)" for k
    using that signer_keys_forwarded_subset by blast
  then show ?thesis
    using assms by (auto simp: privileged_def forwarded_def forwarded_meta_def)
qed

definition inner_tx :: "i64 \<Rightarrow> solana_instruction \<Rightarrow> pubkey list \<Rightarrow> tx" where
  "inner_tx now ix remaining =
     \<lparr>tx_signers = signer_keys ix, tx_now = now, tx_remaining_accounts = remaining\<rparr>"

text \<open>Addresses for which only the multisig program can sign.\<close>

definition multisig_derived :: "platform \<Rightarrow> pubkey \<Rightarrow> bool" where
  "multisig_derived pf k \<longleftrightarrow> (\<exists>seeds. pf_create_program_address pf seeds = Some k)"

text \<open>What programs other than IronVault and the multisig may do: accounts of either are not theirs to write.\<close>

definition foreign :: "runtime \<Rightarrow> ledger \<Rightarrow> ledger \<Rightarrow> bool" where
  "foreign rt L L' \<longleftrightarrow> external rt L L' \<and> (\<forall>k a. L k = Some a \<and> acc_program a = MULTISIG_ID \<longrightarrow> L' k = Some a)"

text \<open>
  The effect of a call of another program that may in turn call IronVault, any number of times,
  with signers from a given set.
\<close>

inductive effects :: "runtime \<Rightarrow> pubkey set \<Rightarrow> ledger \<Rightarrow> ledger \<Rightarrow> bool" for rt S L where
  effects_none: "effects rt S L L"
| effects_call: "effects rt S L L''"
  if "effects rt S L L'" "tx_signers t \<subseteq> S" "process rt t i L' = Inr (L'', evs)"
| effects_foreign: "effects rt S L L''"
  if "effects rt S L L'" "foreign rt L' L''"

text \<open>
  The laws: seeds found for an address derive it again, hashes have 32 bytes; an invocation of
  IronVault runs the instruction that the data and the accounts encode, signed by the signers of
  the call, and succeeds exactly when the privileges suffice and the instruction succeeds; an
  invocation of the multisig by itself runs one of its own instructions; and another program
  has only the signatures it was given, apart from its own addresses and those of third programs,
  and cannot re-enter the multisig.
\<close>

locale cpi_laws =
  fixes rt :: runtime and pf :: platform
  assumes find_derives: "pf_find_program_address pf seeds = (k, bump)
      \<Longrightarrow> pf_create_program_address pf (seeds @ [[bump]]) = Some k"
    and hash_length: "length (pf_sha256 pf bytes) = 32"
    and invoke_iron_vault: "ix_program_id ix = ID \<Longrightarrow>
      pf_invoke_signed pf now ix infos seeds L = Inr (L', evs) \<longleftrightarrow>
        privileged (pf_create_program_address pf) ix infos seeds
        \<and> (\<exists>i remaining. pf_instruction pf (ix_data ix) (ix_accounts ix) = Some (i, remaining)
             \<and> process rt (inner_tx now ix remaining) i L = Inr (L', evs))"
    and invoke_itself: "ix_program_id ix = MULTISIG_ID \<Longrightarrow>
      pf_invoke_signed pf now ix infos seeds L = Inr (L', evs) \<Longrightarrow>
      \<exists>t. tx_signers t = signer_keys ix
        \<and> ((\<exists>a os. multisig_initialize pf t a os L = Inr L')
           \<or> (\<exists>a instruction_data. multisig_execute pf t a instruction_data L = Inr (L', evs)))"
    and invoke_other: "ix_program_id ix \<noteq> ID \<Longrightarrow> ix_program_id ix \<noteq> MULTISIG_ID \<Longrightarrow>
      pf_invoke_signed pf now ix infos seeds L = Inr (L', evs) \<Longrightarrow>
      effects rt {k. multisig_derived pf k \<longrightarrow> k \<in> signer_keys ix} L L'"
begin

lemma discriminator_length: "length (multisig_discriminator pf) = 8"
  by (simp add: multisig_discriminator_def hash_length)

lemmas execute_Inr_iff' = multisig_execute_Inr_iff [OF discriminator_length]

lemmas approved = execute_approved [OF discriminator_length]

text \<open>One signature is not enough for a nested call of the multisig.\<close>

lemma nested_execute_fails:
  "tx_signers t \<subseteq> {k} \<Longrightarrow> multisig_execute pf t a instruction_data L \<noteq> Inr r"
  by (auto simp: execute_Inr_iff')

lemma initialize_creates:
  assumes "multisig_initialize pf t a os L = Inr L'"
  shows "multisig_at pf L' (mz_multisig a) \<lparr>ms_creator = mz_creator a, ms_owners = os, ms_threshold = 2,
    ms_bump = snd (pf_find_program_address pf (multisig_seeds (mz_creator a)))\<rparr>"
  using assms find_derives [of "multisig_seeds (mz_creator a)"]
  by (auto simp: multisig_initialize_Inr_iff multisig_at_def prod_eq_iff intro: exI [of _ "[]"])

end

section \<open>What a vault keeps\<close>

text \<open>
  A vault under a given authority, a condition on the vault that only the authority can end
  (being paused), and an account of another program that holds bytes.
\<close>

definition keeps :: "pubkey \<Rightarrow> pubkey \<Rightarrow> account \<Rightarrow> bool \<Rightarrow> ledger \<Rightarrow> bool" where
  "keeps k authority holder paused L \<longleftrightarrow>
     L authority = Some holder
     \<and> (\<exists>v. state_at L k (VaultData v) \<and> va_authority v = authority \<and> (paused \<longrightarrow> va_paused v))"

definition holds_bytes :: "account \<Rightarrow> bool" where
  "holds_bytes holder \<longleftrightarrow> acc_program holder = MULTISIG_ID \<and> (\<exists>bytes. acc_data holder = OtherData bytes)"

lemma keeps_vault_at:
  "keeps k authority holder paused L \<longleftrightarrow> L authority = Some holder
     \<and> (\<exists>v. vault_at L k = Some v \<and> va_authority v = authority \<and> (paused \<longrightarrow> va_paused v))"
  by (simp add: keeps_def)

context token_laws
begin

lemma still_vault_at:
  "deposit rt t de amount L = Inr (L', evs) \<Longrightarrow> vault_at L' = vault_at L"
  "withdraw rt t wi amount L = Inr (L', evs) \<Longrightarrow> vault_at L' = vault_at L"
  by (auto simp: deposit_tokens_Inr_iff withdraw_validate_Inr_iff withdraw_tokens_Inr_iff transfer_records
      fun_upd_idem elim!: depositE withdrawE)

lemma create_escrow_vault_at:
  assumes "create_escrow rt t a escrow_id recipient amount expires_at L = Inr (L', evs)"
  shows "vault_at L' = vault_at L"
  using assms
  by (auto simp: create_escrow_validate_Inr_iff create_Inr_iff transfer_records fun_upd_idem
      elim!: create_escrowE)

lemma admin_vault_at:
  "initialize_protocol rt t ip admin guardian L = Inr (L', evs) \<Longrightarrow> vault_at L' = vault_at L"
  "set_protocol_pause rt t sp flags L = Inr (L', evs) \<Longrightarrow> vault_at L' = vault_at L"
  "grant_role rt t gr holder permissions L = Inr (L', evs) \<Longrightarrow> vault_at L' = vault_at L"
  "revoke_role rt t rv holder L = Inr (L', evs) \<Longrightarrow> vault_at L' = vault_at L"
  "update_limits rt t ul q L = Inr (L', evs) \<Longrightarrow> vault_at L' = vault_at L"
  "register_asset rt t rg L = Inr (L', evs) \<Longrightarrow> vault_at L' = vault_at L"
  by (auto simp: initialize_protocol_Inr_iff set_protocol_pause_Inr_iff grant_role_Inr_iff
      revoke_role_Inr_iff update_limits_Inr_iff register_asset_Inr_iff fun_upd_idem)

lemmas vault_at_same_after = settle_vault_at still_vault_at create_escrow_vault_at admin_vault_at

lemma process_vault:
  assumes "process rt t i L = Inr (L', evs)" and "vault_at L k = Some v" and "va_authority v \<notin> tx_signers t"
  shows "\<exists>v'. vault_at L' k = Some v' \<and> va_authority v' = va_authority v \<and> (va_paused v \<longrightarrow> va_paused v')"
  using assms
  by (cases i)
    (auto simp: dispatch_def vault_at_same_after create_vault_Inr_iff set_vault_authority_Inr_iff
      pause_vault_Inr_iff unpause_vault_Inr_iff request_withdrawal_validate_Inr_iff request_Inr_iff
      simp del: vault_at_Some elim!: request_withdrawalE)

lemma process_keeps:
  assumes "process rt t i L = Inr (L', evs)" and "keeps k authority holder paused L"
    and "holds_bytes holder" "authority \<notin> tx_signers t"
  shows "keeps k authority holder paused L'"
proof -
  from assms(2,3) obtain bytes where "L authority = Some holder" "acc_data holder = OtherData bytes"
    by (auto simp: keeps_def holds_bytes_def)
  with process_account_step [OF assms(1)] have "L' authority = Some holder"
    unfolding account_step_def by (fastforce intro: account.equality)
  moreover obtain v where "vault_at L k = Some v" "va_authority v = authority" "paused \<longrightarrow> va_paused v"
    using assms(2) by (auto simp: keeps_def)
  ultimately show ?thesis
    using process_vault [OF assms(1), of k v] assms(4) by (auto simp: keeps_vault_at simp del: vault_at_Some)
qed

lemma foreign_keeps:
  "foreign rt L L' \<Longrightarrow> keeps k authority holder paused L \<Longrightarrow> holds_bytes holder
     \<Longrightarrow> keeps k authority holder paused L'"
  by (auto simp: foreign_def keeps_def holds_bytes_def external_state)

lemma effects_keeps:
  assumes "effects rt S L L'" and "keeps k authority holder paused L" "holds_bytes holder" "authority \<notin> S"
  shows "keeps k authority holder paused L'"
  using assms
proof (induction rule: effects.induct)
  case (effects_call L' t i L'' evs)
  then show ?case
    using process_keeps [OF effects_call.hyps(3)] by blast
qed (blast intro: foreign_keeps)+

end

lemma initialize_keeps:
  "multisig_initialize pf t a os L = Inr L' \<Longrightarrow> keeps k authority holder paused L
     \<Longrightarrow> keeps k authority holder paused L'"
  by (auto simp: multisig_initialize_Inr_iff keeps_def)

section \<open>The multisig over IronVault\<close>

locale governed_vaults = token_laws rt + cpi_laws rt pf for rt pf
begin

lemma execute_keeps:
  assumes run: "multisig_execute pf t a instruction_data L = Inr (L', evs)"
    and keeps: "keeps k authority holder paused L" "holds_bytes holder"
    and other: "me_multisig a \<noteq> authority" and derived: "multisig_derived pf authority"
  shows "keeps k authority holder paused L'"
proof -
  let ?ix = "forwarded a instruction_data"
  have signers: "signer_keys ?ix \<subseteq> {me_multisig a}"
    by (rule signer_keys_forwarded_subset)
  from run obtain seeds where invoked: "pf_invoke_signed pf (tx_now t) ?ix
      (me_remaining_accounts a @ [me_target_program a]) seeds L = Inr (L', evs)"
    by (auto simp: execute_Inr_iff')
  consider "ix_program_id ?ix = ID" | "ix_program_id ?ix = MULTISIG_ID"
    | "ix_program_id ?ix \<noteq> ID" "ix_program_id ?ix \<noteq> MULTISIG_ID" by blast
  then show ?thesis
  proof cases
    case 1
    with invoked obtain i remaining where "process rt (inner_tx (tx_now t) ?ix remaining) i L = Inr (L', evs)"
      by (auto simp: invoke_iron_vault)
    moreover have "authority \<notin> tx_signers (inner_tx (tx_now t) ?ix remaining)"
      using signers other by (auto simp: inner_tx_def)
    ultimately show ?thesis
      using process_keeps keeps by blast
  next
    case 2
    with invoke_itself [OF 2 invoked] signers show ?thesis
      by (metis nested_execute_fails initialize_keeps keeps(1))
  next
    case 3
    from invoke_other [OF 3 invoked] show ?thesis
      using effects_keeps keeps signers other derived by blast
  qed
qed

end

text \<open>
  Histories of calls: of IronVault, of the multisig, and of anything else. \<open>P\<close> is a condition on
  the signers of each call; addresses of the multisig program are never among them, since no
  private key exists for them and the program signs for them only in \<open>execute\<close>.
\<close>

definition wallets :: "platform \<Rightarrow> tx \<Rightarrow> bool" where
  "wallets pf t \<longleftrightarrow> (\<forall>k \<in> tx_signers t. \<not> multisig_derived pf k)"

inductive calls :: "runtime \<Rightarrow> platform \<Rightarrow> (pubkey set \<Rightarrow> bool) \<Rightarrow> ledger \<Rightarrow> ledger \<Rightarrow> bool" for rt pf P L where
  calls_none: "calls rt pf P L L"
| calls_vault: "calls rt pf P L L''"
  if "calls rt pf P L L'" "wallets pf t" "P (tx_signers t)" "process rt t i L' = Inr (L'', evs)"
| calls_initialize: "calls rt pf P L L''"
  if "calls rt pf P L L'" "wallets pf t" "P (tx_signers t)" "multisig_initialize pf t z os L' = Inr L''"
| calls_execute: "calls rt pf P L L''"
  if "calls rt pf P L L'" "wallets pf t" "P (tx_signers t)"
    "multisig_execute pf t a instruction_data L' = Inr (L'', evs)"
| calls_foreign: "calls rt pf P L L''" if "calls rt pf P L L'" "foreign rt L' L''"

lemma multisig_at_keeps:
  "multisig_at pf L authority m \<Longrightarrow> state_at L k (VaultData v) \<Longrightarrow> va_authority v = authority \<Longrightarrow>
     \<exists>holder. keeps k authority holder (va_paused v) L \<and> holds_bytes holder"
  by (auto simp: multisig_at_def keeps_def holds_bytes_def)

lemma keeps_multisig_at:
  "keeps k authority holder paused L' \<Longrightarrow> multisig_at pf L authority m \<Longrightarrow> keeps k authority holder paused L
     \<Longrightarrow> multisig_at pf L' authority m"
  by (auto simp: multisig_at_def keeps_def)

context governed_vaults
begin

lemma calls_keep:
  assumes "calls rt pf (\<lambda>S. \<not> approves m S) L L'"
    and "keeps k authority holder paused L" "holds_bytes holder" "multisig_at pf L authority m"
  shows "keeps k authority holder paused L'"
  using assms(1)
proof (induction rule: calls.induct)
  case (calls_vault L' t i L'' evs)
  moreover have "multisig_derived pf authority"
    using assms(4) by (auto simp: multisig_at_def multisig_derived_def)
  ultimately show ?case
    using process_keeps [OF calls_vault.hyps(4)] assms(3) by (auto simp: wallets_def)
next
  case (calls_execute L' t a instruction_data L'' evs)
  then have "multisig_at pf L' authority m"
    using keeps_multisig_at assms(2,4) by blast
  then have "me_multisig a \<noteq> authority" "multisig_derived pf authority"
    using approved [OF calls_execute.hyps(4)] calls_execute.hyps(3)
    by (auto simp: multisig_at_def multisig_derived_def)
  then show ?case
    using execute_keeps [OF calls_execute.hyps(4)] calls_execute.IH assms(3) by blast
qed (use assms in \<open>blast intro: foreign_keeps initialize_keeps\<close>)+

lemma control_kept:
  assumes "calls rt pf (\<lambda>S. \<not> approves m S) L L'"
    and "multisig_at pf L authority m" "state_at L k (VaultData v)" "va_authority v = authority"
  shows "multisig_at pf L' authority m
    \<and> (\<exists>v'. state_at L' k (VaultData v') \<and> va_authority v' = authority \<and> (va_paused v \<longrightarrow> va_paused v'))"
proof -
  obtain holder where "keeps k authority holder (va_paused v) L" "holds_bytes holder"
    using multisig_at_keeps [OF assms(2-4)] by blast
  moreover from this have "keeps k authority holder (va_paused v) L'"
    using calls_keep [OF assms(1)] assms(2) by blast
  ultimately have "keeps k authority holder (va_paused v) L'" "multisig_at pf L' authority m"
    using keeps_multisig_at assms(2) by blast+
  then show ?thesis
    by (auto simp: keeps_def)
qed

lemma execute_iron_vault:
  assumes "ai_key (me_target_program a) = ID" "pf_executable pf ID"
    and "multisig_at pf L (me_multisig a) m" "ms_threshold m = 2"
    and "me_multisig a \<in> ai_key ` set (me_remaining_accounts a)"
  shows "multisig_execute pf t a instruction_data L = Inr (L', evs) \<longleftrightarrow>
    {me_signer_a a, me_signer_b a} \<subseteq> tx_signers t \<inter> set (owner_list (ms_owners m))
    \<and> me_signer_a a \<noteq> me_signer_b a
    \<and> (\<exists>i remaining. pf_instruction pf instruction_data
          (map (forwarded_meta (me_multisig a)) (me_remaining_accounts a)) = Some (i, remaining)
        \<and> process rt \<lparr>tx_signers = {me_multisig a}, tx_now = tx_now t, tx_remaining_accounts = remaining\<rparr> i L
            = Inr (L', evs))"
proof -
  have program: "ix_program_id (forwarded a instruction_data) = ID"
    using assms(1) by (simp add: forwarded_def)
  have privileged: "privileged (pf_create_program_address pf) (forwarded a instruction_data)
      (me_remaining_accounts a @ [me_target_program a]) (multisig_seeds (ms_creator m) @ [[ms_bump m]])"
    using assms(3,5) forwarded_privileged by (auto simp: multisig_at_def)
  have tx: "inner_tx now (forwarded a instruction_data) remaining
      = \<lparr>tx_signers = {me_multisig a}, tx_now = now, tx_remaining_accounts = remaining\<rparr>" for now remaining
    using assms(5) by (simp add: inner_tx_def signer_keys_forwarded)
  have unique: "multisig_at pf L (me_multisig a) m' \<longleftrightarrow> m' = m" for m'
    using multisig_at_unique [OF discriminator_length] assms(3) by blast
  show ?thesis
    using assms(1,2,4) privileged
    by (simp add: execute_Inr_iff' unique invoke_iron_vault [OF program] tx)
      (simp add: forwarded_def)
qed

end

section \<open>A reference platform\<close>

text \<open>
  An executable instance: addresses from a table, the entry point of IronVault as a parameter,
  invocation of IronVault as documented, no other program installed.
\<close>

definition reference_invoke ::
    "runtime \<Rightarrow> (u8 list list \<Rightarrow> pubkey option) \<Rightarrow> (u8 list \<Rightarrow> account_meta list \<Rightarrow> (instruction \<times> pubkey list) option)
      \<Rightarrow> i64 \<Rightarrow> solana_instruction \<Rightarrow> account_info list \<Rightarrow> u8 list list \<Rightarrow> ledger \<Rightarrow> nat + ledger \<times> event list" where
  "reference_invoke rt create_program_address entry now ix infos seeds L =
     ensure (ix_program_id ix = ID) 1
     (ensure (privileged create_program_address ix infos seeds) 2
     (and_then (ok_or (entry (ix_data ix) (ix_accounts ix)) 3) (\<lambda>(i, remaining).
     map_err (\<lambda>_. 4) (process rt (inner_tx now ix remaining) i L))))"

definition derive_last :: "(u8 list list \<Rightarrow> pubkey) \<Rightarrow> u8 list list \<Rightarrow> pubkey option" where
  "derive_last address seeds =
     (if seeds \<noteq> [] \<and> last seeds = [255] then Some (address (butlast seeds)) else None)"

definition reference_platform ::
    "runtime \<Rightarrow> (u8 list list \<Rightarrow> pubkey) \<Rightarrow> (u8 list \<Rightarrow> account_meta list \<Rightarrow> (instruction \<times> pubkey list) option)
      \<Rightarrow> platform" where
  "reference_platform rt address entry =
     \<lparr>pf_system_id = 0, pf_sha256 = (\<lambda>bytes. replicate 32 (of_nat (length bytes))),
      pf_find_program_address = (\<lambda>seeds. (address seeds, 255)),
      pf_create_program_address = derive_last address, pf_pays_rent = (\<lambda>_ _. True),
      pf_executable = (\<lambda>k. k = ID), pf_instruction = entry,
      pf_invoke_signed = reference_invoke rt (derive_last address) entry\<rparr>"

lemma IDs_differ: "MULTISIG_ID \<noteq> ID"
  by (simp add: MULTISIG_ID_def ID_def)

interpretation reference_cpi: cpi_laws rt "reference_platform rt address entry" for rt address entry
proof
  fix ix :: solana_instruction and now infos seeds L L' evs
  assume "ix_program_id ix = ID"
  then show "pf_invoke_signed (reference_platform rt address entry) now ix infos seeds L = Inr (L', evs) \<longleftrightarrow>
      privileged (pf_create_program_address (reference_platform rt address entry)) ix infos seeds
      \<and> (\<exists>i remaining. pf_instruction (reference_platform rt address entry) (ix_data ix) (ix_accounts ix)
            = Some (i, remaining)
          \<and> process rt (inner_tx now ix remaining) i L = Inr (L', evs))"
    by (auto simp: reference_platform_def reference_invoke_def success_iff)
qed (auto simp: reference_platform_def reference_invoke_def derive_last_def IDs_differ)

interpretation reference_governed: governed_vaults "reference_runtime table"
    "reference_platform (reference_runtime table) address entry" for table address entry
  by unfold_locales

text \<open>The sample world, with a vault governed by the multisig at address 30 of the owners 1, 2 and 5.\<close>

definition sample_entry :: "u8 list \<Rightarrow> account_meta list \<Rightarrow> (instruction \<times> pubkey list) option" where
  "sample_entry bytes metas =
     (case (bytes, map am_pubkey metas) of
        ([new], [current, config, vault]) \<Rightarrow>
          Some (SetVaultAuthority \<lparr>sa_current_authority = current, sa_protocol_config = config, sa_vault = vault\<rparr>
            (of_nat (unat new)), [])
      | _ \<Rightarrow> None)"

definition sample_multisig_address :: "u8 list list \<Rightarrow> pubkey" where
  "sample_multisig_address seeds = (if seeds = multisig_seeds 8 then 30 else 98)"

definition sample_platform :: platform where
  "sample_platform = reference_platform sample_runtime sample_multisig_address sample_entry"

definition sample_multisig :: mock_multisig where
  "sample_multisig = \<lparr>ms_creator = 8, ms_owners = (1, 2, 5), ms_threshold = 2, ms_bump = 255\<rparr>"

definition governed_ledger :: ledger where
  "governed_ledger = sample_ledger
     (13 \<mapsto> sample_state (VaultData (sample_vault\<lparr>va_authority := 30\<rparr>)),
      30 \<mapsto> \<lparr>acc_program = MULTISIG_ID, acc_data = OtherData (multisig_bytes sample_platform sample_multisig)\<rparr>)"

lemma sample_cpi_laws: "cpi_laws sample_runtime sample_platform"
  unfolding sample_platform_def by (rule reference_cpi.cpi_laws_axioms)

lemma sample_multisig_at: "multisig_at sample_platform governed_ledger 30 sample_multisig"
  by (simp add: multisig_at_def governed_ledger_def sample_platform_def reference_platform_def derive_last_def
      sample_multisig_def sample_multisig_address_def)

lemma sample_wallets: "k \<noteq> 30 \<and> k \<noteq> 98 \<Longrightarrow> \<not> multisig_derived sample_platform k"
  by (auto simp: multisig_derived_def sample_platform_def reference_platform_def derive_last_def
      sample_multisig_address_def split: if_splits)

definition governed_pause :: pause_vault_accounts where
  "governed_pause = \<lparr>pv_caller = 4, pv_vault = 13\<rparr>"

definition sample_approval :: "pubkey \<Rightarrow> execute_accounts" where
  "sample_approval b =
     \<lparr>me_multisig = 30, me_signer_a = 1, me_signer_b = b,
      me_target_program = \<lparr>ai_key = ID, ai_is_signer = False, ai_is_writable = False\<rparr>,
      me_remaining_accounts = map (\<lambda>k. \<lparr>ai_key = k, ai_is_signer = False, ai_is_writable = (k = 13)\<rparr>) [30, 10, 13]\<rparr>"

section \<open>Properties\<close>

text \<open>
  C39. A vault whose authority is a multisig stays under the control of its owners: over any
  history of calls of IronVault, of the multisig program and of other programs in which no two
  distinct owners sign one call, the vault keeps the multisig as its authority, a paused vault stays
  paused, and the owners stay the same. Neither another multisig, nor a nested call of the
  multisig program, nor a program that is handed a signature gets around the threshold.
\<close>

theorem multisig_keeps_control:
  assumes "token_laws rt" "cpi_laws rt pf"
    and "calls rt pf (\<lambda>S. \<not> approves m S) L L'"
    and "multisig_at pf L authority m" "state_at L k (VaultData v)" "va_authority v = authority"
  shows "multisig_at pf L' authority m
    \<and> (\<exists>v'. state_at L' k (VaultData v') \<and> va_authority v' = authority \<and> (va_paused v \<longrightarrow> va_paused v'))"
  using governed_vaults.control_kept [OF governed_vaults.intro [OF assms(1,2)] assms(3-6)] .

theorem multisig_keeps_control_witness:
  "\<exists>L' evs v'. process sample_runtime (sample_tx {4} 0 []) (PauseVault governed_pause) governed_ledger = Inr (L', evs)
     \<and> state_at L' 13 (VaultData v') \<and> va_authority v' = 30 \<and> multisig_at sample_platform L' 30 sample_multisig"
proof -
  have "\<exists>L' evs. process sample_runtime (sample_tx {4} 0 []) (PauseVault governed_pause) governed_ledger = Inr (L', evs)"
    by (simp add: pause_vault_def pause_vault_validate_def pause_def vault_address_def governed_pause_def
        governed_ledger_def run_defs)
  then obtain L' evs where run:
    "process sample_runtime (sample_tx {4} 0 []) (PauseVault governed_pause) governed_ledger = Inr (L', evs)"
    by blast
  have "calls sample_runtime sample_platform (\<lambda>S. \<not> approves sample_multisig S) governed_ledger L'"
    by (rule calls_vault [OF calls_none _ _ run])
      (simp_all add: wallets_def sample_tx_def sample_wallets approves_single)
  from multisig_keeps_control [OF sample_token_laws sample_cpi_laws this sample_multisig_at, of 13
      "sample_vault\<lparr>va_authority := 30\<rparr>"] run
  show ?thesis
    by (auto simp: governed_ledger_def sample_state_def)
qed

text \<open>
  A call of IronVault through the multisig succeeds exactly when two distinct owners signed
  and the forwarded instruction succeeds with the multisig address as its only signer; the
  ledger and the events are those of that instruction. The owners' own signatures are not passed on.
\<close>

theorem multisig_acts_for_two_owners:
  assumes "token_laws rt" "cpi_laws rt pf"
    and "ai_key (me_target_program a) = ID" "pf_executable pf ID"
    and "multisig_at pf L (me_multisig a) m" "ms_threshold m = 2"
    and "me_multisig a \<in> ai_key ` set (me_remaining_accounts a)"
  shows "multisig_execute pf t a instruction_data L = Inr (L', evs) \<longleftrightarrow>
    {me_signer_a a, me_signer_b a} \<subseteq> tx_signers t \<inter> set (owner_list (ms_owners m))
    \<and> me_signer_a a \<noteq> me_signer_b a
    \<and> (\<exists>i remaining. pf_instruction pf instruction_data
          (map (forwarded_meta (me_multisig a)) (me_remaining_accounts a)) = Some (i, remaining)
        \<and> process rt \<lparr>tx_signers = {me_multisig a}, tx_now = tx_now t, tx_remaining_accounts = remaining\<rparr> i L
            = Inr (L', evs))"
  using governed_vaults.execute_iron_vault [OF governed_vaults.intro [OF assms(1,2)] assms(3-7)] .

theorem multisig_acts_for_two_owners_witness:
  "(\<exists>L' evs. multisig_execute sample_platform (sample_tx {1, 2} 0 []) (sample_approval 2) [8] governed_ledger
        = Inr (L', evs))
   \<and> (\<nexists>L' evs. multisig_execute sample_platform (sample_tx {1, 9} 0 []) (sample_approval 9) [8] governed_ledger
        = Inr (L', evs))"
proof -
  have run: "\<exists>L' evs. process sample_runtime \<lparr>tx_signers = {30}, tx_now = 0, tx_remaining_accounts = []\<rparr>
      (SetVaultAuthority \<lparr>sa_current_authority = 30, sa_protocol_config = 10, sa_vault = 13\<rparr> 8) governed_ledger
        = Inr (L', evs)"
    by (simp add: set_vault_authority_def set_vault_authority_validate_def set_authority_def
        vault_address_def governed_ledger_def run_defs)
  have "ms_threshold sample_multisig = 2" "pf_executable sample_platform ID"
    by (simp_all add: sample_multisig_def sample_platform_def reference_platform_def)
  then have "multisig_execute sample_platform t (sample_approval b) [8] governed_ledger = Inr (L', evs) \<longleftrightarrow>
      {1, b} \<subseteq> tx_signers t \<inter> {1, 2, 5} \<and> 1 \<noteq> b
      \<and> process sample_runtime \<lparr>tx_signers = {30}, tx_now = tx_now t, tx_remaining_accounts = []\<rparr>
          (SetVaultAuthority \<lparr>sa_current_authority = 30, sa_protocol_config = 10, sa_vault = 13\<rparr> 8) governed_ledger
            = Inr (L', evs)" for t b L' evs
    using multisig_acts_for_two_owners [OF sample_token_laws sample_cpi_laws, of "sample_approval b"
        governed_ledger sample_multisig t "[8]" L' evs] sample_multisig_at
    by (simp add: sample_approval_def sample_multisig_def owner_list_def sample_platform_def
        reference_platform_def sample_entry_def forwarded_meta_def)
  with run show ?thesis
    by (simp add: sample_tx_def)
qed

end
