(* ===== verification/Layout.thy ===== *)
theory Layout
  imports Guarantees Codec
begin

text \<open>
  The bytes of the program's accounts: an eight-byte discriminator and the Borsh encoding of the fields
  of \<open>state/mod.rs\<close>. Anchor writes a record back into the space that the \<open>init\<close> attribute of its
  instruction allocated; an allocation that is too small would make every such instruction fail. Here
  the allocations are followed through the histories of the program, from the \<open>space\<close> arguments of the
  account validations, and compared with what the stored records take.
\<close>

section \<open>Encodings of a fixed width\<close>

text \<open>A codec for the values that satisfy a condition, all of which take the same number of bytes.\<close>

locale sized_codec =
  fixes put :: "'a \<Rightarrow> u8 list" and get :: "'a reader" and valid :: "'a \<Rightarrow> bool" and width :: nat
  assumes get_put: "valid x \<Longrightarrow> get (put x @ rest) = Some (x, rest)"
    and put_get: "get bs = Some (x, rest) \<Longrightarrow> valid x \<and> bs = put x @ rest"
    and put_width: "valid x \<Longrightarrow> length (put x) = width"
begin

lemma get_iff: "get bs = Some (x, rest) \<longleftrightarrow> valid x \<and> bs = put x @ rest"
  using get_put put_get by blast

end

text \<open>\<open>[u8; n]\<close> and enumerations without fields.\<close>

definition get_array :: "nat \<Rightarrow> u8 list reader" where
  "get_array n bs = (if length bs < n then None else Some (take n bs, drop n bs))"

interpretation array: sized_codec "\<lambda>xs. xs" "get_array n" "\<lambda>xs. length xs = n" n for n
  by unfold_locales (auto simp: get_array_def split: if_splits)

fun put_escrow_status :: "escrow_status \<Rightarrow> u8 list" where
  "put_escrow_status Funded = [0]"
| "put_escrow_status Released = [1]"
| "put_escrow_status Refunded = [2]"

definition get_escrow_status :: "escrow_status reader" where
  "get_escrow_status bs =
     (case bs of
        [] \<Rightarrow> None
      | b # rest \<Rightarrow>
          if b = 0 then Some (Funded, rest) else if b = 1 then Some (Released, rest)
          else if b = 2 then Some (Refunded, rest) else None)"

fun put_withdrawal_status :: "withdrawal_status \<Rightarrow> u8 list" where
  "put_withdrawal_status Pending = [0]"
| "put_withdrawal_status Executed = [1]"
| "put_withdrawal_status Cancelled = [2]"

definition get_withdrawal_status :: "withdrawal_status reader" where
  "get_withdrawal_status bs =
     (case bs of
        [] \<Rightarrow> None
      | b # rest \<Rightarrow>
          if b = 0 then Some (Pending, rest) else if b = 1 then Some (Executed, rest)
          else if b = 2 then Some (Cancelled, rest) else None)"

interpretation escrow_status: codec put_escrow_status get_escrow_status
proof
  show "get_escrow_status (put_escrow_status s @ rest) = Some (s, rest)" for s rest
    by (cases s) (simp_all add: get_escrow_status_def)
qed (auto simp: get_escrow_status_def split: list.splits if_splits)

interpretation withdrawal_status: codec put_withdrawal_status get_withdrawal_status
proof
  show "get_withdrawal_status (put_withdrawal_status s @ rest) = Some (s, rest)" for s rest
    by (cases s) (simp_all add: get_withdrawal_status_def)
qed (auto simp: get_withdrawal_status_def split: list.splits if_splits)

lemma put_status_length [simp]:
  "length (put_escrow_status s) = 1" "length (put_withdrawal_status w) = 1"
  by (cases s; simp) (cases w; simp)

lemmas layout_iffs = field_iffs u8.get_iff array.get_iff escrow_status.get_iff withdrawal_status.get_iff

section \<open>The fields of the accounts\<close>

definition put_config :: "protocol_config \<Rightarrow> u8 list" where
  "put_config c =
     put_u16 (pc_version c) @ pubkey_bytes (pc_admin c) @ pubkey_bytes (pc_guardian c)
     @ put_u32 (pc_pause_flags c) @ [pc_bump c] @ pc_reserved c"

definition get_config :: "protocol_config reader" where
  "get_config =
     reads get_u16 (\<lambda>version. reads get_pubkey (\<lambda>admin. reads get_pubkey (\<lambda>guardian.
     reads get_u32 (\<lambda>pause_flags. reads get_u8 (\<lambda>bump. reads (get_array 61) (\<lambda>reserved.
     done_with \<lparr>pc_version = version, pc_admin = admin, pc_guardian = guardian,
       pc_pause_flags = pause_flags, pc_bump = bump, pc_reserved = reserved\<rparr>))))))"

definition put_escrow :: "escrow \<Rightarrow> u8 list" where
  "put_escrow e =
     pubkey_bytes (es_maker e) @ pubkey_bytes (es_recipient e) @ pubkey_bytes (es_mint e)
     @ pubkey_bytes (es_token_program e) @ u64_le_bytes (es_escrow_id e) @ u64_le_bytes (es_amount e)
     @ u64_le_bytes (es_created_at e) @ u64_le_bytes (es_expires_at e)
     @ put_escrow_status (es_status e) @ [es_bump e] @ es_reserved e"

definition get_escrow :: "escrow reader" where
  "get_escrow =
     reads get_pubkey (\<lambda>maker. reads get_pubkey (\<lambda>recipient. reads get_pubkey (\<lambda>mint.
     reads get_pubkey (\<lambda>token_program. reads get_u64 (\<lambda>escrow_id. reads get_u64 (\<lambda>amount.
     reads get_u64 (\<lambda>created_at. reads get_u64 (\<lambda>expires_at. reads get_escrow_status (\<lambda>status.
     reads get_u8 (\<lambda>bump. reads (get_array 30) (\<lambda>reserved.
     done_with \<lparr>es_maker = maker, es_recipient = recipient, es_mint = mint,
       es_token_program = token_program, es_escrow_id = escrow_id, es_amount = amount,
       es_created_at = created_at, es_expires_at = expires_at, es_status = status,
       es_bump = bump, es_reserved = reserved\<rparr>)))))))))))"

definition put_vault :: "vault \<Rightarrow> u8 list" where
  "put_vault v =
     pubkey_bytes (va_namespace_authority v) @ pubkey_bytes (va_authority v)
     @ pubkey_bytes (va_guardian v) @ u64_le_bytes (va_vault_id v)
     @ u64_le_bytes (va_next_withdrawal_id v) @ put_bool (va_paused v) @ [va_bump v] @ va_reserved v"

definition get_vault :: "vault reader" where
  "get_vault =
     reads get_pubkey (\<lambda>namespace_authority. reads get_pubkey (\<lambda>authority.
     reads get_pubkey (\<lambda>guardian. reads get_u64 (\<lambda>vault_id. reads get_u64 (\<lambda>next_withdrawal_id.
     reads get_bool (\<lambda>paused. reads get_u8 (\<lambda>bump. reads (get_array 46) (\<lambda>reserved.
     done_with \<lparr>va_namespace_authority = namespace_authority, va_authority = authority,
       va_guardian = guardian, va_vault_id = vault_id, va_next_withdrawal_id = next_withdrawal_id,
       va_paused = paused, va_bump = bump, va_reserved = reserved\<rparr>))))))))"

definition put_asset :: "vault_asset \<Rightarrow> u8 list" where
  "put_asset a =
     pubkey_bytes (as_vault a) @ pubkey_bytes (as_mint a) @ pubkey_bytes (as_token_program a)
     @ u64_le_bytes (as_max_per_transaction a) @ u64_le_bytes (as_window_limit a)
     @ u64_le_bytes (as_window_seconds a) @ u64_le_bytes (as_window_started_at a)
     @ u64_le_bytes (as_window_spent a) @ u64_le_bytes (as_timelock_threshold a)
     @ u64_le_bytes (as_timelock_seconds a) @ u64_le_bytes (as_request_execution_window_seconds a)
     @ put_bool (as_enabled a) @ [as_bump a] @ as_reserved a"

definition get_asset :: "vault_asset reader" where
  "get_asset =
     reads get_pubkey (\<lambda>vault. reads get_pubkey (\<lambda>mint. reads get_pubkey (\<lambda>token_program.
     reads get_u64 (\<lambda>max_per_transaction. reads get_u64 (\<lambda>window_limit.
     reads get_u64 (\<lambda>window_seconds. reads get_u64 (\<lambda>window_started_at.
     reads get_u64 (\<lambda>window_spent. reads get_u64 (\<lambda>timelock_threshold.
     reads get_u64 (\<lambda>timelock_seconds. reads get_u64 (\<lambda>request_execution_window_seconds.
     reads get_bool (\<lambda>enabled. reads get_u8 (\<lambda>bump. reads (get_array 30) (\<lambda>reserved.
     done_with \<lparr>as_vault = vault, as_mint = mint, as_token_program = token_program,
       as_max_per_transaction = max_per_transaction, as_window_limit = window_limit,
       as_window_seconds = window_seconds, as_window_started_at = window_started_at,
       as_window_spent = window_spent, as_timelock_threshold = timelock_threshold,
       as_timelock_seconds = timelock_seconds,
       as_request_execution_window_seconds = request_execution_window_seconds,
       as_enabled = enabled, as_bump = bump, as_reserved = reserved\<rparr>))))))))))))))"

definition put_role :: "role_assignment \<Rightarrow> u8 list" where
  "put_role r =
     pubkey_bytes (ra_vault r) @ pubkey_bytes (ra_principal r) @ u64_le_bytes (ra_permissions r)
     @ put_bool (ra_active r) @ [ra_bump r] @ ra_reserved r"

definition get_role :: "role_assignment reader" where
  "get_role =
     reads get_pubkey (\<lambda>vault. reads get_pubkey (\<lambda>holder. reads get_u64 (\<lambda>permissions.
     reads get_bool (\<lambda>active. reads get_u8 (\<lambda>bump. reads (get_array 54) (\<lambda>reserved.
     done_with \<lparr>ra_vault = vault, ra_principal = holder, ra_permissions = permissions,
       ra_active = active, ra_bump = bump, ra_reserved = reserved\<rparr>))))))"

definition put_request :: "withdrawal_request \<Rightarrow> u8 list" where
  "put_request w =
     pubkey_bytes (wr_vault w) @ pubkey_bytes (wr_vault_asset w) @ pubkey_bytes (wr_mint w)
     @ pubkey_bytes (wr_token_program w) @ pubkey_bytes (wr_proposer w)
     @ pubkey_bytes (wr_recipient_owner w) @ pubkey_bytes (wr_recipient_token_account w)
     @ u64_le_bytes (wr_withdrawal_id w) @ u64_le_bytes (wr_amount w) @ u64_le_bytes (wr_created_at w)
     @ u64_le_bytes (wr_execute_after w) @ u64_le_bytes (wr_expires_at w)
     @ put_withdrawal_status (wr_status w) @ [wr_bump w] @ wr_reserved w"

definition get_request :: "withdrawal_request reader" where
  "get_request =
     reads get_pubkey (\<lambda>vault. reads get_pubkey (\<lambda>vault_asset. reads get_pubkey (\<lambda>mint.
     reads get_pubkey (\<lambda>token_program. reads get_pubkey (\<lambda>proposer.
     reads get_pubkey (\<lambda>recipient_owner. reads get_pubkey (\<lambda>recipient_token_account.
     reads get_u64 (\<lambda>withdrawal_id. reads get_u64 (\<lambda>amount. reads get_u64 (\<lambda>created_at.
     reads get_u64 (\<lambda>execute_after. reads get_u64 (\<lambda>expires_at.
     reads get_withdrawal_status (\<lambda>status. reads get_u8 (\<lambda>bump. reads (get_array 30) (\<lambda>reserved.
     done_with \<lparr>wr_vault = vault, wr_vault_asset = vault_asset, wr_mint = mint,
       wr_token_program = token_program, wr_proposer = proposer,
       wr_recipient_owner = recipient_owner, wr_recipient_token_account = recipient_token_account,
       wr_withdrawal_id = withdrawal_id, wr_amount = amount, wr_created_at = created_at,
       wr_execute_after = execute_after, wr_expires_at = expires_at, wr_status = status,
       wr_bump = bump, wr_reserved = reserved\<rparr>)))))))))))))))"

lemmas put_defs = put_config_def put_escrow_def put_vault_def put_asset_def put_role_def put_request_def

lemmas get_defs = get_config_def get_escrow_def get_vault_def get_asset_def get_role_def get_request_def

lemmas space_defs =
  PROTOCOL_CONFIG_INIT_SPACE_def ESCROW_INIT_SPACE_def VAULT_INIT_SPACE_def VAULT_ASSET_INIT_SPACE_def
  ROLE_ASSIGNMENT_INIT_SPACE_def WITHDRAWAL_REQUEST_INIT_SPACE_def

lemma put_lengths [simp]:
  "length (put_u16 a) = 2" "length (put_u32 b) = 4" "length (u64_le_bytes c) = 8" "length (put_bool d) = 1"
  by (simp_all add: put_u16_def put_u32_def put_bool_def)

interpretation config: sized_codec put_config get_config "\<lambda>c. length (pc_reserved c) = 61" PROTOCOL_CONFIG_INIT_SPACE
  by unfold_locales (auto simp: put_defs get_defs space_defs reads_Some_iff done_with_def layout_iffs
      u16.put_inject u32.put_inject)

interpretation escrow: sized_codec put_escrow get_escrow "\<lambda>e. length (es_reserved e) = 30" ESCROW_INIT_SPACE
  by unfold_locales (auto simp: put_defs get_defs space_defs reads_Some_iff done_with_def layout_iffs)

interpretation vault: sized_codec put_vault get_vault "\<lambda>v. length (va_reserved v) = 46" VAULT_INIT_SPACE
  by unfold_locales (auto simp: put_defs get_defs space_defs reads_Some_iff done_with_def layout_iffs)

interpretation asset: sized_codec put_asset get_asset "\<lambda>a. length (as_reserved a) = 30" VAULT_ASSET_INIT_SPACE
  by unfold_locales (auto simp: put_defs get_defs space_defs reads_Some_iff done_with_def layout_iffs)

interpretation role: sized_codec put_role get_role "\<lambda>r. length (ra_reserved r) = 54" ROLE_ASSIGNMENT_INIT_SPACE
  by unfold_locales (auto simp: put_defs get_defs space_defs reads_Some_iff done_with_def layout_iffs)

interpretation request: sized_codec put_request get_request "\<lambda>w. length (wr_reserved w) = 30" WITHDRAWAL_REQUEST_INIT_SPACE
  by unfold_locales (auto simp: put_defs get_defs space_defs reads_Some_iff done_with_def layout_iffs)

section \<open>Accounts as bytes\<close>

text \<open>
  The account types, their names (the discriminator is the first eight bytes of SHA-256 of
  \<open>account:<name>\<close>), the bytes a record takes, and reading and writing their fields.
\<close>

datatype account_type = ConfigType | EscrowType | VaultType | AssetType | RoleType | RequestType

fun type_name :: "account_type \<Rightarrow> string" where
  "type_name ConfigType = ''ProtocolConfig''"
| "type_name EscrowType = ''Escrow''"
| "type_name VaultType = ''Vault''"
| "type_name AssetType = ''VaultAsset''"
| "type_name RoleType = ''RoleAssignment''"
| "type_name RequestType = ''WithdrawalRequest''"

fun record_size :: "account_type \<Rightarrow> nat" where
  "record_size ConfigType = 8 + PROTOCOL_CONFIG_INIT_SPACE"
| "record_size EscrowType = 8 + ESCROW_INIT_SPACE"
| "record_size VaultType = 8 + VAULT_INIT_SPACE"
| "record_size AssetType = 8 + VAULT_ASSET_INIT_SPACE"
| "record_size RoleType = 8 + ROLE_ASSIGNMENT_INIT_SPACE"
| "record_size RequestType = 8 + WITHDRAWAL_REQUEST_INIT_SPACE"

fun type_of_data :: "account_data \<Rightarrow> account_type option" where
  "type_of_data (ConfigData _) = Some ConfigType"
| "type_of_data (EscrowData _) = Some EscrowType"
| "type_of_data (VaultData _) = Some VaultType"
| "type_of_data (AssetData _) = Some AssetType"
| "type_of_data (RoleData _) = Some RoleType"
| "type_of_data (RequestData _) = Some RequestType"
| "type_of_data _ = None"

fun put_data :: "account_data \<Rightarrow> u8 list" where
  "put_data (ConfigData c) = put_config c"
| "put_data (EscrowData e) = put_escrow e"
| "put_data (VaultData v) = put_vault v"
| "put_data (AssetData a) = put_asset a"
| "put_data (RoleData r) = put_role r"
| "put_data (RequestData w) = put_request w"
| "put_data (OtherData bytes) = bytes"
| "put_data _ = []"

fun get_data :: "account_type \<Rightarrow> account_data reader" where
  "get_data ConfigType = reads get_config (\<lambda>c. done_with (ConfigData c))"
| "get_data EscrowType = reads get_escrow (\<lambda>e. done_with (EscrowData e))"
| "get_data VaultType = reads get_vault (\<lambda>v. done_with (VaultData v))"
| "get_data AssetType = reads get_asset (\<lambda>a. done_with (AssetData a))"
| "get_data RoleType = reads get_role (\<lambda>r. done_with (RoleData r))"
| "get_data RequestType = reads get_request (\<lambda>w. done_with (RequestData w))"

definition type_discriminator :: "(u8 list \<Rightarrow> u8 list) \<Rightarrow> account_type \<Rightarrow> u8 list" where
  "type_discriminator sha256 T = take 8 (sha256 (ascii (''account:'' @ type_name T)))"

text \<open>The bytes Anchor writes for a record when the instruction ends.\<close>

definition data_bytes :: "(u8 list \<Rightarrow> u8 list) \<Rightarrow> account_data \<Rightarrow> u8 list" where
  "data_bytes sha256 d =
     (case type_of_data d of None \<Rightarrow> put_data d | Some T \<Rightarrow> type_discriminator sha256 T @ put_data d)"

lemma data_bytes_length:
  assumes "\<And>x. length (sha256 x) = 32" "data_ok rt k d" "type_of_data d = Some T"
  shows "length (data_bytes sha256 d) = record_size T"
  using assms
  by (cases d) (auto simp: data_bytes_def type_discriminator_def config.put_width escrow.put_width
      vault.put_width asset.put_width role.put_width request.put_width)

lemma data_bytes_read:
  assumes "\<And>x. length (sha256 x) = 32" "data_ok rt k d" "type_of_data d = Some T"
  shows "get_data T (drop 8 (data_bytes sha256 d)) = Some (d, [])"
  using assms config.get_put [of _ "[]"] escrow.get_put [of _ "[]"] vault.get_put [of _ "[]"]
    asset.get_put [of _ "[]"] role.get_put [of _ "[]"] request.get_put [of _ "[]"]
  by (cases d) (auto simp: data_bytes_def type_discriminator_def reads_def done_with_def)

section \<open>Allocations\<close>

text \<open>
  The ledger that the handler of an instruction starts from: what the account validation leaves, with the
  accounts of its \<open>init\<close> attributes allocated, zeroed and as long as their \<open>space\<close> arguments say.
\<close>

fun validated :: "runtime \<Rightarrow> tx \<Rightarrow> instruction \<Rightarrow> ledger \<Rightarrow> ledger result" where
  "validated rt t (InitializeProtocol a _ _) L =
     and_then (initialize_protocol_validate rt t a L) (\<lambda>(_, L0). Inr L0)"
| "validated rt t (CreateEscrow a escrow_id _ _ _) L =
     and_then (create_escrow_validate rt t a escrow_id L) (\<lambda>(_, _, _, _, L0). Inr L0)"
| "validated rt t (CreateVault a vault_id _) L =
     and_then (create_vault_validate rt t a vault_id L) (\<lambda>(_, _, L0). Inr L0)"
| "validated rt t (RegisterAsset a) L =
     and_then (register_asset_validate rt t a L) (\<lambda>(_, _, L0). Inr L0)"
| "validated rt t (GrantRole a holder _) L =
     and_then (grant_role_validate rt t a holder L) (\<lambda>(_, _, _, L0). Inr L0)"
| "validated rt t (RequestWithdrawal a _) L =
     and_then (request_withdrawal_validate rt t a L) (\<lambda>(_, _, _, _, _, L0). Inr L0)"
| "validated rt t _ L = Inr L"

definition allocated :: "ledger \<Rightarrow> pubkey \<Rightarrow> nat option" where
  "allocated L k =
     (case L k of
        None \<Rightarrow> None
      | Some a \<Rightarrow>
          if acc_program a = ID
          then (case acc_data a of OtherData bytes \<Rightarrow> Some (length bytes) | _ \<Rightarrow> None)
          else None)"

text \<open>
  The histories of \<open>reachable\<close> with the space of each account of the program: an instruction fixes it for
  the accounts that its validation allocates, and nothing ever resizes an account.
\<close>

definition note_allocations :: "ledger \<Rightarrow> ledger \<Rightarrow> (pubkey \<rightharpoonup> nat) \<Rightarrow> pubkey \<rightharpoonup> nat" where
  "note_allocations L L0 S k = (if L k = None then allocated L0 k else S k)"

inductive sized :: "runtime \<Rightarrow> ledger \<Rightarrow> event list \<Rightarrow> (pubkey \<rightharpoonup> nat) \<Rightarrow> bool" for rt where
  sized_start: "sized rt L [] (\<lambda>_. None)" if "genesis L"
| sized_instruction: "sized rt L' (log @ evs) (note_allocations L L0 S)"
  if "sized rt L log S" "keyholders t L" "validated rt t i L = Inr L0" "process rt t i L = Inr (L', evs)"
| sized_external: "sized rt L' log S" if "sized rt L log S" "external rt L L'"

lemma process_validated:
  assumes "process rt t i L = Inr r"
  obtains L0 where "validated rt t i L = Inr L0"
  using assms
  by (cases i) (fastforce simp: initialize_protocol_def create_escrow_def create_vault_def register_asset_def
      grant_role_def request_withdrawal_def success_iff)+

lemma sized_reachable: "sized rt L log S \<Longrightarrow> reachable rt L log"
  by (induction rule: sized.induct) (blast intro: reachable.intros)+

lemma reachable_sized: "reachable rt L log \<Longrightarrow> \<exists>S. sized rt L log S"
proof (induction rule: reachable.induct)
  case (instruction L log t i L' evs)
  then show ?case
    using process_validated [OF instruction.hyps(3)] by (blast intro: sized_instruction)
qed (blast intro: sized.intros)+

text \<open>An instruction without \<open>init\<close> creates no account.\<close>

fun allocates :: "instruction \<Rightarrow> bool" where
  "allocates (InitializeProtocol _ _ _) \<longleftrightarrow> True"
| "allocates (CreateEscrow _ _ _ _ _) \<longleftrightarrow> True"
| "allocates (CreateVault _ _ _) \<longleftrightarrow> True"
| "allocates (RegisterAsset _) \<longleftrightarrow> True"
| "allocates (GrantRole _ _ _) \<longleftrightarrow> True"
| "allocates (RequestWithdrawal _ _) \<longleftrightarrow> True"
| "allocates _ \<longleftrightarrow> False"

context token_laws
begin

lemma transfer_creates_nothing: "rt_transfer_checked rt x L = Inr L' \<Longrightarrow> L k = None \<Longrightarrow> L' k = None"
  using transfer_absent by blast

lemma payments_create_nothing:
  assumes "L k = None"
  shows "release_escrow rt t re L = Inr (L', evs) \<Longrightarrow> L' k = None"
    and "refund_escrow rt t rf L = Inr (L', evs) \<Longrightarrow> L' k = None"
    and "deposit rt t de amount L = Inr (L', evs) \<Longrightarrow> L' k = None"
    and "withdraw rt t wi amount L = Inr (L', evs) \<Longrightarrow> L' k = None"
    and "execute_withdrawal rt t ex L = Inr (L', evs) \<Longrightarrow> L' k = None"
proof -
  note absent = assms transfer_creates_nothing [of _ L _ k]
  show "release_escrow rt t re L = Inr (L', evs) \<Longrightarrow> L' k = None"
    using absent by (elim release_escrowE)
      (auto simp: release_escrow_validate_Inr_iff release_Inr_iff store_def)
  show "refund_escrow rt t rf L = Inr (L', evs) \<Longrightarrow> L' k = None"
    using absent by (elim refund_escrowE)
      (auto simp: refund_escrow_validate_Inr_iff refund_Inr_iff store_def)
  show "deposit rt t de amount L = Inr (L', evs) \<Longrightarrow> L' k = None"
    using absent by (elim depositE) (auto simp: deposit_tokens_Inr_iff)
  show "withdraw rt t wi amount L = Inr (L', evs) \<Longrightarrow> L' k = None"
    using absent by (elim withdrawE)
      (auto simp: withdraw_validate_Inr_iff withdraw_tokens_Inr_iff store_def)
  show "execute_withdrawal rt t ex L = Inr (L', evs) \<Longrightarrow> L' k = None"
    using absent by (elim execute_withdrawalE)
      (auto simp: execute_withdrawal_validate_Inr_iff execute_Inr_iff store_def)
qed

lemma creates_nothing:
  assumes "process rt t i L = Inr (L', evs)" "\<not> allocates i" "L k = None"
  shows "L' k = None"
proof (cases i)
  case (ReleaseEscrow a)
  with assms show ?thesis using payments_create_nothing(1) [of L k t a L' evs] by simp
next
  case (RefundEscrow a)
  with assms show ?thesis using payments_create_nothing(2) [of L k t a L' evs] by simp
next
  case (Deposit a amount)
  with assms show ?thesis using payments_create_nothing(3) [of L k t a amount L' evs] by simp
next
  case (Withdraw a amount)
  with assms show ?thesis using payments_create_nothing(4) [of L k t a amount L' evs] by simp
next
  case (ExecuteWithdrawal a)
  with assms show ?thesis using payments_create_nothing(5) [of L k t a L' evs] by simp
qed (use assms in \<open>auto simp: dispatch_def set_protocol_pause_Inr_iff set_vault_authority_Inr_iff
      pause_vault_Inr_iff unpause_vault_Inr_iff revoke_role_Inr_iff update_limits_Inr_iff
      cancel_withdrawal_Inr_iff store_def\<close>)

lemma escrow_space:
  assumes "create_escrow rt t a escrow_id recipient amount expires_at L = Inr (L', evs)"
    and "create_escrow_validate rt t a escrow_id L = Inr (config, m, maker_token, bump, L0)"
    and "L k = None" "state_at L' k d" "type_of_data d = Some T"
  shows "allocated L0 k = Some (record_size T)"
proof -
  from assms(1,2) have c: "create rt t a config m maker_token bump escrow_id recipient amount expires_at L0
      = Inr (L', evs)"
    by (simp add: create_escrow_def and_then_def)
  note v = assms(2) [unfolded create_escrow_validate_Inr_iff]
  from c obtain L1 where tr: "rt_transfer_checked rt (create_transfer rt t a m amount) L0 = Inr L1"
    and L': "L' = store (ce_escrow a)
        (EscrowData (created_escrow t a bump escrow_id recipient amount expires_at)) L1"
    unfolding create_Inr_iff by blast
  have "k = ce_escrow a"
  proof (rule ccontr)
    assume "k \<noteq> ce_escrow a"
    with L' assms(4) have "state_at L1 k d" by (simp add: store_def)
    moreover have "token_of d = None"
      using assms(5) by (cases d) simp_all
    ultimately have "state_at L0 k d"
      using transfer_non_token_rev [OF tr, of k] by simp
    with v assms(3,5) \<open>k \<noteq> ce_escrow a\<close> show False
      by (auto split: if_splits)
  qed
  with L' assms(4,5) v show ?thesis
    by (auto simp: store_def allocated_def ESCROW_SPACE_def)
qed

lemma new_record_space:
  assumes "process rt t i L = Inr (L', evs)" "validated rt t i L = Inr L0"
    and "L k = None" "state_at L' k d" "type_of_data d = Some T"
  shows "allocated L0 k = Some (record_size T)"
proof (cases "allocates i")
  case False
  with creates_nothing [OF assms(1) _ assms(3)] assms(4) show ?thesis by simp
next
  case True
  then show ?thesis
  proof (cases i)
    case (CreateEscrow a escrow_id recipient amount expires_at)
    with assms(1,2) obtain config m maker_token bump where
        "create_escrow rt t a escrow_id recipient amount expires_at L = Inr (L', evs)"
        "create_escrow_validate rt t a escrow_id L = Inr (config, m, maker_token, bump, L0)"
      by (auto simp: success_iff)
    then show ?thesis
      using assms(3-5) by (rule escrow_space)
  next
    case (InitializeProtocol a admin guardian)
    with assms show ?thesis
      by (auto simp: initialize_protocol_Inr_iff initialize_protocol_validate_def success_iff store_def
          allocated_def PROTOCOL_CONFIG_SPACE_def split: if_splits)
  next
    case (CreateVault a vault_id guardian)
    with assms show ?thesis
      by (auto simp: create_vault_Inr_iff create_vault_validate_def success_iff store_def
          allocated_def VAULT_SPACE_def split: if_splits)
  next
    case (RegisterAsset a)
    with assms show ?thesis
      by (auto simp: register_asset_Inr_iff register_asset_validate_def success_iff store_def
          allocated_def VAULT_ASSET_SPACE_def split: if_splits)
  next
    case (GrantRole a holder permissions)
    with assms show ?thesis
      by (auto simp: grant_role_Inr_iff grant_role_validate_def init_role_if_needed_def success_iff store_def
          allocated_def ROLE_ASSIGNMENT_SPACE_def split: if_splits)
  next
    case (RequestWithdrawal a amount)
    with assms show ?thesis
      by (auto simp: request_withdrawal_def request_withdrawal_validate_Inr_iff request_Inr_iff success_iff
          store_def allocated_def WITHDRAWAL_REQUEST_SPACE_def split: if_splits)
  qed simp_all
qed

end

text \<open>An existing record keeps its type, so it keeps its size.\<close>

lemma data_step_type: "data_step d d' \<Longrightarrow> type_of_data d' = type_of_data d"
  by (cases d) auto

lemma kept_record:
  assumes "account_step L L'" "state_at L' k d" "L k \<noteq> None"
  obtains d0 where "state_at L k d0" "type_of_data d0 = type_of_data d"
proof -
  from assms(3) obtain a where a: "L k = Some a" by blast
  with assms(1,2) have "acc_program a = ID" "data_step (acc_data a) d"
    unfolding account_step_def by fastforce+
  with a that [of "acc_data a"] data_step_type show ?thesis
    by (cases a) simp
qed

lemma sized_exact:
  assumes "token_laws rt" "sized rt L log S" "state_at L k d" "type_of_data d = Some T"
  shows "S k = Some (record_size T)"
  using assms(2-4)
proof (induction arbitrary: k d rule: sized.induct)
  case (sized_start L)
  then have "zeroed d" by (simp add: genesis_def)
  with sized_start.prems show ?case by (auto simp: zeroed_def)
next
  case (sized_instruction L log S t i L0 L' evs)
  show ?case
  proof (cases "L k = None")
    case True
    then show ?thesis
      using token_laws.new_record_space [OF assms(1) sized_instruction.hyps(4,3) True sized_instruction.prems]
      by (simp add: note_allocations_def)
  next
    case False
    obtain d0 where "state_at L k d0" "type_of_data d0 = type_of_data d"
      using kept_record [OF token_laws.process_account_step [OF assms(1) sized_instruction.hyps(4)]
          sized_instruction.prems(1) False] .
    with sized_instruction.IH sized_instruction.prems False show ?thesis
      by (simp add: note_allocations_def)
  qed
next
  case (sized_external L log S L')
  then have "\<not> zeroed d" by (auto simp: zeroed_def)
  with sized_external external_state [OF sized_external.hyps(2)] show ?case by blast
qed

text \<open>
  C40. The space arguments of the init attributes fit the records, for good. Every reachable history has
  an account of its allocations, and in each the space that was allocated for an account of the program
  (by the space of the init or init_if_needed attribute of the instruction that created it) is exactly
  the number of bytes that Anchor writes for the record stored there now, discriminator included: no
  write-back of a record can run out of space, and no byte is left over. Hypothesis on the hash of the
  discriminator: it has 32 bytes.
\<close>

theorem allocations_fit_records:
  assumes "token_laws rt" "reachable rt L log" "\<And>x. length (sha256 x) = 32"
  shows "(\<exists>S. sized rt L log S)
    \<and> (\<forall>S k d. sized rt L log S \<and> state_at L k d \<and> type_of_data d \<noteq> None
         \<longrightarrow> S k = Some (length (data_bytes sha256 d)))"
proof -
  have "S k = Some (length (data_bytes sha256 d))"
    if "sized rt L log S" "state_at L k d" "type_of_data d = Some T" for S k d T
    using sized_exact [OF assms(1) that] data_bytes_length [OF assms(3) _ that(3)]
      wfD [OF reachable_wf [OF assms(1,2)] that(2)] by simp
  then show ?thesis
    using reachable_sized [OF assms(2)] by blast
qed

theorem allocations_fit_records_witness:
  "\<exists>S. sized sample_runtime funded_ledger
       [ProtocolInitialized 1 10 6 7, EscrowCreated 1 11 12 1 2 20 50 10 1000 7] S
     \<and> S 11 = Some (length (data_bytes (\<lambda>_. replicate 32 7) (EscrowData sample_escrow)))"
proof -
  have "state_at funded_ledger 11 (EscrowData sample_escrow)"
    by (simp add: funded_ledger_def sample_state_def)
  then show ?thesis
    using allocations_fit_records [OF sample_token_laws reachable_funded, of "\<lambda>_. replicate 32 7"]
    by (metis length_replicate option.distinct(1) type_of_data.simps(2))
qed

end
