(* ===== verification/Outflow.thy ===== *)
theory Outflow
  imports Guarantees
begin

text \<open>
  The withdrawal window over the history of a vault. \<open>Limits\<close> bounds what a sequence of charges to
  an asset adds up to; here the charges are found in the instructions: over any stretch of history,
  what instructions take from the custody account of an asset is charged to the asset, in order and
  at the times of the transactions. Hence the limit bounds the tokens that really leave.
\<close>

section \<open>One instruction\<close>

definition sets_limits_of :: "pubkey \<Rightarrow> instruction \<Rightarrow> bool" where
  "sets_limits_of k i \<longleftrightarrow> (case i of UpdateLimits a _ \<Rightarrow> ul_vault_asset a = k | _ \<Rightarrow> False)"

context token_laws
begin

lemma transfer_state:
  "rt_transfer_checked rt x L = Inr L' \<Longrightarrow> token_of d = None \<Longrightarrow> state_at L' k d \<longleftrightarrow> state_at L k d"
  using transfer_non_token transfer_non_token_rev by fastforce

text \<open>An asset is charged at the time of the transaction or stays as it is.\<close>

lemma withdraw_asset:
  assumes "withdraw rt t a amount L = Inr (L', evs)" "state_at L k (AssetData asset)"
  shows "state_at L' k (AssetData asset) \<or> (\<exists>n. window_charged t L' k asset n)"
  using assms(1)
proof (rule withdrawE)
  fix config v m asset' custody dest
  assume val: "withdraw_validate rt t a L = Inr (config, v, m, asset', custody, dest)"
    and w: "withdraw_tokens rt t a config v m asset' custody dest amount L = Inr (L', evs)"
  note val = val [unfolded withdraw_validate_Inr_iff] and w = w [unfolded withdraw_tokens_Inr_iff]
  from w obtain started spent L1 where
      tr: "rt_transfer_checked rt (withdraw_transfer rt t a v m amount) L = Inr L1"
    and win: "next_window_state asset' amount (tx_now t) = Inr (started, spent)"
    and L': "L' = store (wi_vault_asset a) (AssetData (if 0 < sint (as_window_seconds asset')
        then charge asset' started spent else asset')) L1"
    by blast
  from val have "state_at L (wi_vault_asset a) (AssetData asset')"
    by blast
  then show ?thesis
    using win L' [unfolded charge_idle [OF win]] assms(2) transfer_state [OF tr, of "AssetData asset" k]
    by (cases "k = wi_vault_asset a") (auto simp: window_charged_def store_def)
qed

lemma execute_asset:
  assumes "execute_withdrawal rt t a L = Inr (L', evs)" "state_at L k (AssetData asset)"
  shows "state_at L' k (AssetData asset) \<or> (\<exists>n. window_charged t L' k asset n)"
  using assms(1)
proof (rule execute_withdrawalE)
  fix config v m asset' w custody dest
  assume val: "execute_withdrawal_validate rt t a L = Inr (config, v, m, asset', w, custody, dest)"
    and e: "execute rt t a config v m asset' w custody dest L = Inr (L', evs)"
  note val = val [unfolded execute_withdrawal_validate_Inr_iff] and e = e [unfolded execute_Inr_iff]
  from e obtain started spent L1 where
      tr: "rt_transfer_checked rt (execute_transfer rt t a v m (wr_amount w)) L = Inr L1"
    and win: "next_window_state asset' (wr_amount w) (tx_now t) = Inr (started, spent)"
    and L': "L' = store (ex_withdrawal_request a) (RequestData (w\<lparr>wr_status := Executed\<rparr>))
        (store (ex_vault_asset a) (AssetData (charge asset' started spent)) L1)"
    by blast
  from val have "state_at L (ex_vault_asset a) (AssetData asset')"
      "state_at L (ex_withdrawal_request a) (RequestData w)"
    by blast+
  then show ?thesis
    using win L' assms(2) transfer_state [OF tr, of "AssetData asset" k]
    by (cases "k = ex_vault_asset a") (auto simp: window_charged_def store_def)
qed

lemma process_asset:
  assumes "process rt t i L = Inr (L', evs)" "state_at L k (AssetData asset)" "\<not> sets_limits_of k i"
  shows "state_at L' k (AssetData asset) \<or> (\<exists>n. window_charged t L' k asset n)"
proof (cases i)
  case (Withdraw a amount)
  with assms(1,2) show ?thesis
    using withdraw_asset by simp
next
  case (ExecuteWithdrawal a)
  with assms(1,2) show ?thesis
    using execute_asset by simp
next
  case (Deposit a amount)
  with assms show ?thesis
    by (auto simp: deposit_tokens_Inr_iff transfer_state elim!: depositE)
next
  case (CreateEscrow a escrow_id recipient amount expires_at)
  with assms show ?thesis
    by (auto simp: create_escrow_validate_Inr_iff create_Inr_iff transfer_state store_def elim!: create_escrowE)
next
  case (ReleaseEscrow a)
  with assms show ?thesis
    by (auto simp: release_escrow_validate_Inr_iff release_Inr_iff transfer_state store_def elim!: release_escrowE)
next
  case (RefundEscrow a)
  with assms show ?thesis
    by (auto simp: refund_escrow_validate_Inr_iff refund_Inr_iff transfer_state store_def elim!: refund_escrowE)
next
  case (RequestWithdrawal a amount)
  with assms show ?thesis
    by (auto simp: request_withdrawal_validate_Inr_iff request_Inr_iff store_def elim!: request_withdrawalE)
next
  case (UpdateLimits a q)
  with assms show ?thesis
    by (auto simp: update_limits_Inr_iff store_def sets_limits_of_def)
qed (use assms in \<open>auto simp: dispatch_def initialize_protocol_Inr_iff set_protocol_pause_Inr_iff
    create_vault_Inr_iff set_vault_authority_Inr_iff pause_vault_Inr_iff unpause_vault_Inr_iff
    register_asset_Inr_iff grant_role_Inr_iff revoke_role_Inr_iff cancel_withdrawal_Inr_iff store_def\<close>)

end

lemma window_charged_spend:
  "window_charged t L' k asset n \<longleftrightarrow>
     (\<exists>amount asset'. n = unat amount \<and> spend_all asset [(amount, tx_now t)] = Inr asset'
        \<and> state_at L' k (AssetData asset'))"
  by (auto simp: window_charged_def success_iff)

section \<open>The custody of an asset\<close>

text \<open>The account at the custody address of an asset, which the vault owns.\<close>

definition custody_of :: "runtime \<Rightarrow> ledger \<Rightarrow> pubkey \<Rightarrow> vault_asset \<Rightarrow> bool" where
  "custody_of rt L k asset \<longleftrightarrow>
     k = fst (rt_find_program_address rt (vault_token_seeds (as_vault asset) (as_mint asset)))
     \<and> (\<exists>v. state_at L (as_vault asset) (VaultData v))
     \<and> (\<exists>p ta. token_at L k p ta \<and> ta_owner ta = as_vault asset \<and> ta_mint ta = as_mint asset)"

lemma spend_all_asset:
  "spend_all asset xs = Inr asset' \<Longrightarrow> as_vault asset' = as_vault asset \<and> as_mint asset' = as_mint asset"
  by (induction asset xs rule: spend_all.induct) (auto simp: success_iff charge_def)

lemma custody_of_spent:
  "spend_all asset xs = Inr asset' \<Longrightarrow> custody_of rt L k asset' \<longleftrightarrow> custody_of rt L k asset"
  using spend_all_asset by (simp add: custody_of_def)

lemma external_custody:
  assumes "external rt L L'" "custody_of rt L k asset"
  shows "custody_of rt L' k asset" "token_balance L k \<le> token_balance L' k"
proof -
  from assms(2) obtain v p ta where v: "state_at L (as_vault asset) (VaultData v)"
    and ta: "token_at L k p ta" "ta_owner ta = as_vault asset" "ta_mint ta = as_mint asset"
    and k: "k = fst (rt_find_program_address rt (vault_token_seeds (as_vault asset) (as_mint asset)))"
    by (auto simp: custody_of_def)
  have vault: "state_at L (ta_owner ta) (VaultData v)" "\<not> zeroed (VaultData v)"
    using v ta by simp_all
  then obtain ta' where ta': "token_at L' k p ta'" "ta_mint ta' = ta_mint ta" "ta_owner ta' = ta_owner ta"
      "ta_amount ta \<le> ta_amount ta'"
    using assms(1) ta(1) k unfolding external_def by blast
  moreover have "state_at L' (as_vault asset) (VaultData v)"
    using external_state [OF assms(1) vault(2)] v by simp
  ultimately show "custody_of rt L' k asset" "token_balance L k \<le> token_balance L' k"
    using ta k by (auto simp: custody_of_def word_le_nat_alt)
qed

context token_laws
begin

lemma process_custody:
  assumes "process rt t i L = Inr (L', evs)" "custody_of rt L k asset"
  shows "custody_of rt L' k asset"
proof -
  note step = process_account_step [OF assms(1)]
  from assms(2) obtain v p ta where v: "state_at L (as_vault asset) (VaultData v)"
    and ta: "token_at L k p ta" "ta_owner ta = as_vault asset" "ta_mint ta = as_mint asset"
    by (auto simp: custody_of_def)
  obtain d' where "state_at L' (as_vault asset) d'" "data_step (VaultData v) d'"
    using account_step_state [OF step v] by blast
  moreover obtain ta' where "token_at L' k p ta'" "ta_mint ta' = ta_mint ta" "ta_owner ta' = ta_owner ta"
    using account_step_token [OF step ta(1)] by blast
  ultimately show ?thesis
    using assms(2) ta by (auto simp: custody_of_def)
qed

lemma charged_step:
  assumes run: "process rt t i L = Inr (L', evs)" "wf rt L" "keyholders t L" "\<not> sets_limits_of ak i"
    and asset: "state_at L ak (AssetData asset)" "custody_of rt L k asset"
  shows "\<exists>xs asset'. set xs \<subseteq> {(amount, now). now = tx_now t} \<and> spend_all asset xs = Inr asset'
    \<and> state_at L' ak (AssetData asset') \<and> token_balance L k - token_balance L' k \<le> outflow_total xs"
proof (cases "token_balance L' k < token_balance L k")
  case True
  from asset(2) obtain v p ta where v: "state_at L (as_vault asset) (VaultData v)"
    and ta: "token_at L k p ta" "ta_owner ta = as_vault asset" "ta_mint ta = as_mint asset"
    by (auto simp: custody_of_def)
  have "as_vault asset \<notin> tx_signers t"
    using run(3) v unfolding keyholders_def by (metis zeroed_simps(3))
  moreover have "debit_allowed rt t L L' k (as_vault asset) (token_balance L k - token_balance L' k)"
    using process_debits [OF run(1)] ta True unfolding debits_allowed_def by metis
  ultimately have "vault_outflow rt t L L' k (as_vault asset) (token_balance L k - token_balance L' k)"
    using v by (auto simp: debit_allowed_def escrow_settles_def)
  then obtain ak' other where other: "state_at L ak' (AssetData other)" "as_vault other = as_vault asset"
      "as_mint other = as_mint asset"
    and charged: "window_charged t L' ak' other (token_balance L k - token_balance L' k)"
    using ta unfolding vault_outflow_def by auto
  have "ak' = ak"
    using wfD [OF run(2) asset(1)] wfD [OF run(2) other(1)] other by simp
  with other(1) asset(1) have "other = asset"
    by simp
  with charged \<open>ak' = ak\<close> obtain amount asset' where
      "token_balance L k - token_balance L' k = unat amount"
      "spend_all asset [(amount, tx_now t)] = Inr asset'" "state_at L' ak (AssetData asset')"
    unfolding window_charged_spend by blast
  then show ?thesis
    by (intro exI [of _ "[(amount, tx_now t)]"] exI [of _ asset']) simp
next
  case False
  with process_asset [OF run(1) asset(1) run(4)] show ?thesis
    unfolding window_charged_spend
  proof (elim disjE exE conjE)
    assume "state_at L' ak (AssetData asset)"
    with False show ?thesis by (intro exI [of _ "[]"]) simp
  next
    fix n amount asset'
    assume "spend_all asset [(amount, tx_now t)] = Inr asset'" "state_at L' ak (AssetData asset')"
    with False show ?thesis by (intro exI [of _ "[(amount, tx_now t)]"]) auto
  qed
qed

end

section \<open>Stretches of history\<close>

text \<open>
  A stretch of history in which the limits of the asset at \<open>ak\<close> are not updated: instructions
  interleaved with foreign transactions. For each instruction it records the time of the transaction and by
  how much the balance at \<open>k\<close> fell.
\<close>

inductive stretch :: "runtime \<Rightarrow> pubkey \<Rightarrow> pubkey \<Rightarrow> ledger \<Rightarrow> (i64 \<times> nat) list \<Rightarrow> ledger \<Rightarrow> bool"
  for rt ak k L where
  stretch_none: "stretch rt ak k L [] L"
| stretch_call: "stretch rt ak k L (ds @ [(tx_now t, token_balance L' k - token_balance L'' k)]) L''"
  if "stretch rt ak k L ds L'" "keyholders t L'" "\<not> sets_limits_of ak i" "process rt t i L' = Inr (L'', evs)"
| stretch_external: "stretch rt ak k L ds L''" if "stretch rt ak k L ds L'" "external rt L' L''"

definition debited :: "(i64 \<times> nat) list \<Rightarrow> nat" where
  "debited ds = (\<Sum>(now, n)\<leftarrow>ds. n)"

lemma debited_simps [simp]: "debited [] = 0" "debited (ds @ [(now, n)]) = debited ds + n"
  by (simp_all add: debited_def)

lemma stretch_reachable:
  "stretch rt ak k L ds L' \<Longrightarrow> reachable rt L log \<Longrightarrow> \<exists>log'. reachable rt L' log'"
  by (induction rule: stretch.induct) (blast intro: reachable.intros)+

context token_laws
begin

lemma stretch_charges:
  assumes "stretch rt ak k L ds L'" "reachable rt L log"
    and "state_at L ak (AssetData asset)" "custody_of rt L k asset"
  shows "\<exists>xs asset'. snd ` set xs \<subseteq> fst ` set ds \<and> spend_all asset xs = Inr asset'
    \<and> state_at L' ak (AssetData asset') \<and> custody_of rt L' k asset' \<and> debited ds \<le> outflow_total xs"
  using assms(1)
proof (induction rule: stretch.induct)
  case stretch_none
  then show ?case
    using assms(3,4) by (intro exI [of _ "[]"]) simp
next
  case (stretch_call ds L' t i L'' evs)
  then obtain xs mid where xs: "snd ` set xs \<subseteq> fst ` set ds" "spend_all asset xs = Inr mid"
      "state_at L' ak (AssetData mid)" "custody_of rt L' k mid" "debited ds \<le> outflow_total xs"
    by blast
  have "wf rt L'"
    using stretch_reachable [OF stretch_call.hyps(1) assms(2)] reachable_wf [OF token_laws_axioms] by blast
  from charged_step [OF stretch_call.hyps(4) this stretch_call.hyps(2,3) xs(3,4)]
  obtain ys asset' where ys: "set ys \<subseteq> {(amount, now). now = tx_now t}" "spend_all mid ys = Inr asset'"
      "state_at L'' ak (AssetData asset')" "token_balance L' k - token_balance L'' k \<le> outflow_total ys"
    by blast
  have "custody_of rt L'' k asset'"
    using process_custody [OF stretch_call.hyps(4) xs(4)] custody_of_spent [OF ys(2)] by blast
  moreover have "spend_all asset (xs @ ys) = Inr asset'"
    using xs(2) ys(2) by (auto simp: spend_all_append_Inr_iff)
  moreover have "snd ` set (xs @ ys) \<subseteq> fst ` set (ds @ [(tx_now t, token_balance L' k - token_balance L'' k)])"
    using xs(1) ys(1) by auto
  ultimately show ?case
    using ys(3,4) xs(5) by (intro exI [of _ "xs @ ys"] exI [of _ asset']) simp
next
  case (stretch_external ds L' L'')
  then obtain xs asset' where xs: "snd ` set xs \<subseteq> fst ` set ds" "spend_all asset xs = Inr asset'"
      "state_at L' ak (AssetData asset')" "custody_of rt L' k asset'" "debited ds \<le> outflow_total xs"
    by blast
  moreover have "state_at L'' ak (AssetData asset')"
    using external_state [OF stretch_external.hyps(2), of "AssetData asset'" ak] xs(3) by simp
  ultimately show ?case
    using external_custody(1) [OF stretch_external.hyps(2)] by blast
qed

end

text \<open>
  C20. What leaves a vault within a window's length is bounded: over any stretch of history,
  whatever instructions are called by whomever and whatever other programs do, in which all
  calls fall into a period shorter than the window of an asset and its limits are not
  updated, the amounts that leave the custody account of the asset add up to at most twice the
  window limit. Twice, because a period may straddle the end of one window.
\<close>

theorem custody_outflow_bounded:
  assumes "token_laws rt" "reachable rt L log"
    and "state_at L ak (AssetData asset)" "custody_of rt L k asset"
    and "0 < sint (as_window_seconds asset)"
    and "stretch rt ak k L ds L'"
    and "\<forall>(now, n) \<in> set ds. from \<le> sint now \<and> sint now < from + sint (as_window_seconds asset)"
  shows "debited ds \<le> 2 * unat (as_window_limit asset)"
proof -
  obtain xs asset' where xs: "snd ` set xs \<subseteq> fst ` set ds" "spend_all asset xs = Inr asset'"
      "debited ds \<le> outflow_total xs"
    using token_laws.stretch_charges [OF assms(1,6,2-4)] by blast
  have "\<forall>(amount, now) \<in> set xs. from \<le> sint now \<and> sint now < from + sint (as_window_seconds asset)"
  proof (intro ballI, clarify)
    fix amount now
    assume "(amount, now) \<in> set xs"
    then have "now \<in> fst ` set ds"
      using xs(1) by force
    then show "from \<le> sint now \<and> sint now < from + sint (as_window_seconds asset)"
      using assms(7) by fastforce
  qed
  with window_sliding_bound [OF assms(5) xs(2)] xs(3) show ?thesis
    by fastforce
qed

theorem custody_outflow_bounded_witness:
  "debited [(100, 80)] \<le> 2 * 150 \<and> token_balance requested_ledger 15 - token_balance executed_ledger 15 = 80"
proof -
  have drop: "token_balance requested_ledger 15 - token_balance executed_ledger 15 = 80"
    by (simp add: token_balance_def vault_history_defs sample_tokens_def)
  have asset: "state_at requested_ledger 14 (AssetData (update_asset history_asset history_policy 6 0))"
    by (simp add: vault_history_defs sample_state_def)
  have custody: "custody_of sample_runtime requested_ledger 15 (update_asset history_asset history_policy 6 0)"
    by (simp add: custody_of_def vault_history_defs update_asset_def sample_state_def sample_tokens_def
        sample_runtime_def)
  have "stretch sample_runtime 14 15 requested_ledger ([] @ [(tx_now (sample_tx {9} 100 []),
      token_balance requested_ledger 15 - token_balance executed_ledger 15)]) executed_ledger"
    by (rule stretch_call [OF stretch_none vault_keyholders(6) _ run_execute]) (simp add: sets_limits_of_def)
  then have "stretch sample_runtime 14 15 requested_ledger [(100, 80)] executed_ledger"
    by (simp add: drop sample_tx_def)
  from custody_outflow_bounded [OF sample_token_laws reachable_requested asset custody _ this, of 100]
  show ?thesis
    by (simp add: drop update_asset_def history_policy_def)
qed

end
