(* ===== verification/Spec2Isabelle.thy ===== *)
theory Spec2Isabelle
  imports Delivery Startup Governance Layout Outflow
begin

text \<open>
  \<^bold>\<open>IronVault: a verification of the on-chain program and of its observer\<close>

  IronVault (\<open>src/programs/iron_vault\<close>) is a Solana program written with Anchor. It holds
  tokens in two kinds of custody. An \<^emph>\<open>escrow\<close> locks an amount of one mint for a fixed
  recipient until an expiry: the maker may release it before, anybody may refund it to the
  maker from then on. A \<^emph>\<open>vault\<close> is a treasury with an authority, a guardian, roles with
  permission bits, and per-asset limits: withdrawals below a threshold go out at once within
  a per-transaction maximum and a rolling window, larger ones are requested, wait for a
  timelock and are executed inside an execution window or cancelled. A protocol
  configuration carries pause flags that an admin sets and clears and a guardian only sets.
  Every change is logged as an event. The \<^emph>\<open>observer\<close> (\<open>src/observer\<close>) follows the finalized
  logs of the chain, decodes the events, keeps a database of events and read models, and
  reports alerts, metrics and its own readiness.

  \<^bold>\<open>What is modelled, and where\<close>

  \<^item> \<open>Prelude\<close>: machine integers as words (a signed 64-bit value is read with \<open>sint\<close>), checked
    arithmetic, results as sums, byte strings, bit masks.
  \<^item> \<open>State\<close>: \<open>error.rs\<close>, \<open>events.rs\<close>, \<open>state/mod.rs\<close>, \<open>constants.rs\<close>, type by type.
  \<^item> \<open>Runtime\<close>: the ledger (a map from keys to accounts), transactions, and what Anchor's account
    types and attributes check (\<open>Signer\<close>, \<open>Sysvar\<close>, \<open>Account\<close>, \<open>InterfaceAccount\<close>, \<open>seeds\<close>/\<open>bump\<close>,
    \<open>has_one\<close>, \<open>constraint\<close>, \<open>init\<close>, \<open>init_if_needed\<close>). Code outside the repository is the
    record \<open>runtime\<close>, a parameter of every operation: address derivation, rent, token account
    initialization, the extension parser, \<open>TransferChecked\<close>.
  \<^item> \<open>Token_Runtime\<close>: the laws of that parameter as locales, \<open>token_laws\<close> (frame and shape of a
    token call), \<open>live_token_laws\<close> (a well-formed call between unfrozen accounts completes when neither
    the mint nor an account has extensions), \<open>pda_laws\<close>; and an executable
    reference instance for concrete runs. No law excludes collisions of derived addresses:
    where the program relies on an address being unused, \<open>init\<close> checks it.
  \<^item> \<open>Security\<close>: \<open>security/pause.rs\<close>, \<open>security/permissions.rs\<close>, \<open>security/token_policy.rs\<close>.
  \<^item> \<open>Protocol\<close>, \<open>Escrows\<close>, \<open>Vault_Admin\<close>, \<open>Vault_Flow\<close>: the instructions of \<open>instructions/\<close>. Each is a
    record of its accounts, a \<open>_validate\<close> function for its \<open>Accounts\<close> struct, its handler under
    the handler's name, and the composition under the name of its entry point in \<open>lib.rs\<close>. The
    lemmas \<open>_Inr_iff\<close> say exactly when a step succeeds and with which ledger and events.
  \<^item> \<open>Addresses\<close>, \<open>Sample\<close>: the derived addresses as a data type, and a small world for witnesses.
  \<^item> \<open>Program\<close>: \<open>process\<close>, the dispatcher over all nineteen instructions.
  \<^item> \<open>Layout\<close>: the accounts of \<open>state/mod.rs\<close> as bytes, discriminator and Borsh fields, and the
    allocations made by the \<open>init\<close> attributes, followed through the histories.

  The observer has its own group of theories.

  \<^item> \<open>Codec\<close>: the events on the wire; the program's structs and the observer's separately
    declared structs are translated each from its own source, the fields through the locale
    \<open>codec\<close>.
  \<^item> \<open>Logs\<close>: \<open>extract_events\<close> and \<open>parse_invoke\<close> of \<open>rpc.rs\<close>, over strings as byte lists, with call
    trees and their rendering as the specification.
  \<^item> \<open>Store\<close>: \<open>database.rs\<close>, one definition per SQL statement, tables as maps from primary keys,
    constraints as errors; the locale \<open>replay_store\<close> is what the rest of the observer relies on.
  \<^item> \<open>Payload\<close>: the JSON payload that is stored with an event.
  \<^item> \<open>Reporting\<close>: \<open>alerts.rs\<close>, \<open>metrics.rs\<close>, the readiness handler of \<open>health.rs\<close>, \<open>record_event\<close>.
  \<^item> \<open>Sync\<close>: \<open>process_logs\<close> and \<open>reconcile\<close> of \<open>rpc.rs\<close> over the node's response envelopes, with every
    failure of the database link or the node as a branch; the paging loop is a partial function whose
    termination is proved.
  \<^item> \<open>Service\<close>: the connection loop and the slot monitor of \<open>rpc.rs\<close> as the step relation \<open>service\<close>; a
    step is a whole attempt to connect, reconciliation, message or monitor round. The shared status is
    written in single updates, so a round inside another step has the effect of one before or after
    it, up to the order of alerts.
  \<^item> \<open>Startup\<close>: \<open>config.rs\<close>, the routes of \<open>health.rs\<close>, \<open>Observer::new\<close> and \<open>main\<close>.
  \<^item> \<open>Sourcing\<close>, \<open>Mirror\<close>: the read models as a function of the log, and the database against the
    ledger. \<open>Pipeline\<close> composes all stages from the transactions of a chain to the tables; \<open>Delivery\<close>
    is the relation \<open>observes\<close> of a running observer to a growing chain, the steps of \<open>service\<close> with
    every fault of node, database and process.

  \<open>Multisig\<close> is the 2-of-3 multisig program of \<open>src/test-programs/mock_multisig\<close>, with which the
  repository shows that another program can sign for a vault authority: \<open>initialize\<close> and \<open>execute\<close> with
  their accounts, and its account as bytes on the same ledger. \<open>Governance\<close> composes it with
  IronVault: the laws of cross-program invocation are the locale \<open>cpi_laws\<close>, an invocation of
  IronVault runs \<open>process\<close>.

  An operation maps a ledger to an error or to a new ledger with the emitted events. An error
  returns no ledger: a failed instruction has no effect, as the Solana runtime guarantees.
  Validation follows Anchor's order: fields are loaded, new accounts are created, then the
  remaining attributes are checked in the order of the struct. Stored fields keep their Rust
  names behind a prefix of two letters.

  \<^bold>\<open>What is proved\<close>

  \<^item> \<open>Escrow_Safety\<close>, \<open>Vault_Safety\<close>, \<open>Admin_Safety\<close>: what each operation does when it succeeds (exact
    payments, who may call, which limits apply), and that an expired escrow can be refunded
    whatever is paused, as long as the tokens themselves can move.
  \<^item> \<open>Limits\<close>: the window accounting against sums over the natural numbers.
  \<^item> \<open>Outflow\<close>: over any stretch of history every debit of a custody account is charged to its asset, so
    that the window limit bounds the tokens that leave a vault.
  \<^item> \<open>Layout\<close>: in every reachable state each record takes exactly the space that was allocated when
    its account was created, so writing it back always fits.
  \<^item> \<open>Program\<close>: the two kinds of expressions in the handlers that can panic, plain subtraction and
    the index into the remaining accounts, are never evaluated out of range.
  \<^item> \<open>Evolution\<close>: \<open>edits\<close>, the specification of all account changes that occur, and that every
    instruction refines it; the locale \<open>lifecycle\<close>, for escrows and for requests.
  \<^item> \<open>Invariants\<close>: the locale \<open>edit_invariant\<close> lifts facts about single edits to all instructions; by
    it accounts keep their identity, records stay well-formed, and a role stays with its vault and
    holder unless two role addresses collide.
  \<^item> \<open>Custody\<close>: a balance falls only with authority.
  \<^item> \<open>System\<close>, \<open>Guarantees\<close>: histories of instructions interleaved with foreign transactions, with
    the log of events; solvency of escrows, at most one settlement of each escrow and each
    request (the locale \<open>settlement\<close>, provided for both), the effect of pauses, and that a matured
    request can be executed by anybody under the conditions stated there. \<open>process_entitled\<close> is the
    gate of all instructions that act on a vault (the authority, a right of one's own as guardian or
    proposer, or a role); what a revocation and a hand-over take away follows from it.

  \<^item> \<open>Sourcing\<close>: the locale \<open>event_sourced\<close>; every record of the ledger follows from the log.
  \<^item> \<open>Codec\<close>, \<open>Logs\<close>: decoding accepts exactly what is emitted, scanning a call tree whose text lines
    do not look like frames finds exactly the program's events, and identities are unique for any log, hostile ones included.
  \<^item> \<open>Store\<close>, \<open>Sync\<close>: storing is idempotent, the checkpoint is the greatest position, processing
    survives crashes and lost answers, reconciliation ends and catches up from a checkpoint before which nothing is missing, and each event is
    counted and alerted once. \<open>replay_needs_every_transaction\<close> shows that a transaction the node
    answers with \<open>null\<close> is not skipped, as the code means to, but fails the reconciliation.
  \<^item> \<open>Payload\<close>: a row of the event table determines the event.
  \<^item> \<open>Mirror\<close>, \<open>Pipeline\<close>, \<open>Delivery\<close>: the tables show the ledger of some moment of its history since the last
    completed reconciliation, and one undisturbed reconciliation brings them to the present. Three
    conditions are needed, and a lemma shows why for each: transactions about one record are in
    increasing slots (\<open>same_slot_release_lost\<close>), the subscription skips none
    (\<open>skipped_delivery_not_repaired\<close>), and text lines do not look like frames (\<open>log_text_hides_event\<close> in
    \<open>Logs\<close>). The node and the other programs promise none of them, so these are limits of the observer.
  \<^item> \<open>Service\<close>, \<open>Startup\<close>: the readiness route answers 200 exactly when the connection is up,
    reconciled and within the configured lag, and it agrees with the alert.
  \<^item> \<open>Governance\<close>: a call through the multisig needs two distinct owners and carries the multisig's
    signature only; without two owners signing together a governed vault keeps its authority and
    a paused one stays paused, whatever else is called.

  \<^bold>\<open>Assumptions and limits of the model\<close>

  Every definition is total and executable except the paging loop \<open>collect_signatures\<close>, a
  partial function in the option type, and the relations \<open>reachable\<close>, \<open>sized\<close>, \<open>service\<close>, \<open>observes\<close>,
  \<open>calls\<close>; there is no fuel. Lamports, rent amounts,
  compute budgets and account metas (writable flags, Anchor's rejection of an account passed
  twice as mutable) are not modelled: dropping these checks only admits more runs; the two theorems that a
  call goes through take it that the caller's transaction satisfies them. The keys of
  program records never sign (\<open>keyholders\<close>), since no private key exists for a derived address;
  foreign programs are constrained by \<open>external\<close>. The clock is the transaction's
  time stamp and need not be monotone. Token-2022 extensions are opaque bytes of a mint or of a
  token account: the program rejects every mint that has one and ignores those of accounts, and a transfer
  that involves one may fail. A panic is modelled where an expression of the program's own sources can
  raise it; panics inside libraries are not.

  For the observer, SHA-256, base64, base58, the argument parser, the node's responses and the
  database link are parameters; the hypotheses on them are a 32-byte hash with distinct event
  discriminators, decoding as the inverse of encoding, an injective base58, and the paging of
  signatures as the node documents it. A released build wraps the two log counters at 32 bits;
  the theorems bound the number of log lines by \<open>2 ^ 31\<close>, far above what a transaction can log.

  \<^bold>\<open>Not modelled\<close>

  Transport of the observer (sockets, JSON parsing, database migrations, delays, log formatting),
  the TypeScript SDK and CLI, deployment scripts and tests. The entry point that reads
  an instruction from its bytes is generated by Anchor.
\<close>

end
